(* ===== verification/Prelude.thy ===== *)
theory Prelude
  imports Main "HOL-Library.Char_ord" "HOL-Library.List_Lexorder" "HOL-Library.AList"
begin

text \<open>
  What the component theories share: the Python values the program passes around, the
  readers every module of the program carries its own copy of (\<open>_normalize_text\<close>,
  \<open>_as_bool\<close>, \<open>_as_optional_int\<close>, \<open>_as_non_negative_int\<close>, \<open>_as_mapping\<close>), exceptions as values,
  and the generic lemmas on them.

  A value is what \<open>json.loads\<close> can produce, with tuples beside lists because the program
  tells them apart. A text is a list of Latin-1 code points: \<open>strip\<close>, \<open>lower\<close> and \<open>isdigit\<close>
  are Python's on those code points. A float is kept as its repr text, the only thing the
  modelled code reads of one beside its truth value. The interpreter's limit on the number
  of digits of an int conversion is not modelled.
\<close>

section \<open>Exceptions as values\<close>

datatype py_exc =
    ValueError string
  | TypeError string
  | OverflowError
  | OSError string

type_synonym 'a res = "py_exc + 'a"

named_theorems res_simps "simplification of the exception monad"

definition res_bind :: "'a res \<Rightarrow> ('a \<Rightarrow> 'b res) \<Rightarrow> 'b res" where
  "res_bind m f = (case m of Inl e \<Rightarrow> Inl e | Inr x \<Rightarrow> f x)"

lemma res_bind_Inl [simp, res_simps]: "res_bind (Inl e) f = Inl e"
  by (simp add: res_bind_def)

lemma res_bind_Inr [simp, res_simps]: "res_bind (Inr x) f = f x"
  by (simp add: res_bind_def)

lemma res_bind_eq_Inr [res_simps]:
  "res_bind m f = Inr y \<longleftrightarrow> (\<exists>x. m = Inr x \<and> f x = Inr y)"
  by (cases m) simp_all

lemma res_bind_eq_Inl:
  "res_bind m f = Inl e \<longleftrightarrow> m = Inl e \<or> (\<exists>x. m = Inr x \<and> f x = Inl e)"
  by (cases m) simp_all

fun res_map :: "('a \<Rightarrow> 'b res) \<Rightarrow> 'a list \<Rightarrow> 'b list res" where
  "res_map f [] = Inr []"
| "res_map f (x # xs) = res_bind (f x) (\<lambda>y. res_bind (res_map f xs) (\<lambda>ys. Inr (y # ys)))"

lemma res_map_total: "(\<And>x. x \<in> set xs \<Longrightarrow> f x = Inr (g x)) \<Longrightarrow> res_map f xs = Inr (map g xs)"
  by (induction xs) simp_all

lemma res_map_Inr_iff:
  "res_map f xs = Inr ys \<longleftrightarrow> list_all2 (\<lambda>x y. f x = Inr y) xs ys"
  by (induction xs arbitrary: ys) (auto simp: res_bind_eq_Inr list_all2_Cons1)

section \<open>Texts\<close>

definition code :: "char \<Rightarrow> nat" where
  "code c = of_char c"

definition is_space :: "char \<Rightarrow> bool" where
  "is_space c =
     (let n = code c in 9 \<le> n \<and> n \<le> 13 \<or> 28 \<le> n \<and> n \<le> 32 \<or> n = 133 \<or> n = 160)"

definition lstrip :: "string \<Rightarrow> string" where
  "lstrip s = dropWhile is_space s"

definition rstrip :: "string \<Rightarrow> string" where
  "rstrip s = rev (dropWhile is_space (rev s))"

definition strip :: "string \<Rightarrow> string" where
  "strip s = rstrip (lstrip s)"

definition lower_char :: "char \<Rightarrow> char" where
  "lower_char c =
     (let n = code c in
      if 65 \<le> n \<and> n \<le> 90 \<or> 192 \<le> n \<and> n \<le> 222 \<and> n \<noteq> 215 then char_of (n + 32) else c)"

definition lower :: "string \<Rightarrow> string" where
  "lower s = map lower_char s"

definition is_ascii_digit :: "char \<Rightarrow> bool" where
  "is_ascii_digit c = (48 \<le> code c \<and> code c \<le> 57)"

text \<open>\<open>str.isdigit\<close> also accepts the three Latin-1 superscripts, which \<open>int\<close> refuses.\<close>

definition is_digit_char :: "char \<Rightarrow> bool" where
  "is_digit_char c = (is_ascii_digit c \<or> code c = 178 \<or> code c = 179 \<or> code c = 185)"

definition isdigit :: "string \<Rightarrow> bool" where
  "isdigit s = (s \<noteq> [] \<and> list_all is_digit_char s)"

fun starts_with :: "string \<Rightarrow> string \<Rightarrow> bool" where
  "starts_with s [] = True"
| "starts_with [] (p # ps) = False"
| "starts_with (c # cs) (p # ps) = (c = p \<and> starts_with cs ps)"

definition ends_with :: "string \<Rightarrow> string \<Rightarrow> bool" where
  "ends_with s p = starts_with (rev s) (rev p)"

text \<open>\<open>contains s p\<close> is Python's \<open>p in s\<close>.\<close>

fun contains :: "string \<Rightarrow> string \<Rightarrow> bool" where
  "contains [] p = (p = [])"
| "contains (c # cs) p = (starts_with (c # cs) p \<or> contains cs p)"

definition contains_any :: "string \<Rightarrow> string list \<Rightarrow> bool" where
  "contains_any s ps = list_ex (contains s) ps"

fun join :: "string \<Rightarrow> string list \<Rightarrow> string" where
  "join sep [] = []"
| "join sep [x] = x"
| "join sep (x # y # xs) = x @ sep @ join sep (y # xs)"

definition digit_char :: "nat \<Rightarrow> char" where
  "digit_char d = char_of (48 + d)"

text \<open>How evaluation reads a character: by its bits, and a digit from a table.\<close>

lemma is_space_bits [code]:
  "is_space (Char b0 b1 b2 b3 b4 b5 b6 b7) =
     (\<not> b6 \<and>
      (if b7 then \<not> b4 \<and> \<not> b3 \<and> \<not> b1 \<and> (if b5 then \<not> b2 \<and> \<not> b0 else b2 \<and> b0)
       else if b5 then \<not> b4 \<and> \<not> b3 \<and> \<not> b2 \<and> \<not> b1 \<and> \<not> b0
       else b3 \<and> (if b4 then b2 else if b2 then \<not> b1 else b1 \<or> b0)))"
  unfolding is_space_def code_def
  by (cases b0; cases b1; cases b2; cases b3; cases b4; cases b5; cases b6; cases b7; simp)

lemma is_ascii_digit_bits [code]:
  "is_ascii_digit (Char b0 b1 b2 b3 b4 b5 b6 b7) =
     (\<not> b7 \<and> \<not> b6 \<and> b5 \<and> b4 \<and> (b3 \<longrightarrow> \<not> b2 \<and> \<not> b1))"
  unfolding is_ascii_digit_def code_def
  by (cases b0; cases b1; cases b2; cases b3; cases b4; cases b5; cases b6; cases b7; simp)

lemma lower_char_bits [code]:
  "lower_char (Char b0 b1 b2 b3 b4 b5 b6 b7) =
     Char b0 b1 b2 b3 b4
       (b5 \<or> b6 \<and> (if b7 then \<not> (b4 \<and> b2 \<and> b1 \<and> b0)
                   else (b4 \<or> b3 \<or> b2 \<or> b1 \<or> b0) \<and> \<not> (b4 \<and> b3 \<and> (b2 \<or> b1 \<and> b0)))) b6 b7"
  unfolding lower_char_def code_def
  by (cases b0; cases b1; cases b2; cases b3; cases b4; cases b5; cases b6; cases b7; simp add: char_of_def bit_0)

lemma digit_char_table [code]:
  "digit_char d =
     (if d < 10 then ''0123456789'' ! d else char_of (48 + d))"
proof (cases "d < 10")
  case True
  then have "d \<in> set [0, 1, 2, 3, 4, 5, 6, 7, 8, 9]" by auto
  then show ?thesis by (auto simp: digit_char_def char_of_def bit_0)
qed (simp add: digit_char_def)

fun nat_str :: "nat \<Rightarrow> string" where
  "nat_str n = (if n < 10 then [digit_char n] else nat_str (n div 10) @ [digit_char (n mod 10)])"

declare nat_str.simps [simp del]

definition int_str :: "int \<Rightarrow> string" where
  "int_str i = (if i < 0 then ''-'' @ nat_str (nat (- i)) else nat_str (nat i))"

definition digits_value :: "string \<Rightarrow> nat" where
  "digits_value s = foldl (\<lambda>a c. 10 * a + (code c - 48)) 0 s"

text \<open>\<open>int(text)\<close>: outer white space, one sign, ASCII digits with single underscores inside.\<close>

fun drop_underscores :: "string \<Rightarrow> string option" where
  "drop_underscores [] = None"
| "drop_underscores [c] = (if is_ascii_digit c then Some [c] else None)"
| "drop_underscores (c # d # cs) =
     (if \<not> is_ascii_digit c then None
      else map_option ((#) c) (drop_underscores (if d = CHR ''_'' then cs else d # cs)))"

definition int_of_text :: "string \<Rightarrow> int res" where
  "int_of_text s =
     (let t = strip s;
          neg = (case t of c # cs \<Rightarrow> c = CHR ''-'' | [] \<Rightarrow> False);
          u = (case t of c # cs \<Rightarrow> if c = CHR ''-'' \<or> c = CHR ''+'' then cs else t | [] \<Rightarrow> t)
      in case drop_underscores u of
           None \<Rightarrow> Inl (ValueError ''invalid literal for int() with base 10'')
         | Some ds \<Rightarrow> Inr (if neg then - int (digits_value ds) else int (digits_value ds)))"

subsection \<open>Lemmas on texts\<close>

lemma dropWhile_idem [simp]: "dropWhile P (dropWhile P xs) = dropWhile P xs"
  by (induction xs) auto

lemma lstrip_Nil [simp]: "lstrip [] = []"
  by (simp add: lstrip_def)

lemma strip_Nil [simp]: "strip [] = []"
  by (simp add: strip_def rstrip_def)

definition stripped :: "string \<Rightarrow> bool" where
  "stripped s = (s = [] \<or> \<not> is_space (hd s) \<and> \<not> is_space (last s))"

lemma dropWhile_hd: "xs = [] \<or> \<not> P (hd xs) \<Longrightarrow> dropWhile P xs = xs"
  by (cases xs) auto

lemma strip_stripped: "stripped s \<Longrightarrow> strip s = s"
  by (auto simp: strip_def lstrip_def rstrip_def stripped_def dropWhile_hd hd_rev)

lemma rstrip_last: "rstrip s \<noteq> [] \<Longrightarrow> \<not> is_space (last (rstrip s))"
  unfolding rstrip_def by (metis hd_dropWhile last_rev rev_is_Nil_conv)

lemma rstrip_prefix: "\<exists>t. s = rstrip s @ t"
proof -
  have "rev s = takeWhile is_space (rev s) @ dropWhile is_space (rev s)" by simp
  then have "s = rev (dropWhile is_space (rev s)) @ rev (takeWhile is_space (rev s))"
    by (metis rev_append rev_rev_ident)
  then show ?thesis unfolding rstrip_def by blast
qed

lemma stripped_strip [simp, intro]: "stripped (strip s)"
proof (cases "strip s = []")
  case False
  obtain t where t: "lstrip s = strip s @ t"
    using rstrip_prefix [of "lstrip s"] by (auto simp: strip_def)
  with False have "hd (strip s) = hd (lstrip s)" by (simp add: hd_append)
  moreover from t False have "lstrip s \<noteq> []" by auto
  then have "\<not> is_space (hd (lstrip s))" unfolding lstrip_def by (rule hd_dropWhile)
  moreover have "\<not> is_space (last (strip s))"
    using False rstrip_last [of "lstrip s"] by (simp add: strip_def)
  ultimately show ?thesis by (simp add: stripped_def)
qed (simp add: stripped_def)

lemma strip_strip [simp]: "strip (strip s) = strip s"
  by (rule strip_stripped) (rule stripped_strip)

lemma stripped_Nil [simp]: "stripped []"
  by (simp add: stripped_def)

section \<open>Values\<close>

datatype py =
    PNone
  | PBool bool
  | PInt int
  | PFloat string
  | PStr string
  | PList "py list"
  | PTuple "py list"
  | PDict "(string \<times> py) list"

type_synonym dict = "(string \<times> py) list"

text \<open>\<open>d.get(k)\<close> and \<open>d.get(k, default)\<close>.\<close>

definition get_or :: "dict \<Rightarrow> string \<Rightarrow> py \<Rightarrow> py" where
  "get_or d k v = (case map_of d k of None \<Rightarrow> v | Some w \<Rightarrow> w)"

definition get :: "dict \<Rightarrow> string \<Rightarrow> py" where
  "get d k = get_or d k PNone"

definition has_key :: "dict \<Rightarrow> string \<Rightarrow> bool" where
  "has_key d k = (map_of d k \<noteq> None)"

text \<open>\<open>d[k] = v\<close> keeps the position of an existing key and appends a new one.\<close>

definition put :: "string \<Rightarrow> 'v \<Rightarrow> (string \<times> 'v) list \<Rightarrow> (string \<times> 'v) list" where
  "put k v d = AList.update k v d"

text \<open>Several assignments in a row, or \<open>{**d, k: v, ...}\<close>.\<close>

definition put_all :: "dict \<Rightarrow> dict \<Rightarrow> dict" where
  "put_all kvs d = foldl (\<lambda>d (k, v). put k v d) d kvs"

text \<open>\<open>_as_mapping\<close>, and the usual \<open>_as_mapping(v) or {}\<close>.\<close>

fun as_mapping :: "py \<Rightarrow> dict option" where
  "as_mapping (PDict d) = Some d"
| "as_mapping _ = None"

definition mapping_or_empty :: "py \<Rightarrow> dict" where
  "mapping_or_empty v = (case as_mapping v of Some d \<Rightarrow> d | None \<Rightarrow> [])"

fun truthy :: "py \<Rightarrow> bool" where
  "truthy PNone = False"
| "truthy (PBool b) = b"
| "truthy (PInt i) = (i \<noteq> 0)"
| "truthy (PFloat r) = (r \<noteq> ''0.0'' \<and> r \<noteq> ''-0.0'')"
| "truthy (PStr s) = (s \<noteq> [])"
| "truthy (PList vs) = (vs \<noteq> [])"
| "truthy (PTuple vs) = (vs \<noteq> [])"
| "truthy (PDict d) = (d \<noteq> [])"

subsection \<open>\<open>str\<close> and \<open>repr\<close>\<close>

definition hex_char :: "nat \<Rightarrow> char" where
  "hex_char d = (if d < 10 then char_of (48 + d) else char_of (87 + d))"

definition repr_char :: "char \<Rightarrow> char \<Rightarrow> string" where
  "repr_char q c =
     (let n = code c in
      if c = q \<or> n = 92 then [char_of (92 :: nat), c]
      else if n = 9 then [char_of (92 :: nat), CHR ''t'']
      else if n = 10 then [char_of (92 :: nat), CHR ''n'']
      else if n = 13 then [char_of (92 :: nat), CHR ''r'']
      else if n < 32 \<or> 127 \<le> n \<and> n \<le> 160 \<or> n = 173
      then [char_of (92 :: nat), CHR ''x'', hex_char (n div 16), hex_char (n mod 16)]
      else [c])"

definition str_repr :: "string \<Rightarrow> string" where
  "str_repr s =
     (let q = (if char_of (39 :: nat) \<in> set s \<and> char_of (34 :: nat) \<notin> set s
               then char_of (34 :: nat) else char_of (39 :: nat))
      in [q] @ concat (map (repr_char q) s) @ [q])"

fun py_repr :: "py \<Rightarrow> string" where
  "py_repr PNone = ''None''"
| "py_repr (PBool b) = (if b then ''True'' else ''False'')"
| "py_repr (PInt i) = int_str i"
| "py_repr (PFloat r) = r"
| "py_repr (PStr s) = str_repr s"
| "py_repr (PList vs) = ''['' @ join '', '' (map py_repr vs) @ '']''"
| "py_repr (PTuple vs) =
     ''('' @ join '', '' (map py_repr vs) @ (if length vs = 1 then '',)'' else '')'')"
| "py_repr (PDict d) =
     ''{'' @ join '', '' (map (\<lambda>kv. str_repr (fst kv) @ '': '' @ py_repr (snd kv)) d) @ ''}''"

fun py_str :: "py \<Rightarrow> string" where
  "py_str (PStr s) = s"
| "py_str v = py_repr v"

subsection \<open>Values through a JSON file\<close>

text \<open>
  What \<open>json.loads(json.dumps(v, sort_keys=True))\<close> gives: the same value with tuples turned
  into lists and the keys of every object in order.
\<close>

fun json_value :: "py \<Rightarrow> py" where
  "json_value (PList vs) = PList (map json_value vs)"
| "json_value (PTuple vs) = PList (map json_value vs)"
| "json_value (PDict d) = PDict (sort_key fst (map (\<lambda>kv. (fst kv, json_value (snd kv))) d))"
| "json_value v = v"

declare json_value.simps(3) [simp del]

subsection \<open>The readers\<close>

text \<open>
  \<open>_normalize_text(value, default=d)\<close>; the control modules have a second version that also
  lowers the text.
\<close>

definition normalize_text :: "string \<Rightarrow> py \<Rightarrow> string" where
  "normalize_text d v =
     (if v = PNone then d
      else let t = strip (py_str v) in if t \<noteq> [] then t else d)"

definition normalize_lower :: "string \<Rightarrow> py \<Rightarrow> string" where
  "normalize_lower d v =
     (if v = PNone then d
      else let t = lower (strip (py_str v)) in if t \<noteq> [] then t else d)"

text \<open>\<open>_normalize_text(value, default="") or None\<close> and back to a value.\<close>

definition text_or_none :: "py \<Rightarrow> string option" where
  "text_or_none v = (let t = normalize_text [] v in if t \<noteq> [] then Some t else None)"

definition lower_or_none :: "py \<Rightarrow> string option" where
  "lower_or_none v = (let t = normalize_lower [] v in if t \<noteq> [] then Some t else None)"

fun opt_str :: "string option \<Rightarrow> py" where
  "opt_str None = PNone"
| "opt_str (Some s) = PStr s"

fun opt_int :: "int option \<Rightarrow> py" where
  "opt_int None = PNone"
| "opt_int (Some i) = PInt i"

fun opt_bool :: "bool option \<Rightarrow> py" where
  "opt_bool None = PNone"
| "opt_bool (Some b) = PBool b"

fun opt_dict :: "dict option \<Rightarrow> py" where
  "opt_dict None = PNone"
| "opt_dict (Some d) = PDict d"

fun as_bool :: "py \<Rightarrow> bool" where
  "as_bool (PBool b) = b"
| "as_bool (PInt i) = (i \<noteq> 0)"
| "as_bool (PStr s) = (lower (strip s) \<in> {''1'', ''true'', ''yes'', ''y''})"
| "as_bool _ = False"

text \<open>
  \<open>_as_optional_int\<close> guards \<open>int(text)\<close> with \<open>text.lstrip("-").isdigit()\<close>, which lets texts
  through that \<open>int\<close> refuses (\<open>--5\<close>, a superscript digit): the reader can raise.
\<close>

fun as_optional_int :: "py \<Rightarrow> int option res" where
  "as_optional_int (PInt i) = Inr (Some i)"
| "as_optional_int (PStr s) =
     (let t = strip s in
      if t \<noteq> [] \<and> isdigit (dropWhile (\<lambda>c. c = CHR ''-'') t)
      then res_bind (int_of_text t) (\<lambda>i. Inr (Some i)) else Inr None)"
| "as_optional_int _ = Inr None"

text \<open>\<open>_as_non_negative_int\<close>: without a sign (control, lease), and on top of the reader above.\<close>

fun as_non_negative_int :: "int \<Rightarrow> py \<Rightarrow> int res" where
  "as_non_negative_int d (PInt i) = Inr (max 0 i)"
| "as_non_negative_int d (PStr s) =
     (let t = strip s in if t \<noteq> [] \<and> isdigit t then int_of_text t else Inr d)"
| "as_non_negative_int d _ = Inr d"

definition as_non_negative_int_signed :: "int \<Rightarrow> py \<Rightarrow> int res" where
  "as_non_negative_int_signed d v =
     res_bind (as_optional_int v)
       (\<lambda>r. Inr (case r of None \<Rightarrow> d | Some i \<Rightarrow> max 0 i))"

subsection \<open>Lemmas on the readers\<close>

lemma get_or_simps [simp]:
  "get_or [] k v = v"
  "get_or ((k', w) # d) k v = (if k' = k then w else get_or d k v)"
  by (auto simp: get_or_def)

lemma get_simps [simp]:
  "get [] k = PNone"
  "get ((k', w) # d) k = (if k' = k then w else get d k)"
  by (simp_all add: get_def)

lemma has_key_simps [simp]:
  "has_key [] k = False"
  "has_key ((k', w) # d) k = (k' = k \<or> has_key d k)"
  by (auto simp: has_key_def)

lemma get_put [simp]: "get (put k v d) k' = (if k' = k then v else get d k')"
  by (simp add: get_def get_or_def put_def update_conv')

lemma put_all_get:
  "get (put_all kvs d) k =
     (case map_of (rev kvs) k of None \<Rightarrow> get d k | Some v \<Rightarrow> v)"
proof (induction kvs arbitrary: d)
  case (Cons kv kvs)
  have "put_all (kv # kvs) d = put_all kvs (put (fst kv) (snd kv) d)"
    by (simp add: put_all_def case_prod_unfold)
  with Cons show ?case by (simp add: map_add_def split: option.splits)
qed (simp add: put_all_def)

lemma mapping_or_empty_simps [simp]:
  "mapping_or_empty (PDict d) = d" "mapping_or_empty PNone = []"
  "mapping_or_empty (PStr s) = []" "mapping_or_empty (PInt i) = []"
  "mapping_or_empty (PBool b) = []" "mapping_or_empty (PList vs) = []"
  by (simp_all add: mapping_or_empty_def)

lemma normalize_text_PNone [simp]: "normalize_text d PNone = d"
  by (simp add: normalize_text_def)

lemma normalize_text_PStr [simp]:
  "normalize_text d (PStr s) = (if strip s = [] then d else strip s)"
  by (simp add: normalize_text_def)

lemma normalize_lower_PNone [simp]: "normalize_lower d PNone = d"
  by (simp add: normalize_lower_def)

lemma lower_Nil [simp]: "lower s = [] \<longleftrightarrow> s = []" "lower [] = []"
  by (simp_all add: lower_def)

lemma normalize_lower_PStr [simp]:
  "normalize_lower d (PStr s) = (if strip s = [] then d else lower (strip s))"
  by (simp add: normalize_lower_def)

lemma stripped_normalize_text: "stripped d \<Longrightarrow> stripped (normalize_text d v)"
  by (simp add: normalize_text_def Let_def)

lemma strip_normalize_text [simp]: "strip (normalize_text [] v) = normalize_text [] v"
  by (simp add: normalize_text_def Let_def)

lemma text_or_none_PStr [simp]:
  "text_or_none (PStr s) = (if strip s = [] then None else Some (strip s))"
  by (simp add: text_or_none_def)

lemma text_or_none_PNone [simp]: "text_or_none PNone = None"
  by (simp add: text_or_none_def)

lemma lower_or_none_PStr [simp]:
  "lower_or_none (PStr s) = (if strip s = [] then None else Some (lower (strip s)))"
  by (simp add: lower_or_none_def)

lemma lower_or_none_PNone [simp]: "lower_or_none PNone = None"
  by (simp add: lower_or_none_def)

lemma opt_str_inject [simp]:
  "opt_str a = opt_str b \<longleftrightarrow> a = b" "opt_str a = PNone \<longleftrightarrow> a = None"
  by (cases a; cases b; simp) (cases a; simp)

lemma as_non_negative_int_nonneg: "0 \<le> d \<Longrightarrow> as_non_negative_int d v = Inr i \<Longrightarrow> 0 \<le> i"
proof (induction d v rule: as_non_negative_int.induct)
  case (2 d s)
  have no_sign: "isdigit t \<Longrightarrow> int_of_text t = Inr i \<Longrightarrow> 0 \<le> i" if "t = strip t" for t
  proof -
    assume digit: "isdigit t" and eq: "int_of_text t = Inr i"
    from digit obtain c cs where t: "t = c # cs" and "is_digit_char c"
      by (cases t) (auto simp: isdigit_def)
    then have "c \<noteq> CHR ''-''"
      by (auto simp: is_digit_char_def is_ascii_digit_def code_def)
    with eq t that show ?thesis
      by (auto simp: int_of_text_def Let_def split: option.splits)
  qed
  from 2 show ?case
    using no_sign [of "strip s"] by (auto simp: Let_def split: if_splits)
qed auto

lemma as_non_negative_int_signed_nonneg:
  "0 \<le> d \<Longrightarrow> as_non_negative_int_signed d v = Inr i \<Longrightarrow> 0 \<le> i"
  by (auto simp: as_non_negative_int_signed_def res_bind_eq_Inr split: option.splits)

lemma as_non_negative_int_signed_PInt [simp]:
  "as_non_negative_int_signed d (PInt i) = Inr (max 0 i)"
  by (simp add: as_non_negative_int_signed_def)

lemma as_non_negative_int_signed_PNone [simp]: "as_non_negative_int_signed d PNone = Inr d"
  by (simp add: as_non_negative_int_signed_def)

text \<open>Values on which the integer readers cannot raise: everything but a text.\<close>

fun int_readable :: "py \<Rightarrow> bool" where
  "int_readable (PStr s) = False"
| "int_readable v = True"

lemma as_optional_int_readable: "int_readable v \<Longrightarrow> \<exists>r. as_optional_int v = Inr r"
  by (cases v) auto

lemma as_non_negative_int_readable: "int_readable v \<Longrightarrow> \<exists>i. as_non_negative_int d v = Inr i"
  by (cases v) auto

lemma as_non_negative_int_signed_readable:
  "int_readable v \<Longrightarrow> \<exists>i. as_non_negative_int_signed d v = Inr i"
  by (cases v) (auto simp: as_non_negative_int_signed_def)

subsection \<open>Lowering and stripping commute\<close>

lemma code_char_of: "n < 256 \<Longrightarrow> code (char_of n) = n"
  by (simp add: code_def)

lemma code_lower_char:
  "code (lower_char c) =
     (let n = code c in
      if 65 \<le> n \<and> n \<le> 90 \<or> 192 \<le> n \<and> n \<le> 222 \<and> n \<noteq> 215 then n + 32 else n)"
  by (auto simp: lower_char_def Let_def code_char_of)

lemma lower_char_lower_char [simp]: "lower_char (lower_char c) = lower_char c"
proof -
  have "\<not> (65 \<le> code (lower_char c) \<and> code (lower_char c) \<le> 90 \<or>
      192 \<le> code (lower_char c) \<and> code (lower_char c) \<le> 222 \<and> code (lower_char c) \<noteq> 215)"
    by (auto simp: code_lower_char Let_def)
  then show ?thesis unfolding lower_char_def [of "lower_char c"] Let_def by (rule if_not_P)
qed

lemma is_space_lower_char [simp]: "is_space (lower_char c) = is_space c"
  by (auto simp: is_space_def code_lower_char Let_def)

lemma lower_lower [simp]: "lower (lower s) = lower s"
  by (simp add: lower_def)

lemma strip_lower [simp]: "strip (lower s) = lower (strip s)"
  by (simp add: strip_def lstrip_def rstrip_def lower_def dropWhile_map rev_map comp_def)

lemma normalize_lower_idem [simp]:
  "normalize_lower [] (PStr (normalize_lower [] v)) = normalize_lower [] v"
  by (simp add: normalize_lower_def Let_def)

lemma lower_normalized [simp]:
  "lower (strip (normalize_lower [] v)) = normalize_lower [] v"
  "strip (normalize_lower [] v) = normalize_lower [] v"
  "lower (normalize_lower [] v) = normalize_lower [] v"
  by (simp_all add: normalize_lower_def Let_def)

end
