(* ===== verification/Job_Store.thy ===== *)
theory Job_Store
  imports Prelude "HOL-Library.Multiset"
begin

text \<open>
  The contract the three JSON files keyed by job share (\<open>retry_context_store.json\<close>,
  \<open>job_leases.json\<close>, \<open>job_registry.json\<close>): each is read whole, one entry is changed, and the
  file is written whole with sorted keys. The generic part (reading the entries of an object
  one by one, and reading back what was written) is proved here once; the locale states what
  the clients of such a file rely on.
\<close>

section \<open>Dictionaries with distinct keys\<close>

definition keys_ok :: "(string \<times> 'v) list \<Rightarrow> bool" where
  "keys_ok d = distinct (map fst d)"

lemma keys_ok_Nil [simp]: "keys_ok []"
  by (simp add: keys_ok_def)

lemma keys_ok_put [simp]: "keys_ok d \<Longrightarrow> keys_ok (put k v d)"
  by (simp add: keys_ok_def put_def distinct_update)

lemma map_of_put [simp]: "map_of (put k v d) = (map_of d)(k \<mapsto> v)"
  by (simp add: put_def update_conv')

lemma put_new: "k \<notin> fst ` set d \<Longrightarrow> put k v d = d @ [(k, v)]"
  unfolding put_def by (induction d) auto

lemma set_put: "set (put k v d) \<subseteq> insert (k, v) (set d)"
  unfolding put_def by (induction d) auto

lemma keys_ok_sort [simp]: "keys_ok (sort_key f d) = keys_ok d"
proof -
  have "mset (map fst (sort_key f d)) = mset (map fst d)" by (simp del: mset_map add: mset_map)
  then have "distinct (map fst (sort_key f d)) = distinct (map fst d)"
    by (rule mset_eq_imp_distinct_iff)
  then show ?thesis by (simp add: keys_ok_def)
qed

lemma map_of_sort: "keys_ok d \<Longrightarrow> map_of (sort_key f d) = map_of d"
proof -
  assume d: "keys_ok d"
  then have s: "distinct (map fst (sort_key f d))"
    using keys_ok_sort [of f d] unfolding keys_ok_def by blast
  show ?thesis
    by (rule map_of_inject_set [THEN iffD2]) (use d s in \<open>simp_all add: keys_ok_def\<close>)
qed

lemma sort_key_map_fst:
  "(\<And>x. fst (f x) = fst x) \<Longrightarrow> sort_key fst (map f d) = map f (sort_key fst d)"
proof -
  assume f: "\<And>x. fst (f x) = fst x"
  have "insort_key fst (f x) (map f ys) = map f (insort_key fst x ys)" for x ys
    by (induction ys) (simp_all add: f)
  then show ?thesis by (induction d) simp_all
qed

text \<open>An object written to a file and read back answers every \<open>get\<close> alike.\<close>

lemma json_dict:
  assumes "keys_ok d"
  obtains d' where "json_value (PDict d) = PDict d'" "keys_ok d'"
    "\<And>k. get d' k = json_value (get d k)"
proof (rule that)
  let ?e = "map (\<lambda>kv. (fst kv, json_value (snd kv))) d"
  show "json_value (PDict d) = PDict (sort_key fst ?e)" by (simp add: json_value.simps(3))
  have e: "keys_ok ?e" using assms by (simp add: keys_ok_def comp_def)
  then show "keys_ok (sort_key fst ?e)" by simp
  fix k
  have "map_of ?e k = map_option json_value (map_of d k)" by (induction d) auto
  then show "get (sort_key fst ?e) k = json_value (get d k)"
    unfolding get_def get_or_def map_of_sort [OF e] by (simp split: option.splits)
qed

section \<open>Reading the entries of an object\<close>

fun load_entries ::
    "(string \<times> py \<Rightarrow> (string \<times> 'r) option res) \<Rightarrow> (string \<times> py) list \<Rightarrow> (string \<times> 'r) list \<Rightarrow>
       (string \<times> 'r) list res" where
  "load_entries rd [] acc = Inr acc"
| "load_entries rd (kv # kvs) acc =
     res_bind (rd kv) (\<lambda>e.
       case e of None \<Rightarrow> load_entries rd kvs acc
       | Some (k, r) \<Rightarrow> load_entries rd kvs (put k r acc))"

lemma load_entries_keys: "load_entries rd kvs acc = Inr st \<Longrightarrow> keys_ok acc \<Longrightarrow> keys_ok st"
  by (induction rd kvs acc rule: load_entries.induct)
     (auto simp: res_bind_eq_Inr split: option.splits)

lemma load_entries_all:
  assumes "load_entries rd kvs acc = Inr st"
    and "\<And>kv k r. kv \<in> set kvs \<Longrightarrow> rd kv = Inr (Some (k, r)) \<Longrightarrow> P k r"
    and "\<And>k r. (k, r) \<in> set acc \<Longrightarrow> P k r"
    and "(k, r) \<in> set st"
  shows "P k r"
  using assms
proof (induction kvs arbitrary: acc)
  case (Cons kv kvs)
  from Cons.prems(1) obtain e where e: "rd kv = Inr e" by (auto simp: res_bind_eq_Inr)
  show ?case
  proof (cases e)
    case None
    show ?thesis by (rule Cons.IH [of acc]) (use Cons.prems e None in auto)
  next
    case (Some kr)
    obtain k' r' where kr: "kr = (k', r')" by force
    have "(k, r) \<in> insert (k', r') (set acc) \<Longrightarrow> P k r" for k r
      using Cons.prems(2) [of kv k' r'] Cons.prems(3) e Some kr by auto
    then have acc: "(k, r) \<in> set (put k' r' acc) \<Longrightarrow> P k r" for k r
      using set_put [of k' r' acc] by blast
    have kvs: "P k r" if "kv' \<in> set kvs" "rd kv' = Inr (Some (k, r))" for kv' k r
      using Cons.prems(2) [of kv' k r] that by simp
    have "load_entries rd kvs (put k' r' acc) = Inr st"
      using Cons.prems(1) e Some kr by simp
    then show ?thesis using kvs acc Cons.prems(4) by (rule Cons.IH)
  qed
qed auto

lemma load_entries_written:
  assumes "\<And>k r. (k, r) \<in> set st \<Longrightarrow> rd (k, wr r) = Inr (Some (k, r))"
    and "keys_ok (acc @ st)"
  shows "load_entries rd (map (\<lambda>kr. (fst kr, wr (snd kr))) st) acc = Inr (acc @ st)"
  using assms
proof (induction st arbitrary: acc)
  case (Cons kr st)
  obtain k r where kr: "kr = (k, r)" by force
  have "k \<notin> fst ` set acc" using Cons.prems(2) kr by (auto simp: keys_ok_def)
  then show ?case using Cons kr by (simp add: put_new)
qed simp

section \<open>The contract\<close>

locale job_store =
  fixes lookup :: "'f \<Rightarrow> string \<Rightarrow> 'r option"
    and store :: "'f \<Rightarrow> string \<Rightarrow> 'r \<Rightarrow> 'f"
    and good :: "'f \<Rightarrow> bool"
    and ok :: "string \<Rightarrow> 'r \<Rightarrow> bool"
  assumes good_store: "good f \<Longrightarrow> ok k r \<Longrightarrow> good (store f k r)"
    and lookup_store: "good f \<Longrightarrow> ok k r \<Longrightarrow> lookup (store f k r) = (lookup f)(k \<mapsto> r)"
begin

fun store_all :: "'f \<Rightarrow> (string \<times> 'r) list \<Rightarrow> 'f" where
  "store_all f [] = f"
| "store_all f ((k, r) # ws) = store_all (store f k r) ws"

lemma store_all_good:
  "good f \<Longrightarrow> (\<And>k r. (k, r) \<in> set ws \<Longrightarrow> ok k r) \<Longrightarrow> good (store_all f ws)"
  by (induction f ws rule: store_all.induct) (auto intro: good_store)

lemma store_all_lookup:
  "good f \<Longrightarrow> (\<And>k r. (k, r) \<in> set ws \<Longrightarrow> ok k r) \<Longrightarrow>
     lookup (store_all f ws) = lookup f ++ map_of (rev ws)"
  by (induction f ws rule: store_all.induct)
     (auto simp: lookup_store good_store map_add_def fun_eq_iff split: option.splits)

lemma store_other: "good f \<Longrightarrow> ok k r \<Longrightarrow> k' \<noteq> k \<Longrightarrow> lookup (store f k r) k' = lookup f k'"
  by (simp add: lookup_store)

lemma store_twice:
  "good f \<Longrightarrow> ok k r \<Longrightarrow> ok k r' \<Longrightarrow>
     lookup (store (store f k r) k r') = lookup (store f k r')"
  by (simp add: lookup_store good_store)

lemma store_commute:
  "good f \<Longrightarrow> ok k r \<Longrightarrow> ok k' r' \<Longrightarrow> k \<noteq> k' \<Longrightarrow>
     lookup (store (store f k r) k' r') = lookup (store (store f k' r') k r)"
  by (simp add: lookup_store good_store fun_upd_twist)

end

section \<open>Files with one section\<close>

text \<open>
  The shape of the three files: an object with a schema version and one object of entries. A
  missing file, or one of another shape, reads as no entries. \<open>ord\<close> is the order the reader
  visits the entries in (the leases and the registry sort them, the contexts do not).
\<close>

definition load_section ::
    "(dict \<Rightarrow> dict) \<Rightarrow> string \<Rightarrow> (string \<times> py \<Rightarrow> (string \<times> 'r) option res) \<Rightarrow> py option \<Rightarrow>
       (string \<times> 'r) list res" where
  "load_section ord key rd file =
     (case file of
        None \<Rightarrow> Inr []
      | Some payload \<Rightarrow>
          (case as_mapping payload of
             None \<Rightarrow> Inr []
           | Some d \<Rightarrow>
               (case as_mapping (get d key) of
                  None \<Rightarrow> Inr []
                | Some entries \<Rightarrow> load_entries rd (ord entries) [])))"

text \<open>The text of the file after \<open>json.dumps(..., sort_keys=True)\<close>, as the value it parses to.\<close>

definition write_section :: "string \<Rightarrow> ('r \<Rightarrow> py) \<Rightarrow> (string \<times> 'r) list \<Rightarrow> py" where
  "write_section key wr st =
     json_value (PDict [(''schema_version'', PStr ''v1''),
       (key, PDict (map (\<lambda>kr. (fst kr, wr (snd kr))) st))])"

definition drop_key :: "string \<Rightarrow> (string \<times> 'v) list \<Rightarrow> (string \<times> 'v) list" where
  "drop_key k d = AList.delete k d"

lemma map_of_drop_key [simp]: "map_of (drop_key k d) = (map_of d)(k := None)"
  by (simp add: drop_key_def delete_conv')

lemma keys_ok_drop_key [simp]: "keys_ok d \<Longrightarrow> keys_ok (drop_key k d)"
  by (simp add: keys_ok_def drop_key_def distinct_delete)

lemma set_drop_key: "set (drop_key k d) \<subseteq> set d"
  unfolding drop_key_def by (induction d) auto

lemma sort_sorted_key [simp]: "sort_key f (sort_key f d) = sort_key f d"
  by (rule sort_key_id_if_sorted) simp

locale section_file =
  fixes ord :: "dict \<Rightarrow> dict"
    and key :: string
    and rd :: "string \<times> py \<Rightarrow> (string \<times> 'r) option res"
    and wr :: "'r \<Rightarrow> py"
    and ok :: "string \<Rightarrow> 'r \<Rightarrow> bool"
  assumes key: "key \<noteq> ''schema_version''"
    and ord: "ord (sort_key fst d) = sort_key fst d"
    and rd_wr: "ok k r \<Longrightarrow> rd (k, json_value (wr r)) = Inr (Some (k, r))"
    and rd_ok: "rd kv = Inr (Some (k, r)) \<Longrightarrow> ok k r"
begin

definition lookup :: "py option \<Rightarrow> string \<Rightarrow> 'r option" where
  "lookup f k = (case load_section ord key rd f of Inl _ \<Rightarrow> None | Inr st \<Rightarrow> map_of st k)"

definition store :: "py option \<Rightarrow> string \<Rightarrow> 'r \<Rightarrow> py option" where
  "store f k r =
     (case load_section ord key rd f of
        Inl _ \<Rightarrow> f | Inr st \<Rightarrow> Some (write_section key wr (put k r st)))"

definition remove :: "py option \<Rightarrow> string \<Rightarrow> py option" where
  "remove f k =
     (case load_section ord key rd f of
        Inl _ \<Rightarrow> f | Inr st \<Rightarrow> Some (write_section key wr (drop_key k st)))"

definition good :: "py option \<Rightarrow> bool" where
  "good f = (\<exists>st. load_section ord key rd f = Inr st)"

definition all_ok :: "(string \<times> 'r) list \<Rightarrow> bool" where
  "all_ok st = (\<forall>(k, r) \<in> set st. ok k r)"

lemma good_None [simp]: "good None" "lookup None = (\<lambda>_. None)"
  by (simp_all add: good_def lookup_def load_section_def fun_eq_iff)

lemma loaded_entries: "load_section ord key rd f = Inr st \<Longrightarrow> keys_ok st \<and> all_ok st"
proof -
  assume load: "load_section ord key rd f = Inr st"
  have "load_entries rd kvs [] = Inr st \<Longrightarrow> keys_ok st \<and> all_ok st" for kvs
    using load_entries_keys [of rd kvs "[]" st] load_entries_all [of rd kvs "[]" st ok]
    by (auto simp: all_ok_def dest: rd_ok)
  with load show ?thesis
    by (auto simp: load_section_def all_ok_def split: option.splits)
qed

lemma load_written:
  assumes "keys_ok st" and "all_ok st"
  shows "load_section ord key rd (Some (write_section key wr st)) = Inr (sort_key fst st)"
proof -
  let ?es = "PDict (map (\<lambda>kr. (fst kr, wr (snd kr))) st)"
  have "keys_ok [(''schema_version'', PStr ''v1''), (key, ?es)]" using key by (simp add: keys_ok_def)
  then obtain d where d: "write_section key wr st = PDict d" and get: "get d key = json_value ?es"
    unfolding write_section_def by (rule json_dict) (use key in auto)
  have es: "json_value ?es =
      PDict (sort_key fst (map (\<lambda>kr. (fst kr, json_value (wr (snd kr)))) st))"
    by (simp add: json_value.simps(3) comp_def)
  have "load_entries rd (map (\<lambda>kr. (fst kr, json_value (wr (snd kr)))) (sort_key fst st)) [] =
      Inr ([] @ sort_key fst st)"
    by (rule load_entries_written [where wr = "\<lambda>r. json_value (wr r)"])
       (use assms in \<open>auto simp: all_ok_def rd_wr\<close>)
  then show ?thesis
    by (simp add: load_section_def d get es ord) (simp add: sort_key_map_fst)
qed

lemma written_good:
  assumes "keys_ok st" and "all_ok st"
  shows "good (Some (write_section key wr st))" "lookup (Some (write_section key wr st)) = map_of st"
  using assms by (auto simp: good_def lookup_def load_written map_of_sort fun_eq_iff)

lemma lookup_loaded: "load_section ord key rd f = Inr st \<Longrightarrow> lookup f = map_of st"
  by (simp add: lookup_def fun_eq_iff)

lemma store_load: "load_section ord key rd f = Inr st \<Longrightarrow>
    store f k r = Some (write_section key wr (put k r st))"
  by (simp add: store_def)

lemma remove_load: "load_section ord key rd f = Inr st \<Longrightarrow>
    remove f k = Some (write_section key wr (drop_key k st))"
  by (simp add: remove_def)

lemma all_ok_put: "all_ok st \<Longrightarrow> ok k r \<Longrightarrow> all_ok (put k r st)"
  using set_put [of k r st] by (fastforce simp: all_ok_def)

lemma all_ok_drop: "all_ok st \<Longrightarrow> all_ok (drop_key k st)"
  using set_drop_key [of k st] by (fastforce simp: all_ok_def)

lemma lookup_ok: "lookup f k = Some r \<Longrightarrow> ok k r"
  by (auto simp: lookup_def all_ok_def split: sum.splits dest!: loaded_entries map_of_SomeD)

end

sublocale section_file \<subseteq> job_store lookup store good ok
proof
  fix f k r assume "good f" and ok: "ok k r"
  then obtain st where st: "load_section ord key rd f = Inr st" by (auto simp: good_def)
  with loaded_entries ok have "keys_ok (put k r st)" "all_ok (put k r st)"
    by (auto intro: all_ok_put)
  from written_good [OF this] st show "good (store f k r)" "lookup (store f k r) = (lookup f)(k \<mapsto> r)"
    by (simp_all add: store_load lookup_loaded)
qed

context section_file
begin

lemma remove_good: "good f \<Longrightarrow> good (remove f k)"
  and lookup_remove: "good f \<Longrightarrow> lookup (remove f k) = (lookup f)(k := None)"
proof -
  assume "good f"
  then obtain st where st: "load_section ord key rd f = Inr st" by (auto simp: good_def)
  with loaded_entries have "keys_ok (drop_key k st)" "all_ok (drop_key k st)"
    by (auto intro: all_ok_drop)
  from written_good [OF this] st show "good (remove f k)" "lookup (remove f k) = (lookup f)(k := None)"
    by (simp_all add: remove_load lookup_loaded)
qed

end

end
