(* ===== verification/Retry_Context.thy ===== *)
theory Retry_Context
  imports Prelude Job_Store
begin

text \<open>
  \<open>automation/control/retry_context.py\<close>: the retry bookkeeping that travels with a run (how
  often it was tried, with which retry class, how often signals were missing, and the budget
  left), read from untrusted JSON and advanced by each next-action decision; and
  \<open>automation/control/retry_context_store.py\<close>, the file the dispatcher keeps it in.
\<close>

section \<open>The context\<close>

definition allowed_retry_classes :: "string list" where
  "allowed_retry_classes = [''same_prompt_retry'', ''repair_prompt_retry'']"

abbreviation (input) "DEFAULT_RETRY_BUDGET \<equiv> (1 :: int)"

record retry_context =
  prior_attempt_count :: int
  prior_retry_class :: "string option"
  missing_signal_count :: int
  retry_budget_remaining :: int

text \<open>The context as the dictionary the other modules read.\<close>

definition retry_context_dict :: "retry_context \<Rightarrow> dict" where
  "retry_context_dict c =
     [(''prior_attempt_count'', PInt (prior_attempt_count c)),
      (''prior_retry_class'', opt_str (prior_retry_class c)),
      (''missing_signal_count'', PInt (missing_signal_count c)),
      (''retry_budget_remaining'', PInt (retry_budget_remaining c))]"

definition read_default_budget :: "py \<Rightarrow> int res" where
  "read_default_budget policy_snapshot =
     (case as_mapping policy_snapshot of
        None \<Rightarrow> Inr DEFAULT_RETRY_BUDGET
      | Some d \<Rightarrow>
          (case filter (\<lambda>v. v \<noteq> PNone)
                  (map (get d) [''max_retry_budget'', ''retry_budget'', ''retry_budget_remaining'']) of
             v # _ \<Rightarrow> as_non_negative_int DEFAULT_RETRY_BUDGET v
           | [] \<Rightarrow>
               (case as_mapping (get d ''retry_replan'') of
                  None \<Rightarrow> Inr DEFAULT_RETRY_BUDGET
                | Some r \<Rightarrow>
                    if get r ''max_attempts'' \<noteq> PNone
                    then as_non_negative_int DEFAULT_RETRY_BUDGET (get r ''max_attempts'')
                    else Inr DEFAULT_RETRY_BUDGET)))"

definition normalize_retry_context :: "py \<Rightarrow> py \<Rightarrow> retry_context res" where
  "normalize_retry_context v policy_snapshot =
     res_bind (read_default_budget policy_snapshot) (\<lambda>default_budget.
     (let source = mapping_or_empty v in
      res_bind (as_non_negative_int 0 (get source ''prior_attempt_count'')) (\<lambda>attempts.
      res_bind (as_non_negative_int 0 (get source ''missing_signal_count'')) (\<lambda>missing.
      res_bind (as_non_negative_int default_budget (get source ''retry_budget_remaining''))
        (\<lambda>budget.
      (let raw = get source ''prior_retry_class'';
           cls = (if raw = PNone then [] else strip (py_str raw))
       in Inr \<lparr>prior_attempt_count = attempts,
               prior_retry_class = (if cls \<in> set allowed_retry_classes then Some cls else None),
               missing_signal_count = missing,
               retry_budget_remaining = budget\<rparr>))))))"

definition update_retry_context :: "dict \<Rightarrow> string \<Rightarrow> int \<Rightarrow> retry_context res" where
  "update_retry_context current next_action observed_attempt_count =
     res_bind (as_non_negative_int 0 (get current ''prior_attempt_count'')) (\<lambda>attempts0.
     res_bind (as_non_negative_int 0 (get current ''missing_signal_count'')) (\<lambda>missing0.
     res_bind (as_non_negative_int 0 (get current ''retry_budget_remaining'')) (\<lambda>budget0.
     (let cls0 = (case get current ''prior_retry_class'' of
                    PStr s \<Rightarrow> if s \<in> set allowed_retry_classes then Some s else None
                  | _ \<Rightarrow> None);
          observed = max 0 observed_attempt_count;
          attempts = max attempts0 observed
      in if next_action \<in> set allowed_retry_classes
         then Inr \<lparr>prior_attempt_count = attempts + 1, prior_retry_class = Some next_action,
                   missing_signal_count = 0, retry_budget_remaining = max 0 (budget0 - 1)\<rparr>
         else Inr \<lparr>prior_attempt_count = attempts, prior_retry_class = cls0,
                   missing_signal_count =
                     (if next_action = ''signal_recollect'' then missing0 + 1 else 0),
                   retry_budget_remaining = budget0\<rparr>))))"

section \<open>The invariant\<close>

definition context_ok :: "retry_context \<Rightarrow> bool" where
  "context_ok c =
     (0 \<le> prior_attempt_count c \<and> 0 \<le> missing_signal_count c \<and> 0 \<le> retry_budget_remaining c \<and>
      (case prior_retry_class c of None \<Rightarrow> True | Some s \<Rightarrow> s \<in> set allowed_retry_classes))"

lemma read_default_budget_nonneg: "read_default_budget p = Inr b \<Longrightarrow> 0 \<le> b"
  by (auto simp: read_default_budget_def dest: as_non_negative_int_nonneg [rotated]
      split: option.splits list.splits if_splits)

lemma normalize_retry_context_ok:
  "normalize_retry_context v p = Inr c \<Longrightarrow> context_ok c"
  by (auto simp: normalize_retry_context_def res_bind_eq_Inr Let_def context_ok_def
      dest: as_non_negative_int_nonneg [rotated] read_default_budget_nonneg)

lemma allowed_retry_class_text [simp]:
  "s \<in> set allowed_retry_classes \<Longrightarrow> strip s = s"
  "s \<in> set allowed_retry_classes \<Longrightarrow> lower s = s"
  by (auto simp: allowed_retry_classes_def) (code_simp)+

lemma Nil_not_retry_class [simp]: "[] \<notin> set allowed_retry_classes"
  by (simp add: allowed_retry_classes_def)

text \<open>Updating a well-formed context cannot raise and keeps it well-formed.\<close>

lemma update_retry_context_eq:
  assumes "context_ok c"
  shows "update_retry_context (retry_context_dict c) a n = Inr
    (let attempts = max (prior_attempt_count c) (max 0 n) in
     if a \<in> set allowed_retry_classes
     then \<lparr>prior_attempt_count = attempts + 1, prior_retry_class = Some a,
           missing_signal_count = 0,
           retry_budget_remaining = max 0 (retry_budget_remaining c - 1)\<rparr>
     else c\<lparr>prior_attempt_count := attempts,
            missing_signal_count :=
              (if a = ''signal_recollect'' then missing_signal_count c + 1 else 0)\<rparr>)"
  using assms
  by (cases "prior_retry_class c")
     (auto simp: update_retry_context_def retry_context_dict_def context_ok_def Let_def)

lemma update_retry_context_ok:
  "context_ok c \<Longrightarrow> update_retry_context (retry_context_dict c) a n = Inr c' \<Longrightarrow> context_ok c'"
  by (auto simp: update_retry_context_eq Let_def context_ok_def split: if_splits option.splits)

lemma normalize_retry_context_roundtrip:
  assumes "context_ok c" and "read_default_budget p = Inr b"
  shows "normalize_retry_context (PDict (retry_context_dict c)) p = Inr c"
  using assms
  by (cases "prior_retry_class c")
     (auto simp: normalize_retry_context_def retry_context_dict_def context_ok_def)

section \<open>The store\<close>

text \<open>
  The file holds one context per job. \<open>load\<close> normalises what it reads, so the loaded store
  is a list of contexts with their time stamps in the file's key order; a missing or
  malformed file reads as the empty store.
\<close>

type_synonym context_store = "(string \<times> retry_context \<times> string) list"

definition store_entry :: "string \<times> py \<Rightarrow> (string \<times> retry_context \<times> string) option res" where
  "store_entry kv =
     (case as_mapping (snd kv) of
        None \<Rightarrow> Inr None
      | Some v \<Rightarrow>
          if strip (fst kv) = [] then Inr None
          else res_bind
            (normalize_retry_context
              (if as_mapping (get v ''retry_context'') \<noteq> None then get v ''retry_context'' else PDict v)
              PNone)
            (\<lambda>c. Inr (Some (strip (fst kv), c,
               normalize_text (normalize_text [] (get v ''handoff_created_at'')) (get v ''updated_at'')))))"

definition store_load :: "py option \<Rightarrow> context_store res" where
  "store_load file = load_section (\<lambda>d. d) ''contexts'' store_entry file"

definition record_py :: "retry_context \<times> string \<Rightarrow> py" where
  "record_py r =
     PDict [(''retry_context'', PDict (retry_context_dict (fst r))), (''updated_at'', PStr (snd r))]"

definition store_file :: "context_store \<Rightarrow> py" where
  "store_file st = write_section ''contexts'' record_py st"

definition store_get_record :: "py option \<Rightarrow> string \<Rightarrow> (retry_context \<times> string) option res" where
  "store_get_record file job_id =
     (if strip job_id = [] then Inr None
      else res_bind (store_load file) (\<lambda>st.
        case map_of st (strip job_id) of
          None \<Rightarrow> Inr None
        | Some (c, at) \<Rightarrow>
            res_bind (normalize_retry_context (PDict (retry_context_dict c)) PNone)
              (\<lambda>c'. Inr (Some (c', strip at)))))"

definition store_get :: "py option \<Rightarrow> string \<Rightarrow> retry_context option res" where
  "store_get file job_id =
     res_bind (store_get_record file job_id) (\<lambda>r. Inr (map_option fst r))"

text \<open>\<open>set\<close> returns the normalised context and the file it wrote.\<close>

definition store_set ::
    "py option \<Rightarrow> string \<Rightarrow> py \<Rightarrow> py \<Rightarrow> (retry_context \<times> py option) res" where
  "store_set file job_id ctx updated_at =
     (if strip job_id = [] then Inl (ValueError ''job_id is required to persist retry context'')
      else res_bind (store_load file) (\<lambda>st.
        res_bind (normalize_retry_context ctx PNone) (\<lambda>c.
          Inr (c, Some (store_file
            (put (strip job_id) (c, normalize_text [] updated_at) st))))))"

section \<open>The store keeps what was set\<close>

lemma read_default_budget_PNone [simp]: "read_default_budget PNone = Inr 1"
  by (simp add: read_default_budget_def)

lemma get_json_retry_context:
  fixes c :: retry_context
  obtains d where "json_value (PDict (retry_context_dict c)) = PDict d"
    "\<And>k. get d k = json_value (get (retry_context_dict c) k)"
proof -
  have "keys_ok (retry_context_dict c)" by (simp add: keys_ok_def retry_context_dict_def)
  then obtain d where "json_value (PDict (retry_context_dict c)) = PDict d"
    "\<And>k. get d k = json_value (get (retry_context_dict c) k)"
    by (rule json_dict) blast
  then show thesis by (rule that)
qed

lemma normalize_json_context:
  assumes "context_ok c"
  shows "normalize_retry_context (json_value (PDict (retry_context_dict c))) PNone = Inr c"
proof -
  obtain d where d: "json_value (PDict (retry_context_dict c)) = PDict d"
    and get: "\<And>k. get d k = json_value (get (retry_context_dict c) k)"
    by (rule get_json_retry_context [of c]) blast
  have j: "json_value (opt_str s) = opt_str s" for s by (cases s) simp_all
  have "normalize_retry_context (PDict d) PNone =
      normalize_retry_context (PDict (retry_context_dict c)) PNone"
    by (simp add: normalize_retry_context_def get) (simp add: retry_context_dict_def j)
  then show ?thesis unfolding d by (simp add: normalize_retry_context_roundtrip [OF assms])
qed

definition context_record_ok :: "string \<Rightarrow> retry_context \<times> string \<Rightarrow> bool" where
  "context_record_ok k r = (k \<noteq> [] \<and> stripped k \<and> context_ok (fst r) \<and> stripped (snd r))"

lemma store_entry_written:
  assumes "context_record_ok k r"
  shows "store_entry (k, json_value (record_py r)) = Inr (Some (k, r))"
proof -
  obtain c at where r: "r = (c, at)" by force
  have "keys_ok [(''retry_context'', PDict (retry_context_dict c)), (''updated_at'', PStr at)]"
    by (simp add: keys_ok_def)
  then obtain d where d: "json_value (record_py r) = PDict d"
    and get: "\<And>k. get d k = json_value
      (get [(''retry_context'', PDict (retry_context_dict c)), (''updated_at'', PStr at)] k)"
    unfolding record_py_def r fst_conv snd_conv by (rule json_dict) blast
  obtain d' where d': "json_value (PDict (retry_context_dict c)) = PDict d'"
    by (rule get_json_retry_context [of c]) blast
  have ok: "k \<noteq> []" "stripped k" "context_ok c" "stripped at"
    using assms by (simp_all add: context_record_ok_def r)
  have "normalize_retry_context (PDict d') PNone = Inr c"
    using normalize_json_context [OF ok(3)] d' by simp
  then show ?thesis
    using ok by (simp add: store_entry_def d [unfolded r] get d' strip_stripped r)
qed

lemma store_entry_ok: "store_entry kv = Inr (Some (k, r)) \<Longrightarrow> context_record_ok k r"
  by (auto simp: store_entry_def context_record_ok_def res_bind_eq_Inr stripped_normalize_text
      dest: normalize_retry_context_ok split: option.splits if_splits)

interpretation contexts: section_file "\<lambda>d. d" "''contexts''" store_entry record_py context_record_ok
  by unfold_locales (simp_all add: store_entry_written store_entry_ok)

abbreviation store_good :: "py option \<Rightarrow> bool" where
  "store_good f \<equiv> contexts.good f"

lemma store_good_None [simp]: "store_good None"
  by simp

lemma store_get_lookup:
  assumes "store_good f" "strip job \<noteq> []"
  shows "store_get f job = Inr (map_option fst (contexts.lookup f (strip job)))"
proof -
  from assms(1) obtain st where st: "store_load f = Inr st" by (auto simp: contexts.good_def store_load_def)
  note lookup = contexts.lookup_loaded [OF st [unfolded store_load_def]]
  show ?thesis
  proof (cases "map_of st (strip job)")
    case (Some r)
    then have "context_record_ok (strip job) r" by (intro contexts.lookup_ok [of f]) (simp add: lookup)
    with Some st assms(2) lookup show ?thesis
      by (cases r) (simp add: store_get_def store_get_record_def context_record_ok_def
          normalize_retry_context_roundtrip)
  qed (use st assms(2) lookup in \<open>simp add: store_get_def store_get_record_def\<close>)
qed

lemma store_set_store:
  assumes "store_good f" "context_ok c" "strip job \<noteq> []"
  shows "store_set f job (PDict (retry_context_dict c)) (PStr at) =
    Inr (c, contexts.store f (strip job) (c, strip at))"
proof -
  from assms(1) obtain st where "store_load f = Inr st" by (auto simp: contexts.good_def store_load_def)
  with assms show ?thesis
    by (simp add: store_set_def normalize_retry_context_roundtrip store_file_def
        contexts.store_load [of f st] store_load_def)
qed

section \<open>Properties\<close>

text \<open>C31. A context set for a job is the context \<open>get\<close> returns for that job from the file that was
  written, whatever white space the job id carries, and no other job's context changes.\<close>

theorem stored_context_is_read_back:
  assumes "store_good f" and "context_ok c" and "strip job \<noteq> []" and "strip job' \<noteq> []"
  shows "\<exists>f'. store_set f job (PDict (retry_context_dict c)) (PStr at) = Inr (c, f') \<and> store_good f' \<and>
           store_get f' job' = (if strip job' = strip job then Inr (Some c) else store_get f job')"
proof -
  let ?f = "contexts.store f (strip job) (c, strip at)"
  have ok: "context_record_ok (strip job) (c, strip at)"
    using assms(2,3) by (simp add: context_record_ok_def)
  have good: "store_good ?f" using assms(1) ok by (rule contexts.good_store)
  have "store_get ?f job' = (if strip job' = strip job then Inr (Some c) else store_get f job')"
    using assms good contexts.lookup_store [OF assms(1) ok] by (simp add: store_get_lookup)
  with store_set_store [OF assms(1-3)] good show ?thesis by blast
qed

theorem stored_context_is_read_back_witness:
  "\<exists>f'. store_set None '' job-1'' (PDict (retry_context_dict
       \<lparr>prior_attempt_count = 1, prior_retry_class = Some ''same_prompt_retry'',
        missing_signal_count = 0, retry_budget_remaining = 2\<rparr>)) (PStr ''t'') =
     Inr (\<lparr>prior_attempt_count = 1, prior_retry_class = Some ''same_prompt_retry'',
        missing_signal_count = 0, retry_budget_remaining = 2\<rparr>, f') \<and> store_good f' \<and>
     store_get f' ''job-1'' = Inr (Some \<lparr>prior_attempt_count = 1,
        prior_retry_class = Some ''same_prompt_retry'', missing_signal_count = 0,
        retry_budget_remaining = 2\<rparr>)"
proof -
  let ?c = "\<lparr>prior_attempt_count = 1, prior_retry_class = Some ''same_prompt_retry'',
        missing_signal_count = 0, retry_budget_remaining = 2\<rparr>"
  have "context_ok ?c" "strip '' job-1'' \<noteq> []" "strip ''job-1'' \<noteq> []"
    "strip ''job-1'' = strip '' job-1''"
    by code_simp+
  with stored_context_is_read_back [OF store_good_None, of ?c "'' job-1''" "''job-1''" "''t''"]
  show ?thesis by simp
qed

end
