(* ===== verification/Review_Progression.thy ===== *)
theory Review_Progression
  imports Retry_Context
begin

text \<open>
  \<open>automation/control/review_progression.py\<close>: the ordered decision matrix from the signals of
  a run and its retry context to the next action. The first rule that matches decides.
\<close>

section \<open>The inputs\<close>

record progression_inputs =
  category_mismatch :: int
  scope_drift :: int
  explicit_rollback :: int
  refusal_or_conflict :: int
  contradictory :: int
  contract_missing :: int
  contract_identity_conflict :: int
  unbounded_contract :: int
  missing_progression_metadata :: int
  contract_gating_required :: bool
  validation_failure :: int
  execution_failure :: int
  missing_artifacts :: int
  missing_signals :: int
  all_completed_and_passed :: bool
  is_dry_run :: bool
  run_status :: string
  in_retry_budget_remaining :: int
  in_prior_retry_class :: string
  in_missing_signal_count :: int

definition read_count :: "dict \<Rightarrow> string \<Rightarrow> int res" where
  "read_count d k = as_non_negative_int_signed 0 (get d k)"

definition normalize_progression_inputs :: "dict \<Rightarrow> dict \<Rightarrow> progression_inputs res" where
  "normalize_progression_inputs signals ctx =
     res_bind (read_count signals ''category_mismatch'') (\<lambda>category.
     res_bind (read_count signals ''scope_drift'') (\<lambda>drift.
     res_bind (read_count signals ''explicit_rollback'') (\<lambda>rollback.
     res_bind (read_count signals ''refusal_or_conflict'') (\<lambda>refusal.
     res_bind (read_count signals ''contradictory'') (\<lambda>contra.
     res_bind (read_count signals ''contract_missing'') (\<lambda>missing_contract.
     res_bind (read_count signals ''contract_identity_conflict'') (\<lambda>identity.
     res_bind (read_count signals ''unbounded_contract'') (\<lambda>unbounded.
     res_bind (read_count signals ''missing_progression_metadata'') (\<lambda>metadata.
     res_bind (read_count signals ''validation_failure'') (\<lambda>validation.
     res_bind (read_count signals ''execution_failure'') (\<lambda>execution.
     res_bind (read_count signals ''missing_artifacts'') (\<lambda>artifacts.
     res_bind (read_count signals ''missing_signals'') (\<lambda>msignals.
     res_bind (read_count ctx ''retry_budget_remaining'') (\<lambda>budget.
     res_bind (read_count ctx ''missing_signal_count'') (\<lambda>missing_count.
     Inr \<lparr>category_mismatch = category, scope_drift = drift, explicit_rollback = rollback,
          refusal_or_conflict = refusal, contradictory = contra,
          contract_missing = missing_contract, contract_identity_conflict = identity,
          unbounded_contract = unbounded, missing_progression_metadata = metadata,
          contract_gating_required =
            truthy (get_or signals ''contract_gating_required'' (PBool False)),
          validation_failure = validation, execution_failure = execution,
          missing_artifacts = artifacts, missing_signals = msignals,
          all_completed_and_passed =
            truthy (get_or signals ''all_completed_and_passed'' (PBool False)),
          is_dry_run = truthy (get_or signals ''is_dry_run'' (PBool False)),
          run_status = normalize_text [] (get signals ''run_status''),
          in_retry_budget_remaining = budget,
          in_prior_retry_class = normalize_text [] (get ctx ''prior_retry_class''),
          in_missing_signal_count = missing_count\<rparr>)))))))))))))))"

section \<open>The matrix\<close>

abbreviation "OUTCOME_REJECT_CURRENT_RESULT \<equiv> ''reject_current_result''"
abbreviation "OUTCOME_RETRY_WITH_SAME_PROMPT \<equiv> ''retry_with_same_prompt''"
abbreviation "OUTCOME_RETRY_WITH_REPAIR_PROMPT \<equiv> ''retry_with_repair_prompt''"
abbreviation "OUTCOME_PROCEED_TO_NEXT_STEP \<equiv> ''proceed_to_next_step''"
abbreviation "OUTCOME_CONSERVATIVE_ESCALATION \<equiv> ''conservative_escalation''"
abbreviation "RESULT_ACCEPTED \<equiv> ''accept_current_result''"
abbreviation "RESULT_REJECTED \<equiv> ''reject_current_result''"

record progression =
  pg_outcome :: string
  pg_next_action :: string
  pg_reason :: string
  pg_rule_id :: string
  pg_result_acceptance :: string

definition build_result :: "string \<Rightarrow> string \<Rightarrow> string \<Rightarrow> string \<Rightarrow> string \<Rightarrow> progression" where
  "build_result outcome action reason rule acceptance =
     \<lparr>pg_outcome = outcome, pg_next_action = action, pg_reason = reason, pg_rule_id = rule,
      pg_result_acceptance = acceptance\<rparr>"

definition progression_matrix :: "progression_inputs \<Rightarrow> progression" where
  "progression_matrix i =
     (let missing_total = missing_artifacts i + missing_signals i in
      if category_mismatch i > 0 then
        build_result OUTCOME_REJECT_CURRENT_RESULT ''roadmap_replan''
          ''tier/category mismatch detected against pr_plan intent''
          ''reject_category_mismatch'' RESULT_REJECTED
      else if scope_drift i > 0 then
        build_result OUTCOME_REJECT_CURRENT_RESULT ''prompt_recompile''
          ''scope drift detected against pr_plan touched_files''
          ''reject_scope_drift'' RESULT_REJECTED
      else if explicit_rollback i > 0 then
        build_result OUTCOME_REJECT_CURRENT_RESULT ''rollback_required''
          ''explicit rollback requirement signaled by normalized result''
          ''reject_explicit_rollback'' RESULT_REJECTED
      else if refusal_or_conflict i > 0 then
        build_result OUTCOME_CONSERVATIVE_ESCALATION ''escalate_to_human''
          ''explicit refusal/conflict signals require conservative escalation''
          ''escalate_refusal_or_conflict'' RESULT_REJECTED
      else if contradictory i > 0 then
        build_result OUTCOME_CONSERVATIVE_ESCALATION ''escalate_to_human''
          ''contradictory artifact identities detected''
          ''escalate_contradictory_artifacts'' RESULT_REJECTED
      else if contract_identity_conflict i > 0 then
        build_result OUTCOME_CONSERVATIVE_ESCALATION ''escalate_to_human''
          ''contract identity mismatch detected for bounded step or prompt contract''
          ''escalate_contract_identity_conflict'' RESULT_REJECTED
      else if contract_gating_required i \<and> contract_missing i > 0 then
        build_result OUTCOME_REJECT_CURRENT_RESULT ''signal_recollect''
          ''contract sidecar artifacts are required but missing''
          ''reject_missing_contract_artifacts'' RESULT_REJECTED
      else if contract_gating_required i \<and> missing_progression_metadata i > 0 then
        build_result OUTCOME_REJECT_CURRENT_RESULT ''signal_recollect''
          ''progression metadata missing from structured contracts''
          ''reject_missing_progression_metadata'' RESULT_REJECTED
      else if contract_gating_required i \<and> unbounded_contract i > 0 then
        build_result OUTCOME_REJECT_CURRENT_RESULT ''roadmap_replan''
          ''bounded planned-step contract is not explicitly bounded''
          ''reject_unbounded_step_contract'' RESULT_REJECTED
      else if validation_failure i > 0 \<and> in_retry_budget_remaining i \<le> 0 then
        build_result OUTCOME_CONSERVATIVE_ESCALATION ''escalate_to_human''
          ''validation failure with exhausted retry budget''
          ''escalate_validation_retry_budget_exhausted'' RESULT_REJECTED
      else if validation_failure i > 0 \<and> in_prior_retry_class i = ''repair_prompt_retry'' then
        build_result OUTCOME_CONSERVATIVE_ESCALATION ''escalate_to_human''
          ''repair_prompt_retry already attempted and failed''
          ''escalate_validation_retry_class_exhausted'' RESULT_REJECTED
      else if validation_failure i > 0 then
        build_result OUTCOME_RETRY_WITH_REPAIR_PROMPT ''repair_prompt_retry''
          ''validation/test failure after execution completion''
          ''retry_validation_with_repair_prompt'' RESULT_REJECTED
      else if execution_failure i > 0 \<and> in_retry_budget_remaining i \<le> 0 then
        build_result OUTCOME_CONSERVATIVE_ESCALATION ''escalate_to_human''
          ''execution failure with exhausted retry budget''
          ''escalate_execution_retry_budget_exhausted'' RESULT_REJECTED
      else if execution_failure i > 0 \<and> in_prior_retry_class i = ''same_prompt_retry'' then
        build_result OUTCOME_CONSERVATIVE_ESCALATION ''escalate_to_human''
          ''same_prompt_retry already attempted and failed''
          ''escalate_execution_retry_class_exhausted'' RESULT_REJECTED
      else if execution_failure i > 0 then
        build_result OUTCOME_RETRY_WITH_SAME_PROMPT ''same_prompt_retry''
          ''explicit execution/tool failure with valid planned scope''
          ''retry_execution_with_same_prompt'' RESULT_REJECTED
      else if missing_total > 0 \<and> in_missing_signal_count i \<ge> 2 then
        build_result OUTCOME_CONSERVATIVE_ESCALATION ''escalate_to_human''
          ''missing or incomplete execution signals observed repeatedly''
          ''escalate_missing_signal_repeated'' RESULT_REJECTED
      else if missing_total > 0 then
        build_result OUTCOME_REJECT_CURRENT_RESULT ''signal_recollect''
          ''missing or incomplete artifacts/signals require recollection''
          ''reject_missing_signal_once'' RESULT_REJECTED
      else if all_completed_and_passed i \<and> \<not> is_dry_run i then
        build_result OUTCOME_PROCEED_TO_NEXT_STEP ''proceed_to_pr''
          ''all units completed with passing verification signals''
          ''proceed_all_completed_and_verified'' RESULT_ACCEPTED
      else if is_dry_run i \<and> run_status i = ''dry_run_completed'' then
        build_result OUTCOME_REJECT_CURRENT_RESULT ''signal_recollect''
          ''dry_run_completed does not imply execution success''
          ''reject_dry_run_completed_without_execution'' RESULT_REJECTED
      else
        build_result OUTCOME_CONSERVATIVE_ESCALATION ''escalate_to_human''
          ''unable to derive a safe deterministic automated next action''
          ''escalate_unknown_or_ambiguous'' RESULT_REJECTED)"

definition evaluate_review_progression_outcome :: "dict \<Rightarrow> dict \<Rightarrow> progression res" where
  "evaluate_review_progression_outcome signals ctx =
     res_bind (normalize_progression_inputs signals ctx) (\<lambda>i. Inr (progression_matrix i))"

section \<open>Lemmas on the matrix\<close>

definition nothing_blocks :: "progression_inputs \<Rightarrow> bool" where
  "nothing_blocks i =
     (category_mismatch i \<le> 0 \<and> scope_drift i \<le> 0 \<and> explicit_rollback i \<le> 0 \<and>
      refusal_or_conflict i \<le> 0 \<and> contradictory i \<le> 0 \<and> contract_identity_conflict i \<le> 0 \<and>
      (contract_gating_required i \<longrightarrow>
         contract_missing i \<le> 0 \<and> missing_progression_metadata i \<le> 0 \<and> unbounded_contract i \<le> 0) \<and>
      validation_failure i \<le> 0 \<and> execution_failure i \<le> 0 \<and>
      missing_artifacts i + missing_signals i \<le> 0)"

lemma matrix_proceeds_iff:
  "pg_next_action (progression_matrix i) = ''proceed_to_pr'' \<longleftrightarrow>
     nothing_blocks i \<and> all_completed_and_passed i \<and> \<not> is_dry_run i"
  by (simp add: progression_matrix_def build_result_def Let_def nothing_blocks_def not_less)

lemma matrix_accepts_iff:
  "pg_result_acceptance (progression_matrix i) = RESULT_ACCEPTED \<longleftrightarrow>
     pg_next_action (progression_matrix i) = ''proceed_to_pr''"
  by (simp add: progression_matrix_def build_result_def Let_def)

lemma matrix_actions:
  "pg_next_action (progression_matrix i) \<in>
     {''roadmap_replan'', ''prompt_recompile'', ''rollback_required'', ''escalate_to_human'',
      ''signal_recollect'', ''repair_prompt_retry'', ''same_prompt_retry'', ''proceed_to_pr''}"
  by (simp add: progression_matrix_def build_result_def Let_def)

lemma matrix_repairs:
  "pg_next_action (progression_matrix i) = ''repair_prompt_retry'' \<longrightarrow>
     0 < validation_failure i \<and> 0 < in_retry_budget_remaining i \<and>
     in_prior_retry_class i \<noteq> ''repair_prompt_retry''"
  by (simp add: progression_matrix_def build_result_def Let_def not_le)

lemma matrix_same_prompt:
  "pg_next_action (progression_matrix i) = ''same_prompt_retry'' \<longrightarrow>
     0 < execution_failure i \<and> 0 < in_retry_budget_remaining i \<and>
     in_prior_retry_class i \<noteq> ''same_prompt_retry''"
  by (simp add: progression_matrix_def build_result_def Let_def not_le)

lemma matrix_retries:
  "pg_next_action (progression_matrix i) \<in> set allowed_retry_classes \<Longrightarrow>
     0 < in_retry_budget_remaining i \<and>
     in_prior_retry_class i \<noteq> pg_next_action (progression_matrix i)"
  using matrix_repairs [of i] matrix_same_prompt [of i] by (auto simp: allowed_retry_classes_def)

text \<open>Once a signal was missing twice in a row, a missing signal is escalated, not recollected.\<close>

lemma matrix_missing_twice:
  "2 \<le> in_missing_signal_count i \<Longrightarrow>
     pg_rule_id (progression_matrix i) \<noteq> ''reject_missing_signal_once''"
  by (simp add: progression_matrix_def build_result_def Let_def)

end
