(* ===== verification/Next_Action.thy ===== *)
theory Next_Action
  imports Review_Progression
begin

text \<open>
  \<open>automation/control/next_action_controller.py\<close>: the artefacts of a run (manifest, receipts,
  results, contracts, checkpoint decisions, plan) are condensed into signals, the decision
  matrix turns the signals and the retry context into the next action, and the run state of
  the orchestrator can still replace that action by a more conservative one.

  A unit, the manifest and the run state are the JSON objects the code reads. The file system
  is a map from path texts to a directory or the value a JSON file parses to.
\<close>

section \<open>Readers of the controller\<close>

definition allowed_next_actions :: "string list" where
  "allowed_next_actions =
     [''same_prompt_retry'', ''repair_prompt_retry'', ''signal_recollect'', ''wait_for_checks'',
      ''prompt_recompile'', ''roadmap_replan'', ''escalate_to_human'', ''proceed_to_pr'',
      ''proceed_to_merge'', ''rollback_required'']"

definition refusal_failure_types :: "string list" where
  "refusal_failure_types =
     [''auth_failure'', ''permission_denied'', ''forbidden'', ''api_failure'', ''unsupported_query'',
      ''precondition_changed'', ''conflict'', ''needs_human'', ''terminal_refusal'',
      ''requested_lane_conflict'', ''routing_conflict'', ''routing_refused'']"

definition refusal_message_tokens :: "string list" where
  "refusal_message_tokens =
     [''requested_lane_conflict'', ''lane_not_allowed'', ''routing_conflict'', ''routing_refused'',
      ''precondition_changed'', ''needs_human'', ''terminal refusal'', ''terminal_refusal'',
      ''permission denied'', ''forbidden'', ''auth_failure'']"

definition refusal_reason_fields :: "string list" where
  "refusal_reason_fields = [''refusal_reason'', ''routing_reason'', ''failure_reason'']"

definition checkpoint_conservative_decisions :: "string list" where
  "checkpoint_conservative_decisions =
     [''manual_review_required'', ''escalate'', ''global_stop_recommended'']"

text \<open>\<open>_normalize_string_list\<close>: the stripped texts of a list, the first of equal ones kept.\<close>

definition items_of :: "py \<Rightarrow> py list" where
  "items_of v = (case v of PList vs \<Rightarrow> vs | PTuple vs \<Rightarrow> vs | _ \<Rightarrow> [])"

definition normalize_string_list :: "bool \<Rightarrow> py \<Rightarrow> string list" where
  "normalize_string_list sort_items v =
     (let out = rev (remdups (rev (filter (\<lambda>t. t \<noteq> []) (map (\<lambda>i. strip (py_str i)) (items_of v)))))
      in if sort_items then sort out else out)"

definition text_of :: "dict \<Rightarrow> string \<Rightarrow> string" where
  "text_of d k = normalize_text [] (get d k)"

definition flag_of :: "dict \<Rightarrow> string \<Rightarrow> bool" where
  "flag_of d k = truthy (get_or d k (PBool False))"

definition has_refusal_or_conflict_surface ::
    "dict \<Rightarrow> dict \<Rightarrow> string \<Rightarrow> string \<Rightarrow> bool" where
  "has_refusal_or_conflict_surface result execution failure_type failure_message =
     (failure_type \<in> set refusal_failure_types \<or>
      contains_any failure_message refusal_message_tokens \<or>
      list_ex (\<lambda>field.
          contains_any (lower (text_of result field)) refusal_message_tokens \<or>
          contains_any (lower (text_of execution field)) refusal_message_tokens)
        refusal_reason_fields)"

section \<open>The plan and the contracts\<close>

text \<open>\<open>_build_pr_plan_index\<close>: the last entry of a plan wins for its \<open>pr_id\<close>.\<close>

definition build_pr_plan_index :: "dict \<Rightarrow> (string \<times> dict) list" where
  "build_pr_plan_index pr_plan =
     (case get pr_plan ''prs'' of
        PList raws \<Rightarrow>
          fold (\<lambda>raw index.
            case as_mapping raw of
              None \<Rightarrow> index
            | Some d \<Rightarrow> if text_of d ''pr_id'' = [] then index else put (text_of d ''pr_id'') d index)
            raws []
      | _ \<Rightarrow> [])"

definition contract_of :: "dict \<Rightarrow> string \<Rightarrow> dict option" where
  "contract_of unit k = as_mapping (get unit k)"

definition progression_metadata :: "dict option \<Rightarrow> dict" where
  "progression_metadata contract =
     (case contract of None \<Rightarrow> [] | Some d \<Rightarrow> mapping_or_empty (get d ''progression_metadata''))"

definition get_opt :: "dict option \<Rightarrow> string \<Rightarrow> py" where
  "get_opt d k = (case d of None \<Rightarrow> PNone | Some d \<Rightarrow> get d k)"

definition task_scope :: "dict \<Rightarrow> dict" where
  "task_scope unit =
     mapping_or_empty (get_opt (contract_of unit ''pr_implementation_prompt_contract'') ''task_scope'')"

definition expected_scope_files :: "dict \<Rightarrow> dict option \<Rightarrow> string list" where
  "expected_scope_files unit pr_plan_unit =
     (let bounded = contract_of unit ''bounded_step_contract'';
          prompt = contract_of unit ''pr_implementation_prompt_contract'';
          sources = [get (progression_metadata bounded) ''strict_scope_files'',
                     get_opt bounded ''scope_in'',
                     get (progression_metadata prompt) ''strict_scope_files'',
                     get (task_scope unit) ''scope_in'',
                     get_opt pr_plan_unit ''touched_files'']
      in case filter (\<lambda>xs. xs \<noteq> []) (map (normalize_string_list True) sources) of
           [] \<Rightarrow> [] | xs # _ \<Rightarrow> xs)"

definition expected_tier_category :: "dict \<Rightarrow> dict option \<Rightarrow> string" where
  "expected_tier_category unit pr_plan_unit =
     (let bounded = contract_of unit ''bounded_step_contract'';
          prompt = contract_of unit ''pr_implementation_prompt_contract'';
          candidates = [get (progression_metadata bounded) ''tier_category'',
                        get_opt bounded ''tier_category'',
                        get (progression_metadata prompt) ''tier_category'',
                        get (task_scope unit) ''tier_category'',
                        get_opt pr_plan_unit ''tier_category'']
      in case filter (\<lambda>t. t \<noteq> []) (map (normalize_text []) candidates) of
           [] \<Rightarrow> [] | t # _ \<Rightarrow> t)"

definition identity_conflict :: "string \<Rightarrow> dict option \<Rightarrow> string \<Rightarrow> bool" where
  "identity_conflict pr_id contract id_key =
     (case contract of
        None \<Rightarrow> False
      | Some d \<Rightarrow>
          (let step = text_of d id_key;
               planned = text_of (progression_metadata contract) ''planned_step_id''
           in step \<noteq> [] \<and> step \<noteq> pr_id \<or> planned \<noteq> [] \<and> planned \<noteq> pr_id))"

definition has_contract_identity_mismatch :: "dict \<Rightarrow> bool" where
  "has_contract_identity_mismatch unit =
     (let pr_id = text_of unit ''pr_id'' in
      pr_id = [] \<or>
      identity_conflict pr_id (contract_of unit ''bounded_step_contract'') ''step_id'' \<or>
      identity_conflict pr_id (contract_of unit ''pr_implementation_prompt_contract'')
        ''source_step_id'')"

definition has_contract_progression_metadata :: "dict \<Rightarrow> bool" where
  "has_contract_progression_metadata unit =
     (progression_metadata (contract_of unit ''bounded_step_contract'') \<noteq> [] \<and>
      progression_metadata (contract_of unit ''pr_implementation_prompt_contract'') \<noteq> [])"

definition is_bounded_contract_ready :: "dict \<Rightarrow> bool" where
  "is_bounded_contract_ready unit =
     (case contract_of unit ''bounded_step_contract'' of
        None \<Rightarrow> False
      | Some d \<Rightarrow> text_of (mapping_or_empty (get d ''boundedness'')) ''status'' = ''bounded'')"

definition uses_contract_sidecars :: "dict \<Rightarrow> bool" where
  "uses_contract_sidecars unit =
     (text_of unit ''bounded_step_contract_path'' \<noteq> [] \<or>
      text_of unit ''pr_implementation_prompt_contract_path'' \<noteq> [] \<or>
      contract_of unit ''bounded_step_contract'' \<noteq> None \<or>
      contract_of unit ''pr_implementation_prompt_contract'' \<noteq> None)"

definition checkpoint_requires_conservative_stop :: "dict \<Rightarrow> bool" where
  "checkpoint_requires_conservative_stop unit =
     (case as_mapping (get unit ''checkpoint_decision'') of
        None \<Rightarrow> False
      | Some c \<Rightarrow> text_of c ''decision'' \<in> set checkpoint_conservative_decisions \<or>
                 flag_of c ''global_stop_recommended'')"

definition is_scope_drift :: "dict \<Rightarrow> dict option \<Rightarrow> bool" where
  "is_scope_drift unit pr_plan_unit =
     (case as_mapping (get unit ''result'') of
        None \<Rightarrow> False
      | Some r \<Rightarrow>
          (let changed = normalize_string_list True (get r ''changed_files'');
               planned = expected_scope_files unit pr_plan_unit
           in changed \<noteq> [] \<and> planned \<noteq> [] \<and> list_ex (\<lambda>p. p \<notin> set planned) changed))"

definition is_category_mismatch :: "dict \<Rightarrow> dict option \<Rightarrow> bool" where
  "is_category_mismatch unit pr_plan_unit =
     (let expected = expected_tier_category unit pr_plan_unit;
          differs = (\<lambda>d. text_of d ''tier_category'' \<noteq> [] \<and> text_of d ''tier_category'' \<noteq> expected)
      in expected \<noteq> [] \<and>
         ((case as_mapping (get unit ''receipt'') of None \<Rightarrow> False | Some d \<Rightarrow> differs d) \<or>
          (case as_mapping (get unit ''result'') of
             None \<Rightarrow> False
           | Some d \<Rightarrow>
               differs d \<or> text_of d ''failure_type'' = ''category_mismatch'' \<or>
               contains (lower (text_of d ''failure_message'')) ''category mismatch'' \<or>
               contains (lower (text_of d ''failure_message'')) ''tier mismatch'')))"

section \<open>The signals of a run\<close>

record run_signals =
  rs_missing_artifacts :: int
  rs_contradictory :: int
  rs_execution_failure :: int
  rs_validation_failure :: int
  rs_missing_signals :: int
  rs_explicit_rollback :: int
  rs_refusal_or_conflict :: int
  rs_all_completed_and_passed :: bool
  rs_observed_attempt_count :: int
  rs_scope_drift :: int
  rs_category_mismatch :: int
  rs_contract_missing :: int
  rs_contract_identity_conflict :: int
  rs_unbounded_contract :: int
  rs_missing_progression_metadata :: int

definition no_signals :: run_signals where
  "no_signals =
     \<lparr>rs_missing_artifacts = 0, rs_contradictory = 0, rs_execution_failure = 0,
      rs_validation_failure = 0, rs_missing_signals = 0, rs_explicit_rollback = 0,
      rs_refusal_or_conflict = 0, rs_all_completed_and_passed = True,
      rs_observed_attempt_count = 0, rs_scope_drift = 0, rs_category_mismatch = 0,
      rs_contract_missing = 0, rs_contract_identity_conflict = 0, rs_unbounded_contract = 0,
      rs_missing_progression_metadata = 0\<rparr>"

definition bump :: "bool \<Rightarrow> int \<Rightarrow> int" where
  "bump b n = (if b then n + 1 else n)"

text \<open>The part of the loop body before the result is needed.\<close>

definition collect_artifacts ::
    "bool \<Rightarrow> (string \<times> dict) list \<Rightarrow> dict \<Rightarrow> run_signals \<Rightarrow> run_signals" where
  "collect_artifacts gating index unit s =
     (let pr_id = text_of unit ''pr_id'';
          receipt = as_mapping (get unit ''receipt'');
          result = as_mapping (get unit ''result'');
          bounded = contract_of unit ''bounded_step_contract'';
          prompt = contract_of unit ''pr_implementation_prompt_contract'';
          foreign = (\<lambda>p. case p of None \<Rightarrow> False
                         | Some d \<Rightarrow> text_of d ''pr_id'' \<noteq> [] \<and> text_of d ''pr_id'' \<noteq> pr_id);
          mismatch = gating \<and> has_contract_identity_mismatch unit;
          no_metadata = gating \<and> \<not> has_contract_progression_metadata unit;
          not_bounded = gating \<and> \<not> is_bounded_contract_ready unit;
          rollback = text_of (mapping_or_empty (get unit ''checkpoint_decision'')) ''decision'' =
                       ''rollback_evaluation_ready'';
          stop = checkpoint_requires_conservative_stop unit
      in s\<lparr>rs_missing_artifacts := bump (result = None) (bump (receipt = None) (rs_missing_artifacts s)),
           rs_contract_missing :=
             bump (gating \<and> prompt = None) (bump (gating \<and> bounded = None) (rs_contract_missing s)),
           rs_contradictory := bump (foreign result) (bump (foreign receipt) (rs_contradictory s)),
           rs_contract_identity_conflict := bump mismatch (rs_contract_identity_conflict s),
           rs_missing_progression_metadata := bump no_metadata (rs_missing_progression_metadata s),
           rs_unbounded_contract := bump not_bounded (rs_unbounded_contract s),
           rs_scope_drift := bump (is_scope_drift unit (map_of index pr_id)) (rs_scope_drift s),
           rs_category_mismatch :=
             bump (is_category_mismatch unit (map_of index pr_id)) (rs_category_mismatch s),
           rs_explicit_rollback := bump rollback (rs_explicit_rollback s),
           rs_refusal_or_conflict := bump stop (rs_refusal_or_conflict s),
           rs_all_completed_and_passed := (rs_all_completed_and_passed s \<and>
             \<not> mismatch \<and> \<not> no_metadata \<and> \<not> not_bounded \<and> \<not> rollback \<and> \<not> stop)\<rparr>)"

text \<open>The part that reads the result; only \<open>attempt_count\<close> can raise.\<close>

definition collect_result :: "dict \<Rightarrow> run_signals \<Rightarrow> run_signals res" where
  "collect_result result s =
     (let execution = mapping_or_empty (get result ''execution'');
          status = text_of execution ''status'';
          verify_status = text_of (mapping_or_empty (get execution ''verify'')) ''status'';
          failure_type = text_of result ''failure_type'';
          failure_message = lower (text_of result ''failure_message'');
          refused = has_refusal_or_conflict_surface result execution failure_type failure_message;
          exec_failed = status \<in> {''failed'', ''timed_out''} \<or> failure_type = ''execution_failure'';
          exec_missing = \<not> exec_failed \<and> status \<in> {''not_started'', ''running'', []};
          ver_failed = verify_status = ''failed'' \<or> failure_type = ''evaluation_failure'';
          ver_missing = \<not> ver_failed \<and> verify_status \<in> {''not_run'', []}
      in res_bind (as_non_negative_int 0 (get execution ''attempt_count'')) (\<lambda>attempts.
         Inr (s\<lparr>rs_observed_attempt_count := max (rs_observed_attempt_count s) attempts,
                rs_explicit_rollback :=
                  bump (failure_type = ''rollback_required'') (rs_explicit_rollback s),
                rs_refusal_or_conflict := bump refused (rs_refusal_or_conflict s),
                rs_execution_failure := bump exec_failed (rs_execution_failure s),
                rs_validation_failure := bump ver_failed (rs_validation_failure s),
                rs_missing_signals := bump ver_missing (bump exec_missing (rs_missing_signals s)),
                rs_all_completed_and_passed := (rs_all_completed_and_passed s \<and> \<not> refused \<and>
                  \<not> exec_failed \<and> \<not> exec_missing \<and> \<not> ver_failed \<and> \<not> ver_missing \<and>
                  verify_status = ''passed'')\<rparr>)))"

definition collect_unit ::
    "bool \<Rightarrow> (string \<times> dict) list \<Rightarrow> dict \<Rightarrow> run_signals \<Rightarrow> run_signals res" where
  "collect_unit gating index unit s =
     (let s1 = collect_artifacts gating index unit s in
      case as_mapping (get unit ''result'') of
        None \<Rightarrow> Inr (s1\<lparr>rs_all_completed_and_passed := False\<rparr>)
      | Some result \<Rightarrow> collect_result result s1)"

fun collect_units ::
    "bool \<Rightarrow> (string \<times> dict) list \<Rightarrow> dict list \<Rightarrow> run_signals \<Rightarrow> run_signals res" where
  "collect_units gating index [] s = Inr s"
| "collect_units gating index (u # us) s =
     res_bind (collect_unit gating index u s) (\<lambda>s'. collect_units gating index us s')"

text \<open>\<open>_collect_run_signals\<close>: the signals as the dictionary the matrix reads.\<close>

definition signals_dict :: "run_signals \<Rightarrow> bool \<Rightarrow> bool \<Rightarrow> string \<Rightarrow> dict" where
  "signals_dict s gating dry status =
     [(''missing_artifacts'', PInt (rs_missing_artifacts s)),
      (''contradictory'', PInt (rs_contradictory s)),
      (''execution_failure'', PInt (rs_execution_failure s)),
      (''validation_failure'', PInt (rs_validation_failure s)),
      (''missing_signals'', PInt (rs_missing_signals s)),
      (''explicit_rollback'', PInt (rs_explicit_rollback s)),
      (''refusal_or_conflict'', PInt (rs_refusal_or_conflict s)),
      (''all_completed_and_passed'', PBool (rs_all_completed_and_passed s)),
      (''observed_attempt_count'', PInt (rs_observed_attempt_count s)),
      (''scope_drift'', PInt (rs_scope_drift s)),
      (''category_mismatch'', PInt (rs_category_mismatch s)),
      (''contract_missing'', PInt (rs_contract_missing s)),
      (''contract_identity_conflict'', PInt (rs_contract_identity_conflict s)),
      (''unbounded_contract'', PInt (rs_unbounded_contract s)),
      (''missing_progression_metadata'', PInt (rs_missing_progression_metadata s)),
      (''contract_gating_required'', PBool gating),
      (''is_dry_run'', PBool dry),
      (''run_status'', PStr status)]"

definition collect_run_signals :: "dict \<Rightarrow> dict list \<Rightarrow> (string \<times> dict) list \<Rightarrow> dict res" where
  "collect_run_signals manifest units index =
     (let gating = list_ex uses_contract_sidecars units;
          status = text_of manifest ''run_status'';
          dry = flag_of manifest ''dry_run'' \<or> starts_with status ''dry_run''
      in res_bind (collect_units gating index units no_signals)
           (\<lambda>s. Inr (signals_dict s gating dry status)))"

section \<open>The decision\<close>

record decision =
  dc_next_action :: string
  dc_reason :: string
  dc_progression_outcome :: string
  dc_result_acceptance :: string
  dc_progression_rule_id :: string
  dc_retry_budget_remaining :: int
  dc_whether_human_required :: bool
  dc_updated_retry_context :: retry_context

definition evaluate_next_action ::
    "dict \<Rightarrow> dict list \<Rightarrow> py \<Rightarrow> py \<Rightarrow> py \<Rightarrow> decision res" where
  "evaluate_next_action manifest units ctx policy_snapshot pr_plan =
     (let index = build_pr_plan_index (mapping_or_empty pr_plan) in
      res_bind (normalize_retry_context ctx policy_snapshot) (\<lambda>retry_ctx.
      res_bind (collect_run_signals manifest units index) (\<lambda>signals.
      res_bind (evaluate_review_progression_outcome signals (retry_context_dict retry_ctx)) (\<lambda>pg.
      (let action = normalize_text [] (PStr (pg_next_action pg)) in
       if action \<notin> set allowed_next_actions
       then Inl (ValueError (''unsupported next_action computed: '' @ action))
       else
         res_bind (as_non_negative_int 0 (get signals ''observed_attempt_count'')) (\<lambda>observed.
         res_bind (update_retry_context (retry_context_dict retry_ctx) action observed) (\<lambda>updated.
         res_bind (as_non_negative_int 0 (get (retry_context_dict updated) ''retry_budget_remaining''))
           (\<lambda>budget.
         Inr \<lparr>dc_next_action = action,
              dc_reason = normalize_text [] (PStr (pg_reason pg)),
              dc_progression_outcome = normalize_text [] (PStr (pg_outcome pg)),
              dc_result_acceptance = normalize_text [] (PStr (pg_result_acceptance pg)),
              dc_progression_rule_id = normalize_text [] (PStr (pg_rule_id pg)),
              dc_retry_budget_remaining = budget,
              dc_whether_human_required = action \<in> {''escalate_to_human'', ''rollback_required''},
              dc_updated_retry_context = updated\<rparr>))))))))"

section \<open>The run-state guardrail\<close>

text \<open>
  \<open>_apply_run_state_guardrail\<close>: what \<open>run_state.json\<close> says can replace the action of a decision.
  Each branch writes the same five entries.
\<close>

definition divert :: "decision \<Rightarrow> string \<Rightarrow> string \<Rightarrow> string \<Rightarrow> string \<Rightarrow> decision" where
  "divert d action reason outcome rule =
     d\<lparr>dc_next_action := action, dc_reason := reason, dc_progression_outcome := outcome,
       dc_result_acceptance := ''reject_current_result'', dc_progression_rule_id := rule\<rparr>"

definition reason_tail :: "string \<Rightarrow> string" where
  "reason_tail r = (if r \<noteq> [] then '' ('' @ r @ '')'' else [])"

definition execution_intents :: "string list" where
  "execution_intents =
     [''proceed_to_commit'', ''proceed_to_pr'', ''proceed_to_merge'', ''proceed_to_rollback'',
      ''rollback_required'']"

definition texts_of :: "dict \<Rightarrow> string \<Rightarrow> string list" where
  "texts_of d k =
     (case get d k of
        PList vs \<Rightarrow> filter (\<lambda>t. t \<noteq> []) (map (normalize_text []) vs)
      | _ \<Rightarrow> [])"

definition policy_surface_keys :: "string list" where
  "policy_surface_keys =
     [''policy_status'', ''policy_blocked'', ''policy_manual_required'', ''policy_replan_required'',
      ''policy_terminal'']"

definition policy_guardrail :: "decision \<Rightarrow> string \<Rightarrow> dict \<Rightarrow> decision" where
  "policy_guardrail d current run_state =
     (let reasons = texts_of run_state ''policy_blocked_reasons'';
          blocked_reason = text_of run_state ''policy_blocked_reason'';
          tail = reason_tail (if blocked_reason \<noteq> [] then blocked_reason
                              else case reasons of r # _ \<Rightarrow> r | [] \<Rightarrow> []);
          status = text_of run_state ''policy_status'';
          escalate = (\<lambda>msg rule. divert d ''escalate_to_human''
            (''run_state_policy_guardrail: '' @ msg @ tail) ''conservative_escalation''
            (''run_state_policy_guardrail_'' @ rule))
      in if flag_of run_state ''policy_terminal'' then
           escalate ''terminal policy state denies execution-intent continuation'' ''terminal''
         else if flag_of run_state ''policy_replan_required'' then
           divert d ''roadmap_replan''
             (''run_state_policy_guardrail: policy requires replanning before execution-intent continuation'' @ tail)
             ''conservative_escalation'' ''run_state_policy_guardrail_replan_required''
         else if status = ''manual_only'' \<or> flag_of run_state ''policy_manual_required'' then
           escalate ''policy classified state as manual-only for execution-intent actions''
             ''manual_only''
         else if current \<in> set (texts_of run_state ''policy_disallowed_actions'') then
           escalate ''policy disallowed current execution-intent action'' ''action_disallowed''
         else if flag_of run_state ''policy_blocked'' then
           escalate ''policy blocked execution-intent continuation'' ''blocked''
         else if status = ''resume_eligible'' \<and> \<not> flag_of run_state ''policy_resume_allowed'' then
           escalate ''policy marked state non-resumable for execution-intent continuation''
             ''resume_denied''
         else d)"

definition any_flag :: "dict \<Rightarrow> string list \<Rightarrow> bool" where
  "any_flag d ks = list_ex (flag_of d) ks"

definition global_stop :: "dict \<Rightarrow> bool" where
  "global_stop run_state = any_flag run_state [''global_stop_recommended'', ''global_stop'']"

definition rollback_pending :: "dict \<Rightarrow> bool" where
  "rollback_pending run_state =
     (flag_of run_state ''rollback_evaluation_pending'' \<or>
      text_of run_state ''next_run_action'' = ''evaluate_rollback'')"

definition authority_blocked :: "dict \<Rightarrow> bool" where
  "authority_blocked run_state = any_flag run_state
     [''authority_validation_blocked'', ''execution_authority_blocked'', ''validation_blocked'']"

definition remote_blocked :: "dict \<Rightarrow> bool" where
  "remote_blocked run_state = any_flag run_state
     [''remote_github_blocked'', ''remote_github_manual_required'',
      ''remote_github_missing_or_ambiguous'']"

definition aftermath_blocked :: "dict \<Rightarrow> bool" where
  "aftermath_blocked run_state = any_flag run_state
     [''rollback_aftermath_blocked'', ''rollback_aftermath_manual_required'',
      ''rollback_aftermath_missing_or_ambiguous'', ''rollback_validation_failed'',
      ''rollback_remote_followup_required'', ''rollback_manual_followup_required'']"

definition loop_blocked :: "dict \<Rightarrow> bool" where
  "loop_blocked run_state =
     (text_of run_state ''next_safe_action'' \<in>
        {''require_manual_intervention'', ''require_replanning'', ''stop_terminal_failure''} \<or>
      any_flag run_state
        [''terminal'', ''loop_manual_intervention_required'', ''loop_replan_required''])"

definition guarded_decision :: "decision \<Rightarrow> dict \<Rightarrow> decision" where
  "guarded_decision d run_state =
     (let current = normalize_text [] (PStr (dc_next_action d));
          intent = current \<in> set execution_intents;
          safe = text_of run_state ''next_safe_action'';
          escalate = (\<lambda>msg key rule. divert d ''escalate_to_human''
            (''run_state_guardrail: '' @ msg @ reason_tail (text_of run_state key))
            ''conservative_escalation'' (''run_state_guardrail_'' @ rule))
      in if intent \<and> list_ex (has_key run_state) policy_surface_keys \<and>
            current \<notin> {''escalate_to_human'', ''roadmap_replan'', ''rollback_required''}
         then policy_guardrail d current run_state
         else if global_stop run_state \<and> current \<notin> {''escalate_to_human'', ''rollback_required''}
         then divert d ''escalate_to_human''
           ''run_state_guardrail: global stop recommended by orchestration state''
           ''conservative_escalation'' ''run_state_guardrail_global_stop''
         else if rollback_pending run_state \<and> current \<notin> {''rollback_required'', ''escalate_to_human''}
         then divert d ''rollback_required''
           ''run_state_guardrail: rollback evaluation pending at run level''
           ''reject_current_result'' ''run_state_guardrail_rollback_pending''
         else if safe = ''execute_rollback'' \<and> current \<notin> {''rollback_required'', ''escalate_to_human''}
         then divert d ''rollback_required''
           ''run_state_guardrail: loop selected rollback as next safe action''
           ''reject_current_result'' ''run_state_guardrail_loop_rollback''
         else if intent \<and> authority_blocked run_state \<and>
                 current \<notin> {''escalate_to_human'', ''rollback_required''}
         then escalate ''execution authority/validation gate blocked automatic continuation''
           ''authority_validation_blocked_reason'' ''authority_validation_blocked''
         else if intent \<and> remote_blocked run_state \<and>
                 current \<notin> {''escalate_to_human'', ''rollback_required''}
         then escalate ''remote/github delivery truth blocked automatic continuation''
           ''remote_github_blocked_reason'' ''remote_github_blocked''
         else if intent \<and> aftermath_blocked run_state \<and>
                 current \<notin> {''escalate_to_human'', ''rollback_required''}
         then escalate
           ''rollback aftermath truth is not safely closed for automatic continuation''
           ''rollback_aftermath_blocked_reason'' ''rollback_aftermath_blocked''
         else if intent \<and> loop_blocked run_state \<and>
                 current \<notin> {''escalate_to_human'', ''rollback_required''}
         then escalate
           (''loop state requires conservative operator gate via '' @
            (if safe \<noteq> [] then safe else ''pause''))
           ''loop_blocked_reason'' ''loop_manual_or_blocked''
         else d)"

definition apply_run_state_guardrail :: "decision \<Rightarrow> dict \<Rightarrow> decision" where
  "apply_run_state_guardrail d run_state =
     (let n = guarded_decision d run_state
      in n\<lparr>dc_whether_human_required :=
             (normalize_text [] (PStr (dc_next_action n)) \<in> {''escalate_to_human'', ''rollback_required''})\<rparr>)"

section \<open>The signals of accepted units\<close>

lemma bump_nonneg [simp]: "0 \<le> n \<Longrightarrow> 0 \<le> bump b n"
  by (simp add: bump_def)

lemma bump_eq_0 [simp]: "0 \<le> n \<Longrightarrow> bump b n = 0 \<longleftrightarrow> \<not> b \<and> n = 0"
  by (simp add: bump_def)

definition counts_ok :: "run_signals \<Rightarrow> bool" where
  "counts_ok s =
     (0 \<le> rs_missing_artifacts s \<and> 0 \<le> rs_contradictory s \<and> 0 \<le> rs_execution_failure s \<and>
      0 \<le> rs_validation_failure s \<and> 0 \<le> rs_missing_signals s \<and> 0 \<le> rs_explicit_rollback s \<and>
      0 \<le> rs_refusal_or_conflict s \<and> 0 \<le> rs_observed_attempt_count s \<and> 0 \<le> rs_scope_drift s \<and>
      0 \<le> rs_category_mismatch s \<and> 0 \<le> rs_contract_missing s \<and>
      0 \<le> rs_contract_identity_conflict s \<and> 0 \<le> rs_unbounded_contract s \<and>
      0 \<le> rs_missing_progression_metadata s)"

definition quiet :: "run_signals \<Rightarrow> bool" where
  "quiet s =
     (rs_missing_artifacts s = 0 \<and> rs_contradictory s = 0 \<and> rs_execution_failure s = 0 \<and>
      rs_validation_failure s = 0 \<and> rs_missing_signals s = 0 \<and> rs_explicit_rollback s = 0 \<and>
      rs_refusal_or_conflict s = 0 \<and> rs_scope_drift s = 0 \<and>
      rs_category_mismatch s = 0 \<and> rs_contract_missing s = 0 \<and>
      rs_contract_identity_conflict s = 0 \<and> rs_unbounded_contract s = 0 \<and>
      rs_missing_progression_metadata s = 0 \<and> rs_all_completed_and_passed s)"

text \<open>What the controller asks of a unit before it proceeds.\<close>

definition own_pr :: "string \<Rightarrow> dict \<Rightarrow> bool" where
  "own_pr pr_id d = (text_of d ''pr_id'' \<in> {[], pr_id})"

definition contracts_accepted :: "dict \<Rightarrow> bool" where
  "contracts_accepted u =
     (contract_of u ''bounded_step_contract'' \<noteq> None \<and>
      contract_of u ''pr_implementation_prompt_contract'' \<noteq> None \<and>
      \<not> has_contract_identity_mismatch u \<and> has_contract_progression_metadata u \<and>
      is_bounded_contract_ready u)"

definition result_accepted :: "dict \<Rightarrow> bool" where
  "result_accepted r =
     (let execution = mapping_or_empty (get r ''execution'');
          failure_type = text_of r ''failure_type''
      in text_of (mapping_or_empty (get execution ''verify'')) ''status'' = ''passed'' \<and>
         text_of execution ''status'' \<notin> {''failed'', ''timed_out'', ''not_started'', ''running'', []} \<and>
         failure_type \<notin> {''execution_failure'', ''evaluation_failure'', ''rollback_required''} \<and>
         \<not> has_refusal_or_conflict_surface r execution failure_type
             (lower (text_of r ''failure_message'')))"

definition artifacts_accepted :: "bool \<Rightarrow> (string \<times> dict) list \<Rightarrow> dict \<Rightarrow> bool" where
  "artifacts_accepted gating index u =
     (let pr_id = text_of u ''pr_id'' in
      (case as_mapping (get u ''receipt'') of None \<Rightarrow> False | Some d \<Rightarrow> own_pr pr_id d) \<and>
      (case as_mapping (get u ''result'') of None \<Rightarrow> False | Some r \<Rightarrow> own_pr pr_id r) \<and>
      \<not> is_scope_drift u (map_of index pr_id) \<and> \<not> is_category_mismatch u (map_of index pr_id) \<and>
      text_of (mapping_or_empty (get u ''checkpoint_decision'')) ''decision'' \<noteq>
        ''rollback_evaluation_ready'' \<and>
      \<not> checkpoint_requires_conservative_stop u \<and>
      (gating \<longrightarrow> contracts_accepted u))"

definition unit_accepted :: "bool \<Rightarrow> (string \<times> dict) list \<Rightarrow> dict \<Rightarrow> bool" where
  "unit_accepted gating index u =
     (artifacts_accepted gating index u \<and>
      (case as_mapping (get u ''result'') of None \<Rightarrow> False | Some r \<Rightarrow> result_accepted r))"

lemma collect_artifacts_ok [simp]: "counts_ok s \<Longrightarrow> counts_ok (collect_artifacts g index u s)"
  by (simp add: counts_ok_def collect_artifacts_def Let_def)

lemma collect_result_ok: "counts_ok s \<Longrightarrow> collect_result r s = Inr s' \<Longrightarrow> counts_ok s'"
  by (auto simp: counts_ok_def collect_result_def Let_def res_bind_eq_Inr)

lemma collect_unit_ok: "counts_ok s \<Longrightarrow> collect_unit g index u s = Inr s' \<Longrightarrow> counts_ok s'"
proof -
  assume ok: "counts_ok s" and step: "collect_unit g index u s = Inr s'"
  show ?thesis
  proof (cases "as_mapping (get u ''result'')")
    case None
    with step have "s' = (collect_artifacts g index u s)\<lparr>rs_all_completed_and_passed := False\<rparr>"
      by (simp add: collect_unit_def)
    then show ?thesis using collect_artifacts_ok [OF ok, of g index u] by (simp add: counts_ok_def)
  next
    case (Some r)
    with step show ?thesis by (auto simp: collect_unit_def dest: collect_result_ok [OF collect_artifacts_ok [OF ok]])
  qed
qed

lemma collect_units_ok: "counts_ok s \<Longrightarrow> collect_units g index us s = Inr s' \<Longrightarrow> counts_ok s'"
  by (induction us arbitrary: s) (auto simp: res_bind_eq_Inr intro: collect_unit_ok)

lemma quiet_result_update:
  assumes "counts_ok s"
  shows "quiet (s\<lparr>rs_observed_attempt_count := n,
        rs_explicit_rollback := bump rollback (rs_explicit_rollback s),
        rs_refusal_or_conflict := bump refused (rs_refusal_or_conflict s),
        rs_execution_failure := bump ef (rs_execution_failure s),
        rs_validation_failure := bump vf (rs_validation_failure s),
        rs_missing_signals := bump vm (bump em (rs_missing_signals s)),
        rs_all_completed_and_passed := (rs_all_completed_and_passed s \<and> all)\<rparr>) \<longleftrightarrow>
     quiet s \<and> \<not> rollback \<and> \<not> refused \<and> \<not> ef \<and> \<not> vf \<and> \<not> vm \<and> \<not> em \<and> all"
proof -
  have nonneg: "0 \<le> rs_explicit_rollback s" "0 \<le> rs_refusal_or_conflict s"
    "0 \<le> rs_execution_failure s" "0 \<le> rs_validation_failure s" "0 \<le> rs_missing_signals s"
    using assms by (simp_all add: counts_ok_def)
  show ?thesis by (simp add: quiet_def nonneg) blast
qed

lemma collect_result_quiet:
  assumes "counts_ok s" "collect_result r s = Inr s'"
  shows "quiet s' \<longleftrightarrow> quiet s \<and> result_accepted r"
proof (cases "as_non_negative_int 0 (get (mapping_or_empty (get r ''execution'')) ''attempt_count'')")
  case (Inl e)
  with assms(2) show ?thesis by (simp add: collect_result_def Let_def)
next
  case (Inr n)
  from assms(2) show ?thesis
    unfolding collect_result_def Let_def Inr res_bind_Inr sum.inject result_accepted_def
    apply (rule subst)
    apply (unfold quiet_result_update [OF assms(1)])
    apply (rule arg_cong [where f = "\<lambda>p. quiet s \<and> p"])
    apply (cases "text_of (mapping_or_empty (get (mapping_or_empty (get r ''execution'')) ''verify'')) ''status'' = ''passed''")
    apply simp
    apply blast
    apply simp
    done
qed

lemma collect_artifacts_quiet:
  assumes "counts_ok s"
  shows "quiet (collect_artifacts g index u s) \<longleftrightarrow> quiet s \<and> artifacts_accepted g index u"
  using assms
  by (auto simp: counts_ok_def collect_artifacts_def Let_def quiet_def artifacts_accepted_def own_pr_def
      contracts_accepted_def split: option.splits)


lemma collect_unit_quiet:
  assumes ok: "counts_ok s" and step: "collect_unit g index u s = Inr s'"
  shows "quiet s' \<longleftrightarrow> quiet s \<and> unit_accepted g index u"
proof (cases "as_mapping (get u ''result'')")
  case None
  with step have "s' = (collect_artifacts g index u s)\<lparr>rs_all_completed_and_passed := False\<rparr>"
    by (simp add: collect_unit_def)
  with None show ?thesis by (simp add: quiet_def unit_accepted_def)
next
  case (Some r)
  with step have "collect_result r (collect_artifacts g index u s) = Inr s'"
    by (simp add: collect_unit_def)
  from collect_result_quiet [OF collect_artifacts_ok [OF ok] this] Some show ?thesis
    by (simp add: collect_artifacts_quiet [OF ok] unit_accepted_def)
qed

lemma collect_units_quiet:
  "counts_ok s \<Longrightarrow> collect_units g index us s = Inr s' \<Longrightarrow>
     quiet s' \<longleftrightarrow> quiet s \<and> list_all (unit_accepted g index) us"
proof (induction us arbitrary: s)
  case (Cons u us)
  from Cons.prems(2) obtain s1 where s1: "collect_unit g index u s = Inr s1"
    "collect_units g index us s1 = Inr s'"
    by (auto simp: res_bind_eq_Inr)
  from Cons.IH [OF collect_unit_ok [OF Cons.prems(1) s1(1)] s1(2)]
    collect_unit_quiet [OF Cons.prems(1) s1(1)]
  show ?case by auto
qed simp

lemma no_signals_ok [simp]: "counts_ok no_signals" "quiet no_signals"
  by (simp_all add: no_signals_def counts_ok_def quiet_def)

text \<open>What the matrix reads back from the signals and the context.\<close>

definition inputs_of :: "run_signals \<Rightarrow> bool \<Rightarrow> bool \<Rightarrow> string \<Rightarrow> retry_context \<Rightarrow> progression_inputs" where
  "inputs_of s gating dry status c =
     \<lparr>category_mismatch = rs_category_mismatch s, scope_drift = rs_scope_drift s,
      explicit_rollback = rs_explicit_rollback s, refusal_or_conflict = rs_refusal_or_conflict s,
      contradictory = rs_contradictory s, contract_missing = rs_contract_missing s,
      contract_identity_conflict = rs_contract_identity_conflict s,
      unbounded_contract = rs_unbounded_contract s,
      missing_progression_metadata = rs_missing_progression_metadata s,
      contract_gating_required = gating, validation_failure = rs_validation_failure s,
      execution_failure = rs_execution_failure s, missing_artifacts = rs_missing_artifacts s,
      missing_signals = rs_missing_signals s,
      all_completed_and_passed = rs_all_completed_and_passed s, is_dry_run = dry,
      run_status = strip status, in_retry_budget_remaining = retry_budget_remaining c,
      in_prior_retry_class = (case prior_retry_class c of None \<Rightarrow> [] | Some t \<Rightarrow> t),
      in_missing_signal_count = missing_signal_count c\<rparr>"

lemma prior_class_text:
  "context_ok c \<Longrightarrow> normalize_text [] (opt_str (prior_retry_class c)) =
     (case prior_retry_class c of None \<Rightarrow> [] | Some t \<Rightarrow> t)"
  by (cases "prior_retry_class c") (simp_all add: context_ok_def)

lemma read_count_signals [simp]:
  "get d k = PInt i \<Longrightarrow> 0 \<le> i \<Longrightarrow> read_count d k = Inr i"
  by (simp add: read_count_def)

lemma normalize_signals:
  assumes "counts_ok s" "context_ok c"
  shows "normalize_progression_inputs (signals_dict s gating dry status) (retry_context_dict c) =
    Inr (inputs_of s gating dry status c)"
proof -
  let ?d = "signals_dict s gating dry status" and ?c = "retry_context_dict c"
  have g: "get ?d ''category_mismatch'' = PInt (rs_category_mismatch s)"
    "get ?d ''scope_drift'' = PInt (rs_scope_drift s)"
    "get ?d ''explicit_rollback'' = PInt (rs_explicit_rollback s)"
    "get ?d ''refusal_or_conflict'' = PInt (rs_refusal_or_conflict s)"
    "get ?d ''contradictory'' = PInt (rs_contradictory s)"
    "get ?d ''contract_missing'' = PInt (rs_contract_missing s)"
    "get ?d ''contract_identity_conflict'' = PInt (rs_contract_identity_conflict s)"
    "get ?d ''unbounded_contract'' = PInt (rs_unbounded_contract s)"
    "get ?d ''missing_progression_metadata'' = PInt (rs_missing_progression_metadata s)"
    "get_or ?d ''contract_gating_required'' v = PBool gating"
    "get ?d ''validation_failure'' = PInt (rs_validation_failure s)"
    "get ?d ''execution_failure'' = PInt (rs_execution_failure s)"
    "get ?d ''missing_artifacts'' = PInt (rs_missing_artifacts s)"
    "get ?d ''missing_signals'' = PInt (rs_missing_signals s)"
    "get_or ?d ''all_completed_and_passed'' v = PBool (rs_all_completed_and_passed s)"
    "get_or ?d ''is_dry_run'' v = PBool dry"
    "get ?d ''run_status'' = PStr status" for v
    by (simp_all add: signals_dict_def)
  have c: "get ?c ''retry_budget_remaining'' = PInt (retry_budget_remaining c)"
    "get ?c ''missing_signal_count'' = PInt (missing_signal_count c)"
    "get ?c ''prior_retry_class'' = opt_str (prior_retry_class c)"
    by (simp_all add: retry_context_dict_def)
  have n: "0 \<le> rs_category_mismatch s" "0 \<le> rs_scope_drift s" "0 \<le> rs_explicit_rollback s"
    "0 \<le> rs_refusal_or_conflict s" "0 \<le> rs_contradictory s" "0 \<le> rs_contract_missing s"
    "0 \<le> rs_contract_identity_conflict s" "0 \<le> rs_unbounded_contract s"
    "0 \<le> rs_missing_progression_metadata s" "0 \<le> rs_validation_failure s"
    "0 \<le> rs_execution_failure s" "0 \<le> rs_missing_artifacts s" "0 \<le> rs_missing_signals s"
    "0 \<le> retry_budget_remaining c" "0 \<le> missing_signal_count c"
    using assms by (simp_all add: counts_ok_def context_ok_def)
  show ?thesis
    unfolding normalize_progression_inputs_def inputs_of_def
    by (simp add: g c n read_count_def prior_class_text [OF assms(2)])
qed


section \<open>What a decision is\<close>

definition gating_of :: "dict list \<Rightarrow> bool" where
  "gating_of units = list_ex uses_contract_sidecars units"

definition dry_run_of :: "dict \<Rightarrow> bool" where
  "dry_run_of manifest =
     (flag_of manifest ''dry_run'' \<or> starts_with (text_of manifest ''run_status'') ''dry_run'')"

definition plan_index_of :: "py \<Rightarrow> (string \<times> dict) list" where
  "plan_index_of pr_plan = build_pr_plan_index (mapping_or_empty pr_plan)"

lemma stripped_matrix_action [simp]:
  "strip (pg_next_action (progression_matrix i)) = pg_next_action (progression_matrix i)"
proof -
  have "\<forall>a \<in> {''roadmap_replan'', ''prompt_recompile'', ''rollback_required'', ''escalate_to_human'',
      ''signal_recollect'', ''repair_prompt_retry'', ''same_prompt_retry'', ''proceed_to_pr''}.
      strip a = a" by code_simp
  with matrix_actions [of i] show ?thesis by (rule bspec [rotated])
qed

lemma accepted_iff_proceeds:
  "strip (pg_result_acceptance (progression_matrix i)) = RESULT_ACCEPTED \<longleftrightarrow>
     pg_next_action (progression_matrix i) = ''proceed_to_pr''"
proof -
  have two: "pg_result_acceptance (progression_matrix i) \<in> {RESULT_ACCEPTED, RESULT_REJECTED}"
    by (simp add: progression_matrix_def build_result_def Let_def)
  have "\<forall>a \<in> {RESULT_ACCEPTED, RESULT_REJECTED}. strip a = a" by code_simp
  then have "strip (pg_result_acceptance (progression_matrix i)) =
      pg_result_acceptance (progression_matrix i)" using two by (rule bspec)
  then show ?thesis by (simp add: matrix_accepts_iff)
qed

lemma normalize_text_Nil: "normalize_text [] (PStr s) = strip s"
  by simp

lemma decisionE:
  assumes "evaluate_next_action manifest units ctx pol plan = Inr d"
  obtains c s i where "normalize_retry_context ctx pol = Inr c" and "context_ok c"
    and "collect_units (gating_of units) (plan_index_of plan) units no_signals = Inr s"
    and "counts_ok s"
    and "i = inputs_of s (gating_of units) (dry_run_of manifest) (text_of manifest ''run_status'') c"
    and "dc_next_action d = pg_next_action (progression_matrix i)"
    and "dc_result_acceptance d = strip (pg_result_acceptance (progression_matrix i))"
    and "update_retry_context (retry_context_dict c) (dc_next_action d)
           (rs_observed_attempt_count s) = Inr (dc_updated_retry_context d)"
    and "dc_whether_human_required d \<longleftrightarrow>
           dc_next_action d \<in> {''escalate_to_human'', ''rollback_required''}"
    and "dc_retry_budget_remaining d = retry_budget_remaining (dc_updated_retry_context d)"
proof -
  let ?dry = "dry_run_of manifest" and ?st = "text_of manifest ''run_status''"
  from assms obtain c signals where c: "normalize_retry_context ctx pol = Inr c"
    and sig: "collect_run_signals manifest units (plan_index_of plan) = Inr signals"
    unfolding evaluate_next_action_def Let_def plan_index_of_def res_bind_eq_Inr by blast
  have ok: "context_ok c" using c by (rule normalize_retry_context_ok)
  from sig obtain s where
    s: "collect_units (gating_of units) (plan_index_of plan) units no_signals = Inr s"
    and signals: "signals = signals_dict s (gating_of units) ?dry ?st"
    by (auto simp: collect_run_signals_def gating_of_def dry_run_of_def Let_def res_bind_eq_Inr)
  have counts: "counts_ok s" using collect_units_ok [OF no_signals_ok(1) s] .
  let ?i = "inputs_of s (gating_of units) ?dry ?st c"
  let ?a = "pg_next_action (progression_matrix ?i)"
  have obs: "as_non_negative_int 0 (get signals ''observed_attempt_count'') =
      Inr (rs_observed_attempt_count s)"
    using counts by (simp add: signals signals_dict_def counts_ok_def)
  have "evaluate_review_progression_outcome signals (retry_context_dict c) =
      Inr (progression_matrix ?i)"
    by (simp add: evaluate_review_progression_outcome_def signals normalize_signals [OF counts ok])
  note d = assms [unfolded evaluate_next_action_def Let_def plan_index_of_def [symmetric] c sig this
      res_bind_Inr obs normalize_text_Nil stripped_matrix_action]
  have a: "?a \<in> set allowed_next_actions"
    using matrix_actions [of ?i] by (auto simp: allowed_next_actions_def)
  from d a obtain c' b where
    c': "update_retry_context (retry_context_dict c) ?a (rs_observed_attempt_count s) = Inr c'"
    and b: "as_non_negative_int 0 (get (retry_context_dict c') ''retry_budget_remaining'') = Inr b"
    and d': "dc_next_action d = ?a" "dc_updated_retry_context d = c'" "dc_retry_budget_remaining d = b"
      "dc_result_acceptance d = strip (pg_result_acceptance (progression_matrix ?i))"
      "dc_whether_human_required d \<longleftrightarrow> ?a \<in> {''escalate_to_human'', ''rollback_required''}"
    by (auto simp: res_bind_eq_Inr)
  have "context_ok c'" using update_retry_context_ok [OF ok c'] .
  then have "b = retry_budget_remaining c'"
    using b by (simp add: retry_context_dict_def context_ok_def)
  with that [OF c ok s counts refl] c' d' show thesis by simp
qed


definition contract_counts :: "run_signals \<Rightarrow> int \<times> int \<times> int" where
  "contract_counts s =
     (rs_contract_missing s, rs_missing_progression_metadata s, rs_unbounded_contract s)"

lemma ungated_unit:
  assumes "collect_unit False index u s = Inr s'"
  shows "contract_counts s' = contract_counts s"
proof -
  have a: "contract_counts (collect_artifacts False index u s) = contract_counts s"
    by (simp add: collect_artifacts_def contract_counts_def Let_def bump_def)
  have r: "collect_result r t = Inr t' \<Longrightarrow> contract_counts t' = contract_counts t" for r t t'
    by (auto simp: collect_result_def contract_counts_def Let_def res_bind_eq_Inr)
  show ?thesis
  proof (cases "as_mapping (get u ''result'')")
    case None
    with assms a show ?thesis by (auto simp: collect_unit_def contract_counts_def)
  next
    case (Some x)
    with assms have "collect_result x (collect_artifacts False index u s) = Inr s'"
      by (simp add: collect_unit_def)
    with a r show ?thesis by simp
  qed
qed

lemma ungated_units:
  "collect_units False index us s = Inr s' \<Longrightarrow> contract_counts s' = contract_counts s"
  by (induction us arbitrary: s) (auto simp: res_bind_eq_Inr dest: ungated_unit)

lemma quiet_matrix:
  assumes "counts_ok s" and "\<not> g \<Longrightarrow> contract_counts s = (0, 0, 0)"
  shows "nothing_blocks (inputs_of s g dry st c) \<and>
      all_completed_and_passed (inputs_of s g dry st c) \<longleftrightarrow> quiet s"
  using assms
  by (cases g) (auto simp: nothing_blocks_def inputs_of_def quiet_def counts_ok_def contract_counts_def)

section \<open>Properties\<close>

lemma proceed_iff:
  fixes manifest :: dict
  assumes "evaluate_next_action manifest units ctx policy_snapshot pr_plan = Inr d"
  shows "(dc_next_action d = ''proceed_to_pr'' \<longleftrightarrow>
            list_all (unit_accepted (gating_of units) (plan_index_of pr_plan)) units \<and>
            \<not> dry_run_of manifest) \<and>
         (dc_result_acceptance d = ''accept_current_result'' \<longleftrightarrow>
            dc_next_action d = ''proceed_to_pr'')"
proof (rule decisionE [OF assms])
  fix c s i
  let ?g = "gating_of units"
  assume s: "collect_units ?g (plan_index_of pr_plan) units no_signals = Inr s"
    and ok: "counts_ok s"
    and i: "i = inputs_of s ?g (dry_run_of manifest) (text_of manifest ''run_status'') c"
    and d: "dc_next_action d = pg_next_action (progression_matrix i)"
      "dc_result_acceptance d = strip (pg_result_acceptance (progression_matrix i))"
  have "contract_counts s = (0, 0, 0)" if "\<not> ?g"
    using ungated_units s that by (fastforce simp: contract_counts_def no_signals_def)
  then have "nothing_blocks i \<and> all_completed_and_passed i \<longleftrightarrow> quiet s"
    unfolding i by (intro quiet_matrix [OF ok])
  moreover have "quiet s \<longleftrightarrow> list_all (unit_accepted ?g (plan_index_of pr_plan)) units"
    using collect_units_quiet [OF no_signals_ok(1) s] by simp
  moreover have "is_dry_run i = dry_run_of manifest" by (simp add: i inputs_of_def)
  ultimately show ?thesis
    unfolding d accepted_iff_proceeds matrix_proceeds_iff by blast
qed

text \<open>C1. A decision proceeds to the pull request, and accepts the current result, exactly when
  every unit of the run has its receipt and its result, stays in its planned scope and category,
  completed and passed verification with no refusal, rollback or stop signal and, when any unit
  carries contracts, has bounded contracts of its own identity; and the run was no dry run.\<close>

theorem proceeds_exactly_when_every_unit_is_accepted:
  fixes manifest :: dict
  assumes "evaluate_next_action manifest units ctx policy_snapshot pr_plan = Inr d"
  shows "(dc_next_action d = ''proceed_to_pr'' \<longleftrightarrow>
            list_all (unit_accepted (gating_of units) (plan_index_of pr_plan)) units \<and>
            \<not> dry_run_of manifest) \<and>
         (dc_result_acceptance d = ''accept_current_result'' \<longleftrightarrow>
            dc_next_action d = ''proceed_to_pr'')"
  using assms by (rule proceed_iff)

theorem proceeds_exactly_when_every_unit_is_accepted_witness:
  "case evaluate_next_action []
       [[(''pr_id'', PStr ''pr-1''), (''receipt'', PDict [(''pr_id'', PStr ''pr-1'')]),
         (''result'', PDict [(''execution'', PDict [(''status'', PStr ''completed''),
            (''verify'', PDict [(''status'', PStr ''passed'')])])])]] PNone PNone PNone of
     Inl _ \<Rightarrow> False | Inr d \<Rightarrow> dc_next_action d = ''proceed_to_pr''"
proof -
  let ?u = "[(''pr_id'', PStr ''pr-1''), (''receipt'', PDict [(''pr_id'', PStr ''pr-1'')]),
         (''result'', PDict [(''execution'', PDict [(''status'', PStr ''completed''),
            (''verify'', PDict [(''status'', PStr ''passed'')])])])]"
  have acc: "list_all (unit_accepted (gating_of [?u]) (plan_index_of PNone)) [?u] \<and> \<not> dry_run_of []"
    by code_simp
  have "case evaluate_next_action [] [?u] PNone PNone PNone of Inl _ \<Rightarrow> False | Inr _ \<Rightarrow> True"
    by code_simp
  then obtain d where d: "evaluate_next_action [] [?u] PNone PNone PNone = Inr d"
    by (auto split: sum.splits)
  from proceeds_exactly_when_every_unit_is_accepted [OF d] acc show ?thesis by (simp add: d)
qed

section \<open>Many rounds\<close>

text \<open>
  The context a decision returns is the one the next decision of the run starts from
  (\<open>job_scheduler\<close> and \<open>run_dispatcher\<close> store it in between).
\<close>

type_synonym review_round = "dict \<times> dict list \<times> py"

fun decide_rounds :: "py \<Rightarrow> retry_context \<Rightarrow> review_round list \<Rightarrow> decision list res" where
  "decide_rounds pol c [] = Inr []"
| "decide_rounds pol c ((manifest, units, plan) # rounds) =
     res_bind (evaluate_next_action manifest units (PDict (retry_context_dict c)) pol plan) (\<lambda>d.
     res_bind (decide_rounds pol (dc_updated_retry_context d) rounds) (\<lambda>ds. Inr (d # ds)))"

definition retry_actions :: "decision list \<Rightarrow> string list" where
  "retry_actions ds = filter (\<lambda>a. a \<in> set allowed_retry_classes) (map dc_next_action ds)"

lemma decision_context:
  assumes ok: "context_ok c"
    and step: "evaluate_next_action manifest units (PDict (retry_context_dict c)) pol plan = Inr d"
  shows "context_ok (dc_updated_retry_context d) \<and>
    (if dc_next_action d \<in> set allowed_retry_classes
     then retry_budget_remaining (dc_updated_retry_context d) = retry_budget_remaining c - 1 \<and>
          0 < retry_budget_remaining c \<and> prior_retry_class c \<noteq> Some (dc_next_action d) \<and>
          prior_retry_class (dc_updated_retry_context d) = Some (dc_next_action d)
     else retry_budget_remaining (dc_updated_retry_context d) = retry_budget_remaining c \<and>
          prior_retry_class (dc_updated_retry_context d) = prior_retry_class c)"
proof (rule decisionE [OF step])
  fix c0 s i
  assume c0: "normalize_retry_context (PDict (retry_context_dict c)) pol = Inr c0"
    and i: "i = inputs_of s (gating_of units) (dry_run_of manifest) (text_of manifest ''run_status'') c0"
    and d: "dc_next_action d = pg_next_action (progression_matrix i)"
    and upd: "update_retry_context (retry_context_dict c0) (dc_next_action d)
           (rs_observed_attempt_count s) = Inr (dc_updated_retry_context d)"
  from c0 obtain b where "read_default_budget pol = Inr b"
    by (auto simp: normalize_retry_context_def res_bind_eq_Inr)
  from normalize_retry_context_roundtrip [OF ok this] c0 have [simp]: "c0 = c" by simp
  have "dc_next_action d \<in> set allowed_retry_classes \<Longrightarrow>
      0 < retry_budget_remaining c \<and> prior_retry_class c \<noteq> Some (dc_next_action d)"
    (is "_ \<Longrightarrow> ?fresh")
  proof -
    assume "dc_next_action d \<in> set allowed_retry_classes"
    then have "0 < in_retry_budget_remaining i \<and> in_prior_retry_class i \<noteq> dc_next_action d"
      unfolding d by (rule matrix_retries)
    then show ?fresh by (cases "prior_retry_class c") (simp_all add: i inputs_of_def)
  qed
  moreover have "context_ok (dc_updated_retry_context d)"
    using upd update_retry_context_ok [OF ok] by simp
  moreover have "dc_updated_retry_context d =
      (if dc_next_action d \<in> set allowed_retry_classes
       then \<lparr>prior_attempt_count = max (prior_attempt_count c) (max 0 (rs_observed_attempt_count s)) + 1,
             prior_retry_class = Some (dc_next_action d), missing_signal_count = 0,
             retry_budget_remaining = max 0 (retry_budget_remaining c - 1)\<rparr>
       else c\<lparr>prior_attempt_count := max (prior_attempt_count c) (max 0 (rs_observed_attempt_count s)),
              missing_signal_count := (if dc_next_action d = ''signal_recollect''
                then missing_signal_count c + 1 else 0)\<rparr>)"
    using upd by (simp add: update_retry_context_eq [OF ok] Let_def)
  ultimately show ?thesis by simp
qed

text \<open>C2. However many rounds a run is reviewed, each from the context the last decision returned,
  it is retried at most as often as the first context has budget, and never twice in a row with
  the same retry class.\<close>

theorem retries_stay_within_the_budget:
  assumes "context_ok c" and "decide_rounds pol c rounds = Inr ds"
  shows "int (length (retry_actions ds)) \<le> retry_budget_remaining c \<and>
         distinct_adj (retry_actions ds)"
proof -
  have "context_ok c \<Longrightarrow> decide_rounds pol c rounds = Inr ds \<Longrightarrow>
    int (length (retry_actions ds)) \<le> retry_budget_remaining c \<and>
    distinct_adj ((case prior_retry_class c of None \<Rightarrow> [] | Some t \<Rightarrow> [t]) @ retry_actions ds)" for ds
  proof (induction pol c rounds arbitrary: ds rule: decide_rounds.induct)
    case (1 pol c)
    then show ?case by (auto simp: retry_actions_def context_ok_def split: option.splits)
  next
    case (2 pol c manifest units plan rounds)
    from 2(3) obtain d ds' where
      d: "evaluate_next_action manifest units (PDict (retry_context_dict c)) pol plan = Inr d"
      and ds': "decide_rounds pol (dc_updated_retry_context d) rounds = Inr ds'"
      and ds: "ds = d # ds'"
      by (auto simp: res_bind_eq_Inr)
    note ctx = decision_context [OF 2(2) d]
    have IH: "int (length (retry_actions ds')) \<le> retry_budget_remaining (dc_updated_retry_context d) \<and>
      distinct_adj ((case prior_retry_class (dc_updated_retry_context d) of
        None \<Rightarrow> [] | Some t \<Rightarrow> [t]) @ retry_actions ds')"
      using ctx ds' by (intro "2.IH") auto
    show ?case
    proof (cases "dc_next_action d \<in> set allowed_retry_classes")
      case True
      with ctx IH show ?thesis
        by (auto simp: ds retry_actions_def split: option.splits)
    next
      case False
      with ctx IH show ?thesis by (simp add: ds retry_actions_def)
    qed
  qed
  from this [OF assms] show ?thesis
    by (auto split: option.splits dest: distinct_adj_ConsD)
qed


theorem retries_stay_within_the_budget_witness:
  "case decide_rounds PNone \<lparr>prior_attempt_count = 0, prior_retry_class = None,
       missing_signal_count = 0, retry_budget_remaining = 1\<rparr> (replicate 2 ([],
       [[(''pr_id'', PStr ''pr-1''), (''receipt'', PDict []),
         (''result'', PDict [(''execution'', PDict [(''status'', PStr ''failed''),
            (''verify'', PDict [(''status'', PStr ''passed'')])])])]], PNone)) of
     Inl _ \<Rightarrow> False
   | Inr ds \<Rightarrow> map dc_next_action ds = [''same_prompt_retry'', ''escalate_to_human''] \<and>
       int (length (retry_actions ds)) \<le> 1"
proof -
  let ?c = "\<lparr>prior_attempt_count = 0, prior_retry_class = None,
       missing_signal_count = 0, retry_budget_remaining = 1\<rparr>"
  let ?r = "replicate 2 ([],
       [[(''pr_id'', PStr ''pr-1''), (''receipt'', PDict []),
         (''result'', PDict [(''execution'', PDict [(''status'', PStr ''failed''),
            (''verify'', PDict [(''status'', PStr ''passed'')])])])]], PNone)"
  have run: "case decide_rounds PNone ?c ?r of Inl _ \<Rightarrow> False
    | Inr ds \<Rightarrow> map dc_next_action ds = [''same_prompt_retry'', ''escalate_to_human'']"
    by code_simp
  then obtain ds where ds: "decide_rounds PNone ?c ?r = Inr ds" by (auto split: sum.splits)
  have ok: "context_ok ?c" by code_simp
  from retries_stay_within_the_budget [OF ok ds] run show ?thesis by (simp add: ds)
qed

section \<open>The guardrail\<close>

definition proceed_actions :: "string list" where
  "proceed_actions =
     [''proceed_to_commit'', ''proceed_to_pr'', ''proceed_to_merge'', ''proceed_to_rollback'']"

definition has_policy_surface :: "dict \<Rightarrow> bool" where
  "has_policy_surface run_state = list_ex (has_key run_state) policy_surface_keys"

definition policy_denies :: "dict \<Rightarrow> string \<Rightarrow> bool" where
  "policy_denies run_state action =
     (any_flag run_state
        [''policy_terminal'', ''policy_replan_required'', ''policy_manual_required'', ''policy_blocked''] \<or>
      text_of run_state ''policy_status'' = ''manual_only'' \<or>
      action \<in> set (texts_of run_state ''policy_disallowed_actions'') \<or>
      text_of run_state ''policy_status'' = ''resume_eligible'' \<and>
        \<not> flag_of run_state ''policy_resume_allowed'')"

definition run_state_blocks :: "dict \<Rightarrow> bool" where
  "run_state_blocks run_state =
     (global_stop run_state \<or> rollback_pending run_state \<or>
      text_of run_state ''next_safe_action'' = ''execute_rollback'' \<or>
      authority_blocked run_state \<or> remote_blocked run_state \<or> aftermath_blocked run_state \<or>
      loop_blocked run_state)"

lemma divert_action [simp]: "dc_next_action (divert d a r p u) = a"
  by (simp add: divert_def)

lemma policy_guardrail_keeps:
  "dc_next_action (policy_guardrail d a rs) =
     (if policy_denies rs a
      then if flag_of rs ''policy_replan_required'' \<and> \<not> flag_of rs ''policy_terminal''
           then ''roadmap_replan'' else ''escalate_to_human''
      else dc_next_action d)"
  by (simp add: policy_guardrail_def policy_denies_def any_flag_def Let_def) blast

lemma proceed_action_intent:
  "a \<in> set proceed_actions \<Longrightarrow>
     a \<in> set execution_intents \<and> a \<notin> {''escalate_to_human'', ''roadmap_replan'', ''rollback_required''}"
  by (auto simp: proceed_actions_def execution_intents_def)

lemma guarded_proceed:
  assumes "strip (dc_next_action d) \<in> set proceed_actions"
  shows "dc_next_action (guarded_decision d rs) =
    (if has_policy_surface rs then dc_next_action (policy_guardrail d (strip (dc_next_action d)) rs)
     else if global_stop rs then ''escalate_to_human''
     else if rollback_pending rs \<or> text_of rs ''next_safe_action'' = ''execute_rollback''
     then ''rollback_required''
     else if run_state_blocks rs then ''escalate_to_human'' else dc_next_action d)"
  using proceed_action_intent [OF assms]
  by (simp add: guarded_decision_def has_policy_surface_def run_state_blocks_def Let_def
      normalize_text_Nil)

lemma diverted_actions:
  "strip ''escalate_to_human'' \<notin> set proceed_actions" "strip ''roadmap_replan'' \<notin> set proceed_actions"
  "strip ''rollback_required'' \<notin> set proceed_actions"
  by code_simp+

lemma guarded_other:
  assumes "strip (dc_next_action d) \<notin> set proceed_actions"
  shows "strip (dc_next_action (guarded_decision d rs)) \<notin> set proceed_actions"
proof -
  have pol: "\<not> (strip (dc_next_action d) \<in> set execution_intents \<and> p \<and>
      strip (dc_next_action d) \<notin> {''escalate_to_human'', ''roadmap_replan'', ''rollback_required''})" for p
    using assms by (auto simp: proceed_actions_def execution_intents_def)
  have "dc_next_action (guarded_decision d rs) \<in>
      {''escalate_to_human'', ''rollback_required'', dc_next_action d}"
    unfolding guarded_decision_def Let_def normalize_text_Nil if_not_P [OF pol] by simp
  with assms diverted_actions show ?thesis by auto
qed

lemma guardrail_keeps:
  "strip (dc_next_action (apply_run_state_guardrail d rs)) \<in> set proceed_actions \<longleftrightarrow>
     strip (dc_next_action d) \<in> set proceed_actions \<and>
     (if has_policy_surface rs then \<not> policy_denies rs (strip (dc_next_action d))
      else \<not> run_state_blocks rs)"
proof -
  have same: "dc_next_action (apply_run_state_guardrail d rs) = dc_next_action (guarded_decision d rs)"
    by (simp add: apply_run_state_guardrail_def Let_def)
  show ?thesis
  proof (cases "strip (dc_next_action d) \<in> set proceed_actions")
    case True
    then show ?thesis
      using diverted_actions unfolding same guarded_proceed [OF True] policy_guardrail_keeps
      by (simp add: run_state_blocks_def)
  next
    case False
    then show ?thesis unfolding same by (simp add: guarded_other)
  qed
qed

text \<open>C4. A decision to commit, open, merge or roll back survives the run-state guardrail exactly
  when the policy entries of the run state do not deny it or, where the run state has no policy
  entry at all, when no stop, rollback, authority, remote, aftermath or loop entry blocks it.\<close>

theorem guardrail_lets_through_exactly:
  "strip (dc_next_action (apply_run_state_guardrail d rs)) \<in> set proceed_actions \<longleftrightarrow>
     strip (dc_next_action d) \<in> set proceed_actions \<and>
     (if has_policy_surface rs then \<not> policy_denies rs (strip (dc_next_action d))
      else \<not> run_state_blocks rs)"
  by (rule guardrail_keeps)

text \<open>As soon as the run state carries a policy entry, even an allowing one, a recommended
  global stop no longer stops a decision to open the pull request that it stops without it.\<close>

theorem policy_surface_hides_global_stop:
  assumes "dc_next_action d = ''proceed_to_pr''"
  shows "dc_next_action (apply_run_state_guardrail d
             [(''global_stop'', PBool True), (''policy_status'', PStr ''allowed'')]) = ''proceed_to_pr'' \<and>
         dc_next_action (apply_run_state_guardrail d [(''global_stop'', PBool True)]) =
             ''escalate_to_human''"
proof -
  have p: "strip ''proceed_to_pr'' = ''proceed_to_pr''" by code_simp
  then have pr: "strip (dc_next_action d) \<in> set proceed_actions"
    by (simp add: proceed_actions_def assms)
  have "has_policy_surface [(''global_stop'', PBool True), (''policy_status'', PStr ''allowed'')]"
    "\<not> policy_denies [(''global_stop'', PBool True), (''policy_status'', PStr ''allowed'')] ''proceed_to_pr''"
    "\<not> has_policy_surface [(''global_stop'', PBool True)]" "global_stop [(''global_stop'', PBool True)]"
    by code_simp+
  then show ?thesis
    by (simp add: apply_run_state_guardrail_def guarded_proceed [OF pr] policy_guardrail_keeps p assms Let_def)
qed

theorem policy_surface_hides_global_stop_witness:
  "dc_next_action (apply_run_state_guardrail
     \<lparr>dc_next_action = ''proceed_to_pr'', dc_reason = [], dc_progression_outcome = [],
      dc_result_acceptance = ''accept_current_result'', dc_progression_rule_id = [],
      dc_retry_budget_remaining = 1, dc_whether_human_required = False,
      dc_updated_retry_context = \<lparr>prior_attempt_count = 0, prior_retry_class = None,
        missing_signal_count = 0, retry_budget_remaining = 1\<rparr>\<rparr>
     [(''global_stop'', PBool True), (''policy_status'', PStr ''allowed'')]) = ''proceed_to_pr''"
  by (rule policy_surface_hides_global_stop [THEN conjunct1]) simp

end
