(* ===== verification/Files.thy ===== *)
theory Files
  imports Prelude
begin

text \<open>
  The part of \<open>pathlib\<close> and of the file system the program uses: POSIX paths as \<open>Path\<close> parses
  and prints them, and the file system at one moment as a map from paths to a directory or a
  file. A file is known by the JSON value its text parses to, or as one that does not parse.
\<close>

section \<open>Paths\<close>

record path =
  path_root :: string
  path_parts :: "string list"

fun split_slash :: "string \<Rightarrow> string list" where
  "split_slash [] = [[]]"
| "split_slash (c # cs) =
     (if c = CHR ''/'' then [] # split_slash cs
      else case split_slash cs of [] \<Rightarrow> [[c]] | x # xs \<Rightarrow> (c # x) # xs)"

text \<open>\<open>Path(text)\<close>: empty and \<open>.\<close> components vanish; exactly two leading slashes are a root of their own.\<close>

definition path_of :: "string \<Rightarrow> path" where
  "path_of s =
     \<lparr>path_root =
        (if starts_with s ''//'' \<and> \<not> starts_with s ''///'' then ''//''
         else if starts_with s ''/'' then ''/'' else []),
      path_parts = filter (\<lambda>p. p \<noteq> [] \<and> p \<noteq> ''.'') (split_slash s)\<rparr>"

definition path_str :: "path \<Rightarrow> string" where
  "path_str p =
     (let s = path_root p @ join ''/'' (path_parts p) in if s = [] then ''.'' else s)"

definition parent :: "path \<Rightarrow> path" where
  "parent p = p\<lparr>path_parts := butlast (path_parts p)\<rparr>"

text \<open>\<open>p / name\<close> for a single file name.\<close>

definition child :: "path \<Rightarrow> string \<Rightarrow> path" where
  "child p name = p\<lparr>path_parts := path_parts p @ [name]\<rparr>"

lemma parent_child [simp]: "parent (child p name) = p"
  by (simp add: parent_def child_def)

lemma child_inject [simp]: "child p a = child q b \<longleftrightarrow> p = q \<and> a = b"
  by (cases p; cases q) (auto simp: child_def)

section \<open>Files\<close>

datatype file_entry =
    Directory
  | JsonText py
  | BrokenText

type_synonym files = "path \<Rightarrow> file_entry option"

definition exists_path :: "files \<Rightarrow> path \<Rightarrow> bool" where
  "exists_path fs p = (fs p \<noteq> None)"

text \<open>\<open>json.loads(path.read_text())\<close>.\<close>

definition read_json :: "files \<Rightarrow> path \<Rightarrow> py res" where
  "read_json fs p =
     (case fs p of
        None \<Rightarrow> Inl (OSError ''no such file or directory'')
      | Some Directory \<Rightarrow> Inl (OSError ''is a directory'')
      | Some BrokenText \<Rightarrow> Inl (ValueError ''not a JSON text'')
      | Some (JsonText v) \<Rightarrow> Inr v)"

lemma read_json_JsonText [simp]: "fs p = Some (JsonText v) \<Longrightarrow> read_json fs p = Inr v"
  by (simp add: read_json_def)

lemma read_json_Directory [simp]:
  "fs p = Some Directory \<Longrightarrow> read_json fs p = Inl (OSError ''is a directory'')"
  by (simp add: read_json_def)

lemma read_json_eq_Inr: "read_json fs p = Inr v \<longleftrightarrow> fs p = Some (JsonText v)"
  by (auto simp: read_json_def split: option.splits file_entry.splits)

end
