(* ===== verification/Run_Dir.thy ===== *)
theory Run_Dir
  imports Next_Action Files
begin

text \<open>
  The entry point of \<open>automation/control/next_action_controller.py\<close>: the manifest of a run
  directory and the artefacts its units name are read, the decision is made from them, and
  \<open>run_state.json\<close>, when there is one, has the last word.
\<close>

section \<open>Reading the artefacts\<close>

definition read_json_object :: "files \<Rightarrow> path \<Rightarrow> dict res" where
  "read_json_object fs p =
     res_bind (read_json fs p) (\<lambda>v.
       case as_mapping v of
         None \<Rightarrow> Inl (ValueError (''expected JSON object: '' @ path_str p))
       | Some d \<Rightarrow> Inr d)"

definition read_json_object_if_exists :: "files \<Rightarrow> path \<Rightarrow> dict option res" where
  "read_json_object_if_exists fs p =
     (if \<not> exists_path fs p then Inr None else res_bind (read_json_object fs p) (\<lambda>d. Inr (Some d)))"

definition load_manifest :: "files \<Rightarrow> path \<Rightarrow> dict res" where
  "load_manifest fs run_dir =
     (let p = child run_dir ''manifest.json'' in
      if \<not> exists_path fs p
      then Inl (ValueError (''missing manifest.json in run directory: '' @ path_str run_dir))
      else read_json_object fs p)"

definition resolve_checkpoint_decision_path :: "files \<Rightarrow> dict \<Rightarrow> path \<Rightarrow> path option" where
  "resolve_checkpoint_decision_path fs raw result_path =
     (let explicit = text_of raw ''checkpoint_decision_path'';
          inferred = child (parent result_path) ''checkpoint_decision.json''
      in if explicit \<noteq> [] then Some (path_of explicit)
         else if exists_path fs inferred then Some inferred else None)"

definition path_if_text :: "string \<Rightarrow> path option" where
  "path_if_text s = (if s \<noteq> [] then Some (path_of s) else None)"

definition read_if_path :: "files \<Rightarrow> path option \<Rightarrow> dict option res" where
  "read_if_path fs p =
     (case p of None \<Rightarrow> Inr None | Some q \<Rightarrow> read_json_object_if_exists fs q)"

definition str_if_path :: "path option \<Rightarrow> py" where
  "str_if_path p = PStr (case p of None \<Rightarrow> [] | Some q \<Rightarrow> path_str q)"

text \<open>One turn of the loop of \<open>_load_unit_payloads\<close>, for an entry that is an object.\<close>

definition load_unit :: "files \<Rightarrow> dict \<Rightarrow> dict res" where
  "load_unit fs raw =
     (let pr_id = text_of raw ''pr_id'' in
      if pr_id = [] then Inl (ValueError ''manifest.pr_units[].pr_id is required'')
      else
        let receipt_path = path_of (text_of raw ''receipt_path'');
            result_path = path_of (text_of raw ''result_path'');
            bounded_path = path_if_text (text_of raw ''bounded_step_contract_path'');
            prompt_path = path_if_text (text_of raw ''pr_implementation_prompt_contract_path'');
            checkpoint_path = resolve_checkpoint_decision_path fs raw result_path
        in res_bind (read_json_object_if_exists fs receipt_path) (\<lambda>receipt.
           res_bind (read_json_object_if_exists fs result_path) (\<lambda>result.
           res_bind (read_if_path fs bounded_path) (\<lambda>bounded.
           res_bind (read_if_path fs prompt_path) (\<lambda>prompt.
           res_bind (read_if_path fs checkpoint_path) (\<lambda>checkpoint.
           Inr [(''pr_id'', PStr pr_id),
                (''manifest_status'', PStr (text_of raw ''status'')),
                (''compiled_prompt_path'', PStr (text_of raw ''compiled_prompt_path'')),
                (''receipt_path'', PStr (path_str receipt_path)),
                (''result_path'', PStr (path_str result_path)),
                (''bounded_step_contract_path'', str_if_path bounded_path),
                (''pr_implementation_prompt_contract_path'', str_if_path prompt_path),
                (''checkpoint_decision_path'', str_if_path checkpoint_path),
                (''receipt'', opt_dict receipt),
                (''result'', opt_dict result),
                (''bounded_step_contract'', opt_dict bounded),
                (''pr_implementation_prompt_contract'', opt_dict prompt),
                (''checkpoint_decision'', opt_dict checkpoint)]))))))"

definition load_unit_payloads :: "files \<Rightarrow> dict \<Rightarrow> dict list res" where
  "load_unit_payloads fs manifest =
     (case get manifest ''pr_units'' of
        PList (v # vs) \<Rightarrow>
          res_bind (res_map (load_unit fs) (List.map_filter as_mapping (v # vs))) (\<lambda>units.
            if \<not> list_ex (\<lambda>u. get u ''receipt'' \<noteq> PNone) units
            then Inl (ValueError ''at least one execution_receipt.json is required'')
            else Inr units)
      | _ \<Rightarrow> Inl (ValueError ''manifest.pr_units must include at least one unit''))"

definition evaluate_next_action_from_run_dir ::
    "files \<Rightarrow> path \<Rightarrow> py \<Rightarrow> py \<Rightarrow> py \<Rightarrow> decision res" where
  "evaluate_next_action_from_run_dir fs root ctx policy_snapshot pr_plan =
     (if fs root \<noteq> Some Directory
      then Inl (ValueError (''run artifact directory does not exist: '' @ path_str root))
      else
        res_bind (load_manifest fs root) (\<lambda>manifest.
        res_bind (load_unit_payloads fs manifest) (\<lambda>units.
        res_bind (evaluate_next_action manifest units ctx policy_snapshot pr_plan) (\<lambda>d.
        res_bind (read_json_object_if_exists fs (child root ''run_state.json'')) (\<lambda>state.
        case state of
          None \<Rightarrow> Inr d
        | Some run_state \<Rightarrow> Inr (apply_run_state_guardrail d run_state))))))"

definition load_json_file_if_present :: "files \<Rightarrow> py \<Rightarrow> dict option res" where
  "load_json_file_if_present fs path_value =
     (let t = normalize_text [] path_value in
      if t = [] then Inr None
      else if \<not> exists_path fs (path_of t)
      then Inl (ValueError (''input file does not exist: '' @ path_str (path_of t)))
      else res_bind (read_json_object fs (path_of t)) (\<lambda>d. Inr (Some d)))"

section \<open>Properties\<close>

lemma strip_proceed_to_pr: "strip ''proceed_to_pr'' = ''proceed_to_pr''"
  by code_simp

lemma proceed_to_pr_action [simp]: "''proceed_to_pr'' \<in> set proceed_actions"
  by (simp add: proceed_actions_def)

definition run_state_allows :: "files \<Rightarrow> path \<Rightarrow> bool" where
  "run_state_allows fs root =
     (case fs (child root ''run_state.json'') of
        Some (JsonText (PDict rs)) \<Rightarrow>
          if has_policy_surface rs then \<not> policy_denies rs ''proceed_to_pr''
          else \<not> run_state_blocks rs
      | _ \<Rightarrow> True)"

lemma load_units_some:
  "load_unit_payloads fs manifest = Inr units \<Longrightarrow>
     list_ex (\<lambda>u. get u ''receipt'' \<noteq> PNone) units"
  by (auto simp: load_unit_payloads_def res_bind_eq_Inr split: py.splits list.splits if_splits)

lemma guarded_pr:
  assumes "dc_next_action (apply_run_state_guardrail d rs) = ''proceed_to_pr''"
  shows "dc_next_action d = ''proceed_to_pr'' \<and>
    (if has_policy_surface rs then \<not> policy_denies rs ''proceed_to_pr'' else \<not> run_state_blocks rs)"
proof -
  have "strip (dc_next_action (apply_run_state_guardrail d rs)) \<in> set proceed_actions"
    by (simp add: assms strip_proceed_to_pr)
  note through = this [unfolded guardrail_keeps]
  then have pr: "strip (dc_next_action d) \<in> set proceed_actions" by blast
  have "dc_next_action (apply_run_state_guardrail d rs) = dc_next_action (guarded_decision d rs)"
    by (simp add: apply_run_state_guardrail_def Let_def)
  with assms have "dc_next_action d = ''proceed_to_pr''"
    unfolding guarded_proceed [OF pr] policy_guardrail_keeps by (simp split: if_splits)
  with through show ?thesis by (auto simp: strip_proceed_to_pr split: if_splits)
qed

text \<open>C32. Reading a run directory ends in proceeding to the pull request only when the manifest was
  read, at least one unit has a receipt, every unit is accepted, the run was no dry run, and the
  run state, when it exists, neither blocks the run nor denies the action.\<close>

theorem run_directory_proceeds_only_when_accepted:
  assumes "evaluate_next_action_from_run_dir fs root ctx pol plan = Inr d"
    and "dc_next_action d = ''proceed_to_pr''"
  shows "\<exists>manifest units. load_manifest fs root = Inr manifest \<and>
           load_unit_payloads fs manifest = Inr units \<and>
           list_ex (\<lambda>u. get u ''receipt'' \<noteq> PNone) units \<and>
           list_all (unit_accepted (gating_of units) (plan_index_of plan)) units \<and>
           \<not> dry_run_of manifest \<and> run_state_allows fs root"
proof -
  from assms(1) obtain manifest units d0 state where
    m: "load_manifest fs root = Inr manifest" and u: "load_unit_payloads fs manifest = Inr units"
    and d0: "evaluate_next_action manifest units ctx pol plan = Inr d0"
    and st: "read_json_object_if_exists fs (child root ''run_state.json'') = Inr state"
    and d: "d = (case state of None \<Rightarrow> d0 | Some rs \<Rightarrow> apply_run_state_guardrail d0 rs)"
    by (auto simp: evaluate_next_action_from_run_dir_def res_bind_eq_Inr split: if_splits option.splits)
  have "dc_next_action d0 = ''proceed_to_pr'' \<and> run_state_allows fs root"
  proof (cases state)
    case None
    with st have "fs (child root ''run_state.json'') = None"
      by (auto simp: read_json_object_if_exists_def exists_path_def res_bind_eq_Inr split: if_splits)
    with None d assms(2) show ?thesis by (simp add: run_state_allows_def)
  next
    case (Some rs)
    with st have "fs (child root ''run_state.json'') = Some (JsonText (PDict rs))"
      by (auto simp: read_json_object_if_exists_def read_json_object_def res_bind_eq_Inr
          read_json_eq_Inr split: if_splits option.splits elim!: as_mapping.elims)
    with guarded_pr [of d0 rs] Some d assms(2) show ?thesis by (simp add: run_state_allows_def)
  qed
  with proceed_iff [OF d0] m u load_units_some [OF u] show ?thesis by blast
qed

text \<open>A unit of the manifest that names no receipt path is not counted as a missing artefact:
  its path is the working directory, which exists and cannot be read as a file, so the whole
  evaluation raises.\<close>

theorem unit_without_receipt_path_raises:
  assumes "fs root = Some Directory" and "fs (child root ''manifest.json'') = Some (JsonText (PDict m))"
    and "get m ''pr_units'' = PList (PDict raw # raws)"
    and "text_of raw ''pr_id'' \<noteq> []" and "text_of raw ''receipt_path'' = []"
    and "fs (path_of []) = Some Directory"
  shows "evaluate_next_action_from_run_dir fs root ctx pol plan = Inl (OSError ''is a directory'')"
proof -
  have m: "load_manifest fs root = Inr m"
    using assms(2) by (simp add: load_manifest_def exists_path_def read_json_object_def)
  have r: "read_json_object_if_exists fs (path_of []) = Inl (OSError ''is a directory'')"
    using assms(6) by (simp add: read_json_object_if_exists_def exists_path_def read_json_object_def)
  have "load_unit fs raw = Inl (OSError ''is a directory'')"
    using assms(4) by (simp add: load_unit_def Let_def assms(5) r)
  then have "load_unit_payloads fs m = Inl (OSError ''is a directory'')"
    by (simp add: load_unit_payloads_def assms(3) map_filter_simps)
  with m assms(1) show ?thesis by (simp add: evaluate_next_action_from_run_dir_def)
qed

definition demo_files :: files where
  "demo_files p =
     map_of
       [(path_of ''run'', Directory),
        (path_of ''run/manifest.json'', JsonText (PDict
           [(''pr_units'', PList [PDict [(''pr_id'', PStr ''pr-1''),
               (''receipt_path'', PStr ''run/pr-1/receipt.json''),
               (''result_path'', PStr ''run/pr-1/result.json'')]])])),
        (path_of ''run/pr-1/receipt.json'', JsonText (PDict [(''pr_id'', PStr ''pr-1'')])),
        (path_of ''run/pr-1/result.json'', JsonText (PDict
           [(''execution'', PDict [(''status'', PStr ''completed''),
              (''verify'', PDict [(''status'', PStr ''passed'')])])])),
        (path_of ''run/run_state.json'', JsonText (PDict [(''policy_status'', PStr ''allowed'')]))] p"

theorem run_directory_proceeds_only_when_accepted_witness:
  "case load_manifest demo_files (path_of ''run'') of
     Inl _ \<Rightarrow> False | Inr manifest \<Rightarrow> \<not> dry_run_of manifest \<and> run_state_allows demo_files (path_of ''run'')"
proof -
  let ?e = "evaluate_next_action_from_run_dir demo_files (path_of ''run'') PNone PNone PNone"
  have "case ?e of Inl _ \<Rightarrow> False | Inr d \<Rightarrow> dc_next_action d = ''proceed_to_pr''" by code_simp
  then obtain d where "?e = Inr d" "dc_next_action d = ''proceed_to_pr''"
    by (auto split: sum.splits)
  from run_directory_proceeds_only_when_accepted [OF this] show ?thesis by auto
qed

theorem unit_without_receipt_path_raises_witness:
  "evaluate_next_action_from_run_dir
     (map_of [(path_of ''run'', Directory), (path_of [], Directory),
        (path_of ''run/manifest.json'', JsonText (PDict
           [(''pr_units'', PList [PDict [(''pr_id'', PStr ''pr-1'')]])]))])
     (path_of ''run'') PNone PNone PNone = Inl (OSError ''is a directory'')"
  by (rule unit_without_receipt_path_raises
      [where m = "[(''pr_units'', PList [PDict [(''pr_id'', PStr ''pr-1'')]])]"
         and raw = "[(''pr_id'', PStr ''pr-1'')]" and raws = "[]"]; code_simp)

end
