(* ===== verification/IsoTime.thy ===== *)
theory IsoTime
  imports Prelude
begin

text \<open>
  The part of Python's \<open>datetime\<close> the scheduler uses: \<open>isoformat(timespec="seconds")\<close>,
  \<open>fromisoformat\<close>, \<open>+ timedelta(seconds=n)\<close> and the comparisons, for naive and for aware
  values. A value is the number of microseconds since 0001-01-01T00:00:00 with the offset
  from UTC in seconds when it is aware. Comparing a naive with an aware value raises
  TypeError. Of the texts \<open>fromisoformat\<close> (3.11) accepts, the extended calendar form
  \<open>YYYY-MM-DD[*HH[:MM[:SS[.f+]]][Z|+HH[:MM[:SS]]]]\<close> is modelled; the basic (no separator)
  and week-date forms read as unparsable here.
\<close>

section \<open>The calendar\<close>

definition is_leap :: "int \<Rightarrow> bool" where
  "is_leap y = (y mod 4 = 0 \<and> (y mod 100 \<noteq> 0 \<or> y mod 400 = 0))"

definition days_before_year :: "int \<Rightarrow> int" where
  "days_before_year y = (y - 1) * 365 + (y - 1) div 4 - (y - 1) div 100 + (y - 1) div 400"

definition month_days :: "bool \<Rightarrow> int list" where
  "month_days leap = [31, if leap then 29 else 28, 31, 30, 31, 30, 31, 31, 30, 31, 30, 31]"

text \<open>Month and day from the 0-based day of the year, and back.\<close>

fun split_months :: "int \<Rightarrow> int list \<Rightarrow> int \<Rightarrow> int \<times> int" where
  "split_months m [] n = (m, n + 1)"
| "split_months m (d # ds) n = (if n < d then (m, n + 1) else split_months (m + 1) ds (n - d))"

definition days_before_month :: "bool \<Rightarrow> int \<Rightarrow> int" where
  "days_before_month leap m = sum_list (take (nat (m - 1)) (month_days leap))"

definition days_in_month :: "int \<Rightarrow> int \<Rightarrow> int" where
  "days_in_month y m = month_days (is_leap y) ! nat (m - 1)"

definition ymd_to_days :: "int \<Rightarrow> int \<Rightarrow> int \<Rightarrow> int" where
  "ymd_to_days y m d = days_before_year y + days_before_month (is_leap y) m + (d - 1)"

definition year_of_days :: "int \<Rightarrow> int" where
  "year_of_days n =
     (let n400 = n div 146097; r400 = n mod 146097;
          n100 = min 3 (r400 div 36524); r100 = r400 - n100 * 36524;
          n4 = r100 div 1461; r4 = r100 mod 1461;
          n1 = min 3 (r4 div 365)
      in 400 * n400 + 100 * n100 + 4 * n4 + n1 + 1)"

definition days_to_ymd :: "int \<Rightarrow> int \<times> int \<times> int" where
  "days_to_ymd n =
     (let y = year_of_days n;
          (m, d) = split_months 1 (month_days (is_leap y)) (n - days_before_year y)
      in (y, m, d))"

lemma mod_zero_iff:
  fixes x m q r :: int
  assumes "x = m * q + r" and "1 \<le> r" and "r \<le> m"
  shows "x mod m = 0 \<longleftrightarrow> r = m"
proof (cases "r = m")
  case False
  with assms have "x mod m = r" by (intro int_mod_pos_eq [of _ _ q]) auto
  with assms False show ?thesis by simp
qed (use assms in simp)

text \<open>The year found is the one whose days contain \<open>n\<close>.\<close>

lemma year_parts:
  fixes a b c d :: int
  assumes "0 \<le> b" "b \<le> 3" "0 \<le> c" "c \<le> 24" "0 \<le> d" "d \<le> 3"
  shows "days_before_year (400 * a + 100 * b + 4 * c + d + 1) =
           146097 * a + 36524 * b + 1461 * c + 365 * d"
    and "is_leap (400 * a + 100 * b + 4 * c + d + 1) \<longleftrightarrow> d = 3 \<and> (c < 24 \<or> b = 3)"
proof -
  let ?n = "400 * a + 100 * b + 4 * c + d"
  have "?n div 4 = 100 * a + 25 * b + c"
    by (rule int_div_pos_eq [of _ _ _ d]) (use assms in auto)
  moreover have "?n div 100 = 4 * a + b"
    by (rule int_div_pos_eq [of _ _ _ "4 * c + d"]) (use assms in auto)
  moreover have "?n div 400 = a"
    by (rule int_div_pos_eq [of _ _ _ "100 * b + 4 * c + d"]) (use assms in auto)
  ultimately show "days_before_year (?n + 1) = 146097 * a + 36524 * b + 1461 * c + 365 * d"
    by (simp add: days_before_year_def)
  have "(?n + 1) mod 4 = 0 \<longleftrightarrow> d + 1 = 4"
    by (rule mod_zero_iff [of _ _ "100 * a + 25 * b + c"]) (use assms in auto)
  moreover have "(?n + 1) mod 100 = 0 \<longleftrightarrow> 4 * c + d + 1 = 100"
    by (rule mod_zero_iff [of _ _ "4 * a + b"]) (use assms in auto)
  moreover have "(?n + 1) mod 400 = 0 \<longleftrightarrow> 100 * b + 4 * c + d + 1 = 400"
    by (rule mod_zero_iff [of _ _ a]) (use assms in auto)
  moreover have "d + 1 = 4 \<longleftrightarrow> d = 3" by auto
  moreover have "4 * c + d + 1 = 100 \<longleftrightarrow> c = 24 \<and> d = 3"
    using assms(3-6) by presburger
  moreover from this have "100 * b + 4 * c + d + 1 = 400 \<longleftrightarrow> b = 3 \<and> c = 24 \<and> d = 3"
    using assms(1-6) by (cases "b = 3") auto
  ultimately have "is_leap (?n + 1) \<longleftrightarrow>
      d = 3 \<and> (\<not> (c = 24 \<and> d = 3) \<or> b = 3 \<and> c = 24 \<and> d = 3)"
    by (simp add: is_leap_def)
  then show "is_leap (?n + 1) \<longleftrightarrow> d = 3 \<and> (c < 24 \<or> b = 3)"
    using assms(4) by auto
qed

lemma year_of_days_bounds:
  "0 \<le> n - days_before_year (year_of_days n) \<and>
   n - days_before_year (year_of_days n) < sum_list (month_days (is_leap (year_of_days n)))"
proof -
  define a where "a = n div 146097"
  define r where "r = n mod 146097"
  define b where "b = min 3 (r div 36524)"
  define r' where "r' = r - b * 36524"
  define c where "c = r' div 1461"
  define s where "s = r' mod 1461"
  define d where "d = min 3 (s div 365)"
  have y: "year_of_days n = 400 * a + 100 * b + 4 * c + d + 1"
    unfolding year_of_days_def Let_def d_def s_def c_def r'_def b_def r_def a_def by (rule refl)
  have n: "n = 146097 * a + r" and r: "0 \<le> r" "r < 146097" by (simp_all add: a_def r_def)
  have b: "0 \<le> b" "b \<le> 3" using r by (auto simp: b_def)
  have q: "36524 * (r div 36524) \<le> r" "r < 36524 * (r div 36524) + 36524" "r div 36524 \<le> 4"
    "0 \<le> r div 36524"
    using r by linarith+
  have r': "0 \<le> r'" "r' < 36525" "b < 3 \<longrightarrow> r' < 36524"
    using r q by (auto simp: r'_def b_def min_def)
  have s: "r' = 1461 * c + s" "0 \<le> s" "s < 1461" by (simp_all add: c_def s_def)
  have c: "0 \<le> c" "c \<le> 24" using r' s by auto
  have q': "365 * (s div 365) \<le> s" "s < 365 * (s div 365) + 365" "s div 365 \<le> 4" "0 \<le> s div 365"
    using s by linarith+
  have d: "0 \<le> d" "d \<le> 3" "365 * d \<le> s" "s < 365 * d + 366" "d < 3 \<longrightarrow> s < 365 * d + 365"
    using s q' by (auto simp: d_def min_def)
  have off: "n - days_before_year (year_of_days n) = s - 365 * d"
    unfolding y year_parts(1) [OF b c d(1,2)] using n s(1) by (simp add: r'_def)
  have leap: "is_leap (year_of_days n) \<longleftrightarrow> d = 3 \<and> (c < 24 \<or> b = 3)"
    unfolding y by (rule year_parts(2) [OF b c d(1,2)])
  have "s - 365 * d < (if is_leap (year_of_days n) then 366 else 365)"
  proof (cases "d = 3 \<and> \<not> is_leap (year_of_days n)")
    case True
    with leap c b have "c = 24" and "b < 3" by auto
    with True s(1) r'(3) show ?thesis by simp
  next
    case False
    with d show ?thesis by (cases "d = 3") auto
  qed
  then show ?thesis using d off by (auto simp: month_days_def split: if_splits)
qed

lemma split_months_inverse:
  assumes "split_months m ds n = (m', d)" and "0 \<le> n" and "n < sum_list ds"
  shows "m \<le> m' \<and> m' < m + int (length ds) \<and> 1 \<le> d \<and> d \<le> ds ! nat (m' - m) \<and>
         sum_list (take (nat (m' - m)) ds) + (d - 1) = n"
  using assms
proof (induction m ds n rule: split_months.induct)
  case (2 m x ds n)
  show ?case
  proof (cases "n < x")
    case True
    with 2 show ?thesis by simp
  next
    case False
    with 2 have *: "m + 1 \<le> m' \<and> m' < m + 1 + int (length ds) \<and> 1 \<le> d \<and>
        d \<le> ds ! nat (m' - (m + 1)) \<and> sum_list (take (nat (m' - (m + 1))) ds) + (d - 1) = n - x"
      by simp
    then have "nat (m' - m) = Suc (nat (m' - (m + 1)))" by linarith
    with * show ?thesis by auto
  qed
qed simp

lemma days_to_ymd_inverse:
  assumes "days_to_ymd n = (y, m, d)"
  shows "y = year_of_days n" "1 \<le> m" "m \<le> 12" "1 \<le> d" "d \<le> days_in_month y m"
    and "ymd_to_days y m d = n"
proof -
  let ?y = "year_of_days n"
  from assms show y: "y = ?y"
    by (simp add: days_to_ymd_def Let_def split: prod.splits)
  have "split_months 1 (month_days (is_leap ?y)) (n - days_before_year ?y) = (m, d)"
    using assms unfolding days_to_ymd_def Let_def by (auto split: prod.splits)
  from split_months_inverse [OF this] year_of_days_bounds [of n]
  have *: "1 \<le> m \<and> m < 1 + int (length (month_days (is_leap ?y))) \<and> 1 \<le> d \<and>
      d \<le> month_days (is_leap ?y) ! nat (m - 1) \<and>
      sum_list (take (nat (m - 1)) (month_days (is_leap ?y))) + (d - 1) =
        n - days_before_year ?y"
    by blast
  then show "1 \<le> m" "m \<le> 12" "1 \<le> d" "d \<le> days_in_month y m" "ymd_to_days y m d = n"
    by (simp_all add: y days_in_month_def ymd_to_days_def days_before_month_def month_days_def)
qed

section \<open>Date and time values\<close>

record datetime =
  micros :: int
  offset :: "int option"

definition max_micros :: int where
  "max_micros = 3652059 * 86400000000"

definition dt_valid :: "datetime \<Rightarrow> bool" where
  "dt_valid t =
     (0 \<le> micros t \<and> micros t < max_micros \<and>
      (case offset t of None \<Rightarrow> True | Some z \<Rightarrow> - 86400 < z \<and> z < 86400))"

definition utc_micros :: "datetime \<Rightarrow> int" where
  "utc_micros t = micros t - (case offset t of None \<Rightarrow> 0 | Some z \<Rightarrow> z * 1000000)"

definition comparable :: "datetime \<Rightarrow> datetime \<Rightarrow> bool" where
  "comparable s t = ((offset s = None) = (offset t = None))"

definition dt_less :: "datetime \<Rightarrow> datetime \<Rightarrow> bool res" where
  "dt_less s t =
     (if comparable s t then Inr (utc_micros s < utc_micros t)
      else Inl (TypeError ''can't compare offset-naive and offset-aware datetimes''))"

definition dt_ge :: "datetime \<Rightarrow> datetime \<Rightarrow> bool res" where
  "dt_ge s t =
     (if comparable s t then Inr (utc_micros t \<le> utc_micros s)
      else Inl (TypeError ''can't compare offset-naive and offset-aware datetimes''))"

text \<open>\<open>t + timedelta(seconds=n)\<close>.\<close>

definition add_seconds :: "datetime \<Rightarrow> int \<Rightarrow> datetime res" where
  "add_seconds t n =
     (let m = micros t + n * 1000000 in
      if 0 \<le> m \<and> m < max_micros then Inr (t\<lparr>micros := m\<rparr>) else Inl OverflowError)"

definition floor_seconds :: "datetime \<Rightarrow> datetime" where
  "floor_seconds t = t\<lparr>micros := micros t div 1000000 * 1000000\<rparr>"

section \<open>ISO texts\<close>

definition pad2 :: "int \<Rightarrow> string" where
  "pad2 n = [digit_char (nat (n div 10)), digit_char (nat (n mod 10))]"

definition pad4 :: "int \<Rightarrow> string" where
  "pad4 n = pad2 (n div 100) @ pad2 (n mod 100)"

definition clock_text :: "int \<Rightarrow> string" where
  "clock_text s = pad2 (s div 3600) @ '':'' @ pad2 (s div 60 mod 60) @ '':'' @ pad2 (s mod 60)"

definition offset_text :: "int option \<Rightarrow> string" where
  "offset_text z =
     (case z of None \<Rightarrow> []
      | Some n \<Rightarrow>
          (if n < 0 then ''-'' else ''+'') @ pad2 (\<bar>n\<bar> div 3600) @ '':'' @
          pad2 (\<bar>n\<bar> div 60 mod 60) @
          (if \<bar>n\<bar> mod 60 = 0 then [] else '':'' @ pad2 (\<bar>n\<bar> mod 60)))"

text \<open>\<open>isoformat(timespec="seconds")\<close>.\<close>

definition iso_seconds :: "datetime \<Rightarrow> string" where
  "iso_seconds t =
     (let secs = micros t div 1000000;
          (y, m, d) = days_to_ymd (secs div 86400)
      in pad4 y @ ''-'' @ pad2 m @ ''-'' @ pad2 d @ ''T'' @ clock_text (secs mod 86400) @
         offset_text (offset t))"

definition read_digits :: "nat \<Rightarrow> string \<Rightarrow> (int \<times> string) option" where
  "read_digits k s =
     (if length (take k s) = k \<and> list_all is_ascii_digit (take k s)
      then Some (int (digits_value (take k s)), drop k s) else None)"

text \<open>\<open>HH[:MM[:SS[.f+]]]\<close> as hours, minutes, seconds and microseconds.\<close>

definition read_clock :: "string \<Rightarrow> (int \<times> int \<times> int \<times> int) option" where
  "read_clock s =
     (case read_digits 2 s of
        None \<Rightarrow> None
      | Some (h, []) \<Rightarrow> Some (h, 0, 0, 0)
      | Some (h, c # r) \<Rightarrow>
          if c \<noteq> CHR '':'' then None
          else case read_digits 2 r of
                 None \<Rightarrow> None
               | Some (mi, []) \<Rightarrow> Some (h, mi, 0, 0)
               | Some (mi, c # r) \<Rightarrow>
                   if c \<noteq> CHR '':'' then None
                   else case read_digits 2 r of
                          None \<Rightarrow> None
                        | Some (sec, []) \<Rightarrow> Some (h, mi, sec, 0)
                        | Some (sec, c # f) \<Rightarrow>
                            if (c = CHR ''.'' \<or> c = CHR '','') \<and> f \<noteq> [] \<and> list_all is_ascii_digit f
                            then Some (h, mi, sec, int (digits_value (take 6 (f @ ''00000''))))
                            else None)"

definition read_offset :: "string \<Rightarrow> int option option" where
  "read_offset s =
     (case s of
        [] \<Rightarrow> Some None
      | c # r \<Rightarrow>
          if c = CHR ''Z'' then (if r = [] then Some (Some 0) else None)
          else case read_clock r of
                 Some (h, mi, sec, us) \<Rightarrow>
                   (let z = h * 3600 + mi * 60 + sec
                    in if us = 0 \<and> z < 86400 then Some (Some (if c = CHR ''-'' then - z else z))
                       else None)
               | None \<Rightarrow> None)"

definition read_date :: "string \<Rightarrow> (int \<times> string) option" where
  "read_date s =
     (case read_digits 4 s of
        Some (y, c1 # r1) \<Rightarrow>
          (case read_digits 2 r1 of
             Some (m, c2 # r2) \<Rightarrow>
               (case read_digits 2 r2 of
                  Some (d, r3) \<Rightarrow>
                    if c1 = CHR ''-'' \<and> c2 = CHR ''-'' \<and> 1 \<le> y \<and> 1 \<le> m \<and> m \<le> 12 \<and>
                       1 \<le> d \<and> d \<le> days_in_month y m
                    then Some (ymd_to_days y m d, r3) else None
                | None \<Rightarrow> None)
           | _ \<Rightarrow> None)
      | _ \<Rightarrow> None)"

definition from_iso :: "string \<Rightarrow> datetime option" where
  "from_iso s =
     (case read_date s of
        None \<Rightarrow> None
      | Some (days, []) \<Rightarrow> Some \<lparr>micros = days * 86400000000, offset = None\<rparr>
      | Some (days, sep # r) \<Rightarrow>
          (let ct = takeWhile (\<lambda>c. c \<notin> {CHR ''+'', CHR ''-'', CHR ''Z''}) r
           in case (read_clock ct, read_offset (drop (length ct) r)) of
                (Some (h, mi, sec, us), Some z) \<Rightarrow>
                  if h < 24 \<and> mi < 60 \<and> sec < 60
                  then Some \<lparr>micros = days * 86400000000 +
                               (h * 3600 + mi * 60 + sec) * 1000000 + us, offset = z\<rparr>
                  else None
              | _ \<Rightarrow> None))"

text \<open>\<open>_parse_iso_datetime\<close> of the scheduler's modules.\<close>

definition parse_iso_datetime :: "py \<Rightarrow> datetime option" where
  "parse_iso_datetime v =
     (let t = normalize_text [] v in if t = [] then None else from_iso t)"

section \<open>Reading back what \<open>isoformat\<close> wrote\<close>

lemma code_digit_char [simp]: "d < 10 \<Longrightarrow> code (digit_char d) = 48 + d"
  by (simp add: code_def digit_char_def)

lemma ascii_digit_char [simp]: "d < 10 \<Longrightarrow> is_ascii_digit (digit_char d)"
  by (simp add: is_ascii_digit_def)

lemma length_pad [simp]: "length (pad2 n) = 2" "length (pad4 n) = 4"
  by (simp_all add: pad2_def pad4_def)

lemma pad2_not_Nil [simp]: "pad2 n \<noteq> []"
  by (simp add: pad2_def)

lemma digits_value_pair: "digits_value [digit_char a, digit_char b] = 10 * a + b"
  if "a < 10" "b < 10"
  using that by (simp add: digits_value_def)

lemma nat_digits: "0 \<le> q \<Longrightarrow> 0 \<le> r \<Longrightarrow> 10 * nat q + nat r = nat (10 * q + r)"
  by (simp add: nat_add_distrib nat_mult_distrib)

lemma pad2_digits:
  assumes "0 \<le> n" "n < 100"
  shows "list_all is_ascii_digit (pad2 n)" "digits_value (pad2 n) = nat n"
proof -
  have "nat (n div 10) < 10" "nat (n mod 10) < 10" using assms by auto
  moreover have "10 * nat (n div 10) + nat (n mod 10) = nat n"
    using nat_digits [of "n div 10" "n mod 10"] assms by simp
  ultimately show "list_all is_ascii_digit (pad2 n)" "digits_value (pad2 n) = nat n"
    by (simp_all add: pad2_def digits_value_pair)
qed

lemma read_digits_append:
  "length s = k \<Longrightarrow> list_all is_ascii_digit s \<Longrightarrow>
     read_digits k (s @ r) = Some (int (digits_value s), r)"
  by (simp add: read_digits_def)

lemma read_pad2 [simp]: "0 \<le> n \<Longrightarrow> n < 100 \<Longrightarrow> read_digits 2 (pad2 n @ r) = Some (n, r)"
  by (simp add: read_digits_append pad2_digits)

lemma digits_value_append:
  "length t = 2 \<Longrightarrow> digits_value (s @ t) = 100 * digits_value s + digits_value t"
  by (auto simp: digits_value_def numeral_2_eq_2 length_Suc_conv)

lemma read_pad4 [simp]: "0 \<le> n \<Longrightarrow> n < 10000 \<Longrightarrow> read_digits 4 (pad4 n @ r) = Some (n, r)"
proof -
  assume n: "0 \<le> n" "n < 10000"
  then have "0 \<le> n div 100" "n div 100 < 100" "0 \<le> n mod 100" "n mod 100 < 100" by simp_all
  then have "list_all is_ascii_digit (pad4 n)" "int (digits_value (pad4 n)) = n"
    using pad2_digits [of "n div 100"] pad2_digits [of "n mod 100"]
    by (simp_all add: pad4_def digits_value_append)
  then show ?thesis by (simp add: read_digits_append)
qed

lemma read_pad2_alone [simp]: "0 \<le> n \<Longrightarrow> n < 100 \<Longrightarrow> read_digits 2 (pad2 n) = Some (n, [])"
  using read_pad2 [of n "[]"] by simp

lemma clock_bounds:
  fixes s :: int
  assumes "0 \<le> s" "s < 86400"
  shows "0 \<le> s div 3600" "s div 3600 < 24" "0 \<le> s div 60 mod 60" "s div 60 mod 60 < 60"
    "0 \<le> s mod 60" "s mod 60 < 60"
  using assms by simp_all

lemma clock_parts: "(s::int) div 3600 * 3600 + s div 60 mod 60 * 60 + s mod 60 = s"
proof -
  define q r q' r' where "q = s div 60" and "r = s mod 60" and "q' = q div 60" and "r' = q mod 60"
  have eqs: "s = 60 * q + r" "q = 60 * q' + r'" by (simp_all add: q_def r_def q'_def r'_def)
  have e: "s div 3600 = q'" using zdiv_zmult2_eq [of 60 s 60] by (simp add: q_def q'_def)
  have e': "s div 60 mod 60 = r'" "s mod 60 = r" unfolding r'_def q_def r_def by (rule refl)+
  show ?thesis unfolding e e' using eqs by linarith
qed

lemma read_clock_text:
  assumes "0 \<le> s" "s < 86400"
  shows "read_clock (clock_text s) = Some (s div 3600, s div 60 mod 60, s mod 60, 0)"
  using clock_bounds [OF assms] by (simp add: read_clock_def clock_text_def)

definition offset_body :: "int \<Rightarrow> string" where
  "offset_body a =
     pad2 (a div 3600) @ '':'' @ pad2 (a div 60 mod 60) @
     (if a mod 60 = 0 then [] else '':'' @ pad2 (a mod 60))"

lemma read_offset_body:
  assumes "0 \<le> a" "a < 86400"
  shows "read_clock (offset_body a) = Some (a div 3600, a div 60 mod 60, a mod 60, 0)"
  using clock_bounds [OF assms] by (simp add: read_clock_def offset_body_def)

lemma read_offset_sign:
  assumes "0 \<le> a" "a < 86400" "c \<noteq> CHR ''Z''"
  shows "read_offset (c # offset_body a) = Some (Some (if c = CHR ''-'' then - a else a))"
  using assms clock_parts [of a] by (simp add: read_offset_def read_offset_body)

lemma offset_text_alt:
  "offset_text (Some n) = (if n < 0 then CHR ''-'' else CHR ''+'') # offset_body \<bar>n\<bar>"
  unfolding offset_text_def offset_body_def by simp

lemma read_offset_text:
  assumes "case z of None \<Rightarrow> True | Some n \<Rightarrow> - 86400 < n \<and> n < 86400"
  shows "read_offset (offset_text z) = Some z"
proof (cases z)
  case (Some n)
  with assms have "\<bar>n\<bar> < 86400" by auto
  then have "read_offset (c # offset_body \<bar>n\<bar>) = Some (Some (if c = CHR ''-'' then - \<bar>n\<bar> else \<bar>n\<bar>))"
    if "c \<noteq> CHR ''Z''" for c
    using that by (intro read_offset_sign) simp_all
  then show ?thesis unfolding Some offset_text_alt by (cases "n < 0") simp_all
qed (simp add: offset_text_def read_offset_def)

lemma year_range:
  assumes "0 \<le> n" "n < 3652059"
  shows "1 \<le> year_of_days n" "year_of_days n \<le> 9999"
proof -
  define k where "k = year_of_days n - 1"
  define p where "p = k div 4"
  have dby: "days_before_year (year_of_days n) = 365 * k + p - p div 25 + k div 400"
    using zdiv_zmult2_eq [of 25 k 4] by (simp add: days_before_year_def k_def p_def)
  have le: "days_before_year (year_of_days n) \<le> n"
    and lt: "n < days_before_year (year_of_days n) + 366"
    using year_of_days_bounds [of n] by (auto simp: month_days_def split: if_splits)
  have "p - p div 25 \<le> 0" if "p \<le> - 1" using that by linarith
  moreover have "k div 400 \<le> - 1" "p \<le> - 1" if "k \<le> - 1" using that by (simp_all add: p_def)
  ultimately have "365 * k + p - p div 25 + k div 400 \<le> - 366" if "k \<le> - 1"
    using that by fastforce
  with lt dby assms show "1 \<le> year_of_days n" by (fastforce simp: k_def)
  have "2400 \<le> p - p div 25" if "2499 \<le> p" using that by linarith
  moreover have "24 \<le> k div 400" "2499 \<le> p" if "9999 \<le> k" using that by (simp_all add: p_def)
  ultimately have "3652059 \<le> 365 * k + p - p div 25 + k div 400" if "9999 \<le> k"
    using that by fastforce
  with le dby assms show "year_of_days n \<le> 9999" by (fastforce simp: k_def)
qed

lemma clock_text_chars: "0 \<le> s \<Longrightarrow> s < 86400 \<Longrightarrow>
    list_all (\<lambda>c. c \<notin> {CHR ''+'', CHR ''-'', CHR ''Z''}) (clock_text s)"
proof -
  assume s: "0 \<le> s" "s < 86400"
  have digit: "is_ascii_digit c \<Longrightarrow> c \<notin> {CHR ''+'', CHR ''-'', CHR ''Z''}" for c
    by (auto simp: is_ascii_digit_def code_def)
  have "list_all (\<lambda>c. c \<notin> {CHR ''+'', CHR ''-'', CHR ''Z''}) (pad2 n)" if "0 \<le> n" "n < 100" for n
    using pad2_digits(1) [OF that] digit by (auto simp: list_all_iff)
  then show ?thesis
    using clock_bounds [OF s] by (simp add: clock_text_def)
qed

lemma takeWhile_clock_text:
  assumes "0 \<le> s" "s < 86400"
  shows "takeWhile (\<lambda>c. c \<notin> {CHR ''+'', CHR ''-'', CHR ''Z''}) (clock_text s @ offset_text z) = clock_text s"
proof -
  have "takeWhile (\<lambda>c. c \<notin> {CHR ''+'', CHR ''-'', CHR ''Z''}) (offset_text z) = []"
    by (cases z) (simp_all add: offset_text_def)
  then show ?thesis
    using clock_text_chars [OF assms] by (simp add: list_all_iff takeWhile_append2)
qed

lemma read_date_text:
  assumes "0 \<le> n" "n < 3652059" "days_to_ymd n = (y, m, d)"
  shows "read_date (pad4 y @ ''-'' @ pad2 m @ ''-'' @ pad2 d @ r) = Some (n, r)"
proof -
  note inv = days_to_ymd_inverse [OF assms(3)]
  have y: "1 \<le> y" "y < 10000" using year_range [OF assms(1,2)] inv(1) by auto
  have "days_in_month y m \<le> 31"
    using inv(2,3) by (auto simp: days_in_month_def month_days_def nth_Cons split: nat.split)
  then show ?thesis using inv y by (simp add: read_date_def)
qed

theorem from_iso_iso_seconds: "dt_valid t \<Longrightarrow> from_iso (iso_seconds t) = Some (floor_seconds t)"
proof -
  assume valid: "dt_valid t"
  define secs where "secs = micros t div 1000000"
  define s where "s = secs mod 86400"
  obtain y m d where ymd: "days_to_ymd (secs div 86400) = (y, m, d)" by (metis prod_cases3)
  have s: "0 \<le> s" "s < 86400" by (simp_all add: s_def)
  have days: "0 \<le> secs div 86400" "secs div 86400 < 3652059"
  proof -
    have "0 \<le> micros t" "micros t < 315537897600000000"
      using valid by (simp_all add: dt_valid_def max_micros_def)
    then show "0 \<le> secs div 86400" "secs div 86400 < 3652059"
      unfolding secs_def by linarith+
  qed
  have secs: "secs div 86400 * 86400 + s = secs" by (simp add: s_def)
  have iso: "iso_seconds t =
      pad4 y @ ''-'' @ pad2 m @ ''-'' @ pad2 d @ ''T'' @ clock_text s @ offset_text (offset t)"
    using ymd by (simp add: iso_seconds_def Let_def secs_def s_def)
  have "read_offset (offset_text (offset t)) = Some (offset t)"
    using valid by (intro read_offset_text) (simp add: dt_valid_def split: option.splits)
  moreover note clock_bounds [OF s]
  ultimately have "from_iso (iso_seconds t) =
      Some \<lparr>micros = secs div 86400 * 86400000000 +
                (s div 3600 * 3600 + s div 60 mod 60 * 60 + s mod 60) * 1000000, offset = offset t\<rparr>"
    unfolding iso from_iso_def read_date_text [OF days ymd]
    by (simp add: takeWhile_clock_text [OF s, simplified] read_clock_text [OF s])
  also have "\<dots> = Some \<lparr>micros = (secs div 86400 * 86400 + s) * 1000000, offset = offset t\<rparr>"
    unfolding clock_parts by simp
  also have "\<dots> = Some (floor_seconds t)"
    unfolding secs by (simp add: floor_seconds_def secs_def)
  finally show ?thesis .
qed

section \<open>The time stamps of the state files\<close>

text \<open>
  What the lease file, the registry and the pause file need of their time stamps: a stamp
  that was rendered is read back as the rendered time cut to the second.
\<close>

locale timestamp_codec =
  fixes render :: "datetime \<Rightarrow> string"
    and parse :: "py \<Rightarrow> datetime option"
    and valid :: "datetime \<Rightarrow> bool"
  assumes parse_render: "valid t \<Longrightarrow> parse (PStr (render t)) = Some (floor_seconds t)"
begin

lemma parse_rendered:
  "valid t \<Longrightarrow> parse (PStr (render t)) = Some u \<Longrightarrow>
     offset u = offset t \<and> micros u \<le> micros t \<and> micros t < micros u + 1000000"
  by (auto simp: parse_render floor_seconds_def)

lemma rendered_is_stamp: "valid t \<Longrightarrow> parse (PStr (render t)) \<noteq> None"
  by (simp add: parse_render)

end

lemma digit_not_space: "is_ascii_digit c \<Longrightarrow> \<not> is_space c"
  by (auto simp: is_ascii_digit_def is_space_def Let_def)

lemma pad2_ends:
  assumes "0 \<le> n" "n < 100"
  shows "\<not> is_space (hd (pad2 n))" "\<not> is_space (last (pad2 n))"
  using pad2_digits(1) [OF assms] by (simp_all add: pad2_def digit_not_space)

lemma pad2_minute_end: "0 \<le> n \<Longrightarrow> n < 60 \<Longrightarrow> \<not> is_space (last (pad2 n))"
  by (rule pad2_ends(2)) simp_all

lemma offset_body_last:
  assumes "0 \<le> a" "a < 86400"
  shows "offset_body a \<noteq> []" "\<not> is_space (last (offset_body a))"
proof -
  note b = clock_bounds [OF assms]
  show "offset_body a \<noteq> []" unfolding offset_body_def by simp
  show "\<not> is_space (last (offset_body a))"
  proof (cases "a mod 60 = 0")
    case True
    have "last (offset_body a) = last (pad2 (a div 60 mod 60))"
      unfolding offset_body_def if_P [OF True] by simp
    then show ?thesis using pad2_minute_end [OF b(3,4)] by argo
  next
    case False
    have "last (offset_body a) = last (pad2 (a mod 60))"
      unfolding offset_body_def if_not_P [OF False] by simp
    then show ?thesis using pad2_minute_end [OF b(5,6)] by argo
  qed
qed

lemma offset_text_last:
  assumes "z = Some n" "- 86400 < n" "n < 86400"
  shows "offset_text z \<noteq> []" "\<not> is_space (last (offset_text z))"
  using offset_body_last [of "\<bar>n\<bar>"] assms unfolding assms(1) offset_text_alt by simp_all

lemma iso_seconds_stripped:
  assumes valid: "dt_valid t"
  shows "iso_seconds t \<noteq> []" "stripped (iso_seconds t)"
proof -
  define secs where "secs = micros t div 1000000"
  define s where "s = secs mod 86400"
  obtain y m d where ymd: "days_to_ymd (secs div 86400) = (y, m, d)" by (metis prod_cases3)
  have "0 \<le> micros t" "micros t < 315537897600000000"
    using valid by (simp_all add: dt_valid_def max_micros_def)
  then have days: "0 \<le> secs div 86400" "secs div 86400 < 3652059"
    unfolding secs_def by linarith+
  have s: "0 \<le> s" "s < 86400" by (simp_all add: s_def)
  have y: "1 \<le> y" "y \<le> 9999"
    using year_range [OF days] days_to_ymd_inverse(1) [OF ymd] by auto
  have iso: "iso_seconds t =
      pad4 y @ ''-'' @ pad2 m @ ''-'' @ pad2 d @ ''T'' @ clock_text s @ offset_text (offset t)"
    using ymd by (simp add: iso_seconds_def Let_def secs_def s_def)
  then show "iso_seconds t \<noteq> []" by simp
  have "hd (iso_seconds t) = hd (pad2 (y div 100))"
    unfolding iso pad4_def by (simp add: hd_append)
  moreover have "\<not> is_space (hd (pad2 (y div 100)))" using y by (intro pad2_ends) simp_all
  moreover have "\<not> is_space (last (iso_seconds t))"
  proof (cases "offset t")
    case None
    then have "last (iso_seconds t) = last (pad2 (s mod 60))"
      unfolding iso by (simp add: offset_text_def clock_text_def)
    then show ?thesis using pad2_minute_end [OF clock_bounds(5,6) [OF s]] by argo
  next
    case (Some z)
    with valid have "- 86400 < z" "z < 86400" by (simp_all add: dt_valid_def)
    from offset_text_last [OF Some this] show ?thesis unfolding iso by simp
  qed
  ultimately show "stripped (iso_seconds t)" by (simp add: stripped_def)
qed

lemma strip_iso [simp]:
  "dt_valid t \<Longrightarrow> strip (iso_seconds t) = iso_seconds t"
  "dt_valid t \<Longrightarrow> iso_seconds t \<noteq> []"
  by (simp_all add: iso_seconds_stripped strip_stripped)

interpretation stamps: timestamp_codec iso_seconds parse_iso_datetime dt_valid
  by unfold_locales (simp add: parse_iso_datetime_def from_iso_iso_seconds)

lemma parse_iso_seconds [simp]:
  "dt_valid t \<Longrightarrow> parse_iso_datetime (PStr (iso_seconds t)) = Some (floor_seconds t)"
  by (rule stamps.parse_render)

lemma parse_iso_PNone [simp]: "parse_iso_datetime PNone = None"
  by (simp add: parse_iso_datetime_def)

lemma parse_iso_empty [simp]: "parse_iso_datetime (PStr []) = None"
  by (simp add: parse_iso_datetime_def)

lemma floor_seconds_simps [simp]: "offset (floor_seconds t) = offset t"
  "micros (floor_seconds t) = micros t div 1000000 * 1000000"
  by (simp_all add: floor_seconds_def)

lemma add_seconds_valid: "dt_valid t \<Longrightarrow> add_seconds t n = Inr u \<Longrightarrow> dt_valid u"
  by (auto simp: add_seconds_def dt_valid_def Let_def split: if_splits)

lemma add_seconds_Inr: "add_seconds t n = Inr u \<Longrightarrow> u = t\<lparr>micros := micros t + n * 1000000\<rparr>"
  by (auto simp: add_seconds_def Let_def split: if_splits)

end
