(* ===== verification/World.thy ===== *)
theory World
  imports Files IsoTime Job_Store
begin

text \<open>
  The state the scheduler's programs run in: the file system, the clock as the sequence of its
  readings, and programs as functions from a state to a result or an exception and the state
  they leave. An exception keeps the state it was raised in, so that the \<open>finally\<close> clauses of the
  program and its partly done work are visible.

  A clock reading that a library function may or may not take is skipped when it is not taken.
  Writing a file makes the directories above it.
\<close>

section \<open>Programs\<close>

record world =
  wd_files :: files
  wd_dirs :: "path \<Rightarrow> string list option"
  wd_clock :: "nat \<Rightarrow> datetime"
  wd_ticks :: nat

type_synonym 'a run = "world \<Rightarrow> 'a res \<times> world"

definition run_return :: "'a \<Rightarrow> 'a run" where
  "run_return x w = (Inr x, w)"

definition run_raise :: "py_exc \<Rightarrow> 'a run" where
  "run_raise e w = (Inl e, w)"

definition run_bind :: "'a run \<Rightarrow> ('a \<Rightarrow> 'b run) \<Rightarrow> 'b run" where
  "run_bind m f w = (case m w of (Inl e, w') \<Rightarrow> (Inl e, w') | (Inr x, w') \<Rightarrow> f x w')"

text \<open>A computation that touches no state, and the \<open>try\<close> that catches every exception.\<close>

definition run_res :: "'a res \<Rightarrow> 'a run" where
  "run_res r w = (r, w)"

definition run_try :: "'a run \<Rightarrow> 'a res run" where
  "run_try m w = (case m w of (r, w') \<Rightarrow> (Inr r, w'))"

text \<open>\<open>try: m finally: c\<close>, where the clean-up's own exception takes precedence.\<close>

definition run_finally :: "'a run \<Rightarrow> 'b run \<Rightarrow> 'a run" where
  "run_finally m c w =
     (case m w of (r, w1) \<Rightarrow> (case c w1 of (Inl e, w2) \<Rightarrow> (Inl e, w2) | (Inr _, w2) \<Rightarrow> (r, w2)))"

definition run_now :: "datetime run" where
  "run_now w = (Inr (wd_clock w (wd_ticks w)), w\<lparr>wd_ticks := Suc (wd_ticks w)\<rparr>)"

text \<open>The readings a library function takes from here on, \<open>n\<close> of them at most.\<close>

definition run_clock :: "nat \<Rightarrow> (nat \<Rightarrow> datetime) run" where
  "run_clock n w = (Inr (\<lambda>i. wd_clock w (wd_ticks w + i)), w\<lparr>wd_ticks := wd_ticks w + n\<rparr>)"

section \<open>Files\<close>

definition read_file :: "files \<Rightarrow> path \<Rightarrow> py option res" where
  "read_file fs p =
     (if exists_path fs p then res_bind (read_json fs p) (\<lambda>v. Inr (Some v)) else Inr None)"

definition run_exists :: "path \<Rightarrow> bool run" where
  "run_exists p w = (Inr (exists_path (wd_files w) p), w)"

definition run_read :: "path \<Rightarrow> py option run" where
  "run_read p w = (read_file (wd_files w) p, w)"

definition run_files :: "files run" where
  "run_files w = (Inr (wd_files w), w)"

definition run_write :: "path \<Rightarrow> py \<Rightarrow> unit run" where
  "run_write p v w = (Inr (), w\<lparr>wd_files := (wd_files w)(p \<mapsto> JsonText v)\<rparr>)"

text \<open>The file a library function leaves: written when there is one.\<close>

fun run_write_opt :: "path \<Rightarrow> py option \<Rightarrow> unit run" where
  "run_write_opt p None = run_return ()"
| "run_write_opt p (Some v) = run_write p v"

text \<open>\<open>output_root / name\<close> for a name that may have separators of its own.\<close>

definition path_join :: "path \<Rightarrow> string \<Rightarrow> path" where
  "path_join p s =
     (let q = path_of s in
      if path_root q \<noteq> [] then q else p\<lparr>path_parts := path_parts p @ path_parts q\<rparr>)"

section \<open>Lemmas\<close>

named_theorems run_simps "simplification of programs"

lemma run_bind_Inr [run_simps]: "m w = (Inr x, w') \<Longrightarrow> run_bind m f w = f x w'"
  by (simp add: run_bind_def)

lemma run_bind_Inl [run_simps]: "m w = (Inl e, w') \<Longrightarrow> run_bind m f w = (Inl e, w')"
  by (simp add: run_bind_def)

lemma run_bind_return [simp, run_simps]: "run_bind (run_return x) f = f x"
  by (rule ext) (simp add: run_bind_def run_return_def)

lemma run_bind_raise [simp, run_simps]: "run_bind (run_raise e) f = run_raise e"
  by (rule ext) (simp add: run_bind_def run_raise_def)

lemma run_bind_assoc: "run_bind (run_bind m f) g = run_bind m (\<lambda>x. run_bind (f x) g)"
  by (rule ext) (simp add: run_bind_def split: prod.splits sum.splits)

lemma run_bind_Inr_iff [run_simps]:
  "run_bind m f w = (Inr y, w') \<longleftrightarrow> (\<exists>x w1. m w = (Inr x, w1) \<and> f x w1 = (Inr y, w'))"
  by (auto simp: run_bind_def split: prod.splits sum.splits)

lemma run_return_iff [simp, run_simps]: "run_return x w = (r, w') \<longleftrightarrow> r = Inr x \<and> w' = w"
  by (auto simp: run_return_def)

lemma run_raise_iff [simp, run_simps]: "run_raise e w = (r, w') \<longleftrightarrow> r = Inl e \<and> w' = w"
  by (auto simp: run_raise_def)

lemma run_res_iff [simp, run_simps]: "run_res r w = (s, w') \<longleftrightarrow> r = s \<and> w' = w"
  by (auto simp: run_res_def)

lemma run_read_iff [run_simps]: "run_read p w = (r, w') \<longleftrightarrow> r = read_file (wd_files w) p \<and> w' = w"
  by (auto simp: run_read_def)

lemma run_files_iff [run_simps]: "run_files w = (r, w') \<longleftrightarrow> r = Inr (wd_files w) \<and> w' = w"
  by (auto simp: run_files_def)

lemma run_now_iff [run_simps]:
  "run_now w = (r, w') \<longleftrightarrow> r = Inr (wd_clock w (wd_ticks w)) \<and> w' = w\<lparr>wd_ticks := Suc (wd_ticks w)\<rparr>"
  by (auto simp: run_now_def)

lemma run_write_iff [run_simps]:
  "run_write p v w = (r, w') \<longleftrightarrow>
     r = Inr () \<and> w' = w\<lparr>wd_files := (wd_files w)(p \<mapsto> JsonText v)\<rparr>"
  by (auto simp: run_write_def)

lemma run_try_iff [run_simps]:
  "run_try m w = (r, w') \<longleftrightarrow> (\<exists>x. m w = (x, w') \<and> r = Inr x)"
  by (cases "m w") (auto simp: run_try_def)

lemma run_clock_iff [run_simps]:
  "run_clock n w = (r, w') \<longleftrightarrow>
     r = Inr (\<lambda>i. wd_clock w (wd_ticks w + i)) \<and> w' = w\<lparr>wd_ticks := wd_ticks w + n\<rparr>"
  by (auto simp: run_clock_def)

lemma read_file_JsonText [simp]: "fs p = Some (JsonText v) \<Longrightarrow> read_file fs p = Inr (Some v)"
  by (simp add: read_file_def exists_path_def)

lemma read_file_None [simp]: "fs p = None \<Longrightarrow> read_file fs p = Inr None"
  by (simp add: read_file_def exists_path_def)

subsection \<open>What a program may change\<close>

text \<open>
  A program keeps a relation between the state it starts in and the state it ends in, whether it
  returns or raises.
\<close>

definition keeps :: "(world \<Rightarrow> world \<Rightarrow> bool) \<Rightarrow> 'a run \<Rightarrow> bool" where
  "keeps R m = (\<forall>w r w'. m w = (r, w') \<longrightarrow> R w w')"

named_theorems keeps_rules "programs that keep a relation"

lemma keepsD: "keeps R m \<Longrightarrow> m w = (r, w') \<Longrightarrow> R w w'"
  by (simp add: keeps_def)

lemma keepsI: "(\<And>w r w'. m w = (r, w') \<Longrightarrow> R w w') \<Longrightarrow> keeps R m"
  by (simp add: keeps_def)

lemma keeps_if [keeps_rules]:
  "(b \<Longrightarrow> keeps R m) \<Longrightarrow> (\<not> b \<Longrightarrow> keeps R n) \<Longrightarrow> keeps R (if b then m else n)"
  by simp

lemma keeps_case_option [keeps_rules]:
  "keeps R m \<Longrightarrow> (\<And>x. keeps R (f x)) \<Longrightarrow> keeps R (case v of None \<Rightarrow> m | Some x \<Rightarrow> f x)"
  by (cases v) simp_all

lemma keeps_case_sum [keeps_rules]:
  "(\<And>x. keeps R (f x)) \<Longrightarrow> (\<And>x. keeps R (g x)) \<Longrightarrow> keeps R (case v of Inl x \<Rightarrow> f x | Inr x \<Rightarrow> g x)"
  by (cases v) simp_all

lemma keeps_case_prod [keeps_rules]:
  "(\<And>x y. keeps R (f x y)) \<Longrightarrow> keeps R (case p of (x, y) \<Rightarrow> f x y)"
  by (cases p) simp

lemma keeps_Let [keeps_rules]: "(\<And>x. keeps R (f x)) \<Longrightarrow> keeps R (Let v f)"
  by simp

locale frame =
  fixes R :: "world \<Rightarrow> world \<Rightarrow> bool"
  assumes refl: "R w w"
    and trans: "R w1 w2 \<Longrightarrow> R w2 w3 \<Longrightarrow> R w1 w3"
begin

lemma keeps_bind: "keeps R m \<Longrightarrow> (\<And>x. keeps R (f x)) \<Longrightarrow> keeps R (run_bind m f)"
  unfolding keeps_def run_bind_def
  by (fastforce split: prod.splits sum.splits intro: trans)

lemma keeps_return: "keeps R (run_return x)"
  by (auto intro!: keepsI refl)

lemma keeps_raise: "keeps R (run_raise e)"
  by (auto intro!: keepsI refl)

lemma keeps_res: "keeps R (run_res r)"
  by (auto intro!: keepsI refl)

lemma keeps_read: "keeps R (run_read p)"
  by (auto intro!: keepsI refl simp: run_simps)

lemma keeps_files: "keeps R run_files"
  by (auto intro!: keepsI refl simp: run_simps)

lemma keeps_exists: "keeps R (run_exists p)"
  by (auto intro!: keepsI refl simp: run_exists_def)

lemma keeps_try: "keeps R m \<Longrightarrow> keeps R (run_try m)"
  by (auto intro!: keepsI dest: keepsD simp: run_simps)

lemma keeps_finally: "keeps R m \<Longrightarrow> keeps R c \<Longrightarrow> keeps R (run_finally m c)"
  unfolding keeps_def run_finally_def
  by (fastforce split: prod.splits sum.splits intro: trans)

end

text \<open>The clock runs on and the files at the given paths stay as they are.\<close>

definition same_files :: "path set \<Rightarrow> world \<Rightarrow> world \<Rightarrow> bool" where
  "same_files ps w w' =
     (wd_clock w' = wd_clock w \<and> (\<forall>p \<in> ps. wd_files w' p = wd_files w p))"

interpretation same_files: frame "same_files ps" for ps
  by unfold_locales (simp_all add: same_files_def)

lemma same_files_now: "keeps (same_files ps) run_now"
  by (auto intro!: keepsI simp: run_simps same_files_def)

lemma same_files_clock: "keeps (same_files ps) (run_clock n)"
  by (auto intro!: keepsI simp: run_simps same_files_def)

lemma same_files_write: "p \<notin> ps \<Longrightarrow> keeps (same_files ps) (run_write p v)"
  by (auto intro!: keepsI simp: run_simps same_files_def)

lemma same_files_write_opt: "p \<notin> ps \<Longrightarrow> keeps (same_files ps) (run_write_opt p v)"
  by (cases v) (auto intro: same_files_write same_files.keeps_return)

lemmas same_files_rules = keeps_rules same_files.keeps_bind same_files.keeps_return
  same_files.keeps_raise same_files.keeps_res same_files.keeps_read same_files.keeps_files
  same_files.keeps_exists same_files.keeps_try same_files.keeps_finally same_files_now same_files_clock

section \<open>Running programs on concrete worlds\<close>

text \<open>Whether a run returned a value of a kind.\<close>

definition returned :: "('a \<Rightarrow> bool) \<Rightarrow> 'a res \<times> world \<Rightarrow> bool" where
  "returned P rw = (case fst rw of Inl _ \<Rightarrow> False | Inr r \<Rightarrow> P r)"

lemma returnedE:
  assumes "returned P rw"
  obtains r w' where "rw = (Inr r, w')" "P r"
  using assms by (cases rw; cases "fst rw") (auto simp: returned_def)

end
