(* ===== verification/Run_Audit.thy ===== *)
theory Run_Audit
  imports World
begin

text \<open>
  \<open>automation/observability/run_audit.py\<close>: the audit log of a run, one file per run directory, to
  which every decision of the dispatcher appends a record.
\<close>

section \<open>The log\<close>

definition audit_record :: "dict \<Rightarrow> datetime \<Rightarrow> dict res" where
  "audit_record raw now =
     res_bind (as_optional_int (get raw ''retry_budget_remaining'')) (\<lambda>budget.
     Inr [(''job_id'', PStr (normalize_text [] (get raw ''job_id''))),
          (''run_id'', opt_str (text_or_none (get raw ''run_id''))),
          (''scheduler_action_taken'',
             PStr (normalize_text ''unspecified'' (get raw ''scheduler_action_taken''))),
          (''execution_attempted'', PBool (as_bool (get raw ''execution_attempted''))),
          (''retry_attempted'', PBool (as_bool (get raw ''retry_attempted''))),
          (''routed_action'', opt_str (text_or_none (get raw ''routed_action''))),
          (''routing_reason'', PStr (normalize_text [] (get raw ''routing_reason''))),
          (''retry_class'', opt_str (text_or_none (get raw ''retry_class''))),
          (''retry_budget_remaining'', opt_int budget),
          (''whether_human_required'', PBool (as_bool (get raw ''whether_human_required''))),
          (''outcome_status'', PStr (normalize_text ''unknown'' (get raw ''outcome_status''))),
          (''pause_state'', opt_str (text_or_none (get raw ''pause_state''))),
          (''pause_reason'', opt_str (text_or_none (get raw ''pause_reason''))),
          (''next_eligible_at'', opt_str (text_or_none (get raw ''next_eligible_at''))),
          (''recorded_at'', PStr (normalize_text (iso_seconds now) (get raw ''recorded_at'')))])"

text \<open>The payload of the file before the append: a missing file is an empty object.\<close>

definition audit_payload :: "py option \<Rightarrow> dict res" where
  "audit_payload file =
     (case file of
        None \<Rightarrow> Inr []
      | Some v \<Rightarrow>
          (case as_mapping v of
             None \<Rightarrow> Inl (ValueError ''expected JSON object'')
           | Some d \<Rightarrow> Inr d))"

definition records_of :: "dict \<Rightarrow> py list" where
  "records_of payload = (case get payload ''records'' of PList vs \<Rightarrow> vs | _ \<Rightarrow> [])"

text \<open>\<open>append\<close> returns the payload it wrote; the second component is the file.\<close>

definition audit_append :: "py option \<Rightarrow> dict \<Rightarrow> datetime \<Rightarrow> (dict \<times> py) res" where
  "audit_append file raw now =
     res_bind (audit_payload file) (\<lambda>payload.
     res_bind (audit_record raw now) (\<lambda>entry.
     let written =
       [(''schema_version'', PStr ''v1''),
        (''job_id'', PStr (normalize_text (normalize_text [] (get payload ''job_id''))
           (get raw ''job_id''))),
        (''records'', PList (records_of payload @ [PDict entry]))]
     in Inr (written, json_value (PDict written))))"

definition append_audit :: "path \<Rightarrow> dict \<Rightarrow> dict run" where
  "append_audit run_root raw =
     run_bind (run_read (child run_root ''run_audit.json'')) (\<lambda>file.
     run_bind run_now (\<lambda>now.
     run_bind (run_res (audit_append file raw now)) (\<lambda>(payload, file').
     run_bind (run_write (child run_root ''run_audit.json'') file') (\<lambda>_.
     run_return payload))))"

section \<open>The log only grows\<close>

lemma json_value_json_value [simp]: "json_value (json_value v) = json_value v"
proof (induction v rule: json_value.induct)
  case (3 d)
  have "map (\<lambda>kv. (fst kv, json_value (snd kv))) (map (\<lambda>kv. (fst kv, json_value (snd kv))) d)
      = map (\<lambda>kv. (fst kv, json_value (snd kv))) d"
    using 3 by (auto simp: comp_def)
  then show ?case
    by (simp add: json_value.simps(3) sort_key_map_fst)
qed (auto simp: comp_def)

text \<open>The records a reader of the file sees.\<close>

definition audit_records :: "py option \<Rightarrow> py list" where
  "audit_records f =
     (case f of None \<Rightarrow> [] | Some v \<Rightarrow> records_of (mapping_or_empty v))"

lemma audit_append_file:
  assumes "audit_append f raw now = Inr (payload, v)"
  obtains entry d where "audit_record raw now = Inr entry" "v = PDict d" "keys_ok d"
    and "\<And>k. get d k = json_value (get payload k)"
    and "get payload ''records'' = PList (audit_records f @ [PDict entry])"
    and "get payload ''routing_reason'' = PNone"
proof -
  from assms obtain p entry where p: "audit_payload f = Inr p" and e: "audit_record raw now = Inr entry"
    and w: "payload = [(''schema_version'', PStr ''v1''),
        (''job_id'', PStr (normalize_text (normalize_text [] (get p ''job_id'')) (get raw ''job_id''))),
        (''records'', PList (records_of p @ [PDict entry]))]"
    and v: "v = json_value (PDict payload)"
    by (auto simp: audit_append_def res_bind_eq_Inr Let_def)
  have "keys_ok payload" by (simp add: w keys_ok_def)
  then obtain d where "json_value (PDict payload) = PDict d" "keys_ok d"
    "\<And>k. get d k = json_value (get payload k)" by (rule json_dict) blast
  moreover have "records_of p = audit_records f"
    using p by (auto simp: audit_payload_def audit_records_def records_of_def mapping_or_empty_def
        split: option.splits)
  ultimately show thesis using e v by (intro that [of entry d]) (simp_all add: w)
qed

lemma audit_append_records:
  assumes "audit_append f raw now = Inr (payload, v)"
  obtains entry where "audit_record raw now = Inr entry"
    "audit_records (Some v) = map json_value (audit_records f @ [PDict entry])"
proof (rule audit_append_file [OF assms])
  fix entry d
  assume "audit_record raw now = Inr entry" "v = PDict d"
    "\<And>k. get d k = json_value (get payload k)"
    "get payload ''records'' = PList (audit_records f @ [PDict entry])"
  then show thesis by (intro that [of entry]) (simp_all add: audit_records_def records_of_def)
qed

fun audit_appends :: "(dict \<times> datetime) list \<Rightarrow> py option \<Rightarrow> py option res" where
  "audit_appends [] f = Inr f"
| "audit_appends ((raw, now) # rs) f =
     res_bind (audit_append f raw now) (\<lambda>(payload, v). audit_appends rs (Some v))"

lemma audit_appends_records:
  assumes "audit_appends rs f = Inr f'" and "map json_value (audit_records f) = audit_records f"
  shows "\<exists>entries. list_all2 (\<lambda>(raw, now) e. audit_record raw now = Inr e) rs entries \<and>
    audit_records f' = audit_records f @ map (\<lambda>e. json_value (PDict e)) entries"
  using assms
proof (induction rs arbitrary: f)
  case (Cons r rs)
  obtain raw now where r: "r = (raw, now)" by force
  from Cons.prems(1) obtain p v where a: "audit_append f raw now = Inr (p, v)"
    and rest: "audit_appends rs (Some v) = Inr f'" by (auto simp: r res_bind_eq_Inr)
  from a obtain e where e: "audit_record raw now = Inr e"
    and recs: "audit_records (Some v) = map json_value (audit_records f @ [PDict e])"
    by (rule audit_append_records)
  have "map json_value (audit_records (Some v)) = audit_records (Some v)"
    by (simp add: recs comp_def)
  from Cons.IH [OF rest this] obtain es where
    es: "list_all2 (\<lambda>(raw, now) e. audit_record raw now = Inr e) rs es"
    "audit_records f' = audit_records (Some v) @ map (\<lambda>e. json_value (PDict e)) es" by blast
  from es e recs Cons.prems(2) show ?case by (intro exI [of _ "e # es"]) (simp add: r)
qed simp

text \<open>The audit log of a run only grows: after any appends to a new log, the records read from the
  file are those appended, each normalised, in the order they were appended.\<close>

theorem audit_log_keeps_every_record:
  assumes "audit_appends rs None = Inr f"
  shows "\<exists>entries. list_all2 (\<lambda>(raw, now) e. audit_record raw now = Inr e) rs entries \<and>
    audit_records f = map (\<lambda>e. json_value (PDict e)) entries"
  using audit_appends_records [OF assms] by (simp add: audit_records_def)

theorem audit_log_keeps_every_record_witness:
  "\<exists>f. audit_appends [([(''job_id'', PStr ''a'')], \<lparr>micros = 0, offset = None\<rparr>),
      ([(''job_id'', PStr ''b'')], \<lparr>micros = 0, offset = None\<rparr>)] None = Inr f \<and>
     length (audit_records f) = 2"
proof -
  let ?rs = "[([(''job_id'', PStr ''a'')], \<lparr>micros = 0, offset = None\<rparr>),
      ([(''job_id'', PStr ''b'')], \<lparr>micros = 0, offset = None\<rparr>)]"
  have "case audit_appends ?rs None of Inl _ \<Rightarrow> False | Inr _ \<Rightarrow> True" by code_simp
  then obtain f where f: "audit_appends ?rs None = Inr f" by (auto split: sum.splits)
  from audit_log_keeps_every_record [OF f] f show ?thesis
    by (auto dest!: list_all2_lengthD)
qed

end
