(* ===== verification/Retry_Policy.thy ===== *)
theory Retry_Policy
  imports Prelude "HOL-Library.Multiset"
begin

text \<open>
  \<open>automation/control/retry_policy.py\<close>: the retry policy file, normalised entry by entry, and the
  entry that applies to a failure: the most specific one that matches, the earlier of two
  equally specific ones.

  The YAML parser is a library: what it makes of the file is the argument of
  \<open>load_retry_policy\<close>. A normalised policy is the dictionary the code builds, so that a caller's
  dictionary of the same shape is taken as it is, as the code does.
\<close>

section \<open>Decision kinds\<close>

abbreviation "DECISION_RETRY_NOW \<equiv> ''retry_now''"
abbreviation "DECISION_PAUSE_AND_WAIT \<equiv> ''pause_and_wait''"
abbreviation "DECISION_TERMINAL_REFUSAL \<equiv> ''terminal_refusal''"
abbreviation "DECISION_ESCALATE_TO_HUMAN \<equiv> ''escalate_to_human''"

definition decision_kinds :: "string list" where
  "decision_kinds =
     [DECISION_RETRY_NOW, DECISION_PAUSE_AND_WAIT, DECISION_TERMINAL_REFUSAL,
      DECISION_ESCALATE_TO_HUMAN]"

definition default_policy :: dict where
  "default_policy =
     [(''schema_version'', PStr ''v1''),
      (''defaults'', PDict [(''decision_kind'', PStr DECISION_ESCALATE_TO_HUMAN),
         (''max_attempts'', PInt 1), (''backoff_seconds'', PTuple [PInt 30])]),
      (''entries'', PList [])]"

definition known_pause_states :: "string list" where
  "known_pause_states =
     [''waiting_for_provider_capacity'', ''waiting_for_rate_limit_reset'', ''waiting_for_checks'',
      ''waiting_for_human'', ''paused_other_bounded'']"

section \<open>Normalising\<close>

text \<open>The backoff schedule: one number, or the readable numbers of a list; nothing else.\<close>

definition non_negatives :: "py list \<Rightarrow> int list res" where
  "non_negatives vs =
     res_bind (res_map (as_non_negative_int (- 1)) vs) (\<lambda>ns. Inr (filter (\<lambda>n. 0 \<le> n) ns))"

fun normalize_backoff_seconds :: "int list \<Rightarrow> py \<Rightarrow> int list res" where
  "normalize_backoff_seconds d (PInt i) = Inr [max 0 i]"
| "normalize_backoff_seconds d (PStr s) =
     res_bind (as_non_negative_int (- 1) (PStr s)) (\<lambda>n. Inr (if 0 \<le> n then [n] else d))"
| "normalize_backoff_seconds d (PList vs) =
     res_bind (non_negatives vs) (\<lambda>ns. Inr (if ns \<noteq> [] then ns else d))"
| "normalize_backoff_seconds d _ = Inr d"

definition normalize_match_field :: "py \<Rightarrow> string" where
  "normalize_match_field v = normalize_lower ''*'' v"

definition normalize_decision_kind :: "string \<Rightarrow> py \<Rightarrow> string" where
  "normalize_decision_kind d v =
     (let k = normalize_lower d v in if k \<in> set decision_kinds then k else d)"

definition backoff_py :: "int list \<Rightarrow> py" where
  "backoff_py ns = PTuple (map PInt ns)"

text \<open>\<open>match or raw\<close>, \<open>decision or raw\<close>: a missing or empty object falls back to the entry itself.\<close>

definition nonempty_or :: "dict option \<Rightarrow> dict \<Rightarrow> dict" where
  "nonempty_or d raw = (case d of None \<Rightarrow> raw | Some m \<Rightarrow> if m \<noteq> [] then m else raw)"

definition match_dict :: "dict \<Rightarrow> dict" where
  "match_dict match =
     [(''provider_class'', PStr (normalize_match_field (get match ''provider_class''))),
      (''operation_class'', PStr (normalize_match_field (get match ''operation_class''))),
      (''failure_type'', PStr (normalize_match_field (get match ''failure_type''))),
      (''retry_class'', PStr (normalize_match_field (get match ''retry_class'')))]"

definition match_is_broad :: "dict \<Rightarrow> bool" where
  "match_is_broad match =
     list_all (\<lambda>k. normalize_match_field (get match k) = ''*'')
       [''provider_class'', ''operation_class'', ''failure_type'', ''retry_class'']"

text \<open>The dictionary of a normalised entry.\<close>

definition entry_dict ::
    "dict \<Rightarrow> dict \<Rightarrow> dict \<Rightarrow> nat \<Rightarrow> string \<Rightarrow> int \<Rightarrow> int list \<Rightarrow> dict" where
  "entry_dict raw match decision index kind max_attempts backoff =
     (let pause_state = (case lower_or_none (get decision ''pause_state'') of None \<Rightarrow> None
            | Some s \<Rightarrow> if s \<in> set known_pause_states then Some s else None)
      in [(''id'', PStr (normalize_lower (''policy_'' @ nat_str index) (get raw ''id''))),
          (''index'', PInt (int index)),
          (''match'', PDict (match_dict match)),
          (''decision_kind'', PStr kind),
          (''retry_class'', opt_str (lower_or_none (get decision ''retry_class''))),
          (''max_attempts'', PInt max_attempts),
          (''backoff_seconds'', backoff_py backoff),
          (''pause_state'', opt_str pause_state),
          (''human_required'', PBool (truthy (get_or decision ''human_required'' (PBool False))))])"

definition normalize_entry :: "dict \<Rightarrow> nat \<Rightarrow> dict \<Rightarrow> dict option res" where
  "normalize_entry raw index defaults =
     (let match = nonempty_or (as_mapping (get raw ''match'')) raw;
          decision = nonempty_or (as_mapping (get raw ''decision'')) raw;
          default_kind = normalize_decision_kind DECISION_ESCALATE_TO_HUMAN
            (get defaults ''decision_kind'');
          kind = normalize_decision_kind default_kind (get decision ''decision_kind'')
      in res_bind (as_non_negative_int 1 (get defaults ''max_attempts'')) (\<lambda>default_attempts.
         res_bind (as_non_negative_int default_attempts (get decision ''max_attempts''))
           (\<lambda>max_attempts.
         res_bind (normalize_backoff_seconds [30] (get defaults ''backoff_seconds''))
           (\<lambda>default_backoff.
         res_bind (normalize_backoff_seconds default_backoff (get decision ''backoff_seconds''))
           (\<lambda>backoff.
         Inr
           (if match_is_broad match \<and> kind = DECISION_RETRY_NOW then None
            else Some (entry_dict raw match decision index kind max_attempts backoff)))))))"

fun normalize_entries :: "py list \<Rightarrow> nat \<Rightarrow> dict \<Rightarrow> dict list res" where
  "normalize_entries [] index defaults = Inr []"
| "normalize_entries (v # vs) index defaults =
     (case as_mapping v of
        None \<Rightarrow> normalize_entries vs (Suc index) defaults
      | Some raw \<Rightarrow>
          res_bind (normalize_entry raw index defaults) (\<lambda>e.
          res_bind (normalize_entries vs (Suc index) defaults) (\<lambda>es.
          Inr (case e of None \<Rightarrow> es | Some d \<Rightarrow> d # es))))"

definition index_of :: "dict \<Rightarrow> int" where
  "index_of e = (case get e ''index'' of PInt i \<Rightarrow> i | _ \<Rightarrow> 0)"

text \<open>The entries ordered by index, then by id: two stable sorts, the minor key first.\<close>

definition order_entries :: "dict list \<Rightarrow> dict list" where
  "order_entries es = sort_key index_of (sort_key (\<lambda>e. py_str (get e ''id'')) es)"

definition list_items :: "py \<Rightarrow> py list" where
  "list_items v = (case v of PList vs \<Rightarrow> vs | _ \<Rightarrow> [])"

definition normalize_retry_policy :: "py \<Rightarrow> dict res" where
  "normalize_retry_policy v =
     (case as_mapping v of
        None \<Rightarrow> Inr default_policy
      | Some raw \<Rightarrow>
          (let draw = mapping_or_empty (get raw ''defaults'') in
           res_bind (as_non_negative_int 1 (get draw ''max_attempts'')) (\<lambda>attempts.
           res_bind (normalize_backoff_seconds [30] (get draw ''backoff_seconds'')) (\<lambda>backoff.
           let defaults =
             [(''decision_kind'', PStr (normalize_decision_kind DECISION_ESCALATE_TO_HUMAN
                 (get draw ''decision_kind''))),
              (''max_attempts'', PInt attempts), (''backoff_seconds'', backoff_py backoff)]
           in res_bind (normalize_entries (list_items (get raw ''policies'')) 0 defaults) (\<lambda>es.
              Inr [(''schema_version'', PStr (normalize_lower ''v1'' (get raw ''schema_version''))),
                   (''defaults'', PDict defaults),
                   (''entries'', PList (map PDict (order_entries es)))])))))"

definition load_retry_policy :: "py \<Rightarrow> dict res" where
  "load_retry_policy yaml_root =
     (case as_mapping yaml_root of
        None \<Rightarrow> Inl (ValueError ''retry policy YAML must contain a mapping root'')
      | Some _ \<Rightarrow> normalize_retry_policy yaml_root)"

section \<open>Resolving\<close>

definition field_matches :: "string \<Rightarrow> string \<Rightarrow> bool" where
  "field_matches policy_value actual = (policy_value = ''*'' \<or> policy_value = actual)"

definition match_field :: "dict \<Rightarrow> string \<Rightarrow> string" where
  "match_field e k = normalize_lower ''*'' (get (mapping_or_empty (get e ''match'')) k)"

definition is_specific :: "dict \<Rightarrow> string \<Rightarrow> int" where
  "is_specific e k = (if match_field e k \<noteq> ''*'' then 1 else 0)"

definition specificity :: "dict \<Rightarrow> int list res" where
  "specificity e =
     res_bind (as_non_negative_int 0 (get e ''index'')) (\<lambda>i.
     Inr [is_specific e ''provider_class'', is_specific e ''operation_class'',
          is_specific e ''failure_type'', is_specific e ''retry_class'', - i])"

definition is_normalized_policy :: "py \<Rightarrow> bool" where
  "is_normalized_policy v =
     (case as_mapping v of
        None \<Rightarrow> False
      | Some d \<Rightarrow>
          (case get d ''entries'' of PList _ \<Rightarrow> True | _ \<Rightarrow> False) \<and>
          as_mapping (get d ''defaults'') \<noteq> None)"

record failure_key =
  fk_provider :: string
  fk_operation :: string
  fk_failure :: string
  fk_retry :: string

definition entry_matches :: "failure_key \<Rightarrow> dict \<Rightarrow> bool" where
  "entry_matches k e =
     (field_matches (match_field e ''provider_class'') (fk_provider k) \<and>
      field_matches (match_field e ''operation_class'') (fk_operation k) \<and>
      field_matches (match_field e ''failure_type'') (fk_failure k) \<and>
      field_matches (match_field e ''retry_class'') (fk_retry k))"

text \<open>\<open>sorted(..., reverse=True)[0]\<close>, which is stable: the first of the elements with the largest key.\<close>

definition best_entry :: "(int list \<times> dict) list \<Rightarrow> dict" where
  "best_entry ks = snd (hd (rev (sort_key fst (rev ks))))"

definition resolve_retry_policy_entry ::
    "py \<Rightarrow> string \<Rightarrow> string \<Rightarrow> string \<Rightarrow> string option \<Rightarrow> dict option res" where
  "resolve_retry_policy_entry policy provider operation failure retry =
     res_bind (if is_normalized_policy policy then Inr (mapping_or_empty policy)
               else normalize_retry_policy policy) (\<lambda>normalized.
     let key = \<lparr>fk_provider = normalize_lower ''generic'' (PStr provider),
                fk_operation = normalize_lower ''generic'' (PStr operation),
                fk_failure = normalize_lower ''unknown_failure'' (PStr failure),
                fk_retry = normalize_lower ''*'' (opt_str retry)\<rparr>;
         matched = filter (entry_matches key)
           (List.map_filter as_mapping (list_items (get normalized ''entries'')))
     in if matched = [] then Inr None
        else
          res_bind (res_map (\<lambda>e. res_bind (specificity e) (\<lambda>s. Inr (s, e))) matched) (\<lambda>ks.
          Inr (Some (best_entry ks))))"

section \<open>Properties\<close>

lemma max_key_first:
  assumes "xs \<noteq> []"
  shows "hd (rev (sort_key fst (rev xs))) \<in> set xs \<and>
    (\<forall>x \<in> set xs. fst x \<le> fst (hd (rev (sort_key fst (rev xs)))))"
proof -
  let ?s = "sort_key fst (rev xs)"
  have ne: "?s \<noteq> []" using assms by (metis length_sort length_rev length_0_conv)
  then have "hd (rev ?s) = last ?s" by (simp add: hd_rev)
  moreover have "last ?s \<in> set xs" using last_in_set [OF ne] by simp
  moreover have "fst x \<le> fst (last ?s)" if "x \<in> set xs" for x
  proof -
    from that have "x \<in> set ?s" by simp
    then obtain i where i: "i < length ?s" "?s ! i = x" by (metis in_set_conv_nth)
    have "map fst ?s ! i \<le> map fst ?s ! (length ?s - 1)"
      by (rule sorted_nth_mono) (use i in auto)
    with i ne show ?thesis by (simp add: last_conv_nth)
  qed
  ultimately show ?thesis by simp
qed

lemma list_all2_inD1: "list_all2 P xs ys \<Longrightarrow> x \<in> set xs \<Longrightarrow> \<exists>y \<in> set ys. P x y"
  by (induction rule: list_all2_induct) auto

lemma list_all2_inD2: "list_all2 P xs ys \<Longrightarrow> y \<in> set ys \<Longrightarrow> \<exists>x \<in> set xs. P x y"
  by (induction rule: list_all2_induct) auto

definition normalized_form :: "py \<Rightarrow> dict res" where
  "normalized_form policy =
     (if is_normalized_policy policy then Inr (mapping_or_empty policy)
      else normalize_retry_policy policy)"

definition key_of :: "string \<Rightarrow> string \<Rightarrow> string \<Rightarrow> string option \<Rightarrow> failure_key" where
  "key_of provider operation failure retry =
     \<lparr>fk_provider = normalize_lower ''generic'' (PStr provider),
      fk_operation = normalize_lower ''generic'' (PStr operation),
      fk_failure = normalize_lower ''unknown_failure'' (PStr failure),
      fk_retry = normalize_lower ''*'' (opt_str retry)\<rparr>"

definition policy_entries :: "dict \<Rightarrow> dict list" where
  "policy_entries p = List.map_filter as_mapping (list_items (get p ''entries''))"

lemma resolved:
  assumes "resolve_retry_policy_entry policy provider operation failure retry = Inr r"
  obtains p where "normalized_form policy = Inr p"
    and "case r of
           None \<Rightarrow> \<forall>e \<in> set (policy_entries p). \<not> entry_matches (key_of provider operation failure retry) e
         | Some e \<Rightarrow> e \<in> set (policy_entries p) \<and>
             entry_matches (key_of provider operation failure retry) e \<and>
             (\<exists>s. specificity e = Inr s \<and>
                (\<forall>e' \<in> set (policy_entries p). entry_matches (key_of provider operation failure retry) e' \<longrightarrow>
                   (\<exists>s'. specificity e' = Inr s' \<and> s' \<le> s)))"
proof -
  let ?k = "key_of provider operation failure retry"
  from assms obtain p where p: "normalized_form policy = Inr p"
    by (auto simp: resolve_retry_policy_entry_def normalized_form_def res_bind_eq_Inr)
  let ?m = "filter (entry_matches ?k) (policy_entries p)"
  note run = assms [unfolded resolve_retry_policy_entry_def normalized_form_def [symmetric] p res_bind_Inr
      Let_def key_of_def [symmetric] policy_entries_def [symmetric]]
  show thesis
  proof (cases "?m = []")
    case True
    with run show thesis by (intro that [OF p]) (auto simp: filter_empty_conv)
  next
    case False
    with run obtain ks where
      ks: "res_map (\<lambda>e. res_bind (specificity e) (\<lambda>s. Inr (s, e))) ?m = Inr ks"
      and r: "r = Some (best_entry ks)" by (auto simp: res_bind_eq_Inr)
    from ks have l2: "list_all2 (\<lambda>e se. specificity e = Inr (fst se) \<and> snd se = e) ?m ks"
      by (auto simp: res_map_Inr_iff res_bind_eq_Inr elim!: list_all2_mono)
    then have "length ?m = length ks" by (rule list_all2_lengthD)
    with False have "ks \<noteq> []" by auto
    note best = max_key_first [OF this]
    let ?b = "hd (rev (sort_key fst (rev ks)))"
    have origin: "\<exists>e \<in> set ?m. specificity e = Inr (fst se) \<and> snd se = e" if "se \<in> set ks" for se
      using list_all2_inD2 [OF l2 that] .
    have image: "\<exists>se \<in> set ks. specificity e = Inr (fst se)" if "e \<in> set ?m" for e
      using list_all2_inD1 [OF l2 that] by blast
    from origin best have b: "best_entry ks \<in> set ?m" "specificity (best_entry ks) = Inr (fst ?b)"
      unfolding best_entry_def by auto
    have "\<exists>s'. specificity e' = Inr s' \<and> s' \<le> fst ?b" if "e' \<in> set ?m" for e'
      using image [OF that] best by blast
    with b show thesis by (intro that [OF p]) (auto simp: r)
  qed
qed

text \<open>C39. The entry resolved for a failure is one of the policy's entries that match it, and no
  matching entry is more specific: provider before operation before failure type before retry
  class, then the earlier index. Nothing is resolved only when nothing matches.\<close>

theorem resolved_entry_is_the_most_specific:
  assumes "resolve_retry_policy_entry policy provider operation failure retry = Inr r"
  shows "\<exists>p. normalized_form policy = Inr p \<and>
    (case r of
       None \<Rightarrow> \<forall>e \<in> set (policy_entries p). \<not> entry_matches (key_of provider operation failure retry) e
     | Some e \<Rightarrow> e \<in> set (policy_entries p) \<and>
         entry_matches (key_of provider operation failure retry) e \<and>
         (\<exists>s. specificity e = Inr s \<and>
            (\<forall>e' \<in> set (policy_entries p). entry_matches (key_of provider operation failure retry) e' \<longrightarrow>
               (\<exists>s'. specificity e' = Inr s' \<and> s' \<le> s))))"
  by (rule resolved [OF assms]) blast

definition all_wild :: "dict \<Rightarrow> bool" where
  "all_wild e =
     list_all (\<lambda>k. match_field e k = ''*'')
       [''provider_class'', ''operation_class'', ''failure_type'', ''retry_class'']"

lemma normalized_match_field:
  "normalize_lower ''*'' (PStr (normalize_match_field v)) = normalize_match_field v"
proof -
  have star: "strip ''*'' = ''*''" "lower ''*'' = ''*''" by code_simp+
  show ?thesis by (simp add: normalize_match_field_def normalize_lower_def Let_def star)
qed

lemma entry_dict_gets:
  "get (entry_dict raw match decision i kind m backoff) ''decision_kind'' = PStr kind"
  "get (entry_dict raw match decision i kind m backoff) ''backoff_seconds'' = backoff_py backoff"
  "get (entry_dict raw match decision i kind m backoff) ''max_attempts'' = PInt m"
  "get (entry_dict raw match decision i kind m backoff) ''match'' = PDict (match_dict match)"
  by (simp_all add: entry_dict_def Let_def)

lemma all_wild_entry:
  "all_wild (entry_dict raw match decision i kind m backoff) = match_is_broad match"
  by (simp add: all_wild_def match_field_def entry_dict_gets match_is_broad_def)
     (simp add: match_dict_def normalized_match_field del: normalize_lower_PStr)

lemma normalize_entryD:
  assumes "normalize_entry raw i defaults = Inr (Some e)"
  obtains match decision kind m d backoff where
    "match = nonempty_or (as_mapping (get raw ''match'')) raw"
    and "decision = nonempty_or (as_mapping (get raw ''decision'')) raw"
    and "normalize_backoff_seconds [30] (get defaults ''backoff_seconds'') = Inr d"
    and "normalize_backoff_seconds d (get decision ''backoff_seconds'') = Inr backoff"
    and "\<not> (match_is_broad match \<and> kind = DECISION_RETRY_NOW)"
    and "e = entry_dict raw match decision i kind m backoff"
proof -
  let ?match = "nonempty_or (as_mapping (get raw ''match'')) raw"
  let ?decision = "nonempty_or (as_mapping (get raw ''decision'')) raw"
  let ?kind = "normalize_decision_kind (normalize_decision_kind DECISION_ESCALATE_TO_HUMAN
            (get defaults ''decision_kind'')) (get ?decision ''decision_kind'')"
  from assms obtain m d backoff where
    "normalize_backoff_seconds [30] (get defaults ''backoff_seconds'') = Inr d"
    "normalize_backoff_seconds d (get ?decision ''backoff_seconds'') = Inr backoff"
    "(if match_is_broad ?match \<and> ?kind = DECISION_RETRY_NOW then None
            else Some (entry_dict raw ?match ?decision i ?kind m backoff)) = Some e"
    unfolding normalize_entry_def Let_def res_bind_eq_Inr sum.inject by blast
  then show thesis by (intro that [OF refl refl, of d backoff ?kind m]) (auto split: if_splits)
qed

lemma normalize_entry_bounded:
  assumes "normalize_entry raw i defaults = Inr (Some e)"
  shows "\<not> (all_wild e \<and> get e ''decision_kind'' = PStr DECISION_RETRY_NOW)"
  by (rule normalize_entryD [OF assms]) (auto simp: all_wild_entry entry_dict_gets)

lemma normalize_entries_from:
  "normalize_entries vs i defaults = Inr es \<Longrightarrow> e \<in> set es \<Longrightarrow>
     \<exists>raw j. PDict raw \<in> set vs \<and> normalize_entry raw j defaults = Inr (Some e)"
proof (induction vs i defaults arbitrary: es rule: normalize_entries.induct)
  case (2 v vs index defaults)
  then show ?case
    by (cases v) (fastforce simp: res_bind_eq_Inr split: option.splits)+
qed simp

lemma normalized_entries:
  assumes "normalize_retry_policy (PDict raw) = Inr p" and "e \<in> set (policy_entries p)"
  obtains r j backoff attempts kind where "PDict r \<in> set (list_items (get raw ''policies''))"
    and "normalize_entry r j
      [(''decision_kind'', PStr kind), (''max_attempts'', PInt attempts),
       (''backoff_seconds'', backoff_py backoff)] = Inr (Some e)"
proof -
  let ?draw = "mapping_or_empty (get raw ''defaults'')"
  let ?kind = "normalize_decision_kind DECISION_ESCALATE_TO_HUMAN (get ?draw ''decision_kind'')"
  from assms(1) obtain attempts backoff es where es:
    "normalize_entries (list_items (get raw ''policies'')) 0
       [(''decision_kind'', PStr ?kind), (''max_attempts'', PInt attempts),
        (''backoff_seconds'', backoff_py backoff)] = Inr es"
    and p: "get p ''entries'' = PList (map PDict (order_entries es))"
    by (auto simp: normalize_retry_policy_def Let_def res_bind_eq_Inr)
  have "policy_entries p = order_entries es"
    by (simp add: policy_entries_def p list_items_def map_filter_def comp_def)
  with assms(2) have "e \<in> set es" by (simp add: order_entries_def)
  from normalize_entries_from [OF es this] show thesis using that by blast
qed

text \<open>In a policy that was normalised, no entry that matches every failure retries: such an entry
  is dropped.\<close>

theorem broad_entries_never_retry:
  assumes "normalize_retry_policy (PDict raw) = Inr p" and "e \<in> set (policy_entries p)"
    and "all_wild e"
  shows "get e ''decision_kind'' \<noteq> PStr DECISION_RETRY_NOW"
  by (rule normalized_entries [OF assms(1,2)]) (use assms(3) normalize_entry_bounded in blast)

text \<open>The default backoff schedule of a policy never reaches its entries: normalising turns it
  into a tuple, which the entries' reader does not take, so an entry without a schedule of its
  own waits 30 seconds whatever the defaults say.\<close>

theorem default_backoff_is_ignored:
  assumes "normalize_retry_policy (PDict [(''defaults'', PDict [(''backoff_seconds'', PInt n)]),
      (''policies'', PList [PDict raw])]) = Inr p"
    and "get (nonempty_or (as_mapping (get raw ''decision'')) raw) ''backoff_seconds'' = PNone"
    and "e \<in> set (policy_entries p)"
  shows "get e ''backoff_seconds'' = backoff_py [30]"
proof (rule normalized_entries [OF assms(1,3)])
  fix r j backoff attempts kind
  assume "PDict r \<in> set (list_items (get [(''defaults'', PDict [(''backoff_seconds'', PInt n)]),
      (''policies'', PList [PDict raw])] ''policies''))"
  then have r: "r = raw" by (simp add: list_items_def)
  assume "normalize_entry r j
      [(''decision_kind'', PStr kind), (''max_attempts'', PInt attempts),
       (''backoff_seconds'', backoff_py backoff)] = Inr (Some e)"
  then show ?thesis
    by (rule normalize_entryD) (use assms(2) r in \<open>auto simp: backoff_py_def entry_dict_gets\<close>)
qed

section \<open>Witnesses\<close>

definition sample_policy :: py where
  "sample_policy = PDict
     [(''defaults'', PDict [(''backoff_seconds'', PInt 120)]),
      (''policies'', PList
         [PDict [(''id'', PStr ''any''), (''decision'', PDict [(''decision_kind'', PStr ''escalate_to_human'')])],
          PDict [(''id'', PStr ''codex''), (''match'', PDict [(''provider_class'', PStr ''codex'')]),
                 (''decision'', PDict [(''decision_kind'', PStr ''retry_now'')])]])]"

theorem resolved_entry_is_the_most_specific_witness:
  "case resolve_retry_policy_entry sample_policy ''codex'' ''execution'' ''transport_timeout'' None of
     Inr (Some e) \<Rightarrow> get e ''id'' = PStr ''codex'' \<and>
       (\<exists>p. normalized_form sample_policy = Inr p \<and> e \<in> set (policy_entries p))
   | _ \<Rightarrow> False"
proof -
  let ?r = "resolve_retry_policy_entry sample_policy ''codex'' ''execution'' ''transport_timeout'' None"
  have "case ?r of Inr (Some e) \<Rightarrow> get e ''id'' = PStr ''codex'' | _ \<Rightarrow> False" by code_simp
  then obtain e where e: "?r = Inr (Some e)" "get e ''id'' = PStr ''codex''"
    by (auto split: sum.splits option.splits)
  from resolved_entry_is_the_most_specific [OF e(1)] e show ?thesis by auto
qed

theorem broad_entries_never_retry_witness:
  "case normalize_retry_policy sample_policy of
     Inl _ \<Rightarrow> False
   | Inr p \<Rightarrow> (case policy_entries p of
       e # _ \<Rightarrow> all_wild e \<and> get e ''decision_kind'' \<noteq> PStr DECISION_RETRY_NOW | [] \<Rightarrow> False)"
proof -
  have "case normalize_retry_policy sample_policy of Inl _ \<Rightarrow> False
    | Inr p \<Rightarrow> (case policy_entries p of e # _ \<Rightarrow> all_wild e | [] \<Rightarrow> False)" by code_simp
  then obtain p e es where p: "normalize_retry_policy sample_policy = Inr p"
    and e: "policy_entries p = e # es" "all_wild e"
    by (auto split: sum.splits list.splits)
  from p obtain raw where "normalize_retry_policy (PDict raw) = Inr p"
    by (simp add: sample_policy_def)
  from broad_entries_never_retry [OF this _ e(2)] e p show ?thesis by simp
qed

theorem default_backoff_is_ignored_witness:
  "case normalize_retry_policy (PDict [(''defaults'', PDict [(''backoff_seconds'', PInt 120)]),
      (''policies'', PList [PDict [(''id'', PStr ''a''), (''failure_type'', PStr ''timeout'')]])]) of
     Inl _ \<Rightarrow> False
   | Inr p \<Rightarrow> (case policy_entries p of e # _ \<Rightarrow> get e ''backoff_seconds'' = backoff_py [30] | [] \<Rightarrow> False)"
proof -
  let ?raw = "[(''id'', PStr ''a''), (''failure_type'', PStr ''timeout'')]"
  let ?n = "normalize_retry_policy (PDict [(''defaults'', PDict [(''backoff_seconds'', PInt 120)]),
      (''policies'', PList [PDict ?raw])])"
  have "case ?n of Inl _ \<Rightarrow> False | Inr p \<Rightarrow> (case policy_entries p of e # _ \<Rightarrow> True | [] \<Rightarrow> False)"
    by code_simp
  then obtain p e es where p: "?n = Inr p" and e: "policy_entries p = e # es"
    by (auto split: sum.splits list.splits)
  from default_backoff_is_ignored [OF p] e p show ?thesis by (simp add: nonempty_or_def)
qed

end
