(* ===== verification/Pause_State.thy ===== *)
theory Pause_State
  imports IsoTime Job_Store
begin

text \<open>
  \<open>automation/scheduler/pause_state.py\<close>: why a run is paused and until when, read from the
  decision, the handoff and the wording of the reason; the pause file of a run; and the
  conditions under which the scheduler may resume it.

  A reading of the clock (\<open>now()\<close>) is an argument: every function reads it at most once.
\<close>

section \<open>The states and the wordings\<close>

abbreviation "PAUSE_STATE_PROVIDER_CAPACITY \<equiv> ''waiting_for_provider_capacity''"
abbreviation "PAUSE_STATE_RATE_LIMIT \<equiv> ''waiting_for_rate_limit_reset''"
abbreviation "PAUSE_STATE_CHECKS \<equiv> ''waiting_for_checks''"
abbreviation "PAUSE_STATE_HUMAN \<equiv> ''waiting_for_human''"
abbreviation "PAUSE_STATE_OTHER \<equiv> ''paused_other_bounded''"

definition pause_states :: "string list" where
  "pause_states =
     [PAUSE_STATE_PROVIDER_CAPACITY, PAUSE_STATE_RATE_LIMIT, PAUSE_STATE_CHECKS,
      PAUSE_STATE_HUMAN, PAUSE_STATE_OTHER]"

definition rate_limit_patterns :: "string list" where
  "rate_limit_patterns =
     [''rate limit'', ''rate_limit'', ''retry-after'', ''retry after'', ''429'', ''too many requests'']"

definition provider_capacity_patterns :: "string list" where
  "provider_capacity_patterns =
     [''provider capacity'', ''capacity unavailable'', ''capacity exhausted'',
      ''temporarily unavailable'', ''provider unavailable'', ''service unavailable'', ''overloaded'']"

definition check_wait_patterns :: "string list" where
  "check_wait_patterns =
     [''wait for checks'', ''checks pending'', ''check pending'', ''checks not ready'',
      ''check status pending'']"

text \<open>\<open>_contains_any\<close> lowers the text before it searches.\<close>

definition mentions :: "string \<Rightarrow> string list \<Rightarrow> bool" where
  "mentions text patterns = contains_any (lower text) patterns"

section \<open>The two regular expressions\<close>

text \<open>\<open>drop_prefix\<close> matches a lower-case literal, ignoring the case of the text.\<close>

definition drop_prefix :: "string \<Rightarrow> string \<Rightarrow> string option" where
  "drop_prefix p s = (if starts_with (lower s) p then Some (drop (length p) s) else None)"

definition drop_separator :: "string \<Rightarrow> string" where
  "drop_separator s =
     (case s of c # cs \<Rightarrow> if c \<in> {CHR ''_'', CHR '' '', CHR ''-''} then cs else s | [] \<Rightarrow> [])"

text \<open>
  \<open>_RETRY_AFTER_PATTERN\<close> at one position: \<open>retry\<close>, a separator, \<open>after\<close>, optionally \<open>seconds\<close>
  with its separator, white space around an optional \<open>=\<close> or \<open>:\<close>, and the digits. Each optional
  part starts with a character the next part cannot start with, so the match is unique.
\<close>

definition retry_after_here :: "string \<Rightarrow> int option" where
  "retry_after_here s =
     (case drop_prefix ''retry'' s of
        None \<Rightarrow> None
      | Some r1 \<Rightarrow>
          (case drop_prefix ''after'' (drop_separator r1) of
             None \<Rightarrow> None
           | Some r2 \<Rightarrow>
               (let r3 = (case drop_prefix ''seconds'' (drop_separator r2) of
                            Some r \<Rightarrow> r | None \<Rightarrow> r2);
                    r4 = lstrip r3;
                    r5 = (case r4 of c # cs \<Rightarrow> if c = CHR ''='' \<or> c = CHR '':'' then cs else r4
                                   | [] \<Rightarrow> []);
                    ds = takeWhile is_ascii_digit (lstrip r5)
                in if ds = [] then None else Some (int (digits_value ds)))))"

fun retry_after_search :: "string \<Rightarrow> int option" where
  "retry_after_search [] = None"
| "retry_after_search (c # cs) =
     (case retry_after_here (c # cs) of Some n \<Rightarrow> Some n | None \<Rightarrow> retry_after_search cs)"

text \<open>A word character of \<open>re\<close>: alphanumeric or an underscore.\<close>

definition is_word_char :: "char \<Rightarrow> bool" where
  "is_word_char c =
     (let n = code c in
      48 \<le> n \<and> n \<le> 57 \<or> 65 \<le> n \<and> n \<le> 90 \<or> 97 \<le> n \<and> n \<le> 122 \<or> n = 95 \<or>
      n \<in> {170, 178, 179, 181, 185, 186, 188, 189, 190} \<or>
      192 \<le> n \<and> n \<noteq> 215 \<and> n \<noteq> 247)"

definition provider_names :: "string list" where
  "provider_names = [''codex'', ''chatgpt'', ''openai'']"

definition provider_here :: "string \<Rightarrow> string option" where
  "provider_here s =
     List.find (\<lambda>p. case drop_prefix p s of
         None \<Rightarrow> False
       | Some r \<Rightarrow> (case r of [] \<Rightarrow> True | c # _ \<Rightarrow> \<not> is_word_char c)) provider_names"

fun provider_search :: "bool \<Rightarrow> string \<Rightarrow> string option" where
  "provider_search inside [] = None"
| "provider_search inside (c # cs) =
     (case (if inside then None else provider_here (c # cs)) of
        Some p \<Rightarrow> Some p
      | None \<Rightarrow> provider_search (is_word_char c) cs)"

section \<open>Reading the payloads\<close>

fun first_some :: "('a \<Rightarrow> 'b option res) \<Rightarrow> 'a list \<Rightarrow> 'b option res" where
  "first_some f [] = Inr None"
| "first_some f (x # xs) =
     res_bind (f x) (\<lambda>r. case r of Some y \<Rightarrow> Inr (Some y) | None \<Rightarrow> first_some f xs)"

definition payloads_of :: "py \<Rightarrow> py \<Rightarrow> dict list" where
  "payloads_of handoff decision = List.map_filter as_mapping [handoff, decision]"

definition extract_provider_name :: "py \<Rightarrow> py \<Rightarrow> string \<Rightarrow> string option" where
  "extract_provider_name handoff decision reason_text =
     (case filter (\<lambda>t. t \<noteq> [])
             (concat (map (\<lambda>d. [normalize_text [] (get d ''provider_name''),
                                normalize_text [] (get d ''provider'')])
                (payloads_of handoff decision))) of
        t # _ \<Rightarrow> Some t
      | [] \<Rightarrow> provider_search False reason_text)"

definition non_negative_seconds :: "py \<Rightarrow> int option res" where
  "non_negative_seconds v =
     res_bind (as_optional_int v) (\<lambda>r.
       Inr (case r of Some n \<Rightarrow> if 0 \<le> n then Some n else None | None \<Rightarrow> None))"

definition extract_retry_after_seconds :: "py \<Rightarrow> py \<Rightarrow> string \<Rightarrow> int option res" where
  "extract_retry_after_seconds handoff decision reason_text =
     res_bind
       (first_some non_negative_seconds
         (concat (map (\<lambda>d. [get d ''retry_after_seconds'', get d ''retry_after''])
            (payloads_of handoff decision))))
       (\<lambda>r. Inr (case r of Some n \<Rightarrow> Some n | None \<Rightarrow> retry_after_search reason_text))"

definition payload_next_eligible :: "dict \<Rightarrow> datetime option" where
  "payload_next_eligible d =
     (case parse_iso_datetime (get d ''next_eligible_at'') of
        Some t \<Rightarrow> Some t
      | None \<Rightarrow>
          (case as_mapping (get d ''updated_retry_context'') of
             None \<Rightarrow> None
           | Some c \<Rightarrow> parse_iso_datetime (get c ''next_eligible_at'')))"

definition extract_next_eligible_at :: "py \<Rightarrow> py \<Rightarrow> string option" where
  "extract_next_eligible_at handoff decision =
     (case List.map_filter payload_next_eligible (payloads_of handoff decision) of
        t # _ \<Rightarrow> Some (iso_seconds t)
      | [] \<Rightarrow> None)"

definition compute_next_eligible_at ::
    "int option \<Rightarrow> string option \<Rightarrow> datetime \<Rightarrow> string option res" where
  "compute_next_eligible_at retry_after next_eligible now =
     (case (case next_eligible of
              None \<Rightarrow> None
            | Some s \<Rightarrow> if s = [] then None else parse_iso_datetime (PStr s)) of
        Some t \<Rightarrow> Inr (Some (iso_seconds t))
      | None \<Rightarrow>
          (case retry_after of
             None \<Rightarrow> Inr None
           | Some n \<Rightarrow> res_bind (add_seconds now (max 0 n)) (\<lambda>t. Inr (Some (iso_seconds t)))))"

section \<open>The condition\<close>

record pause_condition =
  pc_pause_state :: string
  pc_pause_reason :: string
  pc_provider_name :: "string option"
  pc_retry_after_seconds :: "int option"
  pc_next_eligible_at :: "string option"
  pc_whether_human_required :: bool

definition or_text :: "string \<Rightarrow> string \<Rightarrow> string" where
  "or_text s d = (if s \<noteq> [] then s else d)"

definition explicit_pause_state :: "py \<Rightarrow> string" where
  "explicit_pause_state handoff =
     (let s = normalize_text [] (get (mapping_or_empty handoff) ''pause_state'') in
      if s \<noteq> [] \<and> s \<notin> set pause_states then PAUSE_STATE_OTHER else s)"

definition classify_pause_condition ::
    "string \<Rightarrow> string \<Rightarrow> py \<Rightarrow> py \<Rightarrow> py \<Rightarrow> datetime \<Rightarrow> pause_condition option res" where
  "classify_pause_condition next_action reason human handoff decision now =
     (let action = normalize_text [] (PStr next_action);
          reason = normalize_text [] (PStr reason);
          explicit = explicit_pause_state handoff
      in res_bind (extract_retry_after_seconds handoff decision reason) (\<lambda>after.
         res_bind (compute_next_eligible_at after (extract_next_eligible_at handoff decision) now)
           (\<lambda>eligible.
         let provider = extract_provider_name handoff decision reason;
             pause = (\<lambda>state words.
               Some \<lparr>pc_pause_state = state, pc_pause_reason = or_text reason words,
                     pc_provider_name = provider, pc_retry_after_seconds = after,
                     pc_next_eligible_at = eligible, pc_whether_human_required = False\<rparr>)
         in Inr
           (if as_bool human then
              Some \<lparr>pc_pause_state = PAUSE_STATE_HUMAN,
                    pc_pause_reason = or_text reason ''human review required'',
                    pc_provider_name = provider, pc_retry_after_seconds = None,
                    pc_next_eligible_at = None, pc_whether_human_required = True\<rparr>
            else if action = ''wait_for_checks'' \<or> mentions (lower reason) check_wait_patterns then
              pause (or_text explicit PAUSE_STATE_CHECKS) ''waiting for checks''
            else if mentions (lower reason) rate_limit_patterns then
              pause (or_text explicit PAUSE_STATE_RATE_LIMIT) ''provider rate limit encountered''
            else if mentions (lower reason) provider_capacity_patterns then
              pause (or_text explicit PAUSE_STATE_PROVIDER_CAPACITY)
                ''provider capacity temporarily unavailable''
            else if explicit \<noteq> [] then pause explicit ''explicit bounded pause requested''
            else None))))"

section \<open>The pause file\<close>

definition resume_count_of :: "dict \<Rightarrow> int res" where
  "resume_count_of d =
     res_bind (as_optional_int (get d ''resume_count'')) (\<lambda>r.
       Inr (max 0 (case r of Some n \<Rightarrow> n | None \<Rightarrow> 0)))"

definition pause_payload ::
    "string \<Rightarrow> py \<Rightarrow> pause_condition \<Rightarrow> string \<Rightarrow> dict \<Rightarrow> dict \<Rightarrow> string \<Rightarrow> int \<Rightarrow> dict" where
  "pause_payload job_id run_id c resume_from_stage summary previous paused_at resume_count =
     [(''pause_schema_version'', PStr ''v1''),
      (''job_id'', PStr (normalize_text [] (PStr job_id))),
      (''run_id'', opt_str (text_or_none run_id)),
      (''lifecycle_state'', PStr ''paused''),
      (''pause_state'', PStr (if pc_pause_state c \<notin> set pause_states then PAUSE_STATE_OTHER
                             else pc_pause_state c)),
      (''pause_reason'', PStr (normalize_text [] (PStr (pc_pause_reason c)))),
      (''provider_name'', opt_str (text_or_none (opt_str (pc_provider_name c)))),
      (''retry_after_seconds'', opt_int (pc_retry_after_seconds c)),
      (''next_eligible_at'', opt_str (text_or_none (opt_str (pc_next_eligible_at c)))),
      (''resume_from_stage'',
         PStr (normalize_text ''planned_execution_dispatch'' (PStr resume_from_stage))),
      (''whether_human_required'', PBool (pc_whether_human_required c)),
      (''preserved_inputs_summary'', PDict summary),
      (''paused_at'', PStr (normalize_text paused_at (get previous ''paused_at''))),
      (''updated_at'', PStr paused_at),
      (''resume_count'', PInt resume_count),
      (''last_resumed_at'', opt_str (text_or_none (get previous ''last_resumed_at'')))]"

definition build_pause_payload ::
    "string \<Rightarrow> py \<Rightarrow> pause_condition \<Rightarrow> string \<Rightarrow> dict \<Rightarrow> py \<Rightarrow> datetime \<Rightarrow> dict res" where
  "build_pause_payload job_id run_id c resume_from_stage summary previous_payload now =
     (let previous = mapping_or_empty previous_payload
      in res_bind (resume_count_of previous) (\<lambda>resume_count.
         Inr (pause_payload job_id run_id c resume_from_stage summary previous (iso_seconds now)
           resume_count)))"

text \<open>The file is the value its text parses to; writing a payload gives the value it reads back as.\<close>

definition load_pause_payload :: "py option \<Rightarrow> dict option" where
  "load_pause_payload file = (case file of None \<Rightarrow> None | Some v \<Rightarrow> as_mapping v)"

definition persist_pause_payload :: "dict \<Rightarrow> dict \<times> py option" where
  "persist_pause_payload payload =
     (let p = (if normalize_text [] (get payload ''pause_state'') \<notin> set pause_states
               then put ''pause_state'' (PStr PAUSE_STATE_OTHER) payload else payload)
      in (p, Some (json_value (PDict p))))"

definition is_pause_active :: "py \<Rightarrow> bool" where
  "is_pause_active payload =
     (case as_mapping payload of
        None \<Rightarrow> False
      | Some d \<Rightarrow> normalize_text ''paused'' (get d ''lifecycle_state'') = ''paused'')"

definition is_pause_resume_eligible :: "py \<Rightarrow> datetime \<Rightarrow> bool res" where
  "is_pause_resume_eligible payload now =
     (if \<not> is_pause_active payload then Inr False
      else
        let d = mapping_or_empty payload in
        if as_bool (get d ''manual_resume_requested'') then Inr True
        else
          case parse_iso_datetime (get d ''next_eligible_at'') of
            Some t \<Rightarrow> dt_ge now t
          | None \<Rightarrow> Inr False)"

definition mark_pause_resumed ::
    "py option \<Rightarrow> datetime \<Rightarrow> string \<Rightarrow> (dict option \<times> py option) res" where
  "mark_pause_resumed file now resume_reason =
     (case load_pause_payload file of
        None \<Rightarrow> Inr (None, file)
      | Some current \<Rightarrow>
          if \<not> is_pause_active (PDict current) then Inr (Some current, file)
          else
            res_bind (resume_count_of current) (\<lambda>n.
            let updated =
                  put ''updated_at'' (PStr (iso_seconds now))
                  (put ''resume_reason''
                    (PStr (normalize_text ''pause_eligible_for_resume'' (PStr resume_reason)))
                  (put ''last_resumed_at'' (PStr (iso_seconds now))
                  (put ''resume_count'' (PInt (n + 1))
                  (put ''lifecycle_state'' (PStr ''resumed'') current))));
                (p, file') = persist_pause_payload updated
            in Inr (Some p, file')))"

section \<open>What is read back from the file\<close>

lemma json_value_opt [simp]: "json_value (opt_str v) = opt_str v" "json_value (opt_int i) = opt_int i"
  by (cases v; simp) (cases i; simp)

lemma persist_keys_ok:
  assumes "keys_ok p"
  obtains d where "load_pause_payload (snd (persist_pause_payload p)) = Some d" "keys_ok d"
    "\<And>k. get d k = json_value (get (fst (persist_pause_payload p)) k)"
proof -
  have "keys_ok (fst (persist_pause_payload p))"
    using assms by (simp add: persist_pause_payload_def Let_def)
  then obtain d where "json_value (PDict (fst (persist_pause_payload p))) = PDict d" "keys_ok d"
    "\<And>k. get d k = json_value (get (fst (persist_pause_payload p)) k)"
    by (rule json_dict) blast
  then show thesis
    by (intro that [of d]) (simp_all add: load_pause_payload_def persist_pause_payload_def Let_def)
qed

lemma pause_states_strip: "s \<in> set pause_states \<Longrightarrow> strip s = s \<and> s \<noteq> []"
proof -
  have "\<forall>s \<in> set pause_states. strip s = s \<and> s \<noteq> []" by code_simp
  then show "s \<in> set pause_states \<Longrightarrow> strip s = s \<and> s \<noteq> []" by blast
qed

lemma PAUSE_STATE_OTHER_known [simp]: "PAUSE_STATE_OTHER \<in> set pause_states"
  by (simp add: pause_states_def)

lemma pause_payload_gets:
  assumes p: "p = pause_payload job run c stage summary previous at n"
  shows "get p ''lifecycle_state'' = PStr ''paused''" "get p ''manual_resume_requested'' = PNone"
    "get p ''next_eligible_at'' = opt_str (text_or_none (opt_str (pc_next_eligible_at c)))"
    "get p ''resume_count'' = PInt n"
    "get p ''paused_at'' = PStr (normalize_text at (get previous ''paused_at''))"
    "get p ''pause_state'' = PStr (if pc_pause_state c \<notin> set pause_states then PAUSE_STATE_OTHER
                             else pc_pause_state c)"
    "keys_ok p"
  unfolding p pause_payload_def by (simp_all add: keys_ok_def)

lemma persist_built:
  assumes p: "p = pause_payload job run c stage summary previous at n"
  shows "persist_pause_payload p = (p, Some (json_value (PDict p)))"
proof -
  let ?s = "if pc_pause_state c \<notin> set pause_states then PAUSE_STATE_OTHER else pc_pause_state c"
  have "?s \<in> set pause_states" by simp
  moreover have "get p ''pause_state'' = PStr ?s" using p by (rule pause_payload_gets)
  ultimately obtain s where "get p ''pause_state'' = PStr s" "s \<in> set pause_states" by blast
  with pause_states_strip [OF this(2)] show ?thesis
    by (simp add: persist_pause_payload_def)
qed

text \<open>A built payload, written and read back, entry by entry.\<close>

lemma built_payload:
  assumes "build_pause_payload job run c stage summary prev now = Inr p"
    and "load_pause_payload (snd (persist_pause_payload p)) = Some d"
  obtains n where "resume_count_of (mapping_or_empty prev) = Inr n" and "keys_ok d"
    and "get d ''lifecycle_state'' = PStr ''paused''" and "get d ''manual_resume_requested'' = PNone"
    and "get d ''next_eligible_at'' = opt_str (text_or_none (opt_str (pc_next_eligible_at c)))"
    and "get d ''resume_count'' = PInt n"
    and "get d ''paused_at'' =
      PStr (normalize_text (iso_seconds now) (get (mapping_or_empty prev) ''paused_at''))"
proof -
  from assms(1) obtain n where n: "resume_count_of (mapping_or_empty prev) = Inr n"
    and p: "p = pause_payload job run c stage summary (mapping_or_empty prev) (iso_seconds now) n"
    by (auto simp: build_pause_payload_def Let_def res_bind_eq_Inr)
  note g = pause_payload_gets [OF p]
  have "keys_ok p" by (rule g)
  then obtain d' where d': "load_pause_payload (snd (persist_pause_payload p)) = Some d'" "keys_ok d'"
    "\<And>k. get d' k = json_value (get (fst (persist_pause_payload p)) k)"
    by (rule persist_keys_ok) blast
  have "d' = d" using d'(1) assms(2) by simp
  note d = d'(2) [unfolded this] and get = d'(3) [unfolded this persist_built [OF p] fst_conv]
  have e: "get d ''lifecycle_state'' = PStr ''paused''" "get d ''manual_resume_requested'' = PNone"
    "get d ''next_eligible_at'' = opt_str (text_or_none (opt_str (pc_next_eligible_at c)))"
    "get d ''resume_count'' = PInt n"
    "get d ''paused_at'' =
      PStr (normalize_text (iso_seconds now) (get (mapping_or_empty prev) ''paused_at''))"
    unfolding get g json_value_opt json_value.simps by (rule refl)+
  show thesis by (rule that [OF n d e])
qed

lemma strip_paused: "strip ''paused'' = ''paused''" "strip ''resumed'' = ''resumed''"
  by code_simp+

text \<open>Whether a freshly written pause may be resumed depends on its time alone.\<close>

lemma eligible_after_build:
  assumes "build_pause_payload job run c stage summary prev now = Inr p"
    and "load_pause_payload (snd (persist_pause_payload p)) = Some d"
  shows "is_pause_resume_eligible (PDict d) u =
    (case parse_iso_datetime (opt_str (text_or_none (opt_str (pc_next_eligible_at c)))) of
       Some t \<Rightarrow> dt_ge u t | None \<Rightarrow> Inr False)"
  by (rule built_payload [OF assms])
     (simp add: is_pause_resume_eligible_def is_pause_active_def strip_paused)

section \<open>Properties\<close>

lemma first_some_holds:
  "first_some f xs = Inr (Some y) \<Longrightarrow> \<exists>x \<in> set xs. f x = Inr (Some y)"
  by (induction xs) (auto simp: res_bind_eq_Inr split: option.splits)

lemma retry_after_search_nonneg: "retry_after_search s = Some n \<Longrightarrow> 0 \<le> n"
proof (induction s)
  case (Cons c cs)
  have "retry_after_here t = Some n \<Longrightarrow> 0 \<le> n" for t
    by (auto simp: retry_after_here_def Let_def split: option.splits if_splits)
  with Cons show ?case by (auto split: option.splits)
qed simp

lemma retry_after_nonneg:
  assumes "extract_retry_after_seconds handoff decision reason = Inr (Some n)"
  shows "0 \<le> n"
proof -
  have "non_negative_seconds v = Inr (Some m) \<Longrightarrow> 0 \<le> m" for v m
    by (auto simp: non_negative_seconds_def res_bind_eq_Inr split: option.splits if_splits)
  with assms show ?thesis
    by (auto simp: extract_retry_after_seconds_def res_bind_eq_Inr split: option.splits
        dest!: first_some_holds retry_after_search_nonneg)
qed

lemma classified:
  assumes "classify_pause_condition action reason human handoff decision now = Inr (Some c)"
  obtains after eligible where
    "extract_retry_after_seconds handoff decision (normalize_text [] (PStr reason)) = Inr after"
    and "compute_next_eligible_at after (extract_next_eligible_at handoff decision) now = Inr eligible"
    and "if as_bool human
         then pc_pause_state c = PAUSE_STATE_HUMAN \<and> pc_whether_human_required c \<and>
              pc_retry_after_seconds c = None \<and> pc_next_eligible_at c = None
         else \<not> pc_whether_human_required c \<and> pc_retry_after_seconds c = after \<and>
              pc_next_eligible_at c = eligible"
proof -
  from assms obtain after eligible where
    e: "extract_retry_after_seconds handoff decision (normalize_text [] (PStr reason)) = Inr after"
      "compute_next_eligible_at after (extract_next_eligible_at handoff decision) now = Inr eligible"
    unfolding classify_pause_condition_def Let_def res_bind_eq_Inr by blast
  from assms have "if as_bool human
         then pc_pause_state c = PAUSE_STATE_HUMAN \<and> pc_whether_human_required c \<and>
              pc_retry_after_seconds c = None \<and> pc_next_eligible_at c = None
         else \<not> pc_whether_human_required c \<and> pc_retry_after_seconds c = after \<and>
              pc_next_eligible_at c = eligible"
    unfolding classify_pause_condition_def Let_def e res_bind_Inr sum.inject
    by (simp split: if_splits) (drule sym, simp)+
  with e show thesis by (rule that)
qed



text \<open>The waiting-for-human state alone does not keep a pause waiting: a handoff that asks for
  that state explicitly and also gives a retry delay is eligible once the delay is over.\<close>

theorem explicit_human_pause_resumes_after_its_delay:
  assumes "dt_valid now" and "add_seconds now 60 = Inr t"
  shows "case classify_pause_condition [] [] (PBool False)
            (PDict [(''pause_state'', PStr PAUSE_STATE_HUMAN), (''retry_after_seconds'', PInt 60)])
            PNone now of
           Inr (Some c) \<Rightarrow> pc_pause_state c = PAUSE_STATE_HUMAN \<and>
             (case build_pause_payload ''job'' PNone c [] [] PNone now of
                Inr p \<Rightarrow> is_pause_resume_eligible (PDict p) t = Inr True
              | Inl _ \<Rightarrow> False)
         | _ \<Rightarrow> False"
proof -
  let ?h = "PDict [(''pause_state'', PStr PAUSE_STATE_HUMAN), (''retry_after_seconds'', PInt 60)]"
  have after: "extract_retry_after_seconds ?h PNone [] = Inr (Some 60)" by code_simp
  have el: "extract_next_eligible_at ?h PNone = None" by code_simp
  have ex: "explicit_pause_state ?h = PAUSE_STATE_HUMAN" by code_simp
  have no: "\<not> mentions [] check_wait_patterns" "\<not> mentions [] rate_limit_patterns"
    "\<not> mentions [] provider_capacity_patterns" by code_simp+
  have t: "dt_valid t" using assms by (rule add_seconds_valid)
  have "compute_next_eligible_at (Some 60) None now = Inr (Some (iso_seconds t))"
    using assms(2) by (simp add: compute_next_eligible_at_def)
  then obtain c where c: "classify_pause_condition [] [] (PBool False) ?h PNone now = Inr (Some c)"
    "pc_pause_state c = PAUSE_STATE_HUMAN" "pc_next_eligible_at c = Some (iso_seconds t)"
    by (simp add: classify_pause_condition_def after el ex no or_text_def Let_def)
  obtain p where p: "build_pause_payload ''job'' PNone c [] [] PNone now = Inr p"
    and "p = pause_payload ''job'' PNone c [] [] [] (iso_seconds now) 0"
    by (simp add: build_pause_payload_def resume_count_of_def)
  note g = pause_payload_gets [OF this(2)]
  have "is_pause_resume_eligible (PDict p) t = dt_ge t (floor_seconds t)"
    using t by (simp add: is_pause_resume_eligible_def is_pause_active_def g strip_paused c(3))
  moreover have "dt_ge t (floor_seconds t) = Inr True"
  proof -
    have "micros t div 1000000 * 1000000 \<le> micros t"
      using div_mult_mod_eq [of "micros t" 1000000] by (metis add_le_same_cancel1 add_increasing2 order_refl pos_mod_sign zero_less_numeral)
    then show ?thesis by (simp add: dt_ge_def comparable_def utc_micros_def split: option.split)
  qed
  ultimately show ?thesis by (simp add: c p)
qed

definition noon :: datetime where
  "noon = \<lparr>micros = 63800000000000000 + 43200000000, offset = None\<rparr>"

lemma fresh_pause:
  obtains p d where "build_pause_payload job run c stage summary PNone now = Inr p"
    and "load_pause_payload (snd (persist_pause_payload p)) = Some d"
    and "json_value (PDict p) = PDict d"
proof -
  obtain p where p: "build_pause_payload job run c stage summary PNone now = Inr p"
    and e: "p = pause_payload job run c stage summary [] (iso_seconds now) 0"
    by (simp add: build_pause_payload_def resume_count_of_def)
  have "keys_ok p" using e by (rule pause_payload_gets)
  then obtain d where "json_value (PDict p) = PDict d" by (rule json_dict)
  with p persist_built [OF e] show thesis by (intro that) (simp_all add: load_pause_payload_def)
qed



theorem explicit_human_pause_resumes_after_its_delay_witness:
  "case classify_pause_condition [] [] (PBool False)
      (PDict [(''pause_state'', PStr PAUSE_STATE_HUMAN), (''retry_after_seconds'', PInt 60)])
      PNone noon of
     Inr (Some c) \<Rightarrow> pc_pause_state c = PAUSE_STATE_HUMAN \<and>
       (case build_pause_payload ''job'' PNone c [] [] PNone noon of
          Inr p \<Rightarrow> is_pause_resume_eligible (PDict p) (noon\<lparr>micros := micros noon + 60000000\<rparr>) = Inr True
        | Inl _ \<Rightarrow> False)
   | _ \<Rightarrow> False"
  by (rule explicit_human_pause_resumes_after_its_delay) code_simp+

section \<open>Pausing and resuming again and again\<close>

text \<open>One pause of a run and its resumption, on top of whatever the pause file holds.\<close>

definition pause_cycle ::
    "string \<Rightarrow> pause_condition \<times> datetime \<times> datetime \<Rightarrow> py option \<Rightarrow> py option res" where
  "pause_cycle job step file =
     (case step of (c, pause_clock, resume_clock) \<Rightarrow>
        res_bind (build_pause_payload job PNone c [] []
            (case load_pause_payload file of None \<Rightarrow> PNone | Some d \<Rightarrow> PDict d) pause_clock) (\<lambda>p.
        res_bind (mark_pause_resumed (snd (persist_pause_payload p)) resume_clock []) (\<lambda>r.
        Inr (snd r))))"

fun pause_cycles ::
    "string \<Rightarrow> (pause_condition \<times> datetime \<times> datetime) list \<Rightarrow> py option \<Rightarrow> py option res" where
  "pause_cycles job [] file = Inr file"
| "pause_cycles job (s # ss) file = res_bind (pause_cycle job s file) (pause_cycles job ss)"

definition resumed_file :: "py option \<Rightarrow> int \<Rightarrow> string \<Rightarrow> bool" where
  "resumed_file file n at =
     (case load_pause_payload file of
        None \<Rightarrow> False
      | Some d \<Rightarrow> get d ''resume_count'' = PInt n \<and> get d ''paused_at'' = PStr at \<and>
                 \<not> is_pause_active (PDict d))"

lemma keys_ok_puts [simp]: "keys_ok d \<Longrightarrow> keys_ok (put k v d)"
  by (rule keys_ok_put)

lemma resumed_written:
  assumes "keys_ok q" and "get q ''lifecycle_state'' = PStr ''resumed''"
    and "get q ''resume_count'' = PInt n" and "get q ''paused_at'' = PStr at"
  shows "resumed_file (snd (persist_pause_payload q)) n at"
proof -
  obtain d where d: "load_pause_payload (snd (persist_pause_payload q)) = Some d"
    "\<And>k. get d k = json_value (get (fst (persist_pause_payload q)) k)"
    by (rule persist_keys_ok [OF assms(1)]) blast
  have "get (fst (persist_pause_payload q)) k = get q k" if "k \<noteq> ''pause_state''" for k
    using that by (simp add: persist_pause_payload_def Let_def)
  with d assms show ?thesis
    by (simp add: resumed_file_def is_pause_active_def strip_paused)
qed

lemma pause_cycle_step:
  assumes "dt_valid pc" and "load_pause_payload file = Some d \<Longrightarrow> resumed_file file n at \<and> strip at = at \<and> at \<noteq> [] \<and> 0 \<le> n"
    and "load_pause_payload file = None \<Longrightarrow> n = 0 \<and> at = iso_seconds pc"
    and "d = (case load_pause_payload file of None \<Rightarrow> [] | Some d \<Rightarrow> d)"
  shows "\<exists>file'. pause_cycle job (c, pc, rc) file = Inr file' \<and> resumed_file file' (n + 1) at"
proof -
  let ?prev = "case load_pause_payload file of None \<Rightarrow> PNone | Some d \<Rightarrow> PDict d"
  have prev: "mapping_or_empty ?prev = d" using assms(4) by (simp split: option.splits)
  have cnt: "resume_count_of d = Inr n" and at: "normalize_text (iso_seconds pc) (get d ''paused_at'') = at"
    using assms by (auto simp: resume_count_of_def resumed_file_def split: option.splits)
  let ?p = "pause_payload job PNone c [] [] d (iso_seconds pc) n"
  have build: "build_pause_payload job PNone c [] [] ?prev pc = Inr ?p"
    by (simp add: build_pause_payload_def prev cnt)
  note g = pause_payload_gets [OF refl, of job PNone c "[]" "[]" d "iso_seconds pc" n]
  obtain q where q: "json_value (PDict ?p) = PDict q" "keys_ok q"
    "\<And>k. get q k = json_value (get ?p k)"
    by (rule json_dict [OF g(7)]) blast
  have load: "load_pause_payload (snd (persist_pause_payload ?p)) = Some q"
    by (simp add: persist_built [OF refl] load_pause_payload_def q(1))
  have act: "is_pause_active (PDict q)" by (simp add: is_pause_active_def q(3) g strip_paused)
  have cnt': "resume_count_of q = Inr n" using assms(2,3) cnt
    by (auto simp: resume_count_of_def q(3) g res_bind_eq_Inr)
  let ?u = "put ''updated_at'' (PStr (iso_seconds rc))
                  (put ''resume_reason''
                    (PStr (normalize_text ''pause_eligible_for_resume'' (PStr [])))
                  (put ''last_resumed_at'' (PStr (iso_seconds rc))
                  (put ''resume_count'' (PInt (n + 1))
                  (put ''lifecycle_state'' (PStr ''resumed'') q))))"
  have mark: "mark_pause_resumed (snd (persist_pause_payload ?p)) rc [] =
      Inr (Some (fst (persist_pause_payload ?u)), snd (persist_pause_payload ?u))"
    by (simp add: mark_pause_resumed_def load act cnt' Let_def case_prod_beta)
  have "resumed_file (snd (persist_pause_payload ?u)) (n + 1) at"
    by (rule resumed_written) (simp_all add: q(2) q(3) g at)
  with mark show ?thesis by (simp add: pause_cycle_def build)
qed

lemma pause_cycles_counted:
  assumes "\<forall>(c, pc, rc) \<in> set cs. dt_valid pc" and "resumed_file f0 n at"
    and "strip at = at" "at \<noteq> []" "0 \<le> n"
  shows "\<exists>file'. pause_cycles job cs f0 = Inr file' \<and>
    resumed_file file' (n + int (length cs)) at"
  using assms
proof (induction cs arbitrary: f0 n)
  case (Cons s cs)
  obtain c pc rc where s: "s = (c, pc, rc)" by (cases s)
  from Cons.prems(2) obtain d where d: "load_pause_payload f0 = Some d"
    by (auto simp: resumed_file_def split: option.splits)
  have "\<exists>f. pause_cycle job s f0 = Inr f \<and> resumed_file f (n + 1) at"
    unfolding s by (rule pause_cycle_step [where d = d]) (use Cons.prems d s in auto)
  then obtain f where f: "pause_cycle job s f0 = Inr f" "resumed_file f (n + 1) at" by blast
  with Cons.IH [OF _ f(2)] Cons.prems show ?case by (simp add: ac_simps)
qed simp

text \<open>C37. However often a run is paused and resumed, no step raises, the pause file counts the
  resumptions, keeps the time of the first pause, and ends inactive.\<close>

theorem pause_file_counts_resumptions:
  assumes "dt_valid first" and "\<forall>(c, pc, rc) \<in> set cs. dt_valid pc"
  shows "\<exists>file. pause_cycles job ((c, first, resumed) # cs) None = Inr file \<and>
           (case load_pause_payload file of
              None \<Rightarrow> False
            | Some d \<Rightarrow> get d ''resume_count'' = PInt (1 + int (length cs)) \<and>
                       get d ''paused_at'' = PStr (iso_seconds first) \<and> \<not> is_pause_active (PDict d))"
proof -
  have "\<exists>f. pause_cycle job (c, first, resumed) None = Inr f \<and> resumed_file f (0 + 1) (iso_seconds first)"
    by (rule pause_cycle_step [where d = "[]"]) (use assms(1) in \<open>simp_all add: load_pause_payload_def\<close>)
  then obtain f where f: "pause_cycle job (c, first, resumed) None = Inr f"
    "resumed_file f 1 (iso_seconds first)" by auto
  from pause_cycles_counted [OF assms(2) f(2)] assms(1) f(1) show ?thesis
    by (simp add: resumed_file_def)
qed

theorem pause_file_counts_resumptions_witness:
  "\<exists>file. pause_cycles ''job''
       (replicate 2 (\<lparr>pc_pause_state = PAUSE_STATE_CHECKS, pc_pause_reason = ''r'',
          pc_provider_name = None, pc_retry_after_seconds = None, pc_next_eligible_at = None,
          pc_whether_human_required = False\<rparr>, noon, noon)) None = Inr file \<and>
     (case load_pause_payload file of None \<Rightarrow> False | Some d \<Rightarrow> get d ''resume_count'' = PInt 2)"
proof -
  let ?s = "(\<lparr>pc_pause_state = PAUSE_STATE_CHECKS, pc_pause_reason = ''r'',
          pc_provider_name = None, pc_retry_after_seconds = None, pc_next_eligible_at = None,
          pc_whether_human_required = False\<rparr>, noon, noon)"
  have n: "dt_valid noon" by code_simp
  have "\<forall>(c, pc, rc) \<in> set [?s]. dt_valid pc" using n by simp
  from pause_file_counts_resumptions [OF n this, of "''job''" "fst ?s" noon] show ?thesis
    by (auto simp: numeral_2_eq_2 split: option.splits)
qed

text \<open>Whatever payload is persisted, the state read back from the file is a known pause state.\<close>

theorem persisted_pause_state_is_known:
  assumes "keys_ok payload"
  shows "\<exists>d. load_pause_payload (snd (persist_pause_payload payload)) = Some d \<and>
           (\<forall>s. get d ''pause_state'' = PStr s \<longrightarrow> strip s \<in> set pause_states)"
proof -
  obtain d where d: "load_pause_payload (snd (persist_pause_payload payload)) = Some d"
    "\<And>k. get d k = json_value (get (fst (persist_pause_payload payload)) k)"
    by (rule persist_keys_ok [OF assms]) blast
  have str: "json_value v = PStr s \<Longrightarrow> v = PStr s" for v s by (cases v) (simp_all add: json_value.simps(3))
  have other: "strip PAUSE_STATE_OTHER \<in> set pause_states" by code_simp
  show ?thesis
  proof (cases "normalize_text [] (get payload ''pause_state'') \<in> set pause_states")
    case True
    have "[] \<notin> set pause_states" by (simp add: pause_states_def)
    with True d show ?thesis
      by (auto simp: persist_pause_payload_def Let_def dest!: str split: if_splits)
  next
    case False
    with d other show ?thesis by (auto simp: persist_pause_payload_def Let_def)
  qed
qed

theorem persisted_pause_state_is_known_witness:
  "case load_pause_payload (snd (persist_pause_payload [(''pause_state'', PStr ''asleep'')])) of
     None \<Rightarrow> False
   | Some d \<Rightarrow> get d ''pause_state'' = PStr PAUSE_STATE_OTHER \<and> strip PAUSE_STATE_OTHER \<in> set pause_states"
proof -
  have k: "keys_ok [(''pause_state'', PStr ''asleep'')]" by (simp add: keys_ok_def)
  have "case load_pause_payload (snd (persist_pause_payload [(''pause_state'', PStr ''asleep'')])) of
     None \<Rightarrow> False | Some d \<Rightarrow> get d ''pause_state'' = PStr PAUSE_STATE_OTHER" by code_simp
  with persisted_pause_state_is_known [OF k] show ?thesis by (auto split: option.splits)
qed

text \<open>A pause until a time with an offset cannot be checked against the scheduler's clock, which
  has none: the check raises instead of answering.\<close>

theorem aware_pause_time_raises:
  assumes "offset clock = None"
  shows "is_pause_resume_eligible
      (PDict [(''lifecycle_state'', PStr ''paused''), (''pause_state'', PStr PAUSE_STATE_CHECKS),
              (''next_eligible_at'', PStr ''2026-01-01T00:00:00+00:00'')]) clock =
    Inl (TypeError ''can't compare offset-naive and offset-aware datetimes'')"
proof -
  obtain t where t: "parse_iso_datetime (PStr ''2026-01-01T00:00:00+00:00'') = Some t" "offset t = Some 0"
  proof
    show "parse_iso_datetime (PStr ''2026-01-01T00:00:00+00:00'') =
        Some \<lparr>micros = 63902822400000000, offset = Some 0\<rparr>" by code_simp
  qed simp
  then show ?thesis
    by (simp add: is_pause_resume_eligible_def is_pause_active_def strip_paused dt_ge_def
        comparable_def assms del: One_nat_def)
qed

theorem aware_pause_time_raises_witness:
  "is_pause_resume_eligible
      (PDict [(''lifecycle_state'', PStr ''paused''), (''pause_state'', PStr PAUSE_STATE_CHECKS),
              (''next_eligible_at'', PStr ''2026-01-01T00:00:00+00:00'')]) noon =
    Inl (TypeError ''can't compare offset-naive and offset-aware datetimes'')"
  by (rule aware_pause_time_raises) (simp add: noon_def)

end
