(* ===== verification/Retry_Decision.thy ===== *)
theory Retry_Decision
  imports Retry_Policy Retry_Context Pause_State
begin

text \<open>
  \<open>automation/control/retry_decision.py\<close>: what to do about a failure. The failure is classified
  from the structured result, the pause file, the next action and the wording of the reason; the
  policy entry that matches it (or a built-in fallback) says whether to retry now, wait, refuse
  or escalate; and a retry is only granted while attempts and budget remain.

  The function reads the clock up to three times: \<open>clock 0\<close> when it asks whether a pause is over,
  \<open>clock 1\<close> for the end of a new pause, \<open>clock 2\<close> for the time stamp of the decision. The policy
  file it falls back to is the argument \<open>yaml_root\<close>, what the YAML library makes of it.
\<close>

section \<open>The failure\<close>

definition retry_classes :: "string list" where
  "retry_classes = [''same_prompt_retry'', ''repair_prompt_retry'', ''signal_recollect'']"

definition normalize_provider_class :: "string option \<Rightarrow> string option \<Rightarrow> string" where
  "normalize_provider_class provider_name provider_class =
     (case provider_class of
        Some (c # cs) \<Rightarrow> normalize_lower ''generic'' (PStr (c # cs))
      | _ \<Rightarrow>
          (let n = normalize_lower [] (opt_str provider_name) in
           if starts_with n ''codex'' then ''codex''
           else if starts_with n ''chatgpt'' then ''chatgpt''
           else if starts_with n ''github'' then ''github''
           else ''generic''))"

definition pause_failure :: "string \<Rightarrow> string option" where
  "pause_failure pause_state =
     (if pause_state = PAUSE_STATE_PROVIDER_CAPACITY then Some ''provider_usage_exhausted''
      else if pause_state = PAUSE_STATE_RATE_LIMIT then Some ''provider_rate_limited''
      else if pause_state = PAUSE_STATE_CHECKS then Some ''check_pending''
      else if pause_state = PAUSE_STATE_HUMAN then Some ''human_required''
      else None)"

definition reason_failure :: "string \<Rightarrow> string \<times> string" where
  "reason_failure t =
     (if contains_any t [''rate limit'', ''retry-after'', ''too many requests'', ''429'']
      then (''provider_rate_limited'', ''reason'')
      else if contains_any t [''capacity unavailable'', ''capacity exhausted'', ''provider capacity'']
      then (''provider_usage_exhausted'', ''reason'')
      else if contains_any t [''auth'', ''permission denied'', ''forbidden'']
      then (''auth_failure'', ''reason'')
      else if contains t ''timeout'' then (''transport_timeout'', ''reason'')
      else (''unknown_failure'', ''fallback''))"

definition resolve_failure_type ::
    "string option \<Rightarrow> py \<Rightarrow> int option \<Rightarrow> py \<Rightarrow> string option \<Rightarrow> string option \<Rightarrow> string \<times> string" where
  "resolve_failure_type explicit structured retry_after payload next_action reason =
     (let direct = normalize_lower [] (opt_str explicit);
          result = mapping_or_empty structured;
          result_failure = normalize_lower [] (get result ''failure_type'');
          execution_failure =
            normalize_lower [] (get (mapping_or_empty (get result ''execution'')) ''failure_type'');
          pause_state = normalize_lower [] (get (mapping_or_empty payload) ''pause_state'')
      in if direct \<noteq> [] then (direct, ''explicit_failure_type'')
         else if result_failure \<noteq> [] then (result_failure, ''structured_result.failure_type'')
         else if execution_failure \<noteq> []
         then (execution_failure, ''structured_result.execution.failure_type'')
         else if (case retry_after of None \<Rightarrow> False | Some n \<Rightarrow> 0 \<le> n)
         then (''provider_rate_limited'', ''retry_after_seconds'')
         else
           case (if is_pause_active payload then pause_failure pause_state else None) of
             Some f \<Rightarrow> (f, ''pause_state'')
           | None \<Rightarrow>
               if normalize_lower [] (opt_str next_action) = ''wait_for_checks''
               then (''check_pending'', ''next_action'')
               else reason_failure (normalize_lower [] (opt_str reason)))"

section \<open>The fallback\<close>

definition decision_entry ::
    "string \<Rightarrow> int \<Rightarrow> int \<Rightarrow> string option \<Rightarrow> bool \<Rightarrow> string option \<Rightarrow> string \<Rightarrow> dict" where
  "decision_entry kind max_attempts backoff pause_state human retry_class ident =
     [(''decision_kind'', PStr kind), (''max_attempts'', PInt max_attempts),
      (''backoff_seconds'', PTuple [PInt backoff]), (''pause_state'', opt_str pause_state),
      (''human_required'', PBool human), (''retry_class'', opt_str retry_class),
      (''id'', PStr ident)]"

text \<open>\<open>retry_after_seconds or 60\<close>: an absent delay and a delay of 0 both read 60.\<close>

definition delay_or_60 :: "int option \<Rightarrow> int" where
  "delay_or_60 d = (case d of None \<Rightarrow> 60 | Some n \<Rightarrow> if n = 0 then 60 else n)"

definition fallback_decision :: "string \<Rightarrow> string option \<Rightarrow> int option \<Rightarrow> dict" where
  "fallback_decision failure_type next_action retry_after =
     (let action = normalize_lower [] (opt_str next_action) in
      if failure_type \<in> {''provider_usage_exhausted'', ''provider_capacity_exhausted'',
           ''provider_unavailable''}
      then decision_entry DECISION_PAUSE_AND_WAIT 0 300 (Some PAUSE_STATE_PROVIDER_CAPACITY) False
             None ''fallback_provider_capacity''
      else if failure_type = ''provider_rate_limited''
      then decision_entry DECISION_PAUSE_AND_WAIT 0 (max 30 (delay_or_60 retry_after))
             (Some PAUSE_STATE_RATE_LIMIT) False None ''fallback_rate_limit''
      else if failure_type = ''check_pending''
      then decision_entry DECISION_PAUSE_AND_WAIT 0 120 (Some PAUSE_STATE_CHECKS) False None
             ''fallback_checks_pending''
      else if failure_type \<in> {''auth_failure'', ''permission_denied'', ''forbidden''}
      then decision_entry DECISION_TERMINAL_REFUSAL 0 0 None True None ''fallback_auth_failure''
      else if failure_type \<in> {''transport_timeout'', ''execution_failure'', ''evaluation_failure''}
      then decision_entry DECISION_RETRY_NOW 1 30 None False (Some ''same_prompt_retry'')
             ''fallback_retry_once''
      else if action \<in> set retry_classes
      then decision_entry DECISION_RETRY_NOW 1 0 None False (Some action)
             ''fallback_explicit_retry_action''
      else decision_entry DECISION_ESCALATE_TO_HUMAN 0 0 (Some PAUSE_STATE_OTHER) True None
             ''fallback_escalate'')"

section \<open>Attempts and classes\<close>

definition compute_remaining_attempts :: "dict \<Rightarrow> int \<Rightarrow> string option \<Rightarrow> int res" where
  "compute_remaining_attempts ctx max_attempts retry_class =
     res_bind (as_non_negative_int_signed 0 (get ctx ''retry_budget_remaining'')) (\<lambda>budget.
       if max_attempts \<le> 0 then Inr 0
       else
         let cls = normalize_lower [] (opt_str retry_class);
             prior = normalize_lower [] (get ctx ''prior_retry_class'')
         in res_bind (as_non_negative_int_signed 0 (get ctx ''prior_attempt_count'')) (\<lambda>count.
            let consumed = (if cls \<noteq> [] \<and> prior = cls then count else 0)
            in Inr (min (max 0 (max_attempts - consumed)) budget)))"

definition resolve_retry_class ::
    "string option \<Rightarrow> string option \<Rightarrow> py \<Rightarrow> string option" where
  "resolve_retry_class explicit next_action policy_retry_class =
     (let e = normalize_lower [] (opt_str explicit);
          action = normalize_lower [] (opt_str next_action)
      in if e \<noteq> [] then Some e
         else if action \<in> set retry_classes then Some action
         else lower_or_none policy_retry_class)"

definition backoff_schedule :: "py \<Rightarrow> int list res" where
  "backoff_schedule v =
     (let vs = (case v of PTuple ws \<Rightarrow> ws | PList ws \<Rightarrow> ws | _ \<Rightarrow> [PInt 30])
      in res_bind (res_map (as_non_negative_int_signed 0) vs) (\<lambda>ns.
         Inr (if ns = [] then [0] else ns)))"

section \<open>The decision\<close>

record retry_request =
  rq_provider_name :: "string option"
  rq_provider_class :: "string option"
  rq_operation_class :: "string option"
  rq_failure_type :: "string option"
  rq_retry_class :: "string option"
  rq_retry_context :: py
  rq_pause_payload :: py
  rq_retry_after_seconds :: "int option"
  rq_human_required :: bool
  rq_next_action :: "string option"
  rq_reason :: "string option"
  rq_structured_result :: py
  rq_policy :: py
  rq_enforce_exhaustion :: bool

record retry_decision =
  rd_decision_kind :: string
  rd_retry_class :: "string option"
  rd_max_attempts :: int
  rd_remaining_attempts :: int
  rd_backoff_seconds :: "int option"
  rd_pause_state :: "string option"
  rd_pause_retry_after_seconds :: "int option"
  rd_next_eligible_at :: "string option"
  rd_whether_human_required :: bool
  rd_reason :: string
  rd_provider_class :: string
  rd_operation_class :: string
  rd_failure_type :: string
  rd_matched_policy_id :: "string option"
  rd_policy_found :: bool
  rd_signal_source :: string
  rd_evaluated_at :: "string option"

definition request_provider :: "retry_request \<Rightarrow> string" where
  "request_provider q = normalize_provider_class (rq_provider_name q) (rq_provider_class q)"

definition request_operation :: "retry_request \<Rightarrow> string" where
  "request_operation q = normalize_lower ''execution'' (opt_str (rq_operation_class q))"

text \<open>The answer while a pause is active and not over.\<close>

definition still_paused :: "retry_request \<Rightarrow> retry_decision res" where
  "still_paused q =
     (let payload = mapping_or_empty (rq_pause_payload q)
      in res_bind (as_optional_int (get payload ''retry_after_seconds'')) (\<lambda>after.
         Inr \<lparr>rd_decision_kind = DECISION_PAUSE_AND_WAIT, rd_retry_class = None,
           rd_max_attempts = 0, rd_remaining_attempts = 0, rd_backoff_seconds = None,
           rd_pause_state =
             Some (normalize_lower PAUSE_STATE_OTHER (get payload ''pause_state'')),
           rd_pause_retry_after_seconds = after,
           rd_next_eligible_at = lower_or_none (get payload ''next_eligible_at''),
           rd_whether_human_required =
             truthy (get_or payload ''whether_human_required'' (PBool False)),
           rd_reason = ''active pause state is not yet eligible for resume'',
           rd_provider_class = request_provider q, rd_operation_class = request_operation q,
           rd_failure_type = ''paused_state_active'', rd_matched_policy_id = None,
           rd_policy_found = False, rd_signal_source = ''pause_state'',
           rd_evaluated_at = None\<rparr>))"

definition policy_in_use :: "py \<Rightarrow> py \<Rightarrow> dict res" where
  "policy_in_use policy yaml_root =
     (if is_normalized_policy policy then Inr (mapping_or_empty policy)
      else case as_mapping policy of
             Some d \<Rightarrow> normalize_retry_policy (PDict d)
           | None \<Rightarrow> load_retry_policy yaml_root)"

definition decision_reason :: "string \<Rightarrow> string \<Rightarrow> string" where
  "decision_reason kind failure =
     (if kind = DECISION_TERMINAL_REFUSAL then ''terminal refusal for failure_type='' @ failure
      else if kind = DECISION_PAUSE_AND_WAIT then ''pause recommended for failure_type='' @ failure
      else if kind = DECISION_RETRY_NOW then ''bounded retry allowed for failure_type='' @ failure
      else ''human escalation required for failure_type='' @ failure)"

text \<open>The decision on a selected entry: its kind, unless a retry has no attempts left.\<close>

definition granted_kind :: "retry_request \<Rightarrow> dict \<Rightarrow> int \<Rightarrow> string" where
  "granted_kind q selected remaining =
     (let k = normalize_lower DECISION_ESCALATE_TO_HUMAN (get selected ''decision_kind'');
          kind = (if k \<in> set decision_kinds then k else DECISION_ESCALATE_TO_HUMAN)
      in if rq_enforce_exhaustion q \<and> kind = DECISION_RETRY_NOW \<and> remaining \<le> 0
         then DECISION_ESCALATE_TO_HUMAN else kind)"

definition decide_on_entry ::
    "retry_request \<Rightarrow> dict \<Rightarrow> string \<times> string \<Rightarrow> dict \<Rightarrow> bool \<Rightarrow> (nat \<Rightarrow> datetime) \<Rightarrow>
       retry_decision res" where
  "decide_on_entry q ctx failure selected found clock =
     (let cls = resolve_retry_class (rq_retry_class q) (rq_next_action q) (get selected ''retry_class'')
      in res_bind (as_non_negative_int_signed 1 (get selected ''max_attempts'')) (\<lambda>max_attempts.
         res_bind (backoff_schedule (get selected ''backoff_seconds'')) (\<lambda>schedule.
         res_bind (compute_remaining_attempts ctx max_attempts cls) (\<lambda>remaining.
         res_bind (as_non_negative_int_signed 0 (get ctx ''prior_attempt_count'')) (\<lambda>count.
         let kind = granted_kind q selected remaining;
             backoff = schedule ! min (length schedule - 1) (nat count);
             after = (case rq_retry_after_seconds q of Some n \<Rightarrow> n | None \<Rightarrow> backoff);
             pausing = (kind = DECISION_PAUSE_AND_WAIT)
         in res_bind
              (if pausing then res_bind (add_seconds (clock 1) (max 0 after)) (\<lambda>t. Inr (Some (iso_seconds t)))
               else Inr None) (\<lambda>eligible.
            Inr \<lparr>rd_decision_kind = kind, rd_retry_class = cls, rd_max_attempts = max_attempts,
              rd_remaining_attempts = remaining,
              rd_backoff_seconds = (if kind = DECISION_RETRY_NOW then Some backoff else None),
              rd_pause_state = (if pausing then lower_or_none (get selected ''pause_state'') else None),
              rd_pause_retry_after_seconds = (if pausing then Some after else None),
              rd_next_eligible_at = eligible,
              rd_whether_human_required =
                (rq_human_required q \<or> truthy (get_or selected ''human_required'' (PBool False)) \<or>
                 kind = DECISION_ESCALATE_TO_HUMAN),
              rd_reason = decision_reason kind (fst failure),
              rd_provider_class = request_provider q, rd_operation_class = request_operation q,
              rd_failure_type = fst failure,
              rd_matched_policy_id = lower_or_none (get selected ''id''),
              rd_policy_found = found, rd_signal_source = snd failure,
              rd_evaluated_at = Some (iso_seconds (clock 2))\<rparr>))))))"

definition held_by_pause :: "py \<Rightarrow> datetime \<Rightarrow> bool res" where
  "held_by_pause payload now =
     (if is_pause_active payload
      then res_bind (is_pause_resume_eligible payload now) (\<lambda>b. Inr (\<not> b)) else Inr False)"

definition request_failure :: "retry_request \<Rightarrow> string \<times> string" where
  "request_failure q =
     resolve_failure_type (rq_failure_type q) (rq_structured_result q) (rq_retry_after_seconds q)
       (rq_pause_payload q) (rq_next_action q) (rq_reason q)"

definition evaluate_retry_decision ::
    "retry_request \<Rightarrow> py \<Rightarrow> (nat \<Rightarrow> datetime) \<Rightarrow> retry_decision res" where
  "evaluate_retry_decision q yaml_root clock =
     res_bind (normalize_retry_context (rq_retry_context q) PNone) (\<lambda>ctx.
     res_bind (held_by_pause (rq_pause_payload q) (clock 0)) (\<lambda>held.
     if held then still_paused q
     else
       let failure = request_failure q
       in res_bind (policy_in_use (rq_policy q) yaml_root) (\<lambda>policy.
          res_bind (resolve_retry_policy_entry (PDict policy) (request_provider q)
              (request_operation q) (fst failure) (rq_retry_class q)) (\<lambda>matched.
          case matched of
            Some e \<Rightarrow> decide_on_entry q (retry_context_dict ctx) failure e True clock
          | None \<Rightarrow>
              decide_on_entry q (retry_context_dict ctx) failure
                (fallback_decision (fst failure) (rq_next_action q) (rq_retry_after_seconds q))
                False clock))))"

section \<open>Properties\<close>

lemma granted_kind_cases: "granted_kind q e n \<in> set decision_kinds"
  by (auto simp: granted_kind_def Let_def decision_kinds_def)

lemma decide_on_entryD:
  assumes "decide_on_entry q ctx f e b clock = Inr d"
  shows "rd_decision_kind d = granted_kind q e (rd_remaining_attempts d)"
    and "compute_remaining_attempts ctx (rd_max_attempts d) (rd_retry_class d)
      = Inr (rd_remaining_attempts d)"
    and "rd_whether_human_required d \<longleftrightarrow> rq_human_required q \<or>
      truthy (get_or e ''human_required'' (PBool False)) \<or>
      rd_decision_kind d = DECISION_ESCALATE_TO_HUMAN"
    and "as_non_negative_int_signed 1 (get e ''max_attempts'') = Inr (rd_max_attempts d)"
    and "rd_decision_kind d \<noteq> DECISION_PAUSE_AND_WAIT \<Longrightarrow> rd_next_eligible_at d = None"
    and "rd_decision_kind d = DECISION_PAUSE_AND_WAIT \<Longrightarrow> \<exists>n t.
      rd_pause_retry_after_seconds d = Some n \<and> add_seconds (clock 1) (max 0 n) = Inr t \<and>
      rd_next_eligible_at d = Some (iso_seconds t)"
    and "rd_failure_type d = fst f"
    and "rd_policy_found d = b"
    and "rd_retry_class d =
      resolve_retry_class (rq_retry_class q) (rq_next_action q) (get e ''retry_class'')"
  using assms by (auto simp: decide_on_entry_def Let_def res_bind_eq_Inr split: if_splits)

lemma still_pausedD:
  assumes "still_paused q = Inr d"
  shows "rd_decision_kind d = DECISION_PAUSE_AND_WAIT" "rd_failure_type d = ''paused_state_active''"
    "rd_remaining_attempts d = 0"
  using assms by (auto simp: still_paused_def Let_def res_bind_eq_Inr)

text \<open>Every decision is either the standing pause or a decision on an entry.\<close>

lemma evaluateD:
  assumes "evaluate_retry_decision q yaml clock = Inr d"
  obtains (held) "held_by_pause (rq_pause_payload q) (clock 0) = Inr True" "still_paused q = Inr d"
  | (entry) ctx e b where "held_by_pause (rq_pause_payload q) (clock 0) = Inr False"
      and "normalize_retry_context (rq_retry_context q) PNone = Inr ctx"
      and "decide_on_entry q (retry_context_dict ctx) (request_failure q) e b clock = Inr d"
      and "b \<or> e = fallback_decision (fst (request_failure q)) (rq_next_action q) (rq_retry_after_seconds q)"
  using assms
  by (auto simp: evaluate_retry_decision_def Let_def res_bind_eq_Inr split: if_splits option.splits)

lemma remaining_bounds:
  assumes "compute_remaining_attempts (retry_context_dict c) m cls = Inr n" and "context_ok c"
  shows "n \<le> retry_budget_remaining c" "n \<le> max 0 m" "0 \<le> n"
  using assms
  by (auto simp: compute_remaining_attempts_def Let_def res_bind_eq_Inr retry_context_dict_def
      context_ok_def split: if_splits)



text \<open>While a pause is active and its end is not reached, nothing else is decided: no failure, no
  policy and no budget turns the standing pause into a retry or a refusal.\<close>

theorem standing_pause_decides:
  assumes "evaluate_retry_decision q yaml clock = Inr d"
    and "is_pause_active (rq_pause_payload q)"
    and "is_pause_resume_eligible (rq_pause_payload q) (clock 0) = Inr False"
  shows "rd_decision_kind d = DECISION_PAUSE_AND_WAIT \<and> rd_remaining_attempts d = 0 \<and>
    \<not> rd_policy_found d"
  using assms(1)
proof (cases rule: evaluateD)
  case held
  from still_pausedD [OF held(2)] held(2) show ?thesis
    by (auto simp: still_paused_def Let_def res_bind_eq_Inr)
next
  case (entry ctx e b)
  with assms(2,3) show ?thesis by (simp add: held_by_pause_def)
qed

lemma fallback_auth:
  "f \<in> {''auth_failure'', ''permission_denied'', ''forbidden''} \<Longrightarrow>
     fallback_decision f a r =
       decision_entry DECISION_TERMINAL_REFUSAL 0 0 None True None ''fallback_auth_failure''"
  by (auto simp: fallback_decision_def Let_def)

lemma terminal_is_granted:
  assumes "get e ''decision_kind'' = PStr DECISION_TERMINAL_REFUSAL"
  shows "granted_kind q e n = DECISION_TERMINAL_REFUSAL"
proof -
  have norm: "lower (strip DECISION_TERMINAL_REFUSAL) = DECISION_TERMINAL_REFUSAL" by code_simp
  then have "strip DECISION_TERMINAL_REFUSAL \<noteq> []" by (metis list.distinct(1) lower_Nil(1))
  with norm show ?thesis by (simp add: granted_kind_def assms decision_kinds_def Let_def)
qed

text \<open>A failure to authenticate that no policy entry covers is refused for good and handed to a
  human, whatever action was asked for and however much budget is left.\<close>

theorem uncovered_auth_failure_is_terminal:
  assumes "evaluate_retry_decision q yaml clock = Inr d"
    and "\<not> rd_policy_found d"
    and "rd_failure_type d \<in> {''auth_failure'', ''permission_denied'', ''forbidden''}"
  shows "rd_decision_kind d = DECISION_TERMINAL_REFUSAL \<and> rd_whether_human_required d \<and>
    rd_backoff_seconds d = None \<and> rd_next_eligible_at d = None"
  using assms(1)
proof (cases rule: evaluateD)
  case held
  from still_pausedD [OF held(2)] assms(3) show ?thesis by auto
next
  case (entry ctx e b)
  note d = decide_on_entryD [OF entry(3)]
  from assms(2) d(8) entry(4)
  have e: "e = fallback_decision (fst (request_failure q)) (rq_next_action q) (rq_retry_after_seconds q)"
    by simp
  from assms(3) d(7) have f: "e = decision_entry DECISION_TERMINAL_REFUSAL 0 0 None True None
      ''fallback_auth_failure''" by (simp only: e fallback_auth)
  have kind: "rd_decision_kind d = DECISION_TERMINAL_REFUSAL"
    unfolding d(1) by (rule terminal_is_granted) (simp add: f decision_entry_def)
  moreover have "rd_whether_human_required d" by (simp add: d(3) f decision_entry_def)
  moreover have "rd_backoff_seconds d = None"
    using entry(3) kind by (auto simp: decide_on_entry_def Let_def res_bind_eq_Inr split: if_splits)
  ultimately show ?thesis using d(5) by simp
qed

section \<open>Recollecting signals\<close>

text \<open>A request that recollects the signals of a run, with no failure seen and an empty policy.\<close>

definition recollect_request :: "retry_context \<Rightarrow> retry_request" where
  "recollect_request c =
     \<lparr>rq_provider_name = None, rq_provider_class = None, rq_operation_class = None,
      rq_failure_type = None, rq_retry_class = None,
      rq_retry_context = PDict (retry_context_dict c), rq_pause_payload = PNone,
      rq_retry_after_seconds = None, rq_human_required = False,
      rq_next_action = Some ''signal_recollect'', rq_reason = None, rq_structured_result = PNone,
      rq_policy = PDict [], rq_enforce_exhaustion = True\<rparr>"

fun recollect_rounds :: "nat \<Rightarrow> retry_context \<Rightarrow> retry_context res" where
  "recollect_rounds 0 c = Inr c"
| "recollect_rounds (Suc n) c =
     res_bind (update_retry_context (retry_context_dict c) ''signal_recollect'' 0) (recollect_rounds n)"

lemma empty_policy:
  "policy_in_use (PDict []) yaml = normalize_retry_policy (PDict [])"
  "\<exists>p. normalize_retry_policy (PDict []) = Inr p \<and> is_normalized_policy (PDict p) \<and>
     get p ''entries'' = PList []"
  by (simp_all add: policy_in_use_def is_normalized_policy_def normalize_retry_policy_def Let_def
      list_items_def order_entries_def)

lemma recollect_norm: "normalize_lower [] (PStr ''signal_recollect'') = ''signal_recollect''"
  by code_simp

lemma recollect_failure: "request_failure (recollect_request c) = (''unknown_failure'', ''fallback'')"
proof -
  have "resolve_failure_type None PNone None PNone (Some ''signal_recollect'') None
      = (''unknown_failure'', ''fallback'')" by code_simp
  then show ?thesis by (simp add: request_failure_def recollect_request_def)
qed

lemma recollect_fallback: "fallback_decision ''unknown_failure'' (Some ''signal_recollect'') None =
    decision_entry DECISION_RETRY_NOW 1 0 None False (Some ''signal_recollect'')
      ''fallback_explicit_retry_action''"
  by code_simp

lemma recollect_prior:
  assumes "context_ok c"
  shows "normalize_lower [] (opt_str (prior_retry_class c)) \<noteq> ''signal_recollect''"
proof (cases "prior_retry_class c")
  case (Some s)
  with assms have s: "s \<in> set allowed_retry_classes" by (simp add: context_ok_def)
  then have "s \<noteq> ''signal_recollect''" by (auto simp: allowed_retry_classes_def)
  with s show ?thesis by (simp add: Some)
qed simp

lemma recollect_decision:
  assumes "context_ok c" and "0 < retry_budget_remaining c"
  shows "\<exists>d. evaluate_retry_decision (recollect_request c) yaml clock = Inr d \<and>
    rd_decision_kind d = DECISION_RETRY_NOW \<and> rd_remaining_attempts d = 1"
proof -
  let ?q = "recollect_request c"
  let ?e = "decision_entry DECISION_RETRY_NOW 1 0 None False (Some ''signal_recollect'')
      ''fallback_explicit_retry_action''"
  obtain p where p: "normalize_retry_policy (PDict []) = Inr p" "is_normalized_policy (PDict p)"
    "get p ''entries'' = PList []" using empty_policy(2) by blast
  have cls: "resolve_retry_class None (Some ''signal_recollect'') v = Some ''signal_recollect''" for v
    by (simp add: resolve_retry_class_def recollect_norm retry_classes_def del: normalize_lower_PStr)
  have remaining: "compute_remaining_attempts (retry_context_dict c) 1 (Some ''signal_recollect'') = Inr 1"
    using recollect_prior [OF assms(1)] assms
    by (simp add: compute_remaining_attempts_def retry_context_dict_def context_ok_def
        recollect_norm del: normalize_lower_PStr)
  have sched: "backoff_schedule (PTuple [PInt 0]) = Inr [0]"
    by (simp add: backoff_schedule_def)
  have kind: "granted_kind ?q ?e 1 = DECISION_RETRY_NOW"
  proof -
    have "normalize_lower DECISION_ESCALATE_TO_HUMAN (PStr DECISION_RETRY_NOW) = DECISION_RETRY_NOW"
      by code_simp
    then show ?thesis
      by (simp add: granted_kind_def decision_entry_def decision_kinds_def del: normalize_lower_PStr)
  qed
  have ctx: "normalize_retry_context (PDict (retry_context_dict c)) PNone = Inr c"
    using assms(1) by (rule normalize_retry_context_roundtrip) simp
  have held: "held_by_pause PNone t = Inr False" for t
    by (simp add: held_by_pause_def is_pause_active_def)
  have none: "resolve_retry_policy_entry (PDict p) a b c d = Inr None" for a b c d
    by (simp add: resolve_retry_policy_entry_def p list_items_def Let_def)
  have gets: "get ?e ''retry_class'' = PStr ''signal_recollect''" "get ?e ''max_attempts'' = PInt 1"
    "get ?e ''backoff_seconds'' = PTuple [PInt 0]" by (simp_all add: decision_entry_def)
  have ctx_count: "get (retry_context_dict c) ''prior_attempt_count'' = PInt (prior_attempt_count c)"
    by (simp add: retry_context_dict_def)
  have q: "rq_retry_class ?q = None" "rq_next_action ?q = Some ''signal_recollect''"
    by (simp_all add: recollect_request_def)
  have decide: "\<exists>d. decide_on_entry ?q (retry_context_dict c) f ?e False clock = Inr d \<and>
      rd_decision_kind d = DECISION_RETRY_NOW \<and> rd_remaining_attempts d = 1" for f
    by (simp add: decide_on_entry_def Let_def gets ctx_count q sched cls remaining kind)
  show ?thesis
    unfolding evaluate_retry_decision_def recollect_failure Let_def
    by (simp add: recollect_request_def ctx held empty_policy(1) p(1) none recollect_fallback)
       (use decide [unfolded recollect_request_def] in simp)
qed

lemma recollect_rounds_keep:
  "context_ok c \<Longrightarrow> \<exists>c'. recollect_rounds n c = Inr c' \<and> context_ok c' \<and>
     retry_budget_remaining c' = retry_budget_remaining c"
proof (induction n arbitrary: c)
  case (Suc n)
  obtain c1 where c1: "update_retry_context (retry_context_dict c) ''signal_recollect'' 0 = Inr c1"
    and budget: "retry_budget_remaining c1 = retry_budget_remaining c"
    using Suc.prems by (auto simp: update_retry_context_eq Let_def allowed_retry_classes_def)
  have "context_ok c1" using Suc.prems c1 by (rule update_retry_context_ok)
  from Suc.IH [OF this] c1 budget show ?case by auto
qed simp

text \<open>Recollecting signals is never exhausted: after any number of rounds, each recorded in the
  context, the retry is granted again with one attempt left. The fallback allows one attempt, but
  the context never records this retry class, and its update leaves the budget alone.\<close>

theorem signal_recollect_is_never_exhausted:
  assumes "context_ok c" and "0 < retry_budget_remaining c"
  shows "\<exists>c' d. recollect_rounds n c = Inr c' \<and>
    evaluate_retry_decision (recollect_request c') yaml clock = Inr d \<and>
    rd_decision_kind d = DECISION_RETRY_NOW \<and> rd_remaining_attempts d = 1"
proof -
  from recollect_rounds_keep [OF assms(1)] obtain c' where c': "recollect_rounds n c = Inr c'"
    "context_ok c'" "retry_budget_remaining c' = retry_budget_remaining c" by blast
  with recollect_decision [of c'] assms(2) show ?thesis by auto
qed

section \<open>Witnesses\<close>

definition sample_context :: retry_context where
  "sample_context = \<lparr>prior_attempt_count = 0, prior_retry_class = None, missing_signal_count = 0,
     retry_budget_remaining = 2\<rparr>"

definition sample_request :: "string \<Rightarrow> py \<Rightarrow> retry_request" where
  "sample_request failure pause = (recollect_request sample_context)
     \<lparr>rq_failure_type := Some failure, rq_pause_payload := pause\<rparr>"

abbreviation (input) sample_decision :: "string \<Rightarrow> py \<Rightarrow> retry_decision res" where
  "sample_decision failure pause \<equiv>
     evaluate_retry_decision (sample_request failure pause) PNone (\<lambda>_. noon)"

theorem signal_recollect_is_never_exhausted_witness:
  "\<exists>c' d. recollect_rounds 1000 sample_context = Inr c' \<and>
    evaluate_retry_decision (recollect_request c') PNone (\<lambda>_. noon) = Inr d \<and>
    rd_decision_kind d = DECISION_RETRY_NOW \<and> rd_remaining_attempts d = 1"
proof -
  have "context_ok sample_context" "0 < retry_budget_remaining sample_context" by code_simp+
  then show ?thesis by (rule signal_recollect_is_never_exhausted)
qed



theorem standing_pause_decides_witness:
  "\<exists>d. sample_decision ''transport_timeout'' (PDict [(''lifecycle_state'', PStr ''paused'')]) = Inr d \<and>
     rd_decision_kind d = DECISION_PAUSE_AND_WAIT \<and> \<not> rd_policy_found d"
proof -
  let ?pause = "PDict [(''lifecycle_state'', PStr ''paused'')]"
  have "case sample_decision ''transport_timeout'' ?pause of Inl _ \<Rightarrow> False | Inr d \<Rightarrow> True"
    by code_simp
  then obtain d where d: "sample_decision ''transport_timeout'' ?pause = Inr d"
    by (auto split: sum.splits)
  have "is_pause_active (rq_pause_payload (sample_request ''transport_timeout'' ?pause))"
    "is_pause_resume_eligible (rq_pause_payload (sample_request ''transport_timeout'' ?pause)) noon = Inr False"
    by code_simp+
  from standing_pause_decides [OF d this] d show ?thesis by blast
qed

theorem uncovered_auth_failure_is_terminal_witness:
  "\<exists>d. sample_decision ''auth_failure'' PNone = Inr d \<and>
     rd_decision_kind d = DECISION_TERMINAL_REFUSAL \<and> rd_whether_human_required d"
proof -
  have "case sample_decision ''auth_failure'' PNone of Inl _ \<Rightarrow> False
    | Inr d \<Rightarrow> \<not> rd_policy_found d \<and>
        rd_failure_type d \<in> {''auth_failure'', ''permission_denied'', ''forbidden''}" by code_simp
  then obtain d where d: "sample_decision ''auth_failure'' PNone = Inr d" "\<not> rd_policy_found d"
    "rd_failure_type d \<in> {''auth_failure'', ''permission_denied'', ''forbidden''}"
    by (auto split: sum.splits)
  from uncovered_auth_failure_is_terminal [OF d] d show ?thesis by blast
qed

end
