(* ===== verification/Execution_Authority.thy ===== *)
theory Execution_Authority
  imports Prelude
begin

text \<open>
  \<open>automation/control/execution_authority.py\<close>: which execution lane an action token may run
  in. The table of first-class action tokens is the single source of authority; a lane can
  be requested by the policy snapshot and by the hand-off payload, each in a canonical and
  in two legacy places, and the requests are reconciled before the table is consulted.
\<close>

section \<open>Lanes, policies, routing classes\<close>

abbreviation "LANE_DETERMINISTIC_PYTHON \<equiv> ''deterministic_python''"
abbreviation "LANE_GITHUB_DETERMINISTIC \<equiv> ''github_deterministic''"
abbreviation "LANE_LLM_BACKED \<equiv> ''llm_backed''"

definition known_execution_lanes :: "string list" where
  "known_execution_lanes =
     [LANE_DETERMINISTIC_PYTHON, LANE_GITHUB_DETERMINISTIC, LANE_LLM_BACKED]"

abbreviation "LLM_POLICY_DISALLOWED \<equiv> ''disallowed''"
abbreviation "LLM_POLICY_FALLBACK_ONLY \<equiv> ''fallback_only''"
abbreviation "LLM_POLICY_REQUIRED \<equiv> ''required''"

definition known_llm_policies :: "string list" where
  "known_llm_policies = [LLM_POLICY_DISALLOWED, LLM_POLICY_FALLBACK_ONLY, LLM_POLICY_REQUIRED]"

abbreviation "ROUTING_CLASS_EXECUTOR \<equiv> ''executor''"
abbreviation "ROUTING_CLASS_RETRY \<equiv> ''retry''"
abbreviation "ROUTING_CLASS_CONTROL \<equiv> ''control''"

definition known_routing_classes :: "string list" where
  "known_routing_classes = [ROUTING_CLASS_EXECUTOR, ROUTING_CLASS_RETRY, ROUTING_CLASS_CONTROL]"

record authority =
  action_token :: string
  default_lane :: string
  fallback_lanes :: "string list"
  deterministic_only :: bool
  llm_policy :: string
  routing_class :: string

text \<open>\<open>_authority\<close>: the checked constructor; it raises on an unknown lane, policy or class.\<close>

definition mk_authority ::
    "string \<Rightarrow> string \<Rightarrow> string list \<Rightarrow> bool \<Rightarrow> string \<Rightarrow> string \<Rightarrow> authority res" where
  "mk_authority token lane fallback det policy cls =
     (let nd = normalize_lower [] (PStr lane);
          nf = filter (\<lambda>l. l \<in> set known_execution_lanes)
                 (map (\<lambda>l. normalize_lower [] (PStr l)) fallback);
          np = normalize_lower LLM_POLICY_DISALLOWED (PStr policy);
          nr = normalize_lower ROUTING_CLASS_CONTROL (PStr cls)
      in if nd \<notin> set known_execution_lanes
         then Inl (ValueError (''invalid default lane for action '' @ token @ '': '' @ lane))
         else if np \<notin> set known_llm_policies
         then Inl (ValueError (''invalid llm policy for action '' @ token @ '': '' @ policy))
         else if nr \<notin> set known_routing_classes
         then Inl (ValueError (''invalid routing class for action '' @ token @ '': '' @ cls))
         else Inr \<lparr>action_token = token, default_lane = nd, fallback_lanes = nf,
                   deterministic_only = det, llm_policy = np, routing_class = nr\<rparr>)"

text \<open>The arguments of the table's entries, in the order of the source.\<close>

definition llm_retry :: "string \<Rightarrow> authority res" where
  "llm_retry token =
     mk_authority token LANE_LLM_BACKED [] False LLM_POLICY_REQUIRED ROUTING_CLASS_RETRY"

definition github_executor :: "string \<Rightarrow> authority res" where
  "github_executor token =
     mk_authority token LANE_GITHUB_DETERMINISTIC [] True LLM_POLICY_DISALLOWED
       ROUTING_CLASS_EXECUTOR"

definition github_control :: "string \<Rightarrow> authority res" where
  "github_control token =
     mk_authority token LANE_GITHUB_DETERMINISTIC [] True LLM_POLICY_DISALLOWED
       ROUTING_CLASS_CONTROL"

definition action_entries :: "authority res list" where
  "action_entries =
     [llm_retry ''same_prompt_retry'',
      llm_retry ''repair_prompt_retry'',
      llm_retry ''signal_recollect'',
      mk_authority ''wait_for_checks'' LANE_DETERMINISTIC_PYTHON [] True
        LLM_POLICY_DISALLOWED ROUTING_CLASS_RETRY,
      llm_retry ''prompt_recompile'',
      llm_retry ''roadmap_replan'',
      mk_authority ''escalate_to_human'' LANE_DETERMINISTIC_PYTHON [] True
        LLM_POLICY_DISALLOWED ROUTING_CLASS_CONTROL,
      github_executor ''proceed_to_pr'',
      github_executor ''github.pr.update'',
      github_executor ''proceed_to_merge'',
      github_executor ''rollback_required'']"

definition operation_entries :: "authority res list" where
  "operation_entries =
     [github_control ''github.read.get_default_branch'',
      github_control ''github.read.get_branch_head'',
      github_control ''github.read.compare_refs'',
      github_control ''github.read.find_open_pr'',
      github_control ''github.read.get_pr_status_summary'',
      github_executor ''github.write.create_draft_pr'',
      github_executor ''github.write.update_existing_pr'',
      github_executor ''github.write.merge_pull_request'',
      github_executor ''github.write.rollback_path'']"

text \<open>Evaluating the tables at import; an entry that raises would leave the module unusable.\<close>

definition load_table :: "authority res list \<Rightarrow> (string \<times> authority) list" where
  "load_table es =
     (case res_map (\<lambda>e. e) es of
        Inl _ \<Rightarrow> []
      | Inr as \<Rightarrow> map (\<lambda>a. (action_token a, a)) as)"

definition action_authorities :: "(string \<times> authority) list" where
  "action_authorities = load_table action_entries"

definition operation_authorities :: "(string \<times> authority) list" where
  "operation_authorities = load_table operation_entries"

definition get_action_authority :: "string \<Rightarrow> authority option" where
  "get_action_authority tok =
     (let t = normalize_lower [] (PStr tok)
      in if t = [] then None else map_of action_authorities t)"

definition get_operation_authority :: "string \<Rightarrow> authority option" where
  "get_operation_authority tok =
     (let t = normalize_lower [] (PStr tok)
      in if t = [] then None else map_of operation_authorities t)"

section \<open>The requested lane\<close>

text \<open>\<open>_surface_lane_candidates\<close>: the four places of one surface, in order, with their names.\<close>

definition surface_lane_candidates ::
    "string \<Rightarrow> dict \<Rightarrow> string \<Rightarrow> (string \<times> string) list" where
  "surface_lane_candidates surface source token =
     (let action = normalize_lower [] (PStr token);
          canonical = mapping_or_empty (get source ''requested_execution'');
          canonical_lanes = as_mapping (get canonical ''requested_lanes'');
          legacy_lanes = as_mapping (get source ''requested_execution_lanes'');
          keyed = (\<lambda>lanes. case lanes of
                     Some d \<Rightarrow> if action \<noteq> [] then normalize_lower [] (get d action) else []
                   | None \<Rightarrow> []);
          cand = (\<lambda>place lane. if lane \<noteq> [] then [(surface @ place, lane)] else [])
      in cand ''.requested_execution.requested_lanes'' (keyed canonical_lanes) @
         cand ''.requested_execution.requested_lane''
           (normalize_lower [] (get canonical ''requested_lane'')) @
         cand ''.requested_execution_lanes'' (keyed legacy_lanes) @
         cand ''.requested_execution_lane''
           (normalize_lower [] (get source ''requested_execution_lane'')))"

text \<open>\<open>_surface_value\<close>: the one lane all candidates of a surface agree on, or a conflict.\<close>

definition surface_value :: "(string \<times> string) list \<Rightarrow> string option \<times> string option" where
  "surface_value candidates =
     (case sorted_list_of_set {lane \<in> snd ` set candidates. lane \<noteq> []} of
        [] \<Rightarrow> (None, None)
      | [lane] \<Rightarrow> (Some lane, None)
      | _ \<Rightarrow> (None, Some ''requested_lane_conflict''))"

record requested_lane_input =
  ri_requested_lane :: "string option"
  ri_requested_lane_source :: "string option"
  ri_requested_lane_sources :: "(string \<times> string) list"
  ri_policy_lane :: "string option"
  ri_handoff_lane :: "string option"
  ri_conflict_reason :: "string option"
  ri_fingerprint :: string

definition or_blank :: "string option \<Rightarrow> string" where
  "or_blank v = (case v of None \<Rightarrow> ''_'' | Some s \<Rightarrow> s)"

definition normalize_requested_lane_input ::
    "string \<Rightarrow> py \<Rightarrow> py \<Rightarrow> requested_lane_input" where
  "normalize_requested_lane_input token policy_snapshot handoff_payload =
     (let action = normalize_lower [] (PStr token);
          pc = surface_lane_candidates ''policy_snapshot'' (mapping_or_empty policy_snapshot) action;
          hc = surface_lane_candidates ''handoff'' (mapping_or_empty handoff_payload) action;
          (policy_lane, policy_conflict) = surface_value pc;
          (handoff_lane, handoff_conflict) = surface_value hc;
          conflict =
            (if policy_conflict \<noteq> None \<or> handoff_conflict \<noteq> None
             then Some ''requested_lane_conflict''
             else if policy_lane \<noteq> None \<and> handoff_lane \<noteq> None \<and> policy_lane \<noteq> handoff_lane
             then Some ''requested_lane_conflict'' else None);
          (lane, source) =
            (if conflict \<noteq> None then (None, None)
             else if policy_lane \<noteq> None then (policy_lane, Some ''policy_snapshot'')
             else if handoff_lane \<noteq> None then (handoff_lane, Some ''handoff'')
             else (None, None))
      in \<lparr>ri_requested_lane = lane, ri_requested_lane_source = source,
          ri_requested_lane_sources = pc @ hc, ri_policy_lane = policy_lane,
          ri_handoff_lane = handoff_lane, ri_conflict_reason = conflict,
          ri_fingerprint = ''policy='' @ or_blank policy_lane @ ''|handoff='' @
            or_blank handoff_lane @ ''|conflict='' @ or_blank conflict\<rparr>)"

section \<open>The evaluation\<close>

record evaluation =
  ev_action_token :: string
  ev_known_action :: bool
  ev_allowed :: bool
  ev_reason :: string
  ev_default_lane :: "string option"
  ev_fallback_lanes :: "string list"
  ev_deterministic_only :: "bool option"
  ev_llm_policy :: "string option"
  ev_routing_class :: "string option"
  ev_requested_lane :: "string option"
  ev_requested_lane_source :: "string option"
  ev_resolved_lane :: "string option"
  ev_requested_lane_sources :: "(string \<times> string) list"
  ev_fingerprint :: "string option"

text \<open>The dictionary of one outcome for a known action; every return differs in a few entries.\<close>

definition outcome_for ::
    "authority \<Rightarrow> requested_lane_input \<Rightarrow> bool \<Rightarrow> string \<Rightarrow> string option \<Rightarrow> string option \<Rightarrow>
       string option \<Rightarrow> evaluation" where
  "outcome_for a ri allowed reason req src resolved =
     \<lparr>ev_action_token = action_token a, ev_known_action = True, ev_allowed = allowed,
      ev_reason = reason, ev_default_lane = Some (default_lane a),
      ev_fallback_lanes = fallback_lanes a, ev_deterministic_only = Some (deterministic_only a),
      ev_llm_policy = Some (llm_policy a), ev_routing_class = Some (routing_class a),
      ev_requested_lane = req, ev_requested_lane_source = src, ev_resolved_lane = resolved,
      ev_requested_lane_sources = ri_requested_lane_sources ri,
      ev_fingerprint = Some (normalize_lower [] (PStr (ri_fingerprint ri)))\<rparr>"

definition evaluate_action_authority :: "string \<Rightarrow> py \<Rightarrow> py \<Rightarrow> evaluation" where
  "evaluate_action_authority token policy_snapshot handoff_payload =
     (case get_action_authority token of
        None \<Rightarrow>
          \<lparr>ev_action_token = normalize_lower [] (PStr token), ev_known_action = False,
           ev_allowed = False, ev_reason = ''action_unclassified'', ev_default_lane = None,
           ev_fallback_lanes = [], ev_deterministic_only = None, ev_llm_policy = None,
           ev_routing_class = None, ev_requested_lane = None, ev_requested_lane_source = None,
           ev_resolved_lane = None, ev_requested_lane_sources = [], ev_fingerprint = None\<rparr>
      | Some a \<Rightarrow>
          (let ri = normalize_requested_lane_input (action_token a) policy_snapshot handoff_payload;
               conflict = normalize_lower [] (opt_str (ri_conflict_reason ri));
               req = lower_or_none (opt_str (ri_requested_lane ri));
               src = lower_or_none (opt_str (ri_requested_lane_source ri));
               resolved = (case req of Some l \<Rightarrow> l | None \<Rightarrow> default_lane a);
               refuse = (\<lambda>reason. outcome_for a ri False reason req src None)
           in if conflict \<noteq> [] then outcome_for a ri False conflict None None None
              else if resolved \<notin> set known_execution_lanes then refuse ''requested_lane_unknown''
              else if (case req of None \<Rightarrow> False
                       | Some l \<Rightarrow> l \<noteq> default_lane a \<and> l \<notin> set (fallback_lanes a))
              then refuse ''requested_lane_not_allowed''
              else if deterministic_only a \<and> resolved = LANE_LLM_BACKED
              then refuse ''deterministic_only_action_disallows_llm''
              else if llm_policy a = LLM_POLICY_DISALLOWED \<and> resolved = LANE_LLM_BACKED
              then refuse ''llm_lane_disallowed_for_action''
              else if llm_policy a = LLM_POLICY_REQUIRED \<and> resolved \<noteq> LANE_LLM_BACKED
              then refuse ''llm_lane_required_for_action''
              else if resolved = LANE_LLM_BACKED \<and> routing_class a \<noteq> ROUTING_CLASS_RETRY
              then refuse ''llm_lane_disallowed_for_routing_class''
              else outcome_for a ri True ''ok'' req src (Some resolved)))"

record routing =
  rt_known_action :: bool
  rt_allowed :: bool
  rt_reason :: string
  rt_action_token :: string
  rt_routing_class :: "string option"
  rt_resolved_lane :: "string option"
  rt_default_lane :: "string option"
  rt_requested_lane :: "string option"
  rt_requested_lane_source :: "string option"
  rt_fingerprint :: "string option"
  rt_evaluation :: evaluation

definition only_known :: "string list \<Rightarrow> string option \<Rightarrow> string option" where
  "only_known known v =
     (case v of None \<Rightarrow> None | Some s \<Rightarrow> if s \<in> set known then Some s else None)"

definition resolve_action_routing :: "string \<Rightarrow> py \<Rightarrow> py \<Rightarrow> routing" where
  "resolve_action_routing token policy_snapshot handoff_payload =
     (let e = evaluate_action_authority token policy_snapshot handoff_payload
      in \<lparr>rt_known_action = ev_known_action e, rt_allowed = ev_allowed e,
          rt_reason = normalize_lower [] (PStr (ev_reason e)),
          rt_action_token = normalize_lower [] (PStr (ev_action_token e)),
          rt_routing_class =
            only_known known_routing_classes (lower_or_none (opt_str (ev_routing_class e))),
          rt_resolved_lane =
            only_known known_execution_lanes (lower_or_none (opt_str (ev_resolved_lane e))),
          rt_default_lane = lower_or_none (opt_str (ev_default_lane e)),
          rt_requested_lane = lower_or_none (opt_str (ev_requested_lane e)),
          rt_requested_lane_source = lower_or_none (opt_str (ev_requested_lane_source e)),
          rt_fingerprint = lower_or_none (opt_str (ev_fingerprint e)),
          rt_evaluation = e\<rparr>)"

section \<open>The table\<close>

text \<open>Every entry is constructed, so the module imports and the table has its eleven actions.\<close>

lemmas table_defs = mk_authority_def llm_retry_def github_executor_def github_control_def
  known_execution_lanes_def known_llm_policies_def known_routing_classes_def

lemma literal_text:
  "strip LANE_LLM_BACKED = LANE_LLM_BACKED" "lower LANE_LLM_BACKED = LANE_LLM_BACKED"
  "strip LANE_DETERMINISTIC_PYTHON = LANE_DETERMINISTIC_PYTHON"
  "lower LANE_DETERMINISTIC_PYTHON = LANE_DETERMINISTIC_PYTHON"
  "strip LANE_GITHUB_DETERMINISTIC = LANE_GITHUB_DETERMINISTIC"
  "lower LANE_GITHUB_DETERMINISTIC = LANE_GITHUB_DETERMINISTIC"
  "strip LLM_POLICY_DISALLOWED = LLM_POLICY_DISALLOWED"
  "lower LLM_POLICY_DISALLOWED = LLM_POLICY_DISALLOWED"
  "strip LLM_POLICY_REQUIRED = LLM_POLICY_REQUIRED"
  "lower LLM_POLICY_REQUIRED = LLM_POLICY_REQUIRED"
  "strip ROUTING_CLASS_EXECUTOR = ROUTING_CLASS_EXECUTOR"
  "lower ROUTING_CLASS_EXECUTOR = ROUTING_CLASS_EXECUTOR"
  "strip ROUTING_CLASS_RETRY = ROUTING_CLASS_RETRY"
  "lower ROUTING_CLASS_RETRY = ROUTING_CLASS_RETRY"
  "strip ROUTING_CLASS_CONTROL = ROUTING_CLASS_CONTROL"
  "lower ROUTING_CLASS_CONTROL = ROUTING_CLASS_CONTROL"
  by code_simp+

text \<open>
  The shape every entry of the table has: an LLM-backed retry action, or a deterministic
  action whose lane is the one its routing class needs.
\<close>

definition lane_of_class :: "string \<Rightarrow> string \<Rightarrow> bool" where
  "lane_of_class cls lane =
     (cls = ROUTING_CLASS_EXECUTOR \<and> lane = LANE_GITHUB_DETERMINISTIC \<or>
      cls = ROUTING_CLASS_CONTROL \<and> lane = LANE_DETERMINISTIC_PYTHON \<or>
      cls = ROUTING_CLASS_RETRY \<and> lane \<in> {LANE_LLM_BACKED, LANE_DETERMINISTIC_PYTHON})"

definition authority_shape :: "authority \<Rightarrow> bool" where
  "authority_shape a =
     (fallback_lanes a = [] \<and> lane_of_class (routing_class a) (default_lane a) \<and>
      (if default_lane a = LANE_LLM_BACKED
       then \<not> deterministic_only a \<and> llm_policy a = LLM_POLICY_REQUIRED
       else deterministic_only a \<and> llm_policy a = LLM_POLICY_DISALLOWED))"

lemma action_tokens:
  "map fst action_authorities =
     [''same_prompt_retry'', ''repair_prompt_retry'', ''signal_recollect'', ''wait_for_checks'',
      ''prompt_recompile'', ''roadmap_replan'', ''escalate_to_human'', ''proceed_to_pr'',
      ''github.pr.update'', ''proceed_to_merge'', ''rollback_required'']"
  by code_simp

lemma action_table_shape: "list_all (\<lambda>(t, a). authority_shape a) action_authorities"
  by code_simp

lemma action_table_keys: "list_all (\<lambda>(t, a). t = action_token a) action_authorities"
  by code_simp

lemma operation_table: "length operation_authorities = 9"
  "list_all (\<lambda>(t, a). t = action_token a \<and> default_lane a = LANE_GITHUB_DETERMINISTIC \<and>
     deterministic_only a) operation_authorities"
  by code_simp+

lemma authority_found:
  assumes "get_action_authority tok = Some a"
  shows "authority_shape a" "action_token a = normalize_lower [] (PStr tok)"
proof -
  let ?t = "normalize_lower [] (PStr tok)"
  from assms have "map_of action_authorities ?t = Some a"
    by (simp add: get_action_authority_def Let_def split: if_splits)
  then have "(?t, a) \<in> set action_authorities" by (rule map_of_SomeD)
  with action_table_shape action_table_keys
  show "authority_shape a" "action_token a = ?t" by (fastforce simp: list_all_iff)+
qed

lemma shape_lane_known: "authority_shape a \<Longrightarrow> default_lane a \<in> set known_execution_lanes"
  by (auto simp: authority_shape_def lane_of_class_def known_execution_lanes_def split: if_splits)

section \<open>What the evaluation decides\<close>

lemma surface_lanes:
  assumes "(place, lane) \<in> set (surface_lane_candidates surface source token)"
  shows "lane \<noteq> []" "lower (strip lane) = lane"
  using assms
  by (auto simp: surface_lane_candidates_def Let_def split: if_splits option.splits)

text \<open>A surface, or both together, asks for one lane when all its candidates name the same one.\<close>

definition uniform :: "(string \<times> string) list \<Rightarrow> bool" where
  "uniform cs = (\<forall>c \<in> set cs. snd c = snd (hd cs))"

lemma uniform_Nil [simp]: "uniform []"
  by (simp add: uniform_def)

lemma uniform_append:
  "uniform (xs @ ys) \<longleftrightarrow> (if xs = [] then uniform ys else if ys = [] then uniform xs
     else uniform xs \<and> uniform ys \<and> snd (hd xs) = snd (hd ys))"
proof -
  have "(\<forall>c \<in> set ys. snd c = snd (hd xs)) \<longleftrightarrow> uniform ys \<and> snd (hd xs) = snd (hd ys)"
    if "ys \<noteq> []"
    unfolding uniform_def using hd_in_set [OF that] by metis
  then show ?thesis by (simp add: uniform_def ball_Un)
qed

lemma surface_value_eq:
  assumes "\<And>place lane. (place, lane) \<in> set cs \<Longrightarrow> lane \<noteq> []"
  shows "surface_value cs =
    (if cs = [] then (None, None) else if uniform cs then (Some (snd (hd cs)), None)
     else (None, Some ''requested_lane_conflict''))"
proof -
  let ?S = "{lane \<in> snd ` set cs. lane \<noteq> []}"
  have S: "?S = snd ` set cs" using assms by force
  have set: "set (sorted_list_of_set ?S) = snd ` set cs" and dist: "distinct (sorted_list_of_set ?S)"
    unfolding S by simp_all
  show ?thesis
  proof (cases "cs = []")
    case False
    then have hd: "snd (hd cs) \<in> snd ` set cs" by simp
    show ?thesis
    proof (cases "uniform cs")
      case True
      then have "snd ` set cs \<subseteq> {snd (hd cs)}" unfolding uniform_def by blast
      with hd have "snd ` set cs = {snd (hd cs)}" by blast
      then have "sorted_list_of_set ?S = [snd (hd cs)]" unfolding S by simp
      with False True show ?thesis by (simp add: surface_value_def)
    next
      case no: False
      then obtain c where c: "c \<in> set cs" "snd c \<noteq> snd (hd cs)" by (auto simp: uniform_def)
      then have "snd c \<in> snd ` set cs" by simp
      with hd c(2) have "sorted_list_of_set ?S \<noteq> []" "sorted_list_of_set ?S \<noteq> [l]" for l
        using set by (metis empty_iff empty_set, metis empty_set list.simps(15) singletonD)
      then obtain l m ms where "sorted_list_of_set ?S = l # m # ms"
        by (metis neq_Nil_conv)
      with False no show ?thesis by (simp add: surface_value_def)
    qed
  qed (simp add: surface_value_def)
qed

lemma requested_lane_eq:
  fixes tok p h
  defines "ri \<equiv> normalize_requested_lane_input tok p h"
  defines "cs \<equiv> ri_requested_lane_sources ri"
  shows "ri_conflict_reason ri = (if uniform cs then None else Some ''requested_lane_conflict'')"
    and "ri_requested_lane ri = (if cs = [] \<or> \<not> uniform cs then None else Some (snd (hd cs)))"
    and "(place, lane) \<in> set cs \<Longrightarrow> lane \<noteq> [] \<and> lower (strip lane) = lane"
proof -
  define act where "act = normalize_lower [] (PStr tok)"
  define pc where "pc = surface_lane_candidates ''policy_snapshot'' (mapping_or_empty p) act"
  define hc where "hc = surface_lane_candidates ''handoff'' (mapping_or_empty h) act"
  note defs = ri_def cs_def normalize_requested_lane_input_def Let_def
    act_def [symmetric] pc_def [symmetric] hc_def [symmetric]
  have cs: "cs = pc @ hc" unfolding defs by (simp split: prod.split)
  show "(place, lane) \<in> set cs \<Longrightarrow> lane \<noteq> [] \<and> lower (strip lane) = lane" for place lane
    using surface_lanes unfolding cs pc_def hc_def by fastforce
  have p: "surface_value pc = (if pc = [] then (None, None) else if uniform pc
      then (Some (snd (hd pc)), None) else (None, Some ''requested_lane_conflict''))"
    unfolding pc_def by (rule surface_value_eq) (rule surface_lanes(1))
  have h: "surface_value hc = (if hc = [] then (None, None) else if uniform hc
      then (Some (snd (hd hc)), None) else (None, Some ''requested_lane_conflict''))"
    unfolding hc_def by (rule surface_value_eq) (rule surface_lanes(1))
  have u: "uniform (pc @ hc) \<longleftrightarrow> (if pc = [] then uniform hc else if hc = [] then uniform pc
      else uniform pc \<and> uniform hc \<and> snd (hd pc) = snd (hd hc))"
    by (rule uniform_append)
  obtain pl pcf hl hcf where sv: "surface_value pc = (pl, pcf)" "surface_value hc = (hl, hcf)"
    by (metis surj_pair)
  have conflict: "ri_conflict_reason ri =
      (if pcf \<noteq> None \<or> hcf \<noteq> None \<or> pl \<noteq> None \<and> hl \<noteq> None \<and> pl \<noteq> hl
       then Some ''requested_lane_conflict'' else None)"
    unfolding defs by (simp add: sv)
  have lane: "ri_requested_lane ri =
      (if ri_conflict_reason ri \<noteq> None then None else if pl \<noteq> None then pl else hl)"
    unfolding defs by (cases pl; cases hl) (simp_all add: sv)
  note ph = p [unfolded sv] h [unfolded sv]
  show *: "ri_conflict_reason ri = (if uniform cs then None else Some ''requested_lane_conflict'')"
    unfolding cs u conflict using ph by (simp split: if_splits)
  show "ri_requested_lane ri = (if cs = [] \<or> \<not> uniform cs then None else Some (snd (hd cs)))"
    unfolding lane * unfolding cs u using ph by (simp add: hd_append split: if_splits)
qed

text \<open>Every lane a request surface names for a token, with the place that names it.\<close>

definition requested_lanes :: "string \<Rightarrow> py \<Rightarrow> py \<Rightarrow> (string \<times> string) list" where
  "requested_lanes token policy_snapshot handoff_payload =
     ri_requested_lane_sources
       (normalize_requested_lane_input token policy_snapshot handoff_payload)"

lemma evaluation_known:
  fixes tok :: string and p h :: py
  assumes a: "get_action_authority tok = Some a"
  defines "cs \<equiv> requested_lanes (action_token a) p h"
  defines "e \<equiv> evaluate_action_authority tok p h"
  shows "ev_allowed e \<longleftrightarrow> (\<forall>c \<in> set cs. snd c = default_lane a)"
    and "ev_allowed e \<Longrightarrow> ev_resolved_lane e = Some (default_lane a)"
    and "\<not> ev_allowed e \<Longrightarrow> ev_resolved_lane e = None"
    and "\<not> uniform cs \<Longrightarrow> ev_reason e = ''requested_lane_conflict''"
    and "ev_known_action e" "ev_routing_class e = Some (routing_class a)"
proof -
  let ?ri = "normalize_requested_lane_input (action_token a) p h"
  note shape = authority_found(1) [OF a]
  have known: "default_lane a \<in> set known_execution_lanes"
    by (rule shape_lane_known [OF shape])
  have cs: "ri_requested_lane_sources ?ri = cs" by (simp add: cs_def requested_lanes_def)
  note req = requested_lane_eq [where tok = "action_token a" and p = p and h = h, unfolded cs]
  have conflict: "strip ''requested_lane_conflict'' = ''requested_lane_conflict''"
    "lower ''requested_lane_conflict'' = ''requested_lane_conflict''"
    by code_simp+
  have lane: "lower_or_none (opt_str (ri_requested_lane ?ri)) = ri_requested_lane ?ri"
  proof (cases "cs = [] \<or> \<not> uniform cs")
    case False
    then have "(fst (hd cs), snd (hd cs)) \<in> set cs" by simp
    then have "snd (hd cs) \<noteq> [] \<and> lower (strip (snd (hd cs))) = snd (hd cs)" by (rule req(3))
    with False show ?thesis by (auto simp: req(2) lower_or_none_def)
  qed (use req(2) in auto)
  show "ev_known_action e" "ev_routing_class e = Some (routing_class a)"
    by (simp_all add: e_def evaluate_action_authority_def a outcome_for_def Let_def)
  show "\<not> uniform cs \<Longrightarrow> ev_reason e = ''requested_lane_conflict''"
    by (simp add: e_def evaluate_action_authority_def a outcome_for_def Let_def req(1) conflict)
  show "\<not> ev_allowed e \<Longrightarrow> ev_resolved_lane e = None"
    by (simp add: e_def evaluate_action_authority_def a outcome_for_def Let_def split: if_splits)
  have det: "llm_policy a = (if default_lane a = LANE_LLM_BACKED then LLM_POLICY_REQUIRED
                     else LLM_POLICY_DISALLOWED)"
    "LANE_LLM_BACKED \<in> set known_execution_lanes"
    "deterministic_only a \<longleftrightarrow> default_lane a \<noteq> LANE_LLM_BACKED"
    "default_lane a = LANE_LLM_BACKED \<longrightarrow> routing_class a = ROUTING_CLASS_RETRY"
    "fallback_lanes a = []"
    using shape
    by (auto simp: authority_shape_def lane_of_class_def known_execution_lanes_def split: if_splits)
  have allowed: "ev_allowed e \<longleftrightarrow> (ri_conflict_reason ?ri = None \<and>
      (case ri_requested_lane ?ri of None \<Rightarrow> True | Some l \<Rightarrow> l = default_lane a))"
    using known det
    by (simp add: e_def evaluate_action_authority_def a outcome_for_def Let_def lane req(1) conflict
        split: option.split)
  have "uniform cs \<and> snd (hd cs) = default_lane a \<longleftrightarrow> (\<forall>c \<in> set cs. snd c = default_lane a)"
    if "cs \<noteq> []"
    unfolding uniform_def using hd_in_set [OF that] by metis
  moreover have "uniform []" by (simp add: uniform_def)
  ultimately show "ev_allowed e \<longleftrightarrow> (\<forall>c \<in> set cs. snd c = default_lane a)"
    unfolding allowed req by (cases "cs = []") auto
  show "ev_allowed e \<Longrightarrow> ev_resolved_lane e = Some (default_lane a)"
    using allowed by (auto simp: e_def evaluate_action_authority_def a outcome_for_def Let_def lane
        split: if_splits option.splits)
qed

section \<open>Properties\<close>



text \<open>Two places that ask for different lanes, on the same surface or on different ones, are a
  conflict: the action is refused with that reason and no lane is resolved.\<close>

theorem conflicting_lane_requests_are_refused:
  assumes "get_action_authority tok = Some a"
    and "c \<in> set (requested_lanes (action_token a) p h)"
    and "d \<in> set (requested_lanes (action_token a) p h)"
    and "snd c \<noteq> snd d"
  shows "\<not> ev_allowed (evaluate_action_authority tok p h) \<and>
         ev_reason (evaluate_action_authority tok p h) = ''requested_lane_conflict'' \<and>
         ev_resolved_lane (evaluate_action_authority tok p h) = None"
proof -
  have "\<not> uniform (requested_lanes (action_token a) p h)"
    using assms(2-4) unfolding uniform_def by metis
  moreover have "\<not> ev_allowed (evaluate_action_authority tok p h)"
    unfolding evaluation_known(1) [OF assms(1)] using assms(2-4) by metis
  ultimately show ?thesis
    using evaluation_known(3,4) [OF assms(1), of p h] by blast
qed

theorem conflicting_lane_requests_are_refused_witness:
  "ev_reason (evaluate_action_authority ''same_prompt_retry''
     (PDict [(''requested_execution_lane'', PStr ''llm_backed'')])
     (PDict [(''requested_execution'', PDict [(''requested_lane'', PStr ''deterministic_python'')])]))
   = ''requested_lane_conflict''"
proof -
  let ?p = "PDict [(''requested_execution_lane'', PStr ''llm_backed'')]"
  let ?h = "PDict [(''requested_execution'',
              PDict [(''requested_lane'', PStr ''deterministic_python'')])]"
  have "case get_action_authority ''same_prompt_retry'' of None \<Rightarrow> False | Some a \<Rightarrow>
      (\<exists>c \<in> set (requested_lanes (action_token a) ?p ?h).
       \<exists>d \<in> set (requested_lanes (action_token a) ?p ?h). snd c \<noteq> snd d)"
    by code_simp
  then show ?thesis
    using conflicting_lane_requests_are_refused by (fastforce split: option.splits)
qed

text \<open>A routing that is allowed resolves a routing class together with a lane that class may
  run in: executors in the GitHub lane, controls in deterministic Python, retries in the LLM
  or the deterministic Python lane. The three mismatch branches of \<open>dispatch_once\<close> that check
  this again are unreachable.\<close>

theorem allowed_routing_has_lane_of_its_class:
  assumes "rt_allowed (resolve_action_routing tok p h)"
  shows "\<exists>cls lane. rt_routing_class (resolve_action_routing tok p h) = Some cls \<and>
           rt_resolved_lane (resolve_action_routing tok p h) = Some lane \<and>
           lane_of_class cls lane"
proof -
  let ?e = "evaluate_action_authority tok p h"
  have allowed: "ev_allowed ?e" using assms by (simp add: resolve_action_routing_def Let_def)
  then obtain a where a: "get_action_authority tok = Some a"
    by (cases "get_action_authority tok") (simp_all add: evaluate_action_authority_def)
  have e: "ev_resolved_lane ?e = Some (default_lane a)" "ev_routing_class ?e = Some (routing_class a)"
    using evaluation_known(2,6) [OF a, of p h] allowed by auto
  have "lane_of_class (routing_class a) (default_lane a)"
    using authority_found(1) [OF a] by (simp add: authority_shape_def)
  then show ?thesis
    by (auto simp: resolve_action_routing_def Let_def e lane_of_class_def only_known_def lower_or_none_def
        literal_text known_routing_classes_def known_execution_lanes_def)
qed

theorem allowed_routing_has_lane_of_its_class_witness:
  "lane_of_class (the (rt_routing_class (resolve_action_routing ''proceed_to_merge'' PNone PNone)))
     (the (rt_resolved_lane (resolve_action_routing ''proceed_to_merge'' PNone PNone)))"
proof -
  have "rt_allowed (resolve_action_routing ''proceed_to_merge'' PNone PNone)" by code_simp
  from allowed_routing_has_lane_of_its_class [OF this] show ?thesis by auto
qed

end
