(* ===== verification/Run_Dispatcher.thy ===== *)
theory Run_Dispatcher
  imports Run_Audit Retry_Decision Execution_Authority "HOL-Library.Product_Lexorder"
begin

text \<open>
  \<open>automation/scheduler/run_dispatcher.py\<close>: one dispatch of a job. The planned-execution runner is
  run, its decision and handoff are read back, the action is routed by the execution authority,
  and the dispatch ends paused, escalated or executed, or runs the runner again for a retry.

  The runner and the action executor are objects the dispatcher is given: programs of the
  environment, as is the retry policy file. The text of a caught exception is the one of its
  value; the text of a JSON syntax error is not modelled.
\<close>

section \<open>Receipts of the executor\<close>

definition executor_receipt_filenames :: "string list" where
  "executor_receipt_filenames =
     [''pr_creation_receipt.json'', ''pr_update_receipt.json'', ''merge_receipt.json'',
      ''rollback_receipt.json'']"

definition executor_action_tokens :: "string list" where
  "executor_action_tokens =
     [''proceed_to_pr'', ''github.pr.update'', ''proceed_to_merge'', ''rollback_required'']"

definition deterministic_write_result_statuses :: "string list" where
  "deterministic_write_result_statuses = [''already_applied'', ''no_op'']"

definition deterministic_refusal_prefixes :: "string list" where
  "deterministic_refusal_prefixes =
     [''idempotency_'', ''write_authority_blocked'', ''write_action_not_allowed'',
      ''write_category_not_allowed'', ''merge_pr_number_missing_or_invalid'',
      ''update_pr_number_missing_or_invalid'', ''pr_update_missing_or_invalid'',
      ''rollback_target_missing_or_ambiguous'', ''unsupported_action'']"

text \<open>A file that holds a JSON object; anything else reads as nothing here.\<close>

definition object_at :: "files \<Rightarrow> path \<Rightarrow> dict option" where
  "object_at fs p =
     (case fs p of Some (JsonText v) \<Rightarrow> as_mapping v | _ \<Rightarrow> None)"

text \<open>What one receipt says: the dispatch status and the reason, when it is a terminal result.\<close>

definition terminal_result :: "dict \<Rightarrow> (string \<times> string \<times> bool) option" where
  "terminal_result payload =
     (let action = normalize_text [] (get payload ''requested_action'');
          succeeded = as_bool (get payload ''succeeded'');
          refusal = normalize_text [] (get payload ''refusal_reason'');
          dedupe = normalize_text []
            (get (mapping_or_empty (get payload ''write_idempotency'')) ''dedupe_status'');
          evidence = mapping_or_empty (get payload ''evidence_used_summary'');
          write_status = normalize_text []
            (get (mapping_or_empty (get evidence ''write_result'')) ''status'')
      in if action \<notin> set executor_action_tokens then None
         else if succeeded \<and>
           (write_status \<in> set deterministic_write_result_statuses \<or> dedupe = ''already_applied'')
         then Some (''executed'', ''short_circuit_existing_terminal_write_result:'' @ action @ '':'' @
                (if write_status \<noteq> [] then write_status else dedupe),
              as_bool (get payload ''whether_human_required''))
         else if \<not> succeeded \<and> refusal \<noteq> [] \<and>
           list_ex (starts_with refusal) deterministic_refusal_prefixes
         then Some (''escalated'',
              ''short_circuit_existing_terminal_refusal:'' @ action @ '':'' @ refusal, True)
         else None)"

definition receipt_candidate :: "files \<Rightarrow> path \<Rightarrow> string \<Rightarrow> dict option" where
  "receipt_candidate fs run_root filename =
     (case object_at fs (child run_root filename) of
        None \<Rightarrow> None
      | Some payload \<Rightarrow>
          (case terminal_result payload of
             None \<Rightarrow> None
           | Some (status, reason, human) \<Rightarrow>
               Some [(''dispatch_status'', PStr status), (''routing_reason'', PStr reason),
                 (''whether_human_required'', PBool human),
                 (''executed_at'', PStr (normalize_text [] (get payload ''executed_at''))),
                 (''receipt_path'', PStr (path_str (child run_root filename))),
                 (''requested_action'',
                    PStr (normalize_text [] (get payload ''requested_action'')))]))"

definition load_terminal_executor_receipt_candidates :: "files \<Rightarrow> path \<Rightarrow> dict list" where
  "load_terminal_executor_receipt_candidates fs run_root =
     List.map_filter (receipt_candidate fs run_root) executor_receipt_filenames"

definition select_retry_short_circuit_candidate :: "files \<Rightarrow> path \<Rightarrow> dict option" where
  "select_retry_short_circuit_candidate fs run_root =
     (let cs = load_terminal_executor_receipt_candidates fs run_root;
          key = (\<lambda>c. (normalize_text [] (get c ''executed_at''),
                      normalize_text [] (get c ''requested_action''),
                      normalize_text [] (get c ''receipt_path'')))
      in if cs = [] then None else Some (last (sort_key key cs)))"

text \<open>The run id of the first unit whose receipt can be read and names one.\<close>

definition unit_run_id :: "files \<Rightarrow> py \<Rightarrow> string option" where
  "unit_run_id fs unit =
     (case as_mapping unit of
        None \<Rightarrow> None
      | Some u \<Rightarrow>
          (let p = normalize_text [] (get u ''receipt_path'') in
           if p = [] then None
           else case object_at fs (path_of p) of
                  None \<Rightarrow> None
                | Some receipt \<Rightarrow> text_or_none (get receipt ''run_id'')))"

definition extract_run_id_from_manifest :: "files \<Rightarrow> dict \<Rightarrow> string option" where
  "extract_run_id_from_manifest fs manifest =
     (case List.map_filter (unit_run_id fs) (list_items (get manifest ''pr_units'')) of
        r # _ \<Rightarrow> Some r
      | [] \<Rightarrow> None)"

section \<open>Retry signals\<close>

record retry_signals =
  sg_class :: "string option"
  sg_budget :: "int option"
  sg_missing :: "int option"
  sg_attempts :: "int option"

definition resolve_retry_details :: "dict \<Rightarrow> retry_signals res" where
  "resolve_retry_details handoff =
     (let ctx = mapping_or_empty (get handoff ''updated_retry_context'') in
      res_bind (as_optional_int
          (if get handoff ''retry_budget_remaining'' \<noteq> PNone
           then get handoff ''retry_budget_remaining'' else get ctx ''retry_budget_remaining''))
        (\<lambda>budget.
      res_bind (as_optional_int (get ctx ''missing_signal_count'')) (\<lambda>missing.
      res_bind (as_optional_int (get ctx ''prior_attempt_count'')) (\<lambda>attempts.
      Inr \<lparr>sg_class = text_or_none (get ctx ''prior_retry_class''), sg_budget = budget,
           sg_missing = missing, sg_attempts = attempts\<rparr>))))"

fun merge_option :: "('a \<Rightarrow> 'a \<Rightarrow> 'a) \<Rightarrow> 'a option \<Rightarrow> 'a option \<Rightarrow> 'a option" where
  "merge_option f None b = b"
| "merge_option f a None = a"
| "merge_option f (Some a) (Some b) = Some (f a b)"

text \<open>The handoff's signals with the persisted context's: the smaller budget, the larger counts.\<close>

definition merge_retry_signals :: "dict \<Rightarrow> py \<Rightarrow> retry_signals res" where
  "merge_retry_signals handoff persisted_retry_context =
     (let persisted = mapping_or_empty persisted_retry_context in
      res_bind (resolve_retry_details handoff) (\<lambda>s.
      res_bind (as_optional_int (get persisted ''retry_budget_remaining'')) (\<lambda>budget.
      res_bind (as_optional_int (get persisted ''missing_signal_count'')) (\<lambda>missing.
      res_bind (as_optional_int (get persisted ''prior_attempt_count'')) (\<lambda>attempts.
      Inr \<lparr>sg_class = (case sg_class s of
               Some c \<Rightarrow> Some c | None \<Rightarrow> text_or_none (get persisted ''prior_retry_class'')),
           sg_budget = merge_option min (sg_budget s) budget,
           sg_missing = merge_option max (sg_missing s) missing,
           sg_attempts = merge_option max (sg_attempts s) attempts\<rparr>)))))"

section \<open>The request and the environment\<close>

record dispatch_request =
  dq_artifacts_input_dir :: string
  dq_output_dir :: string
  dq_job_id :: "string option"
  dq_dry_run :: bool
  dq_stop_on_failure :: bool
  dq_max_retry_dispatches :: int
  dq_repository :: "string option"
  dq_head_branch :: "string option"
  dq_base_branch :: "string option"
  dq_category :: "string option"
  dq_write_authority :: py
  dq_policy_snapshot :: py
  dq_pr_number :: "int option"
  dq_pr_update :: py
  dq_expected_head_sha :: "string option"
  dq_rollback_target :: py
  dq_github_read_evidence :: py

record environment =
  en_runner :: "dispatch_request \<Rightarrow> dict run"
  en_executor :: "dispatch_request \<Rightarrow> path \<Rightarrow> dict run"
  en_retry_policies :: py

definition pr_update_keys :: "dispatch_request \<Rightarrow> string list" where
  "pr_update_keys q =
     filter (has_key (mapping_or_empty (dq_pr_update q))) [''title'', ''body'', ''base_branch'']"

definition preserved_inputs_summary :: "dispatch_request \<Rightarrow> dict" where
  "preserved_inputs_summary q =
     (let rollback = mapping_or_empty (dq_rollback_target q)
      in [(''artifacts_input_dir'', PStr (dq_artifacts_input_dir q)),
          (''output_dir'', PStr (dq_output_dir q)),
          (''dry_run'', PBool (dq_dry_run q)),
          (''stop_on_failure'', PBool (dq_stop_on_failure q)),
          (''max_retry_dispatches'', PInt (max 0 (dq_max_retry_dispatches q))),
          (''repository'', opt_str (text_or_none (opt_str (dq_repository q)))),
          (''head_branch'', opt_str (text_or_none (opt_str (dq_head_branch q)))),
          (''base_branch'', opt_str (text_or_none (opt_str (dq_base_branch q)))),
          (''category'', opt_str (text_or_none (opt_str (dq_category q)))),
          (''has_write_authority'', PBool (as_mapping (dq_write_authority q) \<noteq> None)),
          (''has_policy_snapshot'', PBool (as_mapping (dq_policy_snapshot q) \<noteq> None)),
          (''pr_number'', opt_int (dq_pr_number q)),
          (''pr_update_keys'', PList (map PStr (sort (pr_update_keys q)))),
          (''rollback_target_keys'',
             PList (map PStr (sort (filter (\<lambda>k. normalize_text [] (get rollback k) \<noteq> [])
               (map fst rollback)))))])"

section \<open>Audit records\<close>

record audit_args =
  au_action_taken :: string
  au_execution_attempted :: bool
  au_retry_attempted :: bool
  au_routed_action :: "string option"
  au_routing_reason :: string
  au_retry_class :: "string option"
  au_budget :: "int option"
  au_human :: bool
  au_outcome :: string
  au_run_id :: "string option"
  au_pause_state :: "string option"
  au_pause_reason :: "string option"
  au_next_eligible_at :: "string option"

definition audit_dict :: "string \<Rightarrow> audit_args \<Rightarrow> dict" where
  "audit_dict job_id a =
     [(''job_id'', PStr job_id), (''run_id'', opt_str (au_run_id a)),
      (''scheduler_action_taken'', PStr (au_action_taken a)),
      (''execution_attempted'', PBool (au_execution_attempted a)),
      (''retry_attempted'', PBool (au_retry_attempted a)),
      (''routed_action'', opt_str (au_routed_action a)),
      (''routing_reason'', PStr (au_routing_reason a)),
      (''retry_class'', opt_str (au_retry_class a)),
      (''retry_budget_remaining'', opt_int (au_budget a)),
      (''whether_human_required'', PBool (au_human a)),
      (''outcome_status'', PStr (au_outcome a)),
      (''pause_state'', opt_str (au_pause_state a)),
      (''pause_reason'', opt_str (au_pause_reason a)),
      (''next_eligible_at'', opt_str (au_next_eligible_at a))]"

definition record_audit :: "path \<Rightarrow> string \<Rightarrow> audit_args \<Rightarrow> dict run" where
  "record_audit run_root job_id a = append_audit run_root (audit_dict job_id a)"

text \<open>The end of a dispatch: the audit record, and the result that carries it.\<close>

definition dispatch_result :: "string \<Rightarrow> string \<Rightarrow> dict list \<Rightarrow> dict \<Rightarrow> dict \<Rightarrow> dict" where
  "dispatch_result job_id status manifests audit extra =
     [(''job_id'', PStr job_id), (''dispatch_status'', PStr status),
      (''manifests'', PList (map PDict manifests)), (''audit'', PDict audit)] @ extra"

definition conclude ::
    "path \<Rightarrow> string \<Rightarrow> dict list \<Rightarrow> string \<Rightarrow> audit_args \<Rightarrow> dict \<Rightarrow> dict run" where
  "conclude run_root job_id manifests status a extra =
     run_bind (record_audit run_root job_id a) (\<lambda>audit.
     run_return (dispatch_result job_id status manifests audit extra))"

section \<open>The pause file\<close>

definition pause_path :: "path \<Rightarrow> path" where
  "pause_path run_root = child run_root ''pause_state.json''"

definition load_pause :: "path \<Rightarrow> dict option run" where
  "load_pause run_root =
     run_bind (run_read (pause_path run_root)) (\<lambda>f. run_return (load_pause_payload f))"

definition resume_pause :: "path \<Rightarrow> dict \<Rightarrow> dict run" where
  "resume_pause run_root current =
     run_bind (run_read (pause_path run_root)) (\<lambda>f.
     run_bind run_now (\<lambda>now.
     run_bind (run_res (mark_pause_resumed f now ''pause_eligible_for_resume'')) (\<lambda>(resumed, f').
     run_bind (run_write_opt (pause_path run_root) f') (\<lambda>_.
     run_return (nonempty_or resumed current)))))"

definition handle_existing_pause_if_any :: "path \<Rightarrow> string \<Rightarrow> dict option run" where
  "handle_existing_pause_if_any run_root job_id =
     run_bind (load_pause run_root) (\<lambda>existing.
     if \<not> is_pause_active (opt_dict existing) then run_return None
     else
       let payload = mapping_or_empty (opt_dict existing);
           args = (\<lambda>action reason outcome p st why. \<lparr>au_action_taken = action,
             au_execution_attempted = False, au_retry_attempted = False, au_routed_action = None,
             au_routing_reason = reason, au_retry_class = None, au_budget = None,
             au_human = as_bool (get p ''whether_human_required''), au_outcome = outcome,
             au_run_id = text_or_none (get p ''run_id''), au_pause_state = st,
             au_pause_reason = why, au_next_eligible_at = text_or_none (get p ''next_eligible_at'')\<rparr>)
       in run_bind run_now (\<lambda>now.
          run_bind (run_res (is_pause_resume_eligible (PDict payload) now)) (\<lambda>eligible.
          if \<not> eligible then
            run_bind (conclude run_root job_id [] ''paused''
                (args ''pause_skip'' ''paused_not_eligible'' ''paused'' payload
                  (Some (normalize_text PAUSE_STATE_OTHER (get payload ''pause_state'')))
                  (Some (normalize_text ''pause_active'' (get payload ''pause_reason''))))
                [(''pause_state'', PDict payload)]) (\<lambda>r.
            run_return (Some r))
          else
            run_bind (resume_pause run_root payload) (\<lambda>resumed.
            run_bind (record_audit run_root job_id
                (args ''resume'' ''pause_eligible_for_resume'' ''resumed'' resumed
                  (text_or_none (get resumed ''pause_state''))
                  (text_or_none (get resumed ''pause_reason'')))) (\<lambda>_.
            run_return None)))))"

end
