(* ===== verification/Dispatch.thy ===== *)
theory Dispatch
  imports Run_Dispatcher
begin

text \<open>
  \<open>RunDispatcher.dispatch_once\<close>: the loop over the runner's results. A round runs the runner,
  reads its decision and either ends the dispatch or asks for another round; only a granted
  retry does the latter, which is why the loop ends.
\<close>

section \<open>Routing\<close>

definition resolved_lane_of :: "routing \<Rightarrow> string" where
  "resolved_lane_of r = normalize_text [] (opt_str (rt_resolved_lane r))"

definition routing_class_of :: "routing \<Rightarrow> string" where
  "routing_class_of r = normalize_text [] (opt_str (rt_routing_class r))"

text \<open>The reasons not to follow a routing, in the order the code checks them.\<close>

definition routing_refusal :: "routing \<Rightarrow> string option" where
  "routing_refusal r =
     (let lane = resolved_lane_of r; cls = routing_class_of r in
      if \<not> rt_known_action r then Some ''authority_action_unclassified''
      else if \<not> rt_allowed r
      then Some (''authority_'' @ normalize_text ''lane_not_allowed'' (PStr (rt_reason r)))
      else if cls = ROUTING_CLASS_EXECUTOR \<and> lane \<noteq> LANE_GITHUB_DETERMINISTIC
      then Some ''authority_routing_mismatch:executor_requires_github_deterministic''
      else if cls = ROUTING_CLASS_RETRY \<and> lane \<notin> {LANE_LLM_BACKED, LANE_DETERMINISTIC_PYTHON}
      then Some ''authority_routing_mismatch:retry_dispatch_disallows_github_lane''
      else if cls = ROUTING_CLASS_CONTROL \<and> lane \<noteq> LANE_DETERMINISTIC_PYTHON
      then Some ''authority_routing_mismatch:control_requires_deterministic_python''
      else if cls \<notin> {ROUTING_CLASS_RETRY, ROUTING_CLASS_EXECUTOR, ROUTING_CLASS_CONTROL}
      then Some ''authority_routing_class_unresolved''
      else None)"

type_synonym routing_cache = "((string \<times> string) \<times> routing) list"

definition routing_cache_key :: "string \<Rightarrow> py \<Rightarrow> dict \<Rightarrow> string \<times> string" where
  "routing_cache_key action policy_snapshot handoff =
     (normalize_text [] (PStr action),
      normalize_text ''_''
        (PStr (ri_fingerprint (normalize_requested_lane_input action policy_snapshot (PDict handoff)))))"

text \<open>The routing of an action, from the cache of this dispatch when its key is there.\<close>

definition cached_routing ::
    "string \<Rightarrow> py \<Rightarrow> dict \<Rightarrow> routing_cache \<Rightarrow> routing \<times> routing_cache" where
  "cached_routing action policy_snapshot handoff cache =
     (let key = routing_cache_key action policy_snapshot handoff in
      case map_of cache key of
        Some r \<Rightarrow> (r, cache)
      | None \<Rightarrow>
          (let r = resolve_action_routing action policy_snapshot (PDict handoff)
           in (r, (key, r) # cache)))"

section \<open>One round\<close>

record round =
  rn_job :: string
  rn_root :: path
  rn_manifests :: "dict list"
  rn_manifest :: dict
  rn_next :: dict
  rn_handoff :: dict
  rn_signals :: retry_signals
  rn_action :: string
  rn_human :: bool

datatype step =
    Finished dict
  | Again "dict list" routing_cache

definition finish :: "dict run \<Rightarrow> step run" where
  "finish m = run_bind m (\<lambda>r. run_return (Finished r))"

definition escalation_args ::
    "string option \<Rightarrow> string \<Rightarrow> string option \<Rightarrow> int option \<Rightarrow> audit_args" where
  "escalation_args routed reason cls budget =
     \<lparr>au_action_taken = ''escalate'', au_execution_attempted = False, au_retry_attempted = False,
      au_routed_action = routed, au_routing_reason = reason, au_retry_class = cls,
      au_budget = budget, au_human = True, au_outcome = ''escalated'', au_run_id = None,
      au_pause_state = None, au_pause_reason = None, au_next_eligible_at = None\<rparr>"

definition escalate :: "round \<Rightarrow> string option \<Rightarrow> string \<Rightarrow> dict run" where
  "escalate rn routed reason =
     conclude (rn_root rn) (rn_job rn) (rn_manifests rn) ''escalated''
       (escalation_args routed reason (sg_class (rn_signals rn)) (sg_budget (rn_signals rn))) []"

text \<open>The decision and the handoff the runner left; a missing or unreadable one raises.\<close>

definition run_decision_artifacts :: "path \<Rightarrow> (dict \<times> dict) run" where
  "run_decision_artifacts run_root =
     run_bind run_files (\<lambda>fs.
     let next_path = child run_root ''next_action.json'';
         handoff_path = child run_root ''action_handoff.json'';
         read = (\<lambda>p. res_bind (read_json fs p) (\<lambda>v. case as_mapping v of
             Some d \<Rightarrow> Inr d
           | None \<Rightarrow> Inl (ValueError (''expected JSON object at '' @ path_str p))))
     in if \<not> exists_path fs next_path
        then run_raise (ValueError (''missing next_action.json: '' @ path_str next_path))
        else if \<not> exists_path fs handoff_path
        then run_raise (ValueError (''missing action_handoff.json: '' @ path_str handoff_path))
        else run_res (res_bind (read next_path) (\<lambda>n. res_bind (read handoff_path) (\<lambda>h. Inr (n, h)))))"

fun exc_text :: "py_exc \<Rightarrow> string" where
  "exc_text (ValueError s) = s"
| "exc_text (TypeError s) = s"
| "exc_text OverflowError = ''date value out of range''"
| "exc_text (OSError s) = s"

definition persisted_retry_context :: "path \<Rightarrow> string \<Rightarrow> py run" where
  "persisted_retry_context output_root job_id =
     (if job_id = [] then run_return PNone
      else run_bind (run_read (child output_root ''retry_context_store.json'')) (\<lambda>f.
           run_res (res_bind (store_get_record f job_id) (\<lambda>r.
             Inr (case r of None \<Rightarrow> PNone | Some (c, at) \<Rightarrow> PDict (retry_context_dict c))))))"

definition short_circuit :: "round \<Rightarrow> dict \<Rightarrow> dict run" where
  "short_circuit rn candidate =
     (let s = normalize_text ''escalated'' (get candidate ''dispatch_status'');
          status = (if s \<in> {''executed'', ''escalated''} then s else ''escalated'')
      in conclude (rn_root rn) (rn_job rn) (rn_manifests rn) status
           \<lparr>au_action_taken = ''short_circuit'', au_execution_attempted = False,
            au_retry_attempted = False, au_routed_action = Some (rn_action rn),
            au_routing_reason = normalize_text ''short_circuit_terminal_result''
              (get candidate ''routing_reason''),
            au_retry_class = sg_class (rn_signals rn), au_budget = sg_budget (rn_signals rn),
            au_human = as_bool (get candidate ''whether_human_required''), au_outcome = status,
            au_run_id = None, au_pause_state = None, au_pause_reason = None,
            au_next_eligible_at = None\<rparr>
           [(''short_circuit'', PDict candidate)])"

text \<open>A pause: its payload is built on the one of the file, written, and audited.\<close>

definition pause_run :: "dispatch_request \<Rightarrow> round \<Rightarrow> pause_condition \<Rightarrow> string \<Rightarrow> dict run" where
  "pause_run q rn c default_reason =
     run_bind (load_pause (rn_root rn)) (\<lambda>existing.
     run_bind run_files (\<lambda>fs.
     run_bind run_now (\<lambda>now.
     let cond = \<lparr>pc_pause_state = normalize_text PAUSE_STATE_OTHER (PStr (pc_pause_state c)),
            pc_pause_reason = normalize_text default_reason (PStr (pc_pause_reason c)),
            pc_provider_name = text_or_none (opt_str (pc_provider_name c)),
            pc_retry_after_seconds = pc_retry_after_seconds c,
            pc_next_eligible_at = text_or_none (opt_str (pc_next_eligible_at c)),
            pc_whether_human_required = pc_whether_human_required c\<rparr>
     in run_bind (run_res (build_pause_payload (rn_job rn)
            (opt_str (extract_run_id_from_manifest fs (rn_manifest rn))) cond
            ''planned_execution_dispatch'' (preserved_inputs_summary q) (opt_dict existing) now))
          (\<lambda>payload.
        let (p, f) = persist_pause_payload payload
        in run_bind (run_write_opt (pause_path (rn_root rn)) f) (\<lambda>_.
           conclude (rn_root rn) (rn_job rn) (rn_manifests rn) ''paused''
             \<lparr>au_action_taken = ''pause'', au_execution_attempted = False,
              au_retry_attempted = False, au_routed_action = Some (rn_action rn),
              au_routing_reason = normalize_text default_reason (get p ''pause_reason''),
              au_retry_class = sg_class (rn_signals rn), au_budget = sg_budget (rn_signals rn),
              au_human = as_bool (get p ''whether_human_required''), au_outcome = ''paused'',
              au_run_id = text_or_none (get p ''run_id''),
              au_pause_state = text_or_none (get p ''pause_state''),
              au_pause_reason = text_or_none (get p ''pause_reason''),
              au_next_eligible_at = text_or_none (get p ''next_eligible_at'')\<rparr>
             [(''pause_state'', PDict p)])))))"

text \<open>\<open>_normalize_text(handoff.get(k), default=_normalize_text(next_action.get(k)))\<close>.\<close>

definition handoff_or_next :: "round \<Rightarrow> string \<Rightarrow> string" where
  "handoff_or_next rn k = normalize_text (normalize_text [] (get (rn_next rn) k)) (get (rn_handoff rn) k)"

section \<open>Retries\<close>

definition non_empty :: "string \<Rightarrow> string option" where
  "non_empty s = (if s = [] then None else Some s)"

definition decision_request :: "dispatch_request \<Rightarrow> round \<Rightarrow> py \<Rightarrow> retry_request res" where
  "decision_request q rn pause =
     (let s = rn_signals rn;
          policy = get (mapping_or_empty (dq_policy_snapshot q)) ''retry_policy'';
          count = (\<lambda>n. PInt (case n of None \<Rightarrow> 0 | Some i \<Rightarrow> max 0 i))
      in res_bind (as_optional_int
             (if get (rn_handoff rn) ''retry_after_seconds'' \<noteq> PNone
              then get (rn_handoff rn) ''retry_after_seconds''
              else get (rn_next rn) ''retry_after_seconds'')) (\<lambda>after.
         Inr \<lparr>rq_provider_name = non_empty (handoff_or_next rn ''provider_name''),
           rq_provider_class = None,
           rq_operation_class =
             Some (if rn_action rn = ''wait_for_checks'' then ''read_check'' else ''execution''),
           rq_failure_type = non_empty (handoff_or_next rn ''failure_type''),
           rq_retry_class = Some (rn_action rn),
           rq_retry_context = PDict [(''prior_attempt_count'', count (sg_attempts s)),
             (''prior_retry_class'', opt_str (sg_class s)),
             (''missing_signal_count'', count (sg_missing s)),
             (''retry_budget_remaining'', count (sg_budget s))],
           rq_pause_payload = pause, rq_retry_after_seconds = after,
           rq_human_required = rn_human rn, rq_next_action = Some (rn_action rn),
           rq_reason = Some (handoff_or_next rn ''reason''), rq_structured_result = PNone,
           rq_policy = (if as_mapping policy \<noteq> None then policy else PNone),
           rq_enforce_exhaustion = False\<rparr>))"

definition prompt_retries :: "string list" where
  "prompt_retries = [''same_prompt_retry'', ''repair_prompt_retry'']"

definition count_of :: "int option \<Rightarrow> int" where
  "count_of n = (case n of None \<Rightarrow> 0 | Some i \<Rightarrow> i)"

definition retry_allowed :: "string \<Rightarrow> dict \<Rightarrow> int \<Rightarrow> int \<Rightarrow> (bool \<times> string) res" where
  "retry_allowed action handoff retries_performed max_retry_dispatches =
     res_bind (resolve_retry_details handoff) (\<lambda>s. Inr
       (if max_retry_dispatches \<le> retries_performed then (False, ''dispatch_retry_cycle_exhausted'')
        else if action \<in> set prompt_retries \<and> 1 \<le> retries_performed
        then (False, ''retry_class_exhausted'')
        else if (case sg_budget s of None \<Rightarrow> False | Some b \<Rightarrow> b < 0)
        then (False, ''retry_budget_invalid'')
        else if action = ''signal_recollect'' \<and> 2 \<le> count_of (sg_missing s)
        then (False, ''missing_signal_repeated'')
        else (True, ''retry_allowed'')))"

text \<open>The verdict on a retry: each check may overturn a verdict that still allows it.\<close>

definition retry_verdict ::
    "round \<Rightarrow> int \<Rightarrow> int \<Rightarrow> int \<Rightarrow> (bool \<times> string) res" where
  "retry_verdict rn retries_performed max_retry_dispatches remaining_attempts =
     (let s = rn_signals rn; action = rn_action rn in
      res_bind (retry_allowed action (rn_handoff rn) retries_performed max_retry_dispatches) (\<lambda>v0.
      let v1 = (if action \<in> set prompt_retries \<and> sg_class s = Some action \<and>
                   1 \<le> count_of (sg_attempts s)
                then (False, ''retry_class_exhausted'') else v0);
          v2 = (if snd v1 = ''retry_allowed'' \<and>
                   (case sg_budget s of None \<Rightarrow> False | Some b \<Rightarrow> b \<le> 0) \<and>
                   action \<in> set prompt_retries
                then (False, ''retry_budget_exhausted'') else v1);
          v3 = (if snd v1 = ''retry_allowed'' \<and> action = ''signal_recollect'' \<and>
                   2 \<le> count_of (sg_missing s)
                then (False, ''missing_signal_repeated'') else v2);
          v4 = (if snd v3 = ''retry_allowed'' \<and> max 0 remaining_attempts \<le> 0
                then (False, ''retry_attempts_exhausted_by_policy'') else v3)
      in Inr v4))"

text \<open>A retry action: the policy's decision first, then the verdict.\<close>

definition retry_branch ::
    "environment \<Rightarrow> dispatch_request \<Rightarrow> int \<Rightarrow> round \<Rightarrow> routing_cache \<Rightarrow> step run" where
  "retry_branch env q retries_performed rn cache =
     run_bind (load_pause (rn_root rn)) (\<lambda>pause.
     run_bind (run_res (decision_request q rn (opt_dict pause))) (\<lambda>request.
     run_bind (run_clock 3) (\<lambda>clock.
     run_bind (run_res (evaluate_retry_decision request (en_retry_policies env) clock)) (\<lambda>d.
     let kind = normalize_text [] (PStr (rd_decision_kind d));
         reason = normalize_text ''retry policy refused retry progression'' (PStr (rd_reason d))
     in if kind = DECISION_PAUSE_AND_WAIT then
          finish (pause_run q rn
            \<lparr>pc_pause_state = (case rd_pause_state d of None \<Rightarrow> [] | Some s \<Rightarrow> s),
             pc_pause_reason = rd_reason d, pc_provider_name = Some (rd_provider_class d),
             pc_retry_after_seconds = rd_pause_retry_after_seconds d,
             pc_next_eligible_at = rd_next_eligible_at d,
             pc_whether_human_required = rd_whether_human_required d\<rparr>
            ''pause_and_wait policy decision'')
        else if kind \<in> {DECISION_TERMINAL_REFUSAL, DECISION_ESCALATE_TO_HUMAN} then
          finish (escalate rn (Some (rn_action rn)) reason)
        else if kind \<noteq> DECISION_RETRY_NOW then
          finish (escalate rn (Some (rn_action rn)) ''retry_decision_kind_unrecognized'')
        else
          run_bind (run_res (retry_verdict rn retries_performed (max 0 (dq_max_retry_dispatches q))
              (rd_remaining_attempts d))) (\<lambda>(allowed, why).
          if allowed then
            run_bind (record_audit (rn_root rn) (rn_job rn)
               \<lparr>au_action_taken = ''retry_dispatch'', au_execution_attempted = False,
                au_retry_attempted = True, au_routed_action = Some (rn_action rn),
                au_routing_reason = why, au_retry_class = sg_class (rn_signals rn),
                au_budget = sg_budget (rn_signals rn), au_human = rn_human rn,
                au_outcome = ''retry_dispatched'', au_run_id = None, au_pause_state = None,
                au_pause_reason = None, au_next_eligible_at = None\<rparr>) (\<lambda>_.
            run_return (Again (rn_manifests rn) cache))
          else finish (escalate rn (Some (rn_action rn)) why))))))"

section \<open>The executor\<close>

text \<open>What stops an executor action before the executor is called.\<close>

definition executor_refusal :: "dispatch_request \<Rightarrow> string \<Rightarrow> bool \<Rightarrow> string option" where
  "executor_refusal q action consumable =
     (let rollback = mapping_or_empty (dq_rollback_target q) in
      if \<not> consumable then Some ''handoff_action_not_consumable''
      else if action = ''proceed_to_merge'' \<and> dq_pr_number q = None
      then Some ''merge_pr_number_missing''
      else if action = ''github.pr.update'' \<and> dq_pr_number q = None
      then Some ''update_pr_number_missing''
      else if action = ''github.pr.update'' \<and> pr_update_keys q = []
      then Some ''pr_update_payload_missing_or_invalid''
      else if action = ''rollback_required'' \<and>
        (rollback = [] \<or> list_ex (\<lambda>k. normalize_text [] (get rollback k) = [])
           [''repo_path'', ''target_ref'', ''pre_merge_sha'', ''post_merge_sha''])
      then Some ''rollback_target_missing_or_ambiguous''
      else None)"

definition executor_branch :: "environment \<Rightarrow> dispatch_request \<Rightarrow> round \<Rightarrow> dict run" where
  "executor_branch env q rn =
     (case executor_refusal q (rn_action rn) (as_bool (get (rn_handoff rn) ''action_consumable'')) of
        Some reason \<Rightarrow> escalate rn (Some (rn_action rn)) reason
      | None \<Rightarrow>
          run_bind (en_executor env q (rn_root rn)) (\<lambda>receipt.
          let status = (if as_bool (get receipt ''succeeded'') then ''executed'' else ''escalated'')
          in conclude (rn_root rn) (rn_job rn) (rn_manifests rn) status
               \<lparr>au_action_taken = ''route_to_executor'', au_execution_attempted = True,
                au_retry_attempted = False, au_routed_action = Some (rn_action rn),
                au_routing_reason = normalize_text ''executor_succeeded'' (get receipt ''refusal_reason''),
                au_retry_class = sg_class (rn_signals rn), au_budget = sg_budget (rn_signals rn),
                au_human = as_bool (get receipt ''whether_human_required''), au_outcome = status,
                au_run_id = None, au_pause_state = None, au_pause_reason = None,
                au_next_eligible_at = None\<rparr>
               [(''receipt'', PDict receipt)]))"

section \<open>The dispatch\<close>

text \<open>A round whose action is known and routed to one of the three classes.\<close>

definition routed_round ::
    "environment \<Rightarrow> dispatch_request \<Rightarrow> int \<Rightarrow> round \<Rightarrow> string \<Rightarrow> routing_cache \<Rightarrow> step run" where
  "routed_round env q retries_performed rn cls cache =
     run_bind run_files (\<lambda>fs.
     case (if cls = ROUTING_CLASS_RETRY then select_retry_short_circuit_candidate fs (rn_root rn)
           else None) of
       Some candidate \<Rightarrow> finish (short_circuit rn candidate)
     | None \<Rightarrow>
         run_bind run_now (\<lambda>now.
         run_bind (run_res (classify_pause_condition (rn_action rn) (handoff_or_next rn ''reason'')
             (PBool (rn_human rn)) (PDict (rn_handoff rn)) (PDict (rn_next rn)) now)) (\<lambda>pause.
         case pause of
           Some c \<Rightarrow> finish (pause_run q rn c ''pause_condition_detected'')
         | None \<Rightarrow>
             if cls = ROUTING_CLASS_RETRY then retry_branch env q retries_performed rn cache
             else if cls = ROUTING_CLASS_CONTROL
             then finish (escalate rn (Some (rn_action rn)) ''authority_control_action_no_executor_route'')
             else if cls \<noteq> ROUTING_CLASS_EXECUTOR
             then finish (escalate rn (Some (rn_action rn)) ''unsupported_or_non_routable_action'')
             else finish (executor_branch env q rn))))"

text \<open>The decision of a round: the two files must agree on an action, and the action be routed.\<close>

definition decided_round ::
    "environment \<Rightarrow> dispatch_request \<Rightarrow> int \<Rightarrow> round \<Rightarrow> routing_cache \<Rightarrow> step run" where
  "decided_round env q retries_performed rn cache =
     (let next_action = normalize_text [] (get (rn_next rn) ''next_action'');
          handoff_action = normalize_text [] (get (rn_handoff rn) ''next_action'');
          action = (if handoff_action \<noteq> [] then handoff_action else next_action);
          rn' = rn\<lparr>rn_action := action\<rparr>
      in if next_action \<noteq> [] \<and> handoff_action \<noteq> [] \<and> next_action \<noteq> handoff_action
         then finish (escalate rn None ''next_action_handoff_mismatch'')
         else if action = [] then finish (escalate rn None ''missing_next_action'')
         else
           let (routing, cache') =
             cached_routing action (dq_policy_snapshot q) (rn_handoff rn) cache
           in case routing_refusal routing of
                Some reason \<Rightarrow> finish (escalate rn' (Some action) reason)
              | None \<Rightarrow>
                  routed_round env q retries_performed rn' (routing_class_of routing) cache')"

definition dispatch_round ::
    "environment \<Rightarrow> dispatch_request \<Rightarrow> int \<Rightarrow> dict list \<Rightarrow> routing_cache \<Rightarrow> step run" where
  "dispatch_round env q retries_performed manifests cache =
     run_bind (en_runner env q) (\<lambda>manifest.
     let ms = manifests @ [manifest];
         job_id = normalize_text [] (get manifest ''job_id'');
         output_root = path_of (dq_output_dir q);
         run_root = path_join output_root job_id
     in run_bind (run_try (run_decision_artifacts run_root)) (\<lambda>artifacts.
        case artifacts of
          Inl e \<Rightarrow>
            finish (conclude run_root job_id ms ''escalated''
              (escalation_args None
                (''decision_artifacts_missing:'' @ normalize_text ''error'' (PStr (exc_text e)))
                None None) [])
        | Inr (next_payload, handoff) \<Rightarrow>
            run_bind (persisted_retry_context output_root job_id) (\<lambda>persisted.
            run_bind (run_res (merge_retry_signals handoff persisted)) (\<lambda>signals.
            decided_round env q retries_performed
              \<lparr>rn_job = job_id, rn_root = run_root, rn_manifests = ms, rn_manifest = manifest,
               rn_next = next_payload, rn_handoff = handoff, rn_signals = signals, rn_action = [],
               rn_human = as_bool (get handoff ''whether_human_required'')\<rparr> cache))))"

section \<open>The loop ends\<close>

lemma finish_iff [run_simps]:
  "finish m w = (Inr s, w') \<longleftrightarrow> (\<exists>r. m w = (Inr r, w') \<and> s = Finished r)"
  by (auto simp: finish_def run_simps)

lemma retry_verdict_allowed:
  "retry_verdict rn n m k = Inr (True, why) \<Longrightarrow>
     n < m \<and> why = ''retry_allowed'' \<and> 0 < k \<and>
     (rn_action rn \<in> set prompt_retries \<longrightarrow> n < 1 \<and> sg_budget (rn_signals rn) \<notin> Some ` {..0} \<and>
        \<not> (sg_class (rn_signals rn) = Some (rn_action rn) \<and> 1 \<le> count_of (sg_attempts (rn_signals rn)))) \<and>
     (rn_action rn = ''signal_recollect'' \<longrightarrow> count_of (sg_missing (rn_signals rn)) < 2)"
  by (auto simp: retry_verdict_def retry_allowed_def res_bind_eq_Inr Let_def
      split: if_splits option.splits)

lemma retry_branch_again:
  assumes "retry_branch env q n rn cache w = (Inr (Again ms c), w')"
  obtains k why where "retry_verdict rn n (max 0 (dq_max_retry_dispatches q)) k = Inr (True, why)"
    "ms = rn_manifests rn" "c = cache"
  using assms
  by (auto simp: retry_branch_def run_simps Let_def split: if_splits prod.splits)

lemma routed_round_again:
  assumes "routed_round env q n rn cls cache w = (Inr (Again ms c), w')"
  shows "cls = ROUTING_CLASS_RETRY \<and> (\<exists>w1. retry_branch env q n rn cache w1 = (Inr (Again ms c), w'))"
  using assms
  by (auto simp: routed_round_def run_simps split: if_splits option.splits)

text \<open>Another round is only asked for by a retry that was granted.\<close>

lemma decided_roundE:
  assumes "decided_round env q n rn cache w = (Inr s, w')"
  obtains (refused) rn' routed reason r where "s = Finished r" "escalate rn' routed reason w = (Inr r, w')"
      "rn_root rn' = rn_root rn" "rn_job rn' = rn_job rn" "rn_manifests rn' = rn_manifests rn"
  | (routed) action routing cache' where
      "cached_routing action (dq_policy_snapshot q) (rn_handoff rn) cache = (routing, cache')"
      "routing_refusal routing = None" "action \<noteq> []"
      "normalize_text [] (get (rn_handoff rn) ''next_action'') \<in> {[], action}"
      "normalize_text [] (get (rn_next rn) ''next_action'') \<in> {[], action}"
      "strip action = action"
      "routed_round env q n (rn\<lparr>rn_action := action\<rparr>) (routing_class_of routing) cache' w = (Inr s, w')"
proof -
  let ?next = "normalize_text [] (get (rn_next rn) ''next_action'')"
  let ?handoff = "normalize_text [] (get (rn_handoff rn) ''next_action'')"
  define action where "action = (if ?handoff \<noteq> [] then ?handoff else ?next)"
  obtain routing cache' where c:
    "cached_routing action (dq_policy_snapshot q) (rn_handoff rn) cache = (routing, cache')" by force
  note run = assms [unfolded decided_round_def Let_def action_def [symmetric] c prod.case]
  show thesis
  proof (cases "?next \<noteq> [] \<and> ?handoff \<noteq> [] \<and> ?next \<noteq> ?handoff")
    case True
    with run show thesis by (auto simp: run_simps intro: refused)
  next
    case agree: False
    show thesis
    proof (cases "action = []")
      case True
      with run agree show thesis by (auto simp: run_simps intro: refused)
    next
      case False
      from agree False have acts: "?handoff \<in> {[], action}" "?next \<in> {[], action}"
        by (auto simp: action_def split: if_splits)
      have strip: "strip action = action" by (simp add: action_def)
      show thesis
      proof (cases "routing_refusal routing")
        case None
        with run agree False show thesis by (intro routed [OF c None False acts strip]) simp
      next
        case (Some reason)
        with run agree False
        have "finish (escalate (rn\<lparr>rn_action := action\<rparr>) (Some action) reason) w = (Inr s, w')" by simp
        then show thesis by (auto simp: run_simps intro: refused)
      qed
    qed
  qed
qed

lemma decided_round_again:
  assumes "decided_round env q n rn cache w = (Inr (Again ms c), w')"
  shows "n < max 0 (dq_max_retry_dispatches q) \<and> ms = rn_manifests rn"
  using assms
proof (cases rule: decided_roundE)
  case (routed action routing cache')
  then obtain w1 where "retry_branch env q n (rn\<lparr>rn_action := action\<rparr>) cache' w1 = (Inr (Again ms c), w')"
    by (blast dest: routed_round_again)
  then show ?thesis by (rule retry_branch_again) (auto dest: retry_verdict_allowed)
qed simp

lemma reads_only:
  "run_decision_artifacts root w = (r, w') \<Longrightarrow> w' = w"
  "persisted_retry_context root job w = (p, w') \<Longrightarrow> w' = w"
  "load_pause root w = (d, w') \<Longrightarrow> w' = w"
  by (auto simp: run_decision_artifacts_def persisted_retry_context_def load_pause_def run_bind_def
      run_files_def run_read_def run_raise_def run_res_def run_return_def Let_def
      split: if_splits sum.splits)

lemma dispatch_roundE:
  assumes "dispatch_round env q n ms cache w = (Inr s, w')"
  obtains (unreadable) manifest w1 reason r where "en_runner env q w = (Inr manifest, w1)"
      "s = Finished r"
      "conclude (path_join (path_of (dq_output_dir q)) (normalize_text [] (get manifest ''job_id'')))
         (normalize_text [] (get manifest ''job_id'')) (ms @ [manifest]) ''escalated''
         (escalation_args None reason None None) [] w1 = (Inr r, w')"
  | (decided) manifest w1 rn where "en_runner env q w = (Inr manifest, w1)"
      "rn_manifests rn = ms @ [manifest]"
      "rn_job rn = normalize_text [] (get manifest ''job_id'')"
      "rn_root rn = path_join (path_of (dq_output_dir q)) (rn_job rn)"
      "run_decision_artifacts (rn_root rn) w1 = (Inr (rn_next rn, rn_handoff rn), w1)"
      "decided_round env q n rn cache w1 = (Inr s, w')"
      "\<exists>p. merge_retry_signals (rn_handoff rn) p = Inr (rn_signals rn)"
proof -
  from assms obtain manifest w1 where m: "en_runner env q w = (Inr manifest, w1)"
    by (auto simp: dispatch_round_def run_simps)
  let ?job = "normalize_text [] (get manifest ''job_id'')"
  let ?root = "path_join (path_of (dq_output_dir q)) ?job"
  obtain r w2 where r: "run_decision_artifacts ?root w1 = (r, w2)" by force
  then have w2: "w2 = w1" by (rule reads_only)
  have t: "run_try (run_decision_artifacts ?root) w1 = (Inr r, w2)" using r by (auto simp: run_simps)
  have bind1: "run_bind (en_runner env q) f w = f manifest w1" for f :: "dict \<Rightarrow> step run"
    by (simp add: run_bind_def m)
  have bind2: "run_bind (run_try (run_decision_artifacts ?root)) f w1 = f r w2"
    for f :: "(dict \<times> dict) res \<Rightarrow> step run" by (simp add: run_bind_def t)
  note run = assms [unfolded dispatch_round_def Let_def bind1 bind2]
  show thesis
  proof (cases r)
    case (Inl e)
    with run w2 m show thesis by (auto simp: run_simps intro: unreadable)
  next
    case (Inr nh)
    obtain nx ho where nh: "nh = (nx, ho)" by force
    from run Inr nh obtain p w3 sig where p: "persisted_retry_context (path_of (dq_output_dir q)) ?job w2 = (Inr p, w3)"
      and d: "decided_round env q n
              \<lparr>rn_job = ?job, rn_root = ?root, rn_manifests = ms @ [manifest], rn_manifest = manifest,
               rn_next = nx, rn_handoff = ho, rn_signals = sig, rn_action = [],
               rn_human = as_bool (get ho ''whether_human_required'')\<rparr> cache w3 = (Inr s, w')"
      and sig: "merge_retry_signals ho p = Inr sig"
      by (auto simp: run_simps)
    from reads_only(2) [OF p] w2 have "w3 = w1" by simp
    with d r w2 Inr nh sig show thesis by (intro decided [OF m _ _ _ _ d [unfolded \<open>w3 = w1\<close>]]) auto
  qed
qed

lemma dispatch_round_again:
  assumes "dispatch_round env q n ms cache w = (Inr (Again ms' c), w')"
  shows "n < max 0 (dq_max_retry_dispatches q) \<and> (\<exists>manifest. ms' = ms @ [manifest])"
  using assms by (cases rule: dispatch_roundE) (auto dest: decided_round_again)

function dispatch_loop ::
    "environment \<Rightarrow> dispatch_request \<Rightarrow> int \<Rightarrow> dict list \<Rightarrow> routing_cache \<Rightarrow> world \<Rightarrow>
       dict res \<times> world" where
  "dispatch_loop env q retries_performed manifests cache w =
     (case dispatch_round env q retries_performed manifests cache w of
        (Inl e, w') \<Rightarrow> (Inl e, w')
      | (Inr (Finished r), w') \<Rightarrow> (Inr r, w')
      | (Inr (Again ms c), w') \<Rightarrow> dispatch_loop env q (retries_performed + 1) ms c w')"
  by pat_completeness auto
termination
  by (relation "measure (\<lambda>(env, q, n, ms, c, w). nat (max 0 (dq_max_retry_dispatches q) - n))")
     (auto dest!: sym [of _ "dispatch_round _ _ _ _ _ _"] dispatch_round_again)

declare dispatch_loop.simps [simp del]

definition dispatch_once :: "environment \<Rightarrow> dispatch_request \<Rightarrow> dict run" where
  "dispatch_once env q =
     (let job_id = normalize_text [] (opt_str (dq_job_id q)) in
      run_bind
        (if job_id = [] then run_return None
         else handle_existing_pause_if_any (path_join (path_of (dq_output_dir q)) job_id) job_id)
        (\<lambda>gate. case gate of
            Some r \<Rightarrow> run_return r
          | None \<Rightarrow> dispatch_loop env q 0 [] []))"

section \<open>How a dispatch ends\<close>

definition outcomes :: "string list" where
  "outcomes = [''executed'', ''escalated'', ''paused'']"

text \<open>
  A concluded dispatch: its result names the job, the outcome and the manifests of all rounds, and
  the last thing written was the audit record with that outcome.
\<close>

definition concluded :: "path \<Rightarrow> string \<Rightarrow> dict list \<Rightarrow> dict \<Rightarrow> world \<Rightarrow> bool" where
  "concluded root job ms r w' =
     (\<exists>status audit extra a w. r = dispatch_result job status ms audit extra \<and>
        status \<in> set outcomes \<and> au_outcome a = status \<and>
        record_audit root job a w = (Inr audit, w'))"

lemma conclude_concluded:
  assumes "conclude root job ms status a extra w = (Inr r, w')" "au_outcome a = status"
    "status \<in> set outcomes"
  shows "concluded root job ms r w'"
  using assms by (auto simp: conclude_def concluded_def run_simps)

lemma escalate_concluded:
  "escalate rn routed reason w = (Inr r, w') \<Longrightarrow> concluded (rn_root rn) (rn_job rn) (rn_manifests rn) r w'"
  unfolding escalate_def by (erule conclude_concluded) (simp_all add: escalation_args_def outcomes_def)

lemma pause_run_concluded:
  "pause_run q rn c why w = (Inr r, w') \<Longrightarrow> concluded (rn_root rn) (rn_job rn) (rn_manifests rn) r w'"
  by (auto simp: pause_run_def run_simps Let_def outcomes_def case_prod_unfold
      elim!: conclude_concluded)

lemma short_circuit_concluded:
  "short_circuit rn c w = (Inr r, w') \<Longrightarrow> concluded (rn_root rn) (rn_job rn) (rn_manifests rn) r w'"
  unfolding short_circuit_def Let_def by (erule conclude_concluded) (auto simp: outcomes_def)

lemma executor_branch_concluded:
  "executor_branch env q rn w = (Inr r, w') \<Longrightarrow>
     concluded (rn_root rn) (rn_job rn) (rn_manifests rn) r w'"
  by (auto simp: executor_branch_def run_simps Let_def outcomes_def split: option.splits
      elim!: conclude_concluded dest: escalate_concluded)

lemma retry_branch_concluded:
  "retry_branch env q n rn cache w = (Inr (Finished r), w') \<Longrightarrow>
     concluded (rn_root rn) (rn_job rn) (rn_manifests rn) r w'"
  by (auto simp: retry_branch_def run_simps Let_def split: if_splits prod.splits
      dest: pause_run_concluded escalate_concluded)

lemma routed_round_concluded:
  "routed_round env q n rn cls cache w = (Inr (Finished r), w') \<Longrightarrow>
     concluded (rn_root rn) (rn_job rn) (rn_manifests rn) r w'"
  by (auto simp: routed_round_def run_simps split: if_splits option.splits
      dest: pause_run_concluded escalate_concluded short_circuit_concluded
        executor_branch_concluded retry_branch_concluded)

lemma decided_round_concluded:
  assumes "decided_round env q n rn cache w = (Inr (Finished r), w')"
  shows "concluded (rn_root rn) (rn_job rn) (rn_manifests rn) r w'"
  using assms
  by (cases rule: decided_roundE) (fastforce dest: escalate_concluded routed_round_concluded)+

definition job_root :: "dispatch_request \<Rightarrow> string \<Rightarrow> path" where
  "job_root q job = path_join (path_of (dq_output_dir q)) job"

lemma dispatch_round_concluded:
  assumes "dispatch_round env q n ms cache w = (Inr (Finished r), w')"
  shows "\<exists>job manifest. concluded (job_root q job) job (ms @ [manifest]) r w'"
  using assms
proof (cases rule: dispatch_roundE)
  case (unreadable manifest w1 reason r')
  have "concluded (job_root q (normalize_text [] (get manifest ''job_id'')))
      (normalize_text [] (get manifest ''job_id'')) (ms @ [manifest]) r w'"
    using conclude_concluded [OF unreadable(3)] unreadable(2)
    by (simp add: job_root_def escalation_args_def outcomes_def)
  then show ?thesis by blast
next
  case (decided manifest w1 rn)
  then have "concluded (job_root q (rn_job rn)) (rn_job rn) (ms @ [manifest]) r w'"
    using decided_round_concluded [OF decided(6)] by (simp add: job_root_def)
  then show ?thesis by blast
qed

lemma dispatch_loop_concluded:
  assumes "dispatch_loop env q n ms cache w = (Inr r, w')" and "0 \<le> n"
    and "int (length ms) \<le> n"
  shows "\<exists>job ms'. concluded (job_root q job) job ms' r w' \<and>
    int (length ms') \<le> max n (max 0 (dq_max_retry_dispatches q)) + 1"
  using assms
proof (induction env q n ms cache w rule: dispatch_loop.induct)
  case (1 env q n ms cache w)
  obtain s w1 where d: "dispatch_round env q n ms cache w = (s, w1)" by force
  show ?case
  proof (cases s)
    case (Inl e)
    with 1(2) d show ?thesis by (simp add: dispatch_loop.simps)
  next
    case (Inr t)
    show ?thesis
    proof (cases t)
      case (Finished r')
      with 1(2) d Inr have r: "dispatch_round env q n ms cache w = (Inr (Finished r), w')"
        by (simp add: dispatch_loop.simps)
      from dispatch_round_concluded [OF r] 1(4) show ?thesis by fastforce
    next
      case (Again ms' c)
      from d Inr Again have "dispatch_round env q n ms cache w = (Inr (Again ms' c), w1)" by simp
      note again = dispatch_round_again [OF this]
      have l: "dispatch_loop env q (n + 1) ms' c w1 = (Inr r, w')"
        using 1(2) d Inr Again by (simp add: dispatch_loop.simps)
      have "\<exists>job ms'. concluded (job_root q job) job ms' r w' \<and>
          int (length ms') \<le> max (n + 1) (max 0 (dq_max_retry_dispatches q)) + 1"
        by (rule 1(1) [OF d [symmetric, unfolded Inr Again] refl refl l]) (use again 1(3,4) in auto)
      with again show ?thesis by fastforce
    qed
  qed
qed

lemma existing_pause_concluded:
  assumes "handle_existing_pause_if_any root job w = (Inr (Some r), w')"
  shows "concluded root job [] r w'"
  using assms
  by (auto simp: handle_existing_pause_if_any_def run_simps Let_def outcomes_def split: if_splits
      elim!: conclude_concluded)

lemma dispatch_once_concluded:
  assumes "dispatch_once env q w = (Inr r, w')"
  shows "\<exists>job ms. concluded (job_root q job) job ms r w' \<and>
    int (length ms) \<le> max 0 (dq_max_retry_dispatches q) + 1"
proof -
  let ?job = "normalize_text [] (opt_str (dq_job_id q))"
  from assms consider
      (paused) "handle_existing_pause_if_any (job_root q ?job) ?job w = (Inr (Some r), w')"
    | (run) w1 where "dispatch_loop env q 0 [] [] w1 = (Inr r, w')"
    by (auto simp: dispatch_once_def Let_def run_simps job_root_def split: if_splits option.splits)
  then show ?thesis
  proof cases
    case paused
    from existing_pause_concluded [OF this] show ?thesis by (intro exI conjI) auto
  next
    case run
    from dispatch_loop_concluded [OF run] show ?thesis by simp
  qed
qed

text \<open>C6. A dispatch runs the runner at most once more than the retries it may dispatch: the loop ends
  for every runner and every executor, and the result lists one manifest per round.\<close>

theorem dispatch_rounds_are_bounded:
  assumes "dispatch_once env q w = (Inr r, w')"
  shows "\<exists>ms. get r ''manifests'' = PList (map PDict ms) \<and>
    int (length ms) \<le> max 0 (dq_max_retry_dispatches q) + 1"
  using dispatch_once_concluded [OF assms]
  by (fastforce simp: concluded_def dispatch_result_def)

lemma audit_outcome:
  assumes "audit_record (audit_dict job a) now = Inr entry" and "au_outcome a \<in> set outcomes"
  shows "get entry ''outcome_status'' = PStr (au_outcome a)"
proof -
  have "strip s = s \<and> s \<noteq> []" if "s \<in> set outcomes" for s
  proof -
    have "\<forall>s \<in> set outcomes. strip s = s \<and> s \<noteq> []" by code_simp
    with that show ?thesis by blast
  qed
  with assms show ?thesis
    by (auto simp: audit_record_def audit_dict_def res_bind_eq_Inr)
qed

lemma record_audit_last:
  assumes "record_audit root job a w = (Inr audit, w')" and "au_outcome a \<in> set outcomes"
  shows "\<exists>v recs rec. wd_files w' (child root ''run_audit.json'') = Some (JsonText v) \<and>
    audit_records (Some v) = recs @ [PDict rec] \<and> get rec ''outcome_status'' = PStr (au_outcome a)"
proof -
  obtain f now v where app: "audit_append f (audit_dict job a) now = Inr (audit, v)"
    and v: "wd_files w' (child root ''run_audit.json'') = Some (JsonText v)"
    using assms(1) by (auto simp: record_audit_def append_audit_def run_simps case_prod_unfold)
  from app obtain entry where e: "audit_record (audit_dict job a) now = Inr entry"
    and recs: "audit_records (Some v) = map json_value (audit_records f @ [PDict entry])"
    by (rule audit_append_records)
  have "keys_ok entry"
    using e by (auto simp: audit_record_def res_bind_eq_Inr keys_ok_def)
  then obtain d where d: "json_value (PDict entry) = PDict d"
    "\<And>k. get d k = json_value (get entry k)" by (rule json_dict) blast
  with v recs audit_outcome [OF e assms(2)] show ?thesis by simp
qed

lemma dispatch_outcome_is_audited_core:
  assumes "dispatch_once env q w = (Inr r, w')"
  shows "\<exists>job status v recs rec. get r ''job_id'' = PStr job \<and>
    get r ''dispatch_status'' = PStr status \<and> status \<in> {''executed'', ''escalated'', ''paused''} \<and>
    wd_files w' (child (job_root q job) ''run_audit.json'') = Some (JsonText v) \<and>
    audit_records (Some v) = recs @ [PDict rec] \<and> get rec ''outcome_status'' = PStr status"
proof -
  from dispatch_once_concluded [OF assms] obtain job ms where "concluded (job_root q job) job ms r w'"
    by blast
  then obtain status audit extra a w0 where r: "r = dispatch_result job status ms audit extra"
    and st: "status \<in> set outcomes" "au_outcome a = status"
    and rec: "record_audit (job_root q job) job a w0 = (Inr audit, w')"
    by (auto simp: concluded_def)
  from record_audit_last [OF rec] st obtain v recs rec' where
    "wd_files w' (child (job_root q job) ''run_audit.json'') = Some (JsonText v)"
    "audit_records (Some v) = recs @ [PDict rec']" "get rec' ''outcome_status'' = PStr status" by auto
  moreover have "get r ''job_id'' = PStr job" "get r ''dispatch_status'' = PStr status"
    by (simp_all add: r dispatch_result_def)
  ultimately show ?thesis using st(1) unfolding outcomes_def by fastforce
qed

text \<open>C5. Every dispatch ends executed, escalated or paused, and the last record of the run's audit log
  says which: the outcome reported to the caller is the one on disk.\<close>

theorem dispatch_outcome_is_audited:
  assumes "dispatch_once env q w = (Inr r, w')"
  shows "\<exists>job status v recs rec. get r ''job_id'' = PStr job \<and>
    get r ''dispatch_status'' = PStr status \<and> status \<in> {''executed'', ''escalated'', ''paused''} \<and>
    wd_files w' (child (path_join (path_of (dq_output_dir q)) job) ''run_audit.json'') = Some (JsonText v) \<and>
    audit_records (Some v) = recs @ [PDict rec] \<and> get rec ''outcome_status'' = PStr status"
  using dispatch_outcome_is_audited_core [OF assms] unfolding job_root_def .

section \<open>The pause gate\<close>

lemma dispatch_paused:
  assumes "job = normalize_text [] (opt_str (dq_job_id q))" and "job \<noteq> []"
    and "wd_files w (pause_path (job_root q job)) = Some (JsonText (PDict p))"
    and "is_pause_active (PDict p)"
    and "is_pause_resume_eligible (PDict p) (wd_clock w (wd_ticks w)) = Inr False"
  obtains a where "au_outcome a = ''paused''"
    and "\<And>env. dispatch_once env q w =
      conclude (job_root q job) job [] ''paused'' a [(''pause_state'', PDict p)]
        (w\<lparr>wd_ticks := Suc (wd_ticks w)\<rparr>)"
proof -
  let ?a = "\<lparr>au_action_taken = ''pause_skip'',
             au_execution_attempted = False, au_retry_attempted = False, au_routed_action = None,
             au_routing_reason = ''paused_not_eligible'', au_retry_class = None, au_budget = None,
             au_human = as_bool (get p ''whether_human_required''), au_outcome = ''paused'',
             au_run_id = text_or_none (get p ''run_id''),
             au_pause_state = Some (normalize_text PAUSE_STATE_OTHER (get p ''pause_state'')),
             au_pause_reason = Some (normalize_text ''pause_active'' (get p ''pause_reason'')),
             au_next_eligible_at = text_or_none (get p ''next_eligible_at'')\<rparr>"
  have load: "load_pause (job_root q job) w = (Inr (Some p), w)"
    by (simp add: load_pause_def run_bind_def run_read_def assms(3) load_pause_payload_def)
  have "handle_existing_pause_if_any (job_root q job) job w =
      run_bind (conclude (job_root q job) job [] ''paused'' ?a [(''pause_state'', PDict p)])
        (\<lambda>r. run_return (Some r)) (w\<lparr>wd_ticks := Suc (wd_ticks w)\<rparr>)"
    unfolding handle_existing_pause_if_any_def run_bind_def [of "load_pause (job_root q job)"] load
    by (simp add: assms(4,5) Let_def run_bind_def [of run_now] run_now_def run_bind_def [of "run_res _"]
        run_res_def)
  then have "dispatch_once env q w =
      conclude (job_root q job) job [] ''paused'' ?a [(''pause_state'', PDict p)]
        (w\<lparr>wd_ticks := Suc (wd_ticks w)\<rparr>)" for env
    using assms(2)
    by (simp add: dispatch_once_def Let_def assms(1) [symmetric] job_root_def [symmetric] run_bind_def
        run_return_def split: prod.splits sum.splits)
  then show thesis by (intro that [of ?a]) simp_all
qed

text \<open>C7. While the pause of a job stands, a dispatch of the job does not run: whatever the runner and the
  executor would do, the answer is the same, it is \<open>paused\<close>, and only the audit log is written.\<close>

theorem standing_pause_keeps_the_run_from_starting:
  assumes "normalize_text [] (opt_str (dq_job_id q)) = job" and "job \<noteq> []"
    and "wd_files w (child (path_join (path_of (dq_output_dir q)) job) ''pause_state.json'') =
      Some (JsonText (PDict p))"
    and "is_pause_active (PDict p)"
    and "is_pause_resume_eligible (PDict p) (wd_clock w (wd_ticks w)) = Inr False"
    and "dispatch_once env q w = (Inr r, w')"
  shows "dispatch_once env' q w = (Inr r, w') \<and> get r ''dispatch_status'' = PStr ''paused'' \<and>
    get r ''manifests'' = PList [] \<and>
    (\<forall>path. path \<noteq> child (path_join (path_of (dq_output_dir q)) job) ''run_audit.json'' \<longrightarrow>
       wd_files w' path = wd_files w path)"
proof -
  obtain a where a: "au_outcome a = ''paused''" and all: "\<And>env. dispatch_once env q w =
      conclude (job_root q job) job [] ''paused'' a [(''pause_state'', PDict p)]
        (w\<lparr>wd_ticks := Suc (wd_ticks w)\<rparr>)"
    by (rule dispatch_paused [OF assms(1) [symmetric] assms(2) _ assms(4,5)])
       (simp_all add: assms(3) pause_path_def job_root_def)
  from assms(6) obtain audit where
    c: "record_audit (job_root q job) job a (w\<lparr>wd_ticks := Suc (wd_ticks w)\<rparr>) = (Inr audit, w')"
    and r: "r = dispatch_result job ''paused'' [] audit [(''pause_state'', PDict p)]"
    by (auto simp: all conclude_def run_simps)
  have "wd_files w' path = wd_files w path" if "path \<noteq> child (job_root q job) ''run_audit.json''" for path
    using c that by (auto simp: record_audit_def append_audit_def run_simps case_prod_unfold)
  with assms(6) r show ?thesis by (simp add: all [of env'] all [of env] dispatch_result_def job_root_def)
qed

section \<open>Witnesses\<close>

text \<open>A job whose decision is to open a pull request: the runner leaves its two files.\<close>

definition demo_runner :: "string \<Rightarrow> dispatch_request \<Rightarrow> dict run" where
  "demo_runner action q =
     (let root = path_join (path_of (dq_output_dir q)) ''job-1'' in
      run_bind (run_write (child root ''next_action.json'')
          (PDict [(''next_action'', PStr action), (''updated_retry_context'',
             PDict [(''retry_budget_remaining'', PInt 5)])])) (\<lambda>_.
      run_bind (run_write (child root ''action_handoff.json'')
          (PDict [(''next_action'', PStr action), (''action_consumable'', PBool True),
             (''updated_retry_context'', PDict [(''retry_budget_remaining'', PInt 5)])])) (\<lambda>_.
      run_return [(''job_id'', PStr ''job-1'')])))"

definition demo_env :: "string \<Rightarrow> environment" where
  "demo_env action =
     \<lparr>en_runner = demo_runner action,
      en_executor = (\<lambda>q root. run_return [(''succeeded'', PBool True)]),
      en_retry_policies = PDict []\<rparr>"

definition demo_request :: dispatch_request where
  "demo_request =
     \<lparr>dq_artifacts_input_dir = ''in/job-1'', dq_output_dir = ''out'', dq_job_id = Some ''job-1'',
      dq_dry_run = False, dq_stop_on_failure = True, dq_max_retry_dispatches = 3,
      dq_repository = None, dq_head_branch = None, dq_base_branch = None, dq_category = None,
      dq_write_authority = PNone, dq_policy_snapshot = PNone, dq_pr_number = None,
      dq_pr_update = PNone, dq_expected_head_sha = None, dq_rollback_target = PNone,
      dq_github_read_evidence = PNone\<rparr>"

definition demo_world :: "files \<Rightarrow> world" where
  "demo_world fs = \<lparr>wd_files = fs, wd_dirs = (\<lambda>_. None), wd_clock = (\<lambda>_. noon), wd_ticks = 0\<rparr>"

text \<open>A clock at its origin: its texts are the quickest to evaluate.\<close>

definition early_world :: "files \<Rightarrow> world" where
  "early_world fs = (demo_world fs)\<lparr>wd_clock := (\<lambda>_. \<lparr>micros = 0, offset = None\<rparr>)\<rparr>"

definition dispatched :: "(dict \<Rightarrow> bool) \<Rightarrow> dict res \<times> world \<Rightarrow> bool" where
  "dispatched P rw = (case fst rw of Inl _ \<Rightarrow> False | Inr r \<Rightarrow> P r)"

lemma dispatchedE:
  assumes "dispatched P (dispatch_once env q w)"
  obtains r w' where "dispatch_once env q w = (Inr r, w')" "P r"
proof -
  obtain s w' where "dispatch_once env q w = (s, w')" by force
  with assms that show thesis by (cases s) (auto simp: dispatched_def)
qed

text \<open>An active pause file with no end of its own.\<close>

definition paused_files :: files where
  "paused_files = (\<lambda>p. if p = child (path_join (path_of ''out'') ''job-1'') ''pause_state.json''
     then Some (JsonText (PDict [(''lifecycle_state'', PStr ''paused'')])) else None)"

theorem dispatch_rounds_are_bounded_witness:
  "\<exists>r w' ms. dispatch_once (demo_env ''proceed_to_pr'') demo_request (demo_world (\<lambda>_. None)) = (Inr r, w') \<and>
     get r ''manifests'' = PList (map PDict ms) \<and> length ms \<le> 4"
proof -
  have "dispatched (\<lambda>r. True)
      (dispatch_once (demo_env ''proceed_to_pr'') demo_request (demo_world (\<lambda>_. None)))" by code_simp
  then obtain r w' where r: "dispatch_once (demo_env ''proceed_to_pr'') demo_request (demo_world (\<lambda>_. None)) =
      (Inr r, w')" by (rule dispatchedE)
  from dispatch_rounds_are_bounded [OF r] r show ?thesis by (fastforce simp: demo_request_def)
qed

theorem dispatch_outcome_is_audited_witness:
  "\<exists>r w' v rec. dispatch_once (demo_env ''proceed_to_pr'') demo_request (demo_world (\<lambda>_. None)) = (Inr r, w') \<and>
     get r ''dispatch_status'' = PStr ''executed'' \<and> PDict rec \<in> set (audit_records (Some v)) \<and>
     get rec ''outcome_status'' = PStr ''executed''"
proof -
  have "dispatched (\<lambda>r. get r ''dispatch_status'' = PStr ''executed'')
      (dispatch_once (demo_env ''proceed_to_pr'') demo_request (demo_world (\<lambda>_. None)))" by code_simp
  then obtain r w' where r: "dispatch_once (demo_env ''proceed_to_pr'') demo_request (demo_world (\<lambda>_. None)) =
      (Inr r, w')" "get r ''dispatch_status'' = PStr ''executed''" by (rule dispatchedE)
  from dispatch_outcome_is_audited [OF r(1)] obtain v recs rec where
    "audit_records (Some v) = recs @ [PDict rec]" "get rec ''outcome_status'' = PStr ''executed''"
    using r(2) by auto
  with r show ?thesis by (intro exI [of _ r] exI [of _ w'] exI [of _ v] exI [of _ rec]) simp
qed

theorem standing_pause_keeps_the_run_from_starting_witness:
  "\<exists>r w'. dispatch_once (demo_env ''proceed_to_pr'') demo_request (demo_world paused_files) = (Inr r, w') \<and>
     dispatch_once (demo_env ''rollback_required'') demo_request (demo_world paused_files) = (Inr r, w') \<and>
     get r ''dispatch_status'' = PStr ''paused''"
proof -
  let ?p = "[(''lifecycle_state'', PStr ''paused'')]"
  have "dispatched (\<lambda>r. True) (dispatch_once (demo_env ''proceed_to_pr'') demo_request (demo_world paused_files))"
    by code_simp
  then obtain r w' where r: "dispatch_once (demo_env ''proceed_to_pr'') demo_request (demo_world paused_files) =
      (Inr r, w')" by (rule dispatchedE)
  have job: "normalize_text [] (opt_str (dq_job_id demo_request)) = ''job-1''" "''job-1'' \<noteq> []"
    by code_simp+
  have pause: "wd_files (demo_world paused_files)
      (child (path_join (path_of (dq_output_dir demo_request)) ''job-1'') ''pause_state.json'') =
      Some (JsonText (PDict ?p))"
    by (simp add: demo_world_def paused_files_def demo_request_def)
  have active: "is_pause_active (PDict ?p)" "is_pause_resume_eligible (PDict ?p)
      (wd_clock (demo_world paused_files) (wd_ticks (demo_world paused_files))) = Inr False"
    by code_simp+
  from standing_pause_keeps_the_run_from_starting [OF job pause active r, of "demo_env ''rollback_required''"] r
  show ?thesis by blast
qed

end
