(* ===== verification/Job_Lease.thy ===== *)
theory Job_Lease
  imports IsoTime Job_Store
begin

text \<open>
  \<open>automation/scheduler/job_lease.py\<close>: the lease file that keeps two schedulers from running the
  same job. A lease names its holder and the time it expires; claiming, renewing and releasing
  read the whole file and write it back.

  The readings of the clock an operation takes are its last arguments, in the order the code
  takes them.
\<close>

section \<open>The lease file\<close>

record lease =
  ls_job_id :: string
  ls_holder :: string
  ls_acquired_at :: string
  ls_updated_at :: string
  ls_expires_at :: string

definition lease_py :: "lease \<Rightarrow> py" where
  "lease_py l =
     PDict [(''job_id'', PStr (ls_job_id l)), (''holder'', PStr (ls_holder l)),
       (''acquired_at'', PStr (ls_acquired_at l)), (''updated_at'', PStr (ls_updated_at l)),
       (''expires_at'', PStr (ls_expires_at l))]"

definition lease_entry :: "string \<times> py \<Rightarrow> (string \<times> lease) option res" where
  "lease_entry kv =
     (let job_id = strip (fst kv) in
      case as_mapping (snd kv) of
        None \<Rightarrow> Inr None
      | Some v \<Rightarrow>
          (let holder = normalize_text [] (get v ''holder'') in
           if job_id = [] \<or> holder = [] then Inr None
           else Inr (Some (job_id,
             \<lparr>ls_job_id = job_id, ls_holder = holder,
              ls_acquired_at = normalize_text [] (get v ''acquired_at''),
              ls_updated_at = normalize_text [] (get v ''updated_at''),
              ls_expires_at = normalize_text [] (get v ''expires_at'')\<rparr>))))"

definition lease_load :: "py option \<Rightarrow> (string \<times> lease) list res" where
  "lease_load file = load_section (sort_key fst) ''leases'' lease_entry file"

definition lease_write :: "(string \<times> lease) list \<Rightarrow> py option" where
  "lease_write ls = Some (write_section ''leases'' lease_py ls)"

definition is_active_lease :: "lease \<Rightarrow> datetime \<Rightarrow> bool res" where
  "is_active_lease l now =
     (case parse_iso_datetime (PStr (ls_expires_at l)) of
        None \<Rightarrow> Inr False
      | Some t \<Rightarrow> dt_less now t)"

section \<open>The operations\<close>

text \<open>Each returns the answer of the method and the file it leaves.\<close>

definition lease_get :: "py option \<Rightarrow> string \<Rightarrow> lease option res" where
  "lease_get file job_id =
     (if strip job_id = [] then Inr None
      else res_bind (lease_load file) (\<lambda>ls. Inr (map_of ls (strip job_id))))"

definition lease_claim ::
    "py option \<Rightarrow> string \<Rightarrow> string \<Rightarrow> py \<Rightarrow> datetime \<Rightarrow> datetime \<Rightarrow> datetime \<Rightarrow>
       ((bool \<times> lease) \<times> py option) res" where
  "lease_claim file job_id holder lease_seconds check_now now_value acquired_now =
     res_bind (as_non_negative_int 0 lease_seconds) (\<lambda>duration.
     if strip job_id = [] then Inl (ValueError ''job_id is required for lease claim'')
     else if strip holder = [] then Inl (ValueError ''holder is required for lease claim'')
     else if duration \<le> 0 then Inl (ValueError ''lease_seconds must be positive'')
     else
       res_bind (lease_load file) (\<lambda>ls.
       let current = map_of ls (strip job_id);
           mine = (\<lambda>l. strip (ls_holder l) = strip holder)
       in res_bind (case current of None \<Rightarrow> Inr False | Some l \<Rightarrow> is_active_lease l check_now)
            (\<lambda>active.
          case current of
            Some l \<Rightarrow>
              if active \<and> \<not> mine l then Inr ((False, l), file)
              else
                res_bind (add_seconds now_value duration) (\<lambda>expiry.
                let record =
                  \<lparr>ls_job_id = strip job_id, ls_holder = strip holder,
                   ls_acquired_at = (if mine l
                     then normalize_text (iso_seconds acquired_now) (PStr (ls_acquired_at l))
                     else iso_seconds now_value),
                   ls_updated_at = iso_seconds now_value, ls_expires_at = iso_seconds expiry\<rparr>
                in Inr ((True, record), lease_write (put (strip job_id) record ls)))
          | None \<Rightarrow>
              res_bind (add_seconds now_value duration) (\<lambda>expiry.
              let record =
                \<lparr>ls_job_id = strip job_id, ls_holder = strip holder,
                 ls_acquired_at = iso_seconds now_value, ls_updated_at = iso_seconds now_value,
                 ls_expires_at = iso_seconds expiry\<rparr>
              in Inr ((True, record), lease_write (put (strip job_id) record ls))))))"

definition lease_renew ::
    "py option \<Rightarrow> string \<Rightarrow> string \<Rightarrow> py \<Rightarrow> datetime \<Rightarrow> datetime \<Rightarrow>
       ((bool \<times> lease option) \<times> py option) res" where
  "lease_renew file job_id holder lease_seconds check_now now_value =
     res_bind (as_non_negative_int 0 lease_seconds) (\<lambda>duration.
     if strip job_id = [] \<or> strip holder = [] \<or> duration \<le> 0 then Inr ((False, None), file)
     else
       res_bind (lease_load file) (\<lambda>ls.
       case map_of ls (strip job_id) of
         None \<Rightarrow> Inr ((False, None), file)
       | Some l \<Rightarrow>
           if strip (ls_holder l) \<noteq> strip holder then Inr ((False, Some l), file)
           else
             res_bind (is_active_lease l check_now) (\<lambda>active.
             if \<not> active then Inr ((False, Some l), file)
             else
               res_bind (add_seconds now_value duration) (\<lambda>expiry.
               let renewed = l\<lparr>ls_updated_at := iso_seconds now_value,
                               ls_expires_at := iso_seconds expiry\<rparr>
               in Inr ((True, Some renewed), lease_write (put (strip job_id) renewed ls))))))"

definition lease_release :: "py option \<Rightarrow> string \<Rightarrow> string option \<Rightarrow> (bool \<times> py option) res" where
  "lease_release file job_id holder =
     (if strip job_id = [] then Inr (False, file)
      else
        res_bind (lease_load file) (\<lambda>ls.
        case map_of ls (strip job_id) of
          None \<Rightarrow> Inr (False, file)
        | Some l \<Rightarrow>
            (let who = (case holder of None \<Rightarrow> [] | Some h \<Rightarrow> strip h) in
             if who \<noteq> [] \<and> strip (ls_holder l) \<noteq> who then Inr (False, file)
             else Inr (True, lease_write (drop_key (strip job_id) ls)))))"

definition lease_is_claimed :: "py option \<Rightarrow> string \<Rightarrow> datetime \<Rightarrow> bool res" where
  "lease_is_claimed file job_id now =
     res_bind (lease_get file job_id) (\<lambda>r.
       case r of None \<Rightarrow> Inr False | Some l \<Rightarrow> is_active_lease l now)"

section \<open>The file as a store of leases\<close>

definition lease_ok :: "string \<Rightarrow> lease \<Rightarrow> bool" where
  "lease_ok k l =
     (k \<noteq> [] \<and> stripped k \<and> ls_job_id l = k \<and> ls_holder l \<noteq> [] \<and> stripped (ls_holder l) \<and>
      stripped (ls_acquired_at l) \<and> stripped (ls_updated_at l) \<and> stripped (ls_expires_at l))"

lemma lease_entry_written:
  assumes "lease_ok k l"
  shows "lease_entry (k, json_value (lease_py l)) = Inr (Some (k, l))"
proof -
  have k: "keys_ok [(''job_id'', PStr (ls_job_id l)), (''holder'', PStr (ls_holder l)),
       (''acquired_at'', PStr (ls_acquired_at l)), (''updated_at'', PStr (ls_updated_at l)),
       (''expires_at'', PStr (ls_expires_at l))]" by (simp add: keys_ok_def)
  obtain d where d: "json_value (lease_py l) = PDict d"
    "\<And>k. get d k = json_value (get [(''job_id'', PStr (ls_job_id l)), (''holder'', PStr (ls_holder l)),
       (''acquired_at'', PStr (ls_acquired_at l)), (''updated_at'', PStr (ls_updated_at l)),
       (''expires_at'', PStr (ls_expires_at l))] k)"
    unfolding lease_py_def by (rule json_dict [OF k]) blast
  then show ?thesis
    using assms by (simp add: lease_entry_def lease_ok_def strip_stripped)
qed

lemma lease_entry_ok: "lease_entry kv = Inr (Some (k, l)) \<Longrightarrow> lease_ok k l"
  by (auto simp: lease_entry_def lease_ok_def Let_def stripped_normalize_text
      split: option.splits if_splits)

interpretation leases: section_file "sort_key fst" "''leases''" lease_entry lease_py lease_ok
  by unfold_locales (simp_all add: lease_entry_written lease_entry_ok)

abbreviation lease_good :: "py option \<Rightarrow> bool" where
  "lease_good f \<equiv> leases.good f"

abbreviation lease_of :: "py option \<Rightarrow> string \<Rightarrow> lease option" where
  "lease_of f k \<equiv> leases.lookup f k"

lemma lease_loadE:
  assumes "lease_good f"
  obtains ls where "lease_load f = Inr ls" "lease_of f = map_of ls"
    "\<And>k r. lease_write (put k r ls) = leases.store f k r"
    "\<And>k. lease_write (drop_key k ls) = leases.remove f k"
proof -
  from assms obtain ls where ls: "load_section (sort_key fst) ''leases'' lease_entry f = Inr ls"
    by (auto simp: leases.good_def)
  from that [of ls] ls show thesis
    by (simp add: lease_load_def leases.lookup_loaded leases.store_load leases.remove_load lease_write_def)
qed

lemma lease_text: "lease_of f k = Some l \<Longrightarrow> strip (ls_holder l) = ls_holder l"
  by (auto simp: lease_ok_def strip_stripped dest: leases.lookup_ok)

text \<open>
  What an operation does to the file: nothing, or one lease of its own job is written or
  dropped. An operation that raises has not written yet.
\<close>

lemma claim_effect:
  assumes "lease_good f" and "dt_valid t2" and "dt_valid t3"
    and "lease_claim f job h n t1 t2 t3 = Inr ((granted, l), f')"
  shows "if granted
    then f' = leases.store f (strip job) l \<and> lease_ok (strip job) l \<and> ls_holder l = strip h \<and>
         (\<exists>d e. as_non_negative_int 0 n = Inr d \<and> 0 < d \<and> add_seconds t2 d = Inr e \<and>
            ls_expires_at l = iso_seconds e) \<and>
         (\<forall>l0. lease_of f (strip job) = Some l0 \<longrightarrow>
            is_active_lease l0 t1 = Inr False \<or> ls_holder l0 = strip h)
    else f' = f \<and> lease_of f (strip job) = Some l \<and> is_active_lease l t1 = Inr True \<and>
         ls_holder l \<noteq> strip h"
proof -
  obtain ls where ls: "lease_load f = Inr ls" "lease_of f = map_of ls"
    "\<And>k r. lease_write (put k r ls) = leases.store f k r" using assms(1) by (rule lease_loadE) blast
  from assms(4) obtain d where d: "as_non_negative_int 0 n = Inr d" "0 < d"
    and t: "strip job \<noteq> []" "strip h \<noteq> []"
    by (auto simp: lease_claim_def res_bind_eq_Inr split: if_splits)
  note run = assms(4) [unfolded lease_claim_def d(1) ls(1) res_bind_Inr Let_def]
  have iso: "stripped (iso_seconds t2)" "stripped (iso_seconds t3)"
    using assms(2,3) by (simp_all add: iso_seconds_stripped)
  have exp: "add_seconds t2 d = Inr e \<Longrightarrow> stripped (iso_seconds e)" for e
    using assms(2) by (auto intro!: iso_seconds_stripped dest: add_seconds_valid)
  show ?thesis
  proof (cases "map_of ls (strip job)")
    case None
    with run d t obtain e where e: "add_seconds t2 d = Inr e" by (auto simp: res_bind_eq_Inr)
    with run None d t ls iso exp [OF e] show ?thesis by (auto simp: lease_ok_def)
  next
    case (Some l0)
    then have l0: "lease_of f (strip job) = Some l0" by (simp add: ls(2))
    note h0 = lease_text [OF l0]
    from run d t Some obtain a where a: "is_active_lease l0 t1 = Inr a" by (auto simp: res_bind_eq_Inr)
    show ?thesis
    proof (cases "a \<and> ls_holder l0 \<noteq> strip h")
      case True
      with run d t Some a h0 l0 show ?thesis by auto
    next
      case False
      with run d t Some a h0 obtain e where e: "add_seconds t2 d = Inr e" by (auto simp: res_bind_eq_Inr)
      with False run d t Some a h0 ls iso exp [OF e] show ?thesis by (auto simp: lease_ok_def)
    qed
  qed
qed

lemma renew_effect:
  assumes "lease_good f" and "dt_valid t2"
    and "lease_renew f job h n t1 t2 = Inr ((granted, r), f')"
  shows "if granted
    then \<exists>l0 l. r = Some l \<and> lease_of f (strip job) = Some l0 \<and> ls_holder l0 = strip h \<and>
         is_active_lease l0 t1 = Inr True \<and> f' = leases.store f (strip job) l \<and>
         lease_ok (strip job) l \<and> ls_holder l = strip h
    else f' = f"
proof -
  obtain ls where ls: "lease_load f = Inr ls" "lease_of f = map_of ls"
    "\<And>k r. lease_write (put k r ls) = leases.store f k r" using assms(1) by (rule lease_loadE) blast
  show ?thesis
  proof (cases granted)
    case True
    with assms(3) obtain d l0 e where d: "as_non_negative_int 0 n = Inr d"
      and l0: "map_of ls (strip job) = Some l0" "strip (ls_holder l0) = strip h"
        "is_active_lease l0 t1 = Inr True"
      and e: "add_seconds t2 d = Inr e"
      and r: "r = Some (l0\<lparr>ls_updated_at := iso_seconds t2, ls_expires_at := iso_seconds e\<rparr>)"
      and f': "f' = lease_write (put (strip job) (l0\<lparr>ls_updated_at := iso_seconds t2,
                 ls_expires_at := iso_seconds e\<rparr>) ls)"
      by (auto simp: lease_renew_def res_bind_eq_Inr ls(1) Let_def split: if_splits option.splits)
    have l: "lease_of f (strip job) = Some l0" by (simp add: ls(2) l0(1))
    have "stripped (iso_seconds t2)" "stripped (iso_seconds e)"
      using assms(2) add_seconds_valid [OF assms(2) e] by (simp_all add: iso_seconds_stripped)
    moreover have "lease_ok (strip job) l0" using l by (rule leases.lookup_ok)
    ultimately show ?thesis
      using True l l0 lease_text [OF l] by (simp add: r f' ls(3) lease_ok_def)
  next
    case False
    with assms(3) show ?thesis
      by (auto simp: lease_renew_def res_bind_eq_Inr ls(1) Let_def split: if_splits option.splits)
  qed
qed

lemma release_effect:
  assumes "lease_good f" and "lease_release f job who = Inr (released, f')"
  shows "if released
    then f' = leases.remove f (strip job) \<and>
         (\<exists>l. lease_of f (strip job) = Some l \<and>
            (case who of None \<Rightarrow> True | Some h \<Rightarrow> strip h = [] \<or> ls_holder l = strip h))
    else f' = f"
proof -
  obtain ls where ls: "lease_load f = Inr ls" "lease_of f = map_of ls"
    "\<And>k. lease_write (drop_key k ls) = leases.remove f k" using assms(1) by (rule lease_loadE) blast
  have "map_of ls (strip job) = Some l \<Longrightarrow> strip (ls_holder l) = ls_holder l" for l
    by (rule lease_text [of f]) (simp add: ls(2))
  with assms(2) ls show ?thesis
    by (auto simp: lease_release_def res_bind_eq_Inr Let_def split: if_splits option.splits)
qed

section \<open>Many schedulers\<close>

text \<open>
  The calls several schedulers make on one lease file, one after the other. A call that raises
  leaves the file as it was.
\<close>

datatype lease_call =
    Claim string string py
  | Renew string string py
  | Release string "string option"

type_synonym clock_readings = "datetime \<times> datetime \<times> datetime"

definition file_after :: "('a \<times> py option) res \<Rightarrow> py option \<Rightarrow> py option" where
  "file_after r f = (case r of Inl _ \<Rightarrow> f | Inr (_, f') \<Rightarrow> f')"

fun run_call :: "lease_call \<Rightarrow> clock_readings \<Rightarrow> py option \<Rightarrow> py option" where
  "run_call (Claim job h n) (t1, t2, t3) f = file_after (lease_claim f job h n t1 t2 t3) f"
| "run_call (Renew job h n) (t1, t2, t3) f = file_after (lease_renew f job h n t1 t2) f"
| "run_call (Release job h) ts f = file_after (lease_release f job h) f"

fun run_calls :: "(lease_call \<times> clock_readings) list \<Rightarrow> py option \<Rightarrow> py option" where
  "run_calls [] f = f"
| "run_calls ((c, ts) # cs) f = run_calls cs (run_call c ts f)"

text \<open>A call made for somebody other than the holder \<open>h\<close> of the lease on \<open>job\<close>.\<close>

fun by_another :: "string \<Rightarrow> string \<Rightarrow> lease_call \<Rightarrow> bool" where
  "by_another job h (Claim job' h' n) = (strip job' = job \<longrightarrow> strip h' \<noteq> h)"
| "by_another job h (Renew job' h' n) = (strip job' = job \<longrightarrow> strip h' \<noteq> h)"
| "by_another job h (Release job' who) =
     (strip job' = job \<longrightarrow> (case who of None \<Rightarrow> False | Some h' \<Rightarrow> strip h' \<noteq> [] \<and> strip h' \<noteq> h))"

fun readings_valid :: "clock_readings \<Rightarrow> bool" where
  "readings_valid (t1, t2, t3) = (dt_valid t2 \<and> dt_valid t3)"

lemma run_call_good:
  "lease_good f \<Longrightarrow> readings_valid ts \<Longrightarrow> lease_good (run_call c ts f)"
proof (induction c ts f rule: run_call.induct)
  case (1 job h n t1 t2 t3 f)
  then show ?case
    using claim_effect [of f t2 t3 job h n t1]
    by (fastforce simp: file_after_def intro: leases.good_store split: sum.splits if_splits)
next
  case (2 job h n t1 t2 t3 f)
  then show ?case
    using renew_effect [of f t2 job h n t1]
    by (fastforce simp: file_after_def intro: leases.good_store split: sum.splits if_splits)
next
  case (3 job who ts f)
  then show ?case
    using release_effect [of f job who]
    by (fastforce simp: file_after_def intro: leases.remove_good split: sum.splits if_splits)
qed

text \<open>While a lease is active, a call made for somebody else does not touch it.\<close>

lemma run_call_keeps:
  assumes "lease_good f" and "readings_valid ts" and "lease_of f job = Some l"
    and "by_another job (ls_holder l) c" and "is_active_lease l (fst ts) = Inr True"
  shows "lease_of (run_call c ts f) job = Some l"
proof -
  obtain t1 t2 t3 where ts: "ts = (t1, t2, t3)" by (cases ts)
  show ?thesis
  proof (cases c)
    case (Claim job' h n)
    show ?thesis
    proof (cases "lease_claim f job' h n t1 t2 t3")
      case (Inr r)
      obtain g l' f' where r: "r = ((g, l'), f')" by (metis surj_pair)
      from claim_effect [OF assms(1) _ _ Inr [unfolded r]] assms(2-5) show ?thesis
        by (auto simp: Claim ts file_after_def Inr r leases.lookup_store [OF assms(1)] split: if_splits)
    qed (simp add: Claim ts file_after_def assms(3))
  next
    case (Renew job' h n)
    show ?thesis
    proof (cases "lease_renew f job' h n t1 t2")
      case (Inr r)
      obtain g l' f' where r: "r = ((g, l'), f')" by (metis surj_pair)
      from renew_effect [OF assms(1) _ Inr [unfolded r]] assms(2-5) show ?thesis
        by (auto simp: Renew ts file_after_def Inr r leases.lookup_store [OF assms(1)] split: if_splits)
    qed (simp add: Renew ts file_after_def assms(3))
  next
    case (Release job' who)
    show ?thesis
    proof (cases "lease_release f job' who")
      case (Inr r)
      obtain g f' where r: "r = (g, f')" by force
      from release_effect [OF assms(1) Inr [unfolded r]] assms(3,4) show ?thesis
        by (auto simp: Release ts file_after_def Inr r leases.lookup_remove [OF assms(1)]
            split: if_splits option.splits)
    qed (simp add: Release ts file_after_def assms(3))
  qed
qed

lemma run_calls_keep:
  assumes "lease_good f" and "lease_of f job = Some l"
    and "\<forall>(c, ts) \<in> set cs. readings_valid ts \<and> by_another job (ls_holder l) c \<and>
           is_active_lease l (fst ts) = Inr True"
  shows "lease_good (run_calls cs f) \<and> lease_of (run_calls cs f) job = Some l"
  using assms
proof (induction cs arbitrary: f)
  case (Cons x cs)
  obtain c ts where x: "x = (c, ts)" by (metis surj_pair)
  with Cons show ?case by (simp add: run_call_good run_call_keeps)
qed simp

section \<open>Properties\<close>

lemma active_iff_before:
  assumes "dt_valid e" and "ls_expires_at l = iso_seconds e"
  shows "is_active_lease l t = dt_less t (floor_seconds e)"
  using assms by (simp add: is_active_lease_def)

lemma claim_held:
  assumes "lease_good f" and "lease_of f (strip job) = Some l" and "is_active_lease l t1 = Inr True"
    and "strip job \<noteq> []" and "strip h \<noteq> []" and "ls_holder l \<noteq> strip h"
    and "as_non_negative_int 0 n = Inr d" and "0 < d"
  shows "lease_claim f job h n t1 t2 t3 = Inr ((False, l), f)"
proof -
  obtain ls where ls: "lease_load f = Inr ls" "lease_of f = map_of ls"
    using assms(1) by (rule lease_loadE) blast
  with assms lease_text [OF assms(2)] show ?thesis by (simp add: lease_claim_def Let_def)
qed

text \<open>C33. A granted lease is exclusive: until the second it expires in, whatever claims, renewals and
  releases others make for any job, one after the other, its holder still holds it and every
  other holder's claim on the job is refused with that lease.\<close>

theorem granted_lease_is_exclusive:
  assumes "lease_good f" and "dt_valid now" and "dt_valid acquired"
    and "lease_claim f job holder secs check now acquired = Inr ((True, l), f1)"
    and "as_non_negative_int 0 secs = Inr d" and "add_seconds now d = Inr expiry"
    and "\<forall>(c, ts) \<in> set calls. readings_valid ts \<and> by_another (strip job) (strip holder) c \<and>
           dt_less (fst ts) (floor_seconds expiry) = Inr True"
    and "dt_less t1 (floor_seconds expiry) = Inr True" and "strip other \<noteq> []"
    and "strip other \<noteq> strip holder" and "as_non_negative_int 0 n = Inr m" and "0 < m"
  shows "lease_of (run_calls calls f1) (strip job) = Some l \<and> ls_holder l = strip holder \<and>
         lease_claim (run_calls calls f1) job other n t1 t2 t3 =
           Inr ((False, l), run_calls calls f1)"
proof -
  from claim_effect [OF assms(1-4)] assms(5,6) have f1: "f1 = leases.store f (strip job) l"
    and ok: "lease_ok (strip job) l" and h: "ls_holder l = strip holder"
    and e: "ls_expires_at l = iso_seconds expiry" by auto
  have act: "is_active_lease l t = dt_less t (floor_seconds expiry)" for t
    by (rule active_iff_before [OF add_seconds_valid [OF assms(2,6)] e])
  have "lease_good f1" "lease_of f1 (strip job) = Some l"
    unfolding f1 using assms(1) ok by (simp_all add: leases.good_store leases.lookup_store)
  from run_calls_keep [OF this, of calls] assms(7)
  have "lease_good (run_calls calls f1)" "lease_of (run_calls calls f1) (strip job) = Some l"
    unfolding h act by blast+
  with claim_held [OF this _ _ assms(9) _ assms(11,12)] act assms(8,10) ok h show ?thesis
    by (simp add: lease_ok_def)
qed

text \<open>A holder that renews before its lease expires keeps it: the renewal succeeds, the lease
  keeps its acquisition time and expires the full duration after the renewal.\<close>

theorem holder_renews_its_lease:
  assumes "lease_good f" and "dt_valid now" and "lease_of f (strip job) = Some l"
    and "is_active_lease l check = Inr True" and "strip holder = ls_holder l"
    and "as_non_negative_int 0 secs = Inr d" and "0 < d" and "add_seconds now d = Inr expiry"
  shows "\<exists>l' f'. lease_renew f job holder secs check now = Inr ((True, Some l'), f') \<and>
           lease_of f' (strip job) = Some l' \<and> ls_acquired_at l' = ls_acquired_at l \<and>
           (\<forall>t. is_active_lease l' t = dt_less t (floor_seconds expiry)) \<and>
           (\<forall>k. k \<noteq> strip job \<longrightarrow> lease_of f' k = lease_of f k)"
proof -
  obtain ls where ls: "lease_load f = Inr ls" "lease_of f = map_of ls"
    "\<And>k r. lease_write (put k r ls) = leases.store f k r" using assms(1) by (rule lease_loadE) blast
  have ok: "lease_ok (strip job) l" using assms(3) by (rule leases.lookup_ok)
  let ?l = "l\<lparr>ls_updated_at := iso_seconds now, ls_expires_at := iso_seconds expiry\<rparr>"
  have v: "dt_valid expiry" using assms(2,8) by (rule add_seconds_valid)
  have ok': "lease_ok (strip job) ?l"
    using ok iso_seconds_stripped [OF assms(2)] iso_seconds_stripped [OF v] by (simp add: lease_ok_def)
  have "lease_renew f job holder secs check now =
      Inr ((True, Some ?l), leases.store f (strip job) ?l)"
    using assms(3-8) ok ls(2) lease_text [OF assms(3)]
    by (simp add: lease_renew_def ls(1) ls(3) lease_ok_def Let_def)
  moreover have "is_active_lease ?l t = dt_less t (floor_seconds expiry)" for t
    by (rule active_iff_before [OF v]) simp
  ultimately show ?thesis
    using leases.lookup_store [OF assms(1) ok'] by fastforce
qed

text \<open>The claim is a read and a write of the whole file with nothing between them: two
  schedulers that read the same file before either writes are both granted the lease.\<close>

theorem claims_on_the_same_reading_are_both_granted:
  assumes "lease_good f" and "lease_of f (strip job) = None" and "strip job \<noteq> []"
    and "strip first \<noteq> []" and "strip second \<noteq> []" and "dt_valid t"
    and "as_non_negative_int 0 secs = Inr d" and "0 < d" and "add_seconds t d = Inr e"
  shows "\<exists>l1 f1 l2 f2. lease_claim f job first secs t t t = Inr ((True, l1), f1) \<and>
           lease_claim f job second secs t t t = Inr ((True, l2), f2) \<and>
           ls_holder l1 = strip first \<and> ls_holder l2 = strip second"
proof -
  obtain ls where ls: "lease_load f = Inr ls" "lease_of f = map_of ls"
    using assms(1) by (rule lease_loadE) blast
  with assms show ?thesis by (simp add: lease_claim_def Let_def)
qed

definition t0 :: datetime where
  "t0 = \<lparr>micros = 63800000000000000, offset = None\<rparr>"

lemma t0_facts: "dt_valid t0" "add_seconds t0 60 = Inr (t0\<lparr>micros := micros t0 + 60000000\<rparr>)"
  "dt_less t0 (floor_seconds (t0\<lparr>micros := micros t0 + 60000000\<rparr>)) = Inr True"
  by code_simp+

theorem granted_lease_is_exclusive_witness:
  "case lease_claim None ''job-1'' ''a'' (PInt 60) t0 t0 t0 of
     Inr ((g, l), f1) \<Rightarrow> g \<and>
       lease_claim (run_calls [(Claim ''job-2'' ''b'' (PInt 5), t0, t0, t0),
                               (Release ''job-1'' (Some ''b''), t0, t0, t0)] f1)
         ''job-1'' ''b'' (PInt 60) t0 t0 t0 =
       Inr ((False, l), run_calls [(Claim ''job-2'' ''b'' (PInt 5), t0, t0, t0),
                                   (Release ''job-1'' (Some ''b''), t0, t0, t0)] f1)
   | _ \<Rightarrow> False"
proof -
  have "case lease_claim None ''job-1'' ''a'' (PInt 60) t0 t0 t0 of
      Inr ((g, l), f1) \<Rightarrow> g | _ \<Rightarrow> False" by code_simp
  then obtain l f1 where c: "lease_claim None ''job-1'' ''a'' (PInt 60) t0 t0 t0 = Inr ((True, l), f1)"
    by (auto split: sum.splits prod.splits)
  have s: "strip ''job-1'' = ''job-1''" "strip ''a'' = ''a''" "strip ''b'' = ''b''"
    "strip ''job-2'' = ''job-2''" by code_simp+
  from granted_lease_is_exclusive [OF leases.good_None(1) t0_facts(1) t0_facts(1) c _ t0_facts(2),
      of "[(Claim ''job-2'' ''b'' (PInt 5), t0, t0, t0), (Release ''job-1'' (Some ''b''), t0, t0, t0)]"
        t0 "''b''" "PInt 60" 60] t0_facts
  show ?thesis by (simp add: c s)
qed

theorem holder_renews_its_lease_witness:
  "\<exists>f1 l' f'. file_after (lease_claim None ''job-1'' ''a'' (PInt 60) t0 t0 t0) None = f1 \<and>
     lease_renew f1 ''job-1'' ''a'' (PInt 60) t0 t0 = Inr ((True, Some l'), f')"
proof -
  have "case lease_claim None ''job-1'' ''a'' (PInt 60) t0 t0 t0 of
      Inr ((g, l), f1) \<Rightarrow> g | _ \<Rightarrow> False" by code_simp
  then obtain l f1 where c: "lease_claim None ''job-1'' ''a'' (PInt 60) t0 t0 t0 = Inr ((True, l), f1)"
    by (auto split: sum.splits prod.splits)
  have s: "strip ''job-1'' = ''job-1''" "strip ''a'' = ''a''" by code_simp+
  from claim_effect [OF leases.good_None(1) t0_facts(1) t0_facts(1) c] t0_facts(2)
  have f1: "f1 = leases.store None ''job-1'' l" "lease_ok ''job-1'' l" "ls_holder l = ''a''"
    and e: "ls_expires_at l = iso_seconds (t0\<lparr>micros := micros t0 + 60000000\<rparr>)"
    by (auto simp: s)
  have "lease_good f1" "lease_of f1 (strip ''job-1'') = Some l"
    unfolding f1(1) s using f1(2) by (simp_all add: leases.good_store leases.lookup_store)
  moreover have "is_active_lease l t0 = Inr True"
    using active_iff_before [OF add_seconds_valid [OF t0_facts(1,2)] e] t0_facts(3) by simp
  ultimately show ?thesis
    using holder_renews_its_lease [OF _ t0_facts(1), of f1 "''job-1''" l t0 "''a''" "PInt 60" 60]
      f1(3) s t0_facts(2) by (simp add: c file_after_def) blast
qed

theorem claims_on_the_same_reading_are_both_granted_witness:
  "\<exists>l1 f1 l2 f2. lease_claim None ''job-1'' ''a'' (PInt 60) t0 t0 t0 = Inr ((True, l1), f1) \<and>
     lease_claim None ''job-1'' ''b'' (PInt 60) t0 t0 t0 = Inr ((True, l2), f2) \<and>
     ls_holder l1 = strip ''a'' \<and> ls_holder l2 = strip ''b''"
proof -
  have s: "strip ''job-1'' \<noteq> []" "strip ''a'' \<noteq> []" "strip ''b'' \<noteq> []" by code_simp+
  show ?thesis
    by (rule claims_on_the_same_reading_are_both_granted
        [OF leases.good_None(1) _ s t0_facts(1) _ _ t0_facts(2)]) simp_all
qed

end
