(* ===== verification/Job_Registry.thy ===== *)
theory Job_Registry
  imports IsoTime Job_Store
begin

text \<open>
  \<open>automation/scheduler/job_registry.py\<close>: the registry file with one record per job, its state
  among the seven job states, and the operations the scheduler calls on it.

  \<open>now\<close> is the reading of the clock of a call; a call that reads the clock several times (once
  per record without time stamps) is taken to read the same second each time.
\<close>

section \<open>The states and the records\<close>

abbreviation "STATE_PENDING \<equiv> ''pending''"
abbreviation "STATE_RUNNABLE \<equiv> ''runnable''"
abbreviation "STATE_PAUSED \<equiv> ''paused''"
abbreviation "STATE_RETRY_SCHEDULED \<equiv> ''retry_scheduled''"
abbreviation "STATE_ESCALATED \<equiv> ''escalated''"
abbreviation "STATE_COMPLETED \<equiv> ''completed''"
abbreviation "STATE_FAILED_TERMINAL \<equiv> ''failed_terminal''"

definition job_states :: "string list" where
  "job_states =
     [STATE_PENDING, STATE_RUNNABLE, STATE_PAUSED, STATE_RETRY_SCHEDULED, STATE_ESCALATED,
      STATE_COMPLETED, STATE_FAILED_TERMINAL]"

definition normalize_state :: "string \<Rightarrow> py \<Rightarrow> string" where
  "normalize_state d v =
     (let state = lower (normalize_text d v) in if state \<notin> set job_states then d else state)"

record job_record =
  jr_job_id :: string
  jr_repo_or_workspace :: "string option"
  jr_current_state :: string
  jr_created_at :: string
  jr_updated_at :: string
  jr_run_root :: "string option"
  jr_artifact_root :: "string option"
  jr_next_eligible_at :: "string option"
  jr_retry_class :: "string option"
  jr_retry_budget_remaining :: "int option"
  jr_whether_human_required :: bool
  jr_terminal_status :: "string option"

definition job_dict :: "job_record \<Rightarrow> dict" where
  "job_dict r =
     [(''job_id'', PStr (jr_job_id r)),
      (''repo_or_workspace'', opt_str (jr_repo_or_workspace r)),
      (''current_state'', PStr (jr_current_state r)),
      (''created_at'', PStr (jr_created_at r)),
      (''updated_at'', PStr (jr_updated_at r)),
      (''run_root'', opt_str (jr_run_root r)),
      (''artifact_root'', opt_str (jr_artifact_root r)),
      (''next_eligible_at'', opt_str (jr_next_eligible_at r)),
      (''retry_class'', opt_str (jr_retry_class r)),
      (''retry_budget_remaining'', opt_int (jr_retry_budget_remaining r)),
      (''whether_human_required'', PBool (jr_whether_human_required r)),
      (''terminal_status'', opt_str (jr_terminal_status r))]"

text \<open>
  \<open>_normalize_record\<close> in two steps: the texts of the raw object, where a missing time stamp is
  the empty text, and the clock's text in the place of a missing one.
\<close>

definition read_record :: "dict \<Rightarrow> job_record res" where
  "read_record raw =
     res_bind (as_optional_int (get raw ''retry_budget_remaining'')) (\<lambda>budget.
     Inr \<lparr>jr_job_id = normalize_text [] (get raw ''job_id''),
          jr_repo_or_workspace = text_or_none (get raw ''repo_or_workspace''),
          jr_current_state = normalize_state STATE_PENDING (get raw ''current_state''),
          jr_created_at = normalize_text [] (get raw ''created_at''),
          jr_updated_at = normalize_text [] (get raw ''updated_at''),
          jr_run_root = text_or_none (get raw ''run_root''),
          jr_artifact_root = text_or_none (get raw ''artifact_root''),
          jr_next_eligible_at = text_or_none (get raw ''next_eligible_at''),
          jr_retry_class = text_or_none (get raw ''retry_class''),
          jr_retry_budget_remaining = budget,
          jr_whether_human_required = as_bool (get raw ''whether_human_required''),
          jr_terminal_status = text_or_none (get raw ''terminal_status'')\<rparr>)"

definition stamped :: "datetime \<Rightarrow> job_record \<Rightarrow> job_record" where
  "stamped now r =
     r\<lparr>jr_created_at := (if jr_created_at r \<noteq> [] then jr_created_at r else iso_seconds now),
       jr_updated_at := (if jr_updated_at r \<noteq> [] then jr_updated_at r else iso_seconds now)\<rparr>"

definition normalize_record :: "dict \<Rightarrow> datetime \<Rightarrow> string option \<Rightarrow> job_record res" where
  "normalize_record raw now existing_created_at =
     res_bind (read_record raw) (\<lambda>r.
     Inr (stamped now
       (case existing_created_at of None \<Rightarrow> r | Some at \<Rightarrow> r\<lparr>jr_created_at := at\<rparr>)))"

section \<open>The file\<close>

definition registry_entry :: "string \<times> py \<Rightarrow> (string \<times> job_record) option res" where
  "registry_entry kv =
     (let job_id = strip (fst kv) in
      case as_mapping (snd kv) of
        None \<Rightarrow> Inr None
      | Some v \<Rightarrow>
          if job_id = [] then Inr None
          else res_bind (read_record v) (\<lambda>r. Inr (Some (job_id, r\<lparr>jr_job_id := job_id\<rparr>))))"

definition job_py :: "job_record \<Rightarrow> py" where
  "job_py r = PDict (job_dict r)"

definition stamp_all :: "datetime \<Rightarrow> (string \<times> job_record) list \<Rightarrow> (string \<times> job_record) list" where
  "stamp_all now jobs = map (\<lambda>kr. (fst kr, stamped now (snd kr))) jobs"

definition registry_load :: "py option \<Rightarrow> datetime \<Rightarrow> (string \<times> job_record) list res" where
  "registry_load file now =
     res_bind (load_section (sort_key fst) ''jobs'' registry_entry file) (\<lambda>jobs.
     Inr (stamp_all now jobs))"

definition registry_write :: "(string \<times> job_record) list \<Rightarrow> py option" where
  "registry_write jobs = Some (write_section ''jobs'' job_py jobs)"

section \<open>The operations\<close>

definition registry_get :: "py option \<Rightarrow> datetime \<Rightarrow> string \<Rightarrow> job_record option res" where
  "registry_get file now job_id =
     (if strip job_id = [] then Inr None
      else res_bind (registry_load file now) (\<lambda>jobs. Inr (map_of jobs (strip job_id))))"

definition registry_list :: "py option \<Rightarrow> datetime \<Rightarrow> string option \<Rightarrow> job_record list res" where
  "registry_list file now current_state =
     res_bind (registry_load file now) (\<lambda>jobs.
     let records = map snd jobs;
         chosen = (case current_state of
           None \<Rightarrow> records
         | Some s \<Rightarrow>
             filter (\<lambda>r. normalize_state [] (PStr (jr_current_state r)) = normalize_state [] (PStr s))
               records)
     in Inr (sort_key (\<lambda>r. normalize_text [] (PStr (jr_job_id r))) chosen))"

definition registry_upsert ::
    "py option \<Rightarrow> datetime \<Rightarrow> dict \<Rightarrow> (job_record \<times> py option) res" where
  "registry_upsert file now raw =
     (let job_id = normalize_text [] (get raw ''job_id'') in
      if job_id = [] then Inl (ValueError ''job_id is required'')
      else
        res_bind (registry_load file now) (\<lambda>jobs.
        res_bind (normalize_record raw now
            (case map_of jobs job_id of
               None \<Rightarrow> None
             | Some old \<Rightarrow> text_or_none (PStr (jr_created_at old)))) (\<lambda>r.
        let record = r\<lparr>jr_job_id := job_id\<rparr>
        in Inr (record, registry_write (put job_id record jobs)))))"

definition or_else :: "string option \<Rightarrow> py \<Rightarrow> py" where
  "or_else v w = (case v of None \<Rightarrow> w | Some s \<Rightarrow> PStr s)"

definition registry_ensure ::
    "py option \<Rightarrow> datetime \<Rightarrow> string \<Rightarrow> string option \<Rightarrow> string option \<Rightarrow> string option \<Rightarrow> string \<Rightarrow>
       (job_record \<times> py option) res" where
  "registry_ensure file now job_id artifact_root run_root repo_or_workspace current_state =
     res_bind (registry_get file now job_id) (\<lambda>existing.
     let base0 = (case existing of None \<Rightarrow> [] | Some r \<Rightarrow> job_dict r);
         base1 = put ''job_id'' (PStr (strip job_id)) base0;
         base2 = put ''artifact_root'' (or_else artifact_root (get base1 ''artifact_root'')) base1;
         base3 = put ''run_root'' (or_else run_root (get base2 ''run_root'')) base2;
         base4 = put ''repo_or_workspace''
           (case repo_or_workspace of
              Some s \<Rightarrow> if s \<noteq> [] then PStr s else get base3 ''repo_or_workspace''
            | None \<Rightarrow> get base3 ''repo_or_workspace'') base3;
         base5 = put ''current_state''
           (if truthy (get base4 ''current_state'') then get base4 ''current_state''
            else PStr current_state) base4
     in registry_upsert file now (put ''updated_at'' (PStr (iso_seconds now)) base5))"

section \<open>The file as a store of records\<close>

fun opt_stripped :: "string option \<Rightarrow> bool" where
  "opt_stripped None = True"
| "opt_stripped (Some s) = (s \<noteq> [] \<and> stripped s)"

definition texts_ok :: "job_record \<Rightarrow> bool" where
  "texts_ok r =
     (jr_current_state r \<in> set job_states \<and> stripped (jr_created_at r) \<and> stripped (jr_updated_at r) \<and>
      opt_stripped (jr_repo_or_workspace r) \<and> opt_stripped (jr_run_root r) \<and>
      opt_stripped (jr_artifact_root r) \<and> opt_stripped (jr_next_eligible_at r) \<and>
      opt_stripped (jr_retry_class r) \<and> opt_stripped (jr_terminal_status r))"

definition job_ok :: "string \<Rightarrow> job_record \<Rightarrow> bool" where
  "job_ok k r = (k \<noteq> [] \<and> stripped k \<and> jr_job_id r = k \<and> texts_ok r)"

lemma job_state_text [simp]:
  "s \<in> set job_states \<Longrightarrow> strip s = s" "s \<in> set job_states \<Longrightarrow> lower s = s"
  "s \<in> set job_states \<Longrightarrow> s \<noteq> []"
proof -
  have "\<forall>s \<in> set job_states. strip s = s \<and> lower s = s \<and> s \<noteq> []" by code_simp
  then show "s \<in> set job_states \<Longrightarrow> strip s = s" "s \<in> set job_states \<Longrightarrow> lower s = s"
    "s \<in> set job_states \<Longrightarrow> s \<noteq> []" by blast+
qed

lemma normalize_state_known [simp]:
  "s \<in> set job_states \<Longrightarrow> normalize_state d (PStr s) = s"
  by (simp add: normalize_state_def)

lemma STATE_PENDING_known [simp]: "STATE_PENDING \<in> set job_states"
  by (simp add: job_states_def)

lemma normalize_state_range: "normalize_state STATE_PENDING v \<in> set job_states"
  by (simp add: normalize_state_def Let_def)

lemma opt_stripped_text_or_none [simp]: "opt_stripped (text_or_none v)"
  by (simp add: text_or_none_def Let_def stripped_normalize_text)

lemma text_or_none_opt_str [simp]: "opt_stripped v \<Longrightarrow> text_or_none (opt_str v) = v"
  by (cases v) (simp_all add: strip_stripped)

lemma as_optional_int_opt_int [simp]: "as_optional_int (opt_int i) = Inr i"
  by (cases i) simp_all

lemma read_record_ok: "read_record raw = Inr r \<Longrightarrow> texts_ok r"
  by (auto simp: read_record_def res_bind_eq_Inr texts_ok_def normalize_state_range
      stripped_normalize_text)

lemma job_dict_gets:
  "get (job_dict r) ''job_id'' = PStr (jr_job_id r)"
  "get (job_dict r) ''repo_or_workspace'' = opt_str (jr_repo_or_workspace r)"
  "get (job_dict r) ''current_state'' = PStr (jr_current_state r)"
  "get (job_dict r) ''created_at'' = PStr (jr_created_at r)"
  "get (job_dict r) ''updated_at'' = PStr (jr_updated_at r)"
  "get (job_dict r) ''run_root'' = opt_str (jr_run_root r)"
  "get (job_dict r) ''artifact_root'' = opt_str (jr_artifact_root r)"
  "get (job_dict r) ''next_eligible_at'' = opt_str (jr_next_eligible_at r)"
  "get (job_dict r) ''retry_class'' = opt_str (jr_retry_class r)"
  "get (job_dict r) ''retry_budget_remaining'' = opt_int (jr_retry_budget_remaining r)"
  "get (job_dict r) ''whether_human_required'' = PBool (jr_whether_human_required r)"
  "get (job_dict r) ''terminal_status'' = opt_str (jr_terminal_status r)"
  "keys_ok (job_dict r)"
  by (simp_all add: job_dict_def keys_ok_def)

lemma read_record_job:
  assumes "texts_ok r" and "stripped (jr_job_id r)" and "\<And>k. get d k = json_value (get (job_dict r) k)"
  shows "read_record d = Inr r"
proof -
  have j: "json_value (opt_str v) = opt_str v" "json_value (opt_int i) = opt_int i" for v i
    by (cases v; simp) (cases i; simp)
  show ?thesis
    using assms(1,2) unfolding read_record_def assms(3) job_dict_gets j json_value.simps
    by (simp add: texts_ok_def strip_stripped)
qed

lemma registry_entry_written:
  assumes "job_ok k r"
  shows "registry_entry (k, json_value (job_py r)) = Inr (Some (k, r))"
proof -
  obtain d where d: "json_value (job_py r) = PDict d" "\<And>k. get d k = json_value (get (job_dict r) k)"
    unfolding job_py_def by (rule json_dict [OF job_dict_gets(13)]) blast
  have "read_record d = Inr r"
    by (rule read_record_job) (use assms d in \<open>simp_all add: job_ok_def\<close>)
  with assms show ?thesis by (simp add: registry_entry_def d(1) job_ok_def strip_stripped)
qed

lemma registry_entry_ok: "registry_entry kv = Inr (Some (k, r)) \<Longrightarrow> job_ok k r"
  by (auto simp: registry_entry_def job_ok_def Let_def res_bind_eq_Inr texts_ok_def
      dest!: read_record_ok split: option.splits if_splits)

interpretation jobs: section_file "sort_key fst" "''jobs''" registry_entry job_py job_ok
  by unfold_locales (simp_all add: registry_entry_written registry_entry_ok)

abbreviation registry_good :: "py option \<Rightarrow> bool" where
  "registry_good f \<equiv> jobs.good f"

lemma map_of_stamp_all: "map_of (stamp_all now jobs) k = map_option (stamped now) (map_of jobs k)"
  unfolding stamp_all_def by (induction jobs) auto

lemma keys_stamp_all [simp]: "keys_ok (stamp_all now jobs) = keys_ok jobs"
  by (simp add: stamp_all_def keys_ok_def comp_def)

lemma stamped_ok: "dt_valid now \<Longrightarrow> job_ok k r \<Longrightarrow> job_ok k (stamped now r)"
  by (simp add: job_ok_def stamped_def texts_ok_def iso_seconds_stripped)

lemma stamped_twice [simp]: "dt_valid now \<Longrightarrow> stamped t (stamped now r) = stamped now r"
  by (simp add: stamped_def)

lemma stamped_simps [simp]:
  "jr_job_id (stamped now r) = jr_job_id r" "jr_current_state (stamped now r) = jr_current_state r"
  by (simp_all add: stamped_def)

lemma stamp_all_ok: "dt_valid now \<Longrightarrow> jobs.all_ok st \<Longrightarrow> jobs.all_ok (stamp_all now st)"
  by (auto simp: jobs.all_ok_def stamp_all_def stamped_ok)

text \<open>The record a job has when the file is read at \<open>now\<close>.\<close>

definition job_at :: "py option \<Rightarrow> datetime \<Rightarrow> string \<Rightarrow> job_record option" where
  "job_at f now k = map_option (stamped now) (jobs.lookup f k)"

lemma registry_loadE:
  assumes "registry_good f"
  obtains st where "registry_load f now = Inr (stamp_all now st)" "jobs.lookup f = map_of st"
    "keys_ok st" "jobs.all_ok st"
proof -
  from assms obtain st where st: "load_section (sort_key fst) ''jobs'' registry_entry f = Inr st"
    by (auto simp: jobs.good_def)
  from that [of st] st jobs.lookup_loaded [OF st] jobs.loaded_entries [OF st] show thesis
    by (simp add: registry_load_def)
qed

lemma registry_get_job:
  "registry_good f \<Longrightarrow> strip k \<noteq> [] \<Longrightarrow> registry_get f now k = Inr (job_at f now (strip k))"
  by (rule registry_loadE [of f now]) (auto simp: registry_get_def job_at_def map_of_stamp_all)

lemma registry_write_jobs:
  assumes "keys_ok st" and "jobs.all_ok st"
  shows "registry_good (registry_write st)" "jobs.lookup (registry_write st) = map_of st"
  using jobs.written_good [OF assms] by (simp_all add: registry_write_def)

lemma upsert_effect:
  assumes good: "registry_good f" and now: "dt_valid now"
    and up: "registry_upsert f now raw = Inr (r, f')"
  defines "k \<equiv> normalize_text [] (get raw ''job_id'')"
  shows "registry_good f' \<and> k \<noteq> [] \<and> job_ok k r \<and> stamped now r = r \<and>
    jobs.lookup f' = (\<lambda>k'. if k' = k then Some r else job_at f now k') \<and>
    (\<exists>r0. read_record raw = Inr r0 \<and>
       r = (stamped now r0)\<lparr>jr_job_id := k, jr_created_at :=
             (case job_at f now k of None \<Rightarrow> jr_created_at (stamped now r0)
              | Some old \<Rightarrow> jr_created_at old)\<rparr>)"
proof -
  obtain st where st: "registry_load f now = Inr (stamp_all now st)" "jobs.lookup f = map_of st"
    "keys_ok st" "jobs.all_ok st" using good by (rule registry_loadE)
  note up' = up [unfolded registry_upsert_def Let_def k_def [symmetric] st(1) res_bind_Inr]
  from up' have k: "k \<noteq> []" by (auto split: if_splits)
  from up' k obtain r0 where r0: "read_record raw = Inr r0"
    by (auto simp: normalize_record_def res_bind_eq_Inr)
  let ?old = "map_of (stamp_all now st) k"
  have old: "?old = job_at f now k" by (simp add: map_of_stamp_all job_at_def st(2))
  have created: "jr_created_at o1 \<noteq> [] \<and> strip (jr_created_at o1) = jr_created_at o1"
    if "?old = Some o1" for o1
  proof -
    from that st(4) stamp_all_ok [OF now st(4)] have "job_ok k o1"
      by (auto simp: jobs.all_ok_def dest: map_of_SomeD)
    moreover from that obtain o0 where "o1 = stamped now o0" by (auto simp: map_of_stamp_all)
    ultimately show ?thesis using now
      by (auto simp: job_ok_def texts_ok_def strip_stripped stamped_def)
  qed
  have r: "r = (stamped now r0)\<lparr>jr_job_id := k, jr_created_at :=
             (case ?old of None \<Rightarrow> jr_created_at (stamped now r0) | Some o1 \<Rightarrow> jr_created_at o1)\<rparr>"
    and f': "f' = registry_write (put k r (stamp_all now st))"
    using up' k created
    by (auto simp: normalize_record_def r0 text_or_none_def stamped_def split: option.splits)
  have texts: "texts_ok (stamped now r0)"
    using read_record_ok [OF r0] now by (simp add: texts_ok_def stamped_def iso_seconds_stripped)
  have kk: "stripped k" by (simp add: k_def stripped_normalize_text)
  have ok: "job_ok k r"
    using texts k kk created
    by (auto simp: r job_ok_def texts_ok_def strip_stripped split: option.splits)
       (metis stripped_strip)
  have stable: "stamped now r = r"
    using created now by (auto simp: r stamped_def split: option.splits)
  have "keys_ok (put k r (stamp_all now st))" "jobs.all_ok (put k r (stamp_all now st))"
    using st(3) stamp_all_ok [OF now st(4)] ok by (simp_all add: jobs.all_ok_put)
  from registry_write_jobs [OF this] k ok stable r0 r old show ?thesis
    by (auto simp: f' fun_eq_iff map_of_stamp_all job_at_def st(2))
qed

lemma insort_key_cong:
  "(\<And>x. x \<in> set (a # xs) \<Longrightarrow> f x = g x) \<Longrightarrow> insort_key f a xs = insort_key g a xs"
proof (induction xs)
  case (Cons b xs)
  have "insort_key f a xs = insort_key g a xs" by (rule Cons.IH) (use Cons.prems in auto)
  with Cons.prems show ?case by simp
qed simp

lemma sort_key_cong: "(\<And>x. x \<in> set xs \<Longrightarrow> f x = g x) \<Longrightarrow> sort_key f xs = sort_key g xs"
proof (induction xs)
  case (Cons a xs)
  then have "sort_key f xs = sort_key g xs" by simp
  moreover have "insort_key f a (sort_key g xs) = insort_key g a (sort_key g xs)"
    by (rule insort_key_cong) (use Cons.prems in simp)
  ultimately show ?case by simp
qed simp

section \<open>Properties\<close>

lemma upserted_back:
  assumes "registry_good f" and "dt_valid now" and "registry_upsert f now raw = Inr (r, f')"
    and "strip job \<noteq> []"
  shows "registry_get f' later job =
    (if strip job = normalize_text [] (get raw ''job_id'') then Inr (Some r)
     else registry_get f now job)"
proof -
  let ?k = "normalize_text [] (get raw ''job_id'')"
  from upsert_effect [OF assms(1-3)] have good: "registry_good f'" and st: "stamped now r = r"
    and look: "jobs.lookup f' = (\<lambda>k'. if k' = ?k then Some r else job_at f now k')" by blast+
  have "stamped later r = r" using stamped_twice [OF assms(2), of later r] st by simp
  moreover have "map_option (stamped later) (job_at f now k) = job_at f now k" for k
    using assms(2) by (simp add: job_at_def map_option.compositionality comp_def)
  ultimately show ?thesis
    by (simp add: registry_get_job [OF good assms(4)] registry_get_job [OF assms(1,4)]
        job_at_def [of f'] look)
qed

text \<open>The record an upsert returns is the one \<open>get\<close> reads from the file it wrote, at any later
  time, and every other job still has the record it had.\<close>

theorem upserted_record_is_read_back:
  assumes "registry_good f" and "dt_valid now" and "registry_upsert f now raw = Inr (r, f')"
    and "strip job \<noteq> []"
  shows "registry_get f' later job =
    (if strip job = normalize_text [] (get raw ''job_id'') then Inr (Some r)
     else registry_get f now job)"
  using assms by (rule upserted_back)

text \<open>A history of upserts; one that raises has written nothing.\<close>

fun run_upserts :: "(datetime \<times> dict) list \<Rightarrow> py option \<Rightarrow> py option" where
  "run_upserts [] f = f"
| "run_upserts ((now, raw) # us) f =
     run_upserts us (case registry_upsert f now raw of Inl _ \<Rightarrow> f | Inr (_, f') \<Rightarrow> f')"

text \<open>C38. Once a job is registered it stays registered, in one of the seven states and with its
  creation time, whatever records are written for it or for other jobs afterwards.\<close>

theorem registered_job_keeps_its_creation_time:
  assumes "registry_good f" and "jobs.lookup f k = Some r" and "jr_created_at r \<noteq> []"
    and "\<forall>(now, raw) \<in> set us. dt_valid now"
  shows "case jobs.lookup (run_upserts us f) k of
           None \<Rightarrow> False
         | Some r' \<Rightarrow> jr_created_at r' = jr_created_at r \<and> jr_current_state r' \<in> set job_states \<and>
                    jr_job_id r' = k"
  using assms
proof (induction us arbitrary: f r)
  case Nil
  then show ?case by (auto simp: job_ok_def texts_ok_def dest: jobs.lookup_ok)
next
  case (Cons u us)
  obtain now raw where u: "u = (now, raw)" by (metis surj_pair)
  have now: "dt_valid now" using Cons.prems(4) u by simp
  show ?case
  proof (cases "registry_upsert f now raw")
    case (Inl e)
    then show ?thesis using Cons u by simp
  next
    case (Inr x)
    obtain r1 f1 where x: "x = (r1, f1)" by force
    note eff = upsert_effect [OF Cons.prems(1) now Inr [unfolded x]]
    from Cons.prems(2,3) have at: "job_at f now k = Some (stamped now r)"
      "jr_created_at (stamped now r) = jr_created_at r" by (simp_all add: job_at_def stamped_def)
    obtain r2 where r2: "jobs.lookup f1 k = Some r2" "jr_created_at r2 = jr_created_at r"
    proof (cases "k = normalize_text [] (get raw ''job_id'')")
      case True
      with eff at have "jobs.lookup f1 k = Some r1" "jr_created_at r1 = jr_created_at r"
        by (elim conjE exE; simp)+
      from that [OF this] show ?thesis .
    next
      case False
      with eff at have "jobs.lookup f1 k = Some (stamped now r)" by simp
      from that [OF this at(2)] show ?thesis .
    qed
    have "registry_good f1" using eff by blast
    from Cons.IH [OF this r2(1)] r2(2) Cons.prems(3,4) show ?thesis
      by (simp add: u Inr x split: option.splits)
  qed
qed

text \<open>Listing by a known state returns exactly the registered jobs in that state, each once and
  in the order of their ids.\<close>

theorem listing_by_state_is_exact:
  assumes "registry_good f" and "s \<in> set job_states"
  shows "\<exists>rs. registry_list f now (Some s) = Inr rs \<and> sorted (map jr_job_id rs) \<and>
           distinct (map jr_job_id rs) \<and>
           set rs = {r. job_at f now (jr_job_id r) = Some r \<and> jr_current_state r = s}"
proof -
  obtain st where st: "registry_load f now = Inr (stamp_all now st)" "jobs.lookup f = map_of st"
    "keys_ok st" "jobs.all_ok st" using assms(1) by (rule registry_loadE)
  let ?rs = "map snd (stamp_all now st)"
  let ?sel = "filter (\<lambda>r. jr_current_state r = s) ?rs"
  have ok: "(k, r) \<in> set (stamp_all now st) \<Longrightarrow>
      jr_job_id r = k \<and> strip k = k \<and> jr_current_state r \<in> set job_states" for k r
    using st(4) by (auto simp: stamp_all_def jobs.all_ok_def job_ok_def texts_ok_def strip_stripped)
  have ids: "map jr_job_id ?rs = map fst (stamp_all now st)" using ok by (auto simp: comp_def)
  have "strip (jr_job_id r) = jr_job_id r" if r: "r \<in> set ?sel" for r
  proof -
    from r obtain k where "(k, r) \<in> set (stamp_all now st)" by auto
    from ok [OF this] show ?thesis by simp
  qed
  then have key: "sort_key (\<lambda>r. strip (jr_job_id r)) ?sel = sort_key jr_job_id ?sel"
    by (rule sort_key_cong)
  have flt: "filter (\<lambda>r. normalize_state [] (PStr (jr_current_state r)) =
      normalize_state [] (PStr s)) ?rs = ?sel"
    by (rule filter_cong) (use ok assms(2) in auto)
  have "registry_list f now (Some s) = Inr (sort_key jr_job_id ?sel)"
    by (simp add: registry_list_def st(1) Let_def flt key)
  moreover have "distinct (map jr_job_id ?rs)"
    unfolding ids using st(3) keys_stamp_all [of now st] by (simp add: keys_ok_def)
  then have "distinct (map jr_job_id ?sel)" by (rule distinct_map_filter)
  then have "distinct (map jr_job_id (sort_key jr_job_id ?sel))"
    using keys_ok_sort by (simp add: distinct_map)
  moreover have "r \<in> set ?rs \<longleftrightarrow> job_at f now (jr_job_id r) = Some r" for r
  proof
    assume "r \<in> set ?rs"
    then obtain k where k: "(k, r) \<in> set (stamp_all now st)" by auto
    from st(3) have "distinct (map fst (stamp_all now st))"
      unfolding keys_stamp_all [of now st, symmetric] by (simp only: keys_ok_def)
    from map_of_is_SomeI [OF this k] have "map_of (stamp_all now st) k = Some r" .
    with ok [OF k] show "job_at f now (jr_job_id r) = Some r"
      by (simp add: job_at_def st(2) map_of_stamp_all)
  next
    assume "job_at f now (jr_job_id r) = Some r"
    then have "map_of (stamp_all now st) (jr_job_id r) = Some r"
      by (simp add: job_at_def st(2) map_of_stamp_all)
    then show "r \<in> set ?rs" by (force dest: map_of_SomeD)
  qed
  ultimately show ?thesis by auto
qed

lemma upsert_registered:
  assumes "registry_load f now = Inr jobs" and "map_of jobs k = Some old"
    and "jr_created_at old \<noteq> []" and "strip (jr_created_at old) = jr_created_at old"
    and "normalize_text [] (get raw ''job_id'') = k" and "k \<noteq> []" and "read_record raw = Inr r"
    and "stamped now (r\<lparr>jr_created_at := jr_created_at old\<rparr>)\<lparr>jr_job_id := k\<rparr> = r'"
  shows "registry_upsert f now raw = Inr (r', registry_write (put k r' jobs))"
  using assms(2-4,6)
  by (simp add: registry_upsert_def Let_def assms(1,5,7) normalize_record_def
      assms(8) [symmetric])

lemma ensure_existing_base:
  assumes "texts_ok r" and "stripped (jr_job_id r)"
  shows "read_record (put ''updated_at'' (PStr (iso_seconds now))
      (put ''current_state''
        (if truthy (get (put ''repo_or_workspace'' (opt_str (jr_repo_or_workspace r))
             (put ''run_root'' (opt_str (jr_run_root r))
             (put ''artifact_root'' (opt_str (jr_artifact_root r))
             (put ''job_id'' (PStr (jr_job_id r)) (job_dict r))))) ''current_state'')
         then PStr (jr_current_state r) else PStr s)
      (put ''repo_or_workspace'' (opt_str (jr_repo_or_workspace r))
      (put ''run_root'' (opt_str (jr_run_root r))
      (put ''artifact_root'' (opt_str (jr_artifact_root r))
      (put ''job_id'' (PStr (jr_job_id r)) (job_dict r))))))) =
    Inr (r\<lparr>jr_updated_at := strip (iso_seconds now)\<rparr>)"
  using assms by (simp add: read_record_def job_dict_gets texts_ok_def strip_stripped)

text \<open>Ensuring a job that is registered changes nothing but its update time: state, creation
  time, roots and retry fields stay, whatever state the caller proposes.\<close>

theorem ensuring_a_registered_job_only_touches_it:
  assumes "registry_good f" and "dt_valid now" and "job_at f now (strip job) = Some r"
    and "strip job \<noteq> []"
  shows "\<exists>f'. registry_ensure f now job None None None proposed =
           Inr (r\<lparr>jr_updated_at := iso_seconds now\<rparr>, f') \<and>
         registry_get f' later job = Inr (Some (r\<lparr>jr_updated_at := iso_seconds now\<rparr>))"
proof -
  from assms(3) obtain r0 where "jobs.lookup f (strip job) = Some r0" and r: "r = stamped now r0"
    by (auto simp: job_at_def)
  then have ok: "job_ok (strip job) r" using assms(2) by (auto intro: stamped_ok jobs.lookup_ok)
  let ?r = "r\<lparr>jr_updated_at := iso_seconds now\<rparr>"
  let ?b = "put ''updated_at'' (PStr (iso_seconds now))
      (put ''current_state''
        (if truthy (get (put ''repo_or_workspace'' (opt_str (jr_repo_or_workspace r))
             (put ''run_root'' (opt_str (jr_run_root r))
             (put ''artifact_root'' (opt_str (jr_artifact_root r))
             (put ''job_id'' (PStr (jr_job_id r)) (job_dict r))))) ''current_state'')
         then PStr (jr_current_state r) else PStr proposed)
      (put ''repo_or_workspace'' (opt_str (jr_repo_or_workspace r))
      (put ''run_root'' (opt_str (jr_run_root r))
      (put ''artifact_root'' (opt_str (jr_artifact_root r))
      (put ''job_id'' (PStr (jr_job_id r)) (job_dict r))))))"
  have txts: "texts_ok r" "stripped (jr_job_id r)" "jr_job_id r = strip job"
    using ok by (simp_all add: job_ok_def)
  have rd: "read_record ?b = Inr ?r"
    using ensure_existing_base [OF txts(1,2)] assms(2) by simp
  have created: "jr_created_at r \<noteq> []" "strip (jr_created_at r) = jr_created_at r"
    using txts(1) assms(2) by (auto simp: r stamped_def texts_ok_def strip_stripped)
  have id: "get ?b ''job_id'' = PStr (strip job)" using txts(3) by simp
  obtain st where st: "registry_load f now = Inr (stamp_all now st)" "jobs.lookup f = map_of st"
    using assms(1) by (rule registry_loadE) blast
  have old: "map_of (stamp_all now st) (strip job) = Some r"
    using assms(3) by (simp add: job_at_def st(2) map_of_stamp_all)
  have up: "registry_upsert f now ?b =
      Inr (?r, registry_write (put (strip job) ?r (stamp_all now st)))"
    by (rule upsert_registered [OF st(1) old created _ assms(4) rd])
       (use id created assms(2) txts(3) in \<open>simp_all add: stamped_def\<close>)
  have "registry_ensure f now job None None None proposed = registry_upsert f now ?b"
    using assms(1,3,4) txts(3)
    by (simp add: registry_ensure_def registry_get_job or_else_def Let_def job_dict_gets)
  with up upserted_back [OF assms(1,2) up assms(4)] id show ?thesis by simp
qed

definition morning :: datetime where
  "morning = \<lparr>micros = 63800000000000000, offset = None\<rparr>"

lemma morning_valid: "dt_valid morning"
  by code_simp

lemma registered_example:
  obtains r f where "registry_upsert None morning [(''job_id'', PStr ''j1''), (''current_state'', PStr ''Paused'')] = Inr (r, f)"
    and "registry_good f" and "jobs.lookup f ''j1'' = Some r" and "jr_created_at r \<noteq> []"
    and "jr_current_state r = STATE_PAUSED" and "job_at f morning ''j1'' = Some r"
proof -
  let ?raw = "[(''job_id'', PStr ''j1''), (''current_state'', PStr ''Paused'')]"
  have s: "normalize_text [] (get ?raw ''job_id'') = ''j1''" by code_simp
  have "case registry_upsert None morning ?raw of Inl _ \<Rightarrow> False
    | Inr (r, f) \<Rightarrow> jr_created_at r \<noteq> [] \<and> jr_current_state r = STATE_PAUSED" by code_simp
  then obtain r f where u: "registry_upsert None morning ?raw = Inr (r, f)"
    and r: "jr_created_at r \<noteq> []" "jr_current_state r = STATE_PAUSED"
    by (auto split: sum.splits prod.splits)
  note eff = upsert_effect [OF jobs.good_None(1) morning_valid u, unfolded s]
  from eff have "registry_good f" "jobs.lookup f ''j1'' = Some r" "stamped morning r = r" by auto
  then show thesis by (intro that [OF u] r) (simp_all add: job_at_def)
qed

theorem upserted_record_is_read_back_witness:
  "case registry_upsert None morning [(''job_id'', PStr ''j1''), (''current_state'', PStr ''Paused'')] of
     Inl _ \<Rightarrow> False
   | Inr (r, f) \<Rightarrow> registry_get f morning '' j1 '' = Inr (Some r)"
proof (rule registered_example)
  fix r f
  assume u: "registry_upsert None morning [(''job_id'', PStr ''j1''), (''current_state'', PStr ''Paused'')] = Inr (r, f)"
  have s: "strip '' j1 '' = ''j1''" "strip ''j1'' = ''j1''" by code_simp+
  from upserted_record_is_read_back [OF jobs.good_None(1) morning_valid u, of "'' j1 ''" morning]
  show ?thesis by (simp add: u s)
qed

theorem registered_job_keeps_its_creation_time_witness:
  "case registry_upsert None morning [(''job_id'', PStr ''j1''), (''current_state'', PStr ''Paused'')] of
     Inl _ \<Rightarrow> False
   | Inr (r, f) \<Rightarrow>
       (case jobs.lookup (run_upserts [(morning, [(''job_id'', PStr ''j1'')])] f) ''j1'' of
          None \<Rightarrow> False | Some r' \<Rightarrow> jr_created_at r' = jr_created_at r)"
proof (rule registered_example)
  fix r f
  assume u: "registry_upsert None morning [(''job_id'', PStr ''j1''), (''current_state'', PStr ''Paused'')] = Inr (r, f)"
    and f: "registry_good f" "jobs.lookup f ''j1'' = Some r" "jr_created_at r \<noteq> []"
  have "\<forall>(now, raw) \<in> set [(morning, [(''job_id'', PStr ''j1'')])]. dt_valid now"
    using morning_valid by simp
  from registered_job_keeps_its_creation_time [OF f this] show ?thesis
    unfolding u by (simp del: run_upserts.simps split: option.splits)
qed

theorem listing_by_state_is_exact_witness:
  "\<exists>rs. registry_list None morning (Some STATE_PAUSED) = Inr rs \<and> sorted (map jr_job_id rs)"
  using listing_by_state_is_exact [OF jobs.good_None(1), of STATE_PAUSED morning]
  by (auto simp: job_states_def)

theorem ensuring_a_registered_job_only_touches_it_witness:
  "case registry_upsert None morning [(''job_id'', PStr ''j1''), (''current_state'', PStr ''Paused'')] of
     Inl _ \<Rightarrow> False
   | Inr (r, f) \<Rightarrow>
       (case registry_ensure f morning ''j1'' None None None STATE_PENDING of
          Inl _ \<Rightarrow> False | Inr (r', _) \<Rightarrow> jr_current_state r' = STATE_PAUSED)"
proof (rule registered_example)
  fix r f
  assume u: "registry_upsert None morning [(''job_id'', PStr ''j1''), (''current_state'', PStr ''Paused'')] = Inr (r, f)"
    and f: "registry_good f" "jr_current_state r = STATE_PAUSED" "job_at f morning ''j1'' = Some r"
  have s: "strip ''j1'' = ''j1''" by code_simp
  from ensuring_a_registered_job_only_touches_it [OF f(1) morning_valid, of "''j1''" r STATE_PENDING morning]
    f(2,3) show ?thesis unfolding u by (auto simp: s)
qed

end
