(* ===== verification/Job_Scheduler.thy ===== *)
theory Job_Scheduler
  imports Dispatch Job_Lease Job_Registry
begin

text \<open>
  \<open>automation/scheduler/job_scheduler.py\<close>: the scheduler brings the registry in line with the
  artefacts on disk, claims a lease for every job that may run, dispatches it, and records the
  outcome. A directory is one whose entries \<open>wd_dirs\<close> lists; the artefact directories lie outside
  the directory the scheduler writes to.
\<close>

section \<open>The scheduler\<close>

definition required_planning_files :: "string list" where
  "required_planning_files =
     [''project_brief.json'', ''repo_facts.json'', ''roadmap.json'', ''pr_plan.json'']"

definition is_terminal_refusal_reason :: "string \<Rightarrow> bool" where
  "is_terminal_refusal_reason s =
     (contains (lower s) ''terminal refusal'' \<or> contains (lower s) ''terminal_refusal'')"

record scheduler_job =
  sj_job_id :: "string option"
  sj_artifacts_input_dir :: string
  sj_output_dir :: string
  sj_dry_run :: bool
  sj_stop_on_failure :: bool
  sj_max_retry_dispatches :: int
  sj_repository :: "string option"
  sj_head_branch :: "string option"
  sj_base_branch :: "string option"
  sj_category :: "string option"
  sj_write_authority :: py
  sj_policy_snapshot :: py
  sj_pr_number :: "int option"
  sj_expected_head_sha :: "string option"
  sj_rollback_target :: py
  sj_github_read_evidence :: py
  sj_current_state :: "string option"

record scheduler =
  sc_env :: environment
  sc_registry :: "path option"
  sc_leases :: "path option"

definition registry_for :: "scheduler \<Rightarrow> path \<Rightarrow> path" where
  "registry_for s output_root =
     (case sc_registry s of Some p \<Rightarrow> p | None \<Rightarrow> child output_root ''job_registry.json'')"

definition lease_for :: "scheduler \<Rightarrow> path \<Rightarrow> path" where
  "lease_for s output_root =
     (case sc_leases s of Some p \<Rightarrow> p | None \<Rightarrow> child output_root ''job_leases.json'')"

text \<open>The registry's and the lease file's methods on the file at a path.\<close>

definition reg_get :: "path \<Rightarrow> string \<Rightarrow> job_record option run" where
  "reg_get p job =
     run_bind (run_read p) (\<lambda>f. run_bind run_now (\<lambda>now. run_res (registry_get f now job)))"

definition reg_list :: "path \<Rightarrow> job_record list run" where
  "reg_list p =
     run_bind (run_read p) (\<lambda>f. run_bind run_now (\<lambda>now. run_res (registry_list f now None)))"

definition reg_upsert :: "path \<Rightarrow> dict \<Rightarrow> job_record run" where
  "reg_upsert p raw =
     run_bind (run_read p) (\<lambda>f.
     run_bind run_now (\<lambda>now.
     run_bind (run_res (registry_upsert f now raw)) (\<lambda>(r, f').
     run_bind (run_write_opt p f') (\<lambda>_. run_return r))))"

definition claim_lease :: "path \<Rightarrow> string \<Rightarrow> string \<Rightarrow> int \<Rightarrow> bool run" where
  "claim_lease p job holder lease_seconds =
     run_bind (run_read p) (\<lambda>f.
     run_bind (run_clock 3) (\<lambda>clock.
     run_bind (run_res (lease_claim f job holder (PInt lease_seconds) (clock 0) (clock 1) (clock 2)))
       (\<lambda>((granted, l), f').
     run_bind (run_write_opt p f') (\<lambda>_. run_return granted))))"

definition release_lease :: "path \<Rightarrow> string \<Rightarrow> string \<Rightarrow> bool run" where
  "release_lease p job holder =
     run_bind (run_read p) (\<lambda>f.
     run_bind (run_res (lease_release f job (Some holder))) (\<lambda>(released, f').
     run_bind (run_write_opt p f') (\<lambda>_. run_return released)))"

section \<open>The state on disk\<close>

definition state_dict :: "string \<Rightarrow> string option \<Rightarrow> bool \<Rightarrow> string option \<Rightarrow> dict" where
  "state_dict state eligible human terminal =
     [(''current_state'', PStr state), (''next_eligible_at'', opt_str eligible),
      (''whether_human_required'', PBool human), (''terminal_status'', opt_str terminal)]"

text \<open>What the last record of the audit log says about the job, if it says anything.\<close>

definition audited_state :: "py option \<Rightarrow> string option \<Rightarrow> dict option" where
  "audited_state audit next_eligible_at =
     (case get (case audit of None \<Rightarrow> [] | Some v \<Rightarrow> mapping_or_empty v) ''records'' of
        PList (v # vs) \<Rightarrow>
          (let latest = mapping_or_empty (last (v # vs));
               outcome = normalize_text [] (get latest ''outcome_status'');
               reason = normalize_text [] (get latest ''routing_reason'');
               human = as_bool (get latest ''whether_human_required'')
           in if outcome = ''executed'' then Some (state_dict STATE_COMPLETED None human None)
              else if outcome = ''escalated'' then
                (if is_terminal_refusal_reason reason
                 then Some (state_dict STATE_FAILED_TERMINAL None True (Some reason))
                 else Some (state_dict STATE_ESCALATED None True None))
              else if outcome = ''paused'' then
                Some (state_dict STATE_PAUSED
                  (case text_or_none (get latest ''next_eligible_at'') of
                     Some t \<Rightarrow> Some t | None \<Rightarrow> next_eligible_at) human None)
              else None)
      | _ \<Rightarrow> None)"

text \<open>A retry whose time has come is runnable.\<close>

definition due_state :: "string \<Rightarrow> string option \<Rightarrow> (string \<times> string option) run" where
  "due_state state eligible =
     (if state \<noteq> STATE_RETRY_SCHEDULED then run_return (state, eligible)
      else case parse_iso_datetime (opt_str eligible) of
             None \<Rightarrow> run_return (STATE_RUNNABLE, None)
           | Some t \<Rightarrow>
               run_bind run_now (\<lambda>now.
               run_bind (run_res (dt_ge now t)) (\<lambda>due.
               run_return (if due then (STATE_RUNNABLE, None) else (STATE_RETRY_SCHEDULED, eligible)))))"

definition derive_authoritative_state :: "dict \<Rightarrow> path \<Rightarrow> dict run" where
  "derive_authoritative_state record run_root =
     run_bind (load_pause run_root) (\<lambda>pause.
     if is_pause_active (opt_dict pause) then
       let p = mapping_or_empty (opt_dict pause)
       in run_bind run_now (\<lambda>now.
          run_bind (run_res (is_pause_resume_eligible (opt_dict pause) now)) (\<lambda>eligible.
          run_return (state_dict (if eligible then STATE_RUNNABLE else STATE_PAUSED)
            (text_or_none (get p ''next_eligible_at'')) (as_bool (get p ''whether_human_required'')) None)))
     else
       let state = lower (normalize_text STATE_PENDING (get record ''current_state''));
           eligible = text_or_none (get record ''next_eligible_at'');
           retry_class = text_or_none (get record ''retry_class'');
           human = as_bool (get record ''whether_human_required'');
           terminal = text_or_none (get record ''terminal_status'')
       in run_bind (run_res (as_optional_int (get record ''retry_budget_remaining''))) (\<lambda>budget.
          run_bind (run_read (child run_root ''run_audit.json'')) (\<lambda>audit.
          case audited_state audit eligible of
            Some d \<Rightarrow> run_return d
          | None \<Rightarrow>
              run_bind (due_state state eligible) (\<lambda>(state', eligible').
              if state' \<in> {STATE_COMPLETED, STATE_FAILED_TERMINAL, STATE_ESCALATED}
              then run_return (state_dict state' None human terminal)
              else
                run_bind (run_exists (child run_root ''manifest.json'')) (\<lambda>manifest.
                let state'' = (if state' = STATE_RETRY_SCHEDULED then state'
                               else if manifest then STATE_RUNNABLE else STATE_PENDING)
                in run_return
                     (state_dict state'' eligible' human terminal @
                      [(''retry_class'', opt_str retry_class),
                       (''retry_budget_remaining'', opt_int budget)]))))))"

section \<open>The registry brought in line\<close>

text \<open>The artefact directories that are complete, by name.\<close>

definition planned_children :: "path \<Rightarrow> string list run" where
  "planned_children artifacts w =
     (Inr (case wd_dirs w artifacts of
             None \<Rightarrow> []
           | Some names \<Rightarrow>
               filter (\<lambda>n. wd_dirs w (child artifacts n) \<noteq> None \<and>
                   list_all (\<lambda>f. exists_path (wd_files w) (child (child artifacts n) f))
                     required_planning_files \<and>
                   strip n \<noteq> []) (sort names)), w)"

definition object_or_empty :: "path \<Rightarrow> dict run" where
  "object_or_empty p =
     run_bind (run_read p) (\<lambda>f.
       run_return (case f of None \<Rightarrow> [] | Some v \<Rightarrow> mapping_or_empty v))"

definition sync_child :: "scheduler \<Rightarrow> path \<Rightarrow> path \<Rightarrow> string \<Rightarrow> job_record run" where
  "sync_child s artifacts output_root name =
     (let registry = registry_for s output_root;
          job_id = strip name;
          run_root = path_join output_root job_id;
          source = child artifacts name
      in run_bind (reg_get registry job_id) (\<lambda>found.
         let existing = (case found of None \<Rightarrow> [] | Some r \<Rightarrow> job_dict r)
         in run_bind (derive_authoritative_state existing run_root) (\<lambda>state.
            run_bind
              (case text_or_none (get existing ''repo_or_workspace'') of
                 Some repo \<Rightarrow> run_return (Some repo)
               | None \<Rightarrow> run_bind (object_or_empty (child source ''repo_facts.json''))
                   (\<lambda>facts. run_return (text_or_none (get facts ''repo'')))) (\<lambda>repo.
            run_bind run_now (\<lambda>now.
            let updated = put_all
                  [(''job_id'', PStr job_id), (''artifact_root'', PStr (path_str source)),
                   (''run_root'', PStr (path_str run_root)), (''repo_or_workspace'', opt_str repo),
                   (''current_state'', get_or state ''current_state'' (PStr STATE_PENDING)),
                   (''next_eligible_at'', get state ''next_eligible_at''),
                   (''retry_class'', get_or state ''retry_class'' (get existing ''retry_class'')),
                   (''retry_budget_remaining'', get_or state ''retry_budget_remaining''
                      (get existing ''retry_budget_remaining'')),
                   (''whether_human_required'', get_or state ''whether_human_required''
                      (get_or existing ''whether_human_required'' (PBool False))),
                   (''terminal_status'', get state ''terminal_status''),
                   (''updated_at'', PStr (iso_seconds now))] existing
            in if normalize_text [] (get updated ''created_at'') = []
               then run_bind run_now (\<lambda>created.
                      reg_upsert registry (put ''created_at'' (PStr (iso_seconds created)) updated))
               else reg_upsert registry updated)))))"

fun sync_children :: "scheduler \<Rightarrow> path \<Rightarrow> path \<Rightarrow> string list \<Rightarrow> unit run" where
  "sync_children s artifacts output_root [] = run_return ()"
| "sync_children s artifacts output_root (n # ns) =
     run_bind (sync_child s artifacts output_root n) (\<lambda>_. sync_children s artifacts output_root ns)"

definition sync_registry_from_artifacts :: "scheduler \<Rightarrow> path \<Rightarrow> path \<Rightarrow> job_record list run" where
  "sync_registry_from_artifacts s artifacts output_root =
     run_bind (planned_children artifacts) (\<lambda>names.
     run_bind (sync_children s artifacts output_root names) (\<lambda>_.
     reg_list (registry_for s output_root)))"

section \<open>Pending jobs\<close>

record job_settings =
  js_dry_run :: bool
  js_stop_on_failure :: bool
  js_max_retry_dispatches :: int
  js_write_authority :: py
  js_policy_snapshot :: py

definition job_of ::
    "job_settings \<Rightarrow> string \<Rightarrow> string \<Rightarrow> path \<Rightarrow> string \<Rightarrow> scheduler_job" where
  "job_of cfg job_id artifacts output_root state =
     \<lparr>sj_job_id = Some job_id, sj_artifacts_input_dir = artifacts,
      sj_output_dir = path_str output_root, sj_dry_run = js_dry_run cfg,
      sj_stop_on_failure = js_stop_on_failure cfg,
      sj_max_retry_dispatches = js_max_retry_dispatches cfg, sj_repository = None,
      sj_head_branch = None, sj_base_branch = None, sj_category = None,
      sj_write_authority = js_write_authority cfg, sj_policy_snapshot = js_policy_snapshot cfg,
      sj_pr_number = None, sj_expected_head_sha = None, sj_rollback_target = PNone,
      sj_github_read_evidence = PNone, sj_current_state = Some state\<rparr>"

text \<open>Whether a complete artefact directory is still to be run.\<close>

definition is_pending :: "path \<Rightarrow> bool run" where
  "is_pending run_root =
     run_bind (load_pause run_root) (\<lambda>pause.
     let active = is_pause_active (opt_dict pause)
     in run_bind
          (if active then run_bind run_now (\<lambda>now. run_res (is_pause_resume_eligible (opt_dict pause) now))
           else run_return False) (\<lambda>eligible.
        run_bind (run_exists (child run_root ''manifest.json'')) (\<lambda>manifest.
        run_return (\<not> (manifest \<and> \<not> eligible) \<and> \<not> (active \<and> \<not> eligible)))))"

fun discover_children ::
    "job_settings \<Rightarrow> path \<Rightarrow> path \<Rightarrow> string list \<Rightarrow> scheduler_job list run" where
  "discover_children cfg artifacts output_root [] = run_return []"
| "discover_children cfg artifacts output_root (n # ns) =
     run_bind (is_pending (path_join output_root (strip n))) (\<lambda>pending.
     run_bind (discover_children cfg artifacts output_root ns) (\<lambda>jobs.
     run_return
       (if pending
        then job_of cfg (strip n) (path_str (child artifacts n)) output_root STATE_PENDING # jobs
        else jobs)))"

definition discover_pending_jobs :: "job_settings \<Rightarrow> path \<Rightarrow> path \<Rightarrow> scheduler_job list run" where
  "discover_pending_jobs cfg artifacts output_root =
     run_bind (planned_children artifacts) (discover_children cfg artifacts output_root)"

section \<open>Dispatching\<close>

definition request_of_job :: "scheduler_job \<Rightarrow> dispatch_request" where
  "request_of_job j =
     \<lparr>dq_artifacts_input_dir = sj_artifacts_input_dir j, dq_output_dir = sj_output_dir j,
      dq_job_id = sj_job_id j, dq_dry_run = sj_dry_run j, dq_stop_on_failure = sj_stop_on_failure j,
      dq_max_retry_dispatches = sj_max_retry_dispatches j, dq_repository = sj_repository j,
      dq_head_branch = sj_head_branch j, dq_base_branch = sj_base_branch j,
      dq_category = sj_category j, dq_write_authority = sj_write_authority j,
      dq_policy_snapshot = sj_policy_snapshot j, dq_pr_number = sj_pr_number j,
      dq_pr_update = PNone, dq_expected_head_sha = sj_expected_head_sha j,
      dq_rollback_target = sj_rollback_target j,
      dq_github_read_evidence = sj_github_read_evidence j\<rparr>"

fun run_cycle :: "scheduler \<Rightarrow> scheduler_job list \<Rightarrow> dict list run" where
  "run_cycle s [] = run_return []"
| "run_cycle s (j # js) =
     run_bind (dispatch_once (sc_env s) (request_of_job j)) (\<lambda>r.
     run_bind (run_cycle s js) (\<lambda>rs. run_return (r # rs)))"

definition scheduler_job_from_record :: "job_settings \<Rightarrow> path \<Rightarrow> dict \<Rightarrow> scheduler_job option" where
  "scheduler_job_from_record cfg output_root record =
     (let job_id = normalize_text [] (get record ''job_id'');
          artifact_root = normalize_text [] (get record ''artifact_root'')
      in if job_id = [] \<or> artifact_root = [] then None
         else Some (job_of cfg job_id artifact_root output_root
           (normalize_text STATE_PENDING (get record ''current_state''))))"

definition or_value :: "string option \<Rightarrow> py \<Rightarrow> py" where
  "or_value v w = (case v of Some s \<Rightarrow> PStr s | None \<Rightarrow> w)"

definition dispatch_status_of :: "dict \<Rightarrow> string" where
  "dispatch_status_of result = normalize_text [] (get result ''dispatch_status'')"

definition audit_of :: "dict \<Rightarrow> dict" where
  "audit_of result = mapping_or_empty (get result ''audit'')"

definition reason_of :: "dict \<Rightarrow> string" where
  "reason_of result = normalize_text [] (get (audit_of result) ''routing_reason'')"

text \<open>The entries that record the outcome, the last assignment of a key deciding.\<close>

definition outcome_entries :: "string \<Rightarrow> string \<Rightarrow> dict option \<Rightarrow> dict" where
  "outcome_entries status reason pause =
     (let p = mapping_or_empty (opt_dict pause) in
      if status = ''executed'' then
        [(''current_state'', PStr STATE_COMPLETED), (''terminal_status'', PNone),
         (''next_eligible_at'', PNone)]
      else if status = ''paused'' then
        [(''current_state'', PStr STATE_PAUSED),
         (''next_eligible_at'', opt_str (text_or_none (get p ''next_eligible_at''))),
         (''whether_human_required'', PBool (as_bool (get p ''whether_human_required''))),
         (''terminal_status'', PNone)]
      else if status = ''escalated'' then
        (if is_terminal_refusal_reason reason
         then [(''current_state'', PStr STATE_FAILED_TERMINAL), (''terminal_status'', PStr reason)]
         else [(''current_state'', PStr STATE_ESCALATED), (''terminal_status'', PNone)]) @
        [(''next_eligible_at'', PNone)]
      else
        [(''current_state'', PStr STATE_ESCALATED),
         (''terminal_status'', PStr ''unknown_dispatch_status''), (''next_eligible_at'', PNone)])"

definition update_registry_from_dispatch_result ::
    "path \<Rightarrow> dict \<Rightarrow> dict \<Rightarrow> job_record run" where
  "update_registry_from_dispatch_result registry record result =
     (let job_id = normalize_text [] (get record ''job_id'');
          run_root = normalize_text [] (get record ''run_root'');
          status = dispatch_status_of result;
          audit = audit_of result
      in run_bind run_now (\<lambda>now.
         run_bind (run_res (if get audit ''retry_budget_remaining'' \<noteq> PNone
             then res_bind (as_optional_int (get audit ''retry_budget_remaining''))
                    (\<lambda>b. Inr (opt_int b))
             else Inr (get record ''retry_budget_remaining''))) (\<lambda>budget.
         run_bind (if status = ''paused'' \<and> run_root \<noteq> [] then load_pause (path_of run_root)
                   else run_return None) (\<lambda>pause.
         reg_upsert registry (put_all
           ([(''job_id'', PStr job_id), (''updated_at'', PStr (iso_seconds now)),
             (''retry_class'', or_value (text_or_none (get audit ''retry_class''))
                (get record ''retry_class'')),
             (''retry_budget_remaining'', budget),
             (''whether_human_required'', PBool (as_bool (get audit ''whether_human_required'')))] @
            outcome_entries status (reason_of result) pause) record)))))"

section \<open>A cycle over the registry\<close>

record counters =
  ct_claimed :: nat
  ct_skipped_paused :: nat
  ct_skipped_leased :: nat
  ct_skipped_retry :: nat
  ct_run :: nat
  ct_resumed :: nat
  ct_paused :: nat
  ct_escalated :: nat
  ct_completed :: nat
  ct_failed :: nat
  ct_processed :: nat

definition no_jobs :: counters where
  "no_jobs = \<lparr>ct_claimed = 0, ct_skipped_paused = 0, ct_skipped_leased = 0, ct_skipped_retry = 0,
     ct_run = 0, ct_resumed = 0, ct_paused = 0, ct_escalated = 0, ct_completed = 0, ct_failed = 0,
     ct_processed = 0\<rparr>"

record cycle_settings = job_settings +
  cs_holder :: string
  cs_lease_seconds :: int
  cs_max_jobs :: "int option"

datatype gate = Skip counters | Stop | Claim_it

text \<open>Whether a job may run now: the checks before its lease is claimed.\<close>

definition job_gate :: "cycle_settings \<Rightarrow> counters \<Rightarrow> dict \<Rightarrow> gate run" where
  "job_gate cfg ct record =
     (let state = lower (normalize_text STATE_PENDING (get record ''current_state''));
          limit = (\<lambda>st. if st \<notin> {STATE_PENDING, STATE_RUNNABLE} then Skip ct
                   else case cs_max_jobs cfg of
                     Some m \<Rightarrow> if 0 < m \<and> m \<le> int (ct_processed ct) then Stop else Claim_it
                   | None \<Rightarrow> Claim_it)
      in if normalize_text [] (get record ''job_id'') = [] then run_return (Skip ct)
         else if state \<in> {STATE_COMPLETED, STATE_ESCALATED, STATE_FAILED_TERMINAL}
         then run_return (Skip ct)
         else if state = STATE_PAUSED
         then run_return (Skip (ct\<lparr>ct_skipped_paused := Suc (ct_skipped_paused ct)\<rparr>))
         else if state = STATE_RETRY_SCHEDULED then
           (case parse_iso_datetime (get record ''next_eligible_at'') of
              None \<Rightarrow> run_return (limit STATE_RUNNABLE)
            | Some t \<Rightarrow>
                run_bind run_now (\<lambda>now.
                run_bind (run_res (dt_less now t)) (\<lambda>early.
                run_return (if early
                  then Skip (ct\<lparr>ct_skipped_retry := Suc (ct_skipped_retry ct)\<rparr>)
                  else limit STATE_RUNNABLE))))
         else run_return (limit state))"

definition count_outcome :: "dict \<Rightarrow> counters \<Rightarrow> counters" where
  "count_outcome result ct =
     (let status = dispatch_status_of result in
      if status = ''paused'' then ct\<lparr>ct_paused := Suc (ct_paused ct)\<rparr>
      else if status = ''executed'' then ct\<lparr>ct_completed := Suc (ct_completed ct)\<rparr>
      else if status = ''escalated'' then
        (if is_terminal_refusal_reason (reason_of result)
         then ct\<lparr>ct_failed := Suc (ct_failed ct)\<rparr>
         else ct\<lparr>ct_escalated := Suc (ct_escalated ct)\<rparr>)
      else ct)"

text \<open>What is done for a job while its lease is held.\<close>

definition process_job ::
    "scheduler \<Rightarrow> cycle_settings \<Rightarrow> path \<Rightarrow> dict \<Rightarrow> counters \<Rightarrow> counters run" where
  "process_job s cfg output_root record ct =
     (case scheduler_job_from_record (job_settings.truncate cfg) output_root record of
        None \<Rightarrow>
          run_bind (reg_upsert (registry_for s output_root)
              (put_all [(''current_state'', PStr STATE_FAILED_TERMINAL),
                 (''terminal_status'', PStr ''invalid_registry_record'')] record)) (\<lambda>_.
          run_return (ct\<lparr>ct_failed := Suc (ct_failed ct)\<rparr>))
      | Some j \<Rightarrow>
          run_bind (run_cycle s [j]) (\<lambda>results.
          let result = hd results;
              ct1 = count_outcome result
                (ct\<lparr>ct_run := Suc (ct_run ct), ct_processed := Suc (ct_processed ct)\<rparr>);
              before = normalize_text STATE_PENDING (get record ''current_state'')
          in run_bind (update_registry_from_dispatch_result (registry_for s output_root) record result)
               (\<lambda>updated.
             let after = normalize_text STATE_PENDING (PStr (jr_current_state updated))
             in run_return
                  (if before = STATE_PAUSED \<and>
                      after \<in> {STATE_RUNNABLE, STATE_COMPLETED, STATE_ESCALATED, STATE_FAILED_TERMINAL}
                   then ct1\<lparr>ct_resumed := Suc (ct_resumed ct1)\<rparr> else ct1))))"

fun cycle_jobs ::
    "scheduler \<Rightarrow> cycle_settings \<Rightarrow> path \<Rightarrow> job_record list \<Rightarrow> counters \<Rightarrow> counters run" where
  "cycle_jobs s cfg output_root [] ct = run_return ct"
| "cycle_jobs s cfg output_root (r # rs) ct =
     run_bind (job_gate cfg ct (job_dict r)) (\<lambda>g.
     case g of
       Stop \<Rightarrow> run_return ct
     | Skip ct' \<Rightarrow> cycle_jobs s cfg output_root rs ct'
     | Claim_it \<Rightarrow>
         (let job_id = normalize_text [] (PStr (jr_job_id r));
              leases = lease_for s output_root
          in run_bind (claim_lease leases job_id (cs_holder cfg) (cs_lease_seconds cfg)) (\<lambda>claimed.
             if \<not> claimed
             then cycle_jobs s cfg output_root rs (ct\<lparr>ct_skipped_leased := Suc (ct_skipped_leased ct)\<rparr>)
             else
               run_bind
                 (run_finally
                   (process_job s cfg output_root (job_dict r) (ct\<lparr>ct_claimed := Suc (ct_claimed ct)\<rparr>))
                   (release_lease leases job_id (cs_holder cfg))) (\<lambda>ct'.
               cycle_jobs s cfg output_root rs ct'))))"

definition run_registry_cycle ::
    "scheduler \<Rightarrow> cycle_settings \<Rightarrow> path \<Rightarrow> path \<Rightarrow> (nat \<times> counters) run" where
  "run_registry_cycle s cfg artifacts output_root =
     run_bind (sync_registry_from_artifacts s artifacts output_root) (\<lambda>records.
     run_bind (cycle_jobs s cfg output_root records no_jobs) (\<lambda>ct.
     run_return (length records, ct)))"

text \<open>Several cycles: their summaries and the sums of their counters.\<close>

definition add_counters :: "counters \<Rightarrow> counters \<Rightarrow> counters" where
  "add_counters a b =
     \<lparr>ct_claimed = ct_claimed a + ct_claimed b,
      ct_skipped_paused = ct_skipped_paused a + ct_skipped_paused b,
      ct_skipped_leased = ct_skipped_leased a + ct_skipped_leased b,
      ct_skipped_retry = ct_skipped_retry a + ct_skipped_retry b,
      ct_run = ct_run a + ct_run b, ct_resumed = ct_resumed a + ct_resumed b,
      ct_paused = ct_paused a + ct_paused b, ct_escalated = ct_escalated a + ct_escalated b,
      ct_completed = ct_completed a + ct_completed b, ct_failed = ct_failed a + ct_failed b,
      ct_processed = ct_processed a + ct_processed b\<rparr>"

fun repeat_cycles ::
    "scheduler \<Rightarrow> cycle_settings \<Rightarrow> path \<Rightarrow> path \<Rightarrow> nat \<Rightarrow> (nat \<times> counters) list run" where
  "repeat_cycles s cfg artifacts output_root 0 = run_return []"
| "repeat_cycles s cfg artifacts output_root (Suc n) =
     run_bind (run_registry_cycle s cfg artifacts output_root) (\<lambda>summary.
     run_bind (repeat_cycles s cfg artifacts output_root n) (\<lambda>summaries.
     run_return (summary # summaries)))"

definition run_registry_cycles ::
    "scheduler \<Rightarrow> cycle_settings \<Rightarrow> path \<Rightarrow> path \<Rightarrow> int \<Rightarrow>
       (nat \<times> nat \<times> counters \<times> (nat \<times> counters) list) run" where
  "run_registry_cycles s cfg artifacts output_root max_cycles =
     run_bind (repeat_cycles s cfg artifacts output_root (nat (max 1 max_cycles))) (\<lambda>summaries.
     run_return (length summaries, sum_list (map fst summaries),
       foldl add_counters no_jobs (map snd summaries), summaries))"

end
