(* ===== verification/Scheduling.thy ===== *)
theory Scheduling
  imports Job_Scheduler
begin

text \<open>
  What the scheduler guarantees: no lease survives the job it was claimed for, a cycle's summary
  adds up and respects its limit, and an executed job is not run again.
\<close>

section \<open>What a dispatch leaves alone\<close>

text \<open>Files that are neither an audit log nor a pause file.\<close>

definition outside_runs :: "path set \<Rightarrow> bool" where
  "outside_runs ps =
     (\<forall>root. child root ''run_audit.json'' \<notin> ps \<and> child root ''pause_state.json'' \<notin> ps)"

lemma outside_runsD:
  "outside_runs ps \<Longrightarrow> child root ''run_audit.json'' \<notin> ps"
  "outside_runs ps \<Longrightarrow> pause_path root \<notin> ps"
  by (simp_all add: outside_runs_def pause_path_def)

definition env_keeps :: "path set \<Rightarrow> environment \<Rightarrow> bool" where
  "env_keeps ps env =
     (\<forall>q root. keeps (same_files ps) (en_runner env q) \<and> keeps (same_files ps) (en_executor env q root))"

locale quiet_files =
  fixes ps :: "path set"
  assumes ps: "outside_runs ps"
begin

lemma append_audit_keeps: "keeps (same_files ps) (append_audit root raw)"
  unfolding append_audit_def
  by (intro same_files_rules same_files_write outside_runsD(1) [OF ps])

lemma conclude_keeps: "keeps (same_files ps) (conclude root job ms st a extra)"
  unfolding conclude_def record_audit_def by (intro same_files_rules append_audit_keeps)

lemma escalate_keeps: "keeps (same_files ps) (escalate rn routed reason)"
  unfolding escalate_def by (rule conclude_keeps)

lemma load_pause_keeps: "keeps (same_files ps) (load_pause root)"
  unfolding load_pause_def by (intro same_files_rules)

lemma pause_run_keeps: "keeps (same_files ps) (pause_run q rn c why)"
  unfolding pause_run_def
  by (intro same_files_rules same_files_write_opt outside_runsD(2) [OF ps] conclude_keeps load_pause_keeps)

lemma existing_pause_keeps: "keeps (same_files ps) (handle_existing_pause_if_any root job)"
  unfolding handle_existing_pause_if_any_def resume_pause_def record_audit_def
  by (intro same_files_rules same_files_write_opt outside_runsD(2) [OF ps] conclude_keeps
      load_pause_keeps append_audit_keeps)

lemma finish_keeps: "keeps (same_files ps) m \<Longrightarrow> keeps (same_files ps) (finish m)"
  unfolding finish_def by (intro same_files_rules)

lemma retry_branch_keeps: "keeps (same_files ps) (retry_branch env q n rn cache)"
  unfolding retry_branch_def record_audit_def
  by (intro same_files_rules finish_keeps pause_run_keeps escalate_keeps load_pause_keeps append_audit_keeps)

lemma executor_branch_keeps:
  "env_keeps ps env \<Longrightarrow> keeps (same_files ps) (executor_branch env q rn)"
  unfolding executor_branch_def env_keeps_def
  by (intro same_files_rules conclude_keeps escalate_keeps) blast

lemma routed_round_keeps:
  "env_keeps ps env \<Longrightarrow> keeps (same_files ps) (routed_round env q n rn cls cache)"
  unfolding routed_round_def short_circuit_def
  by (intro same_files_rules finish_keeps conclude_keeps pause_run_keeps retry_branch_keeps
      escalate_keeps executor_branch_keeps)

lemma decided_round_keeps:
  "env_keeps ps env \<Longrightarrow> keeps (same_files ps) (decided_round env q n rn cache)"
  unfolding decided_round_def by (intro same_files_rules finish_keeps escalate_keeps routed_round_keeps)

lemma dispatch_round_keeps:
  assumes "env_keeps ps env"
  shows "keeps (same_files ps) (dispatch_round env q n ms cache)"
proof -
  have "keeps (same_files ps) (en_runner env q)" using assms by (simp add: env_keeps_def)
  moreover have "keeps (same_files ps) (persisted_retry_context root job)" for root job
    unfolding persisted_retry_context_def by (intro same_files_rules)
  moreover have "keeps (same_files ps) (run_decision_artifacts root)" for root
    unfolding run_decision_artifacts_def by (intro same_files_rules)
  ultimately show ?thesis
    unfolding dispatch_round_def
    by (intro same_files_rules finish_keeps conclude_keeps decided_round_keeps assms)
qed

lemma dispatch_loop_keeps:
  "env_keeps ps env \<Longrightarrow> dispatch_loop env q n ms cache w = (r, w') \<Longrightarrow> same_files ps w w'"
proof (induction env q n ms cache w rule: dispatch_loop.induct)
  case (1 env q n ms cache w)
  obtain s w1 where d: "dispatch_round env q n ms cache w = (s, w1)" by force
  note first = keepsD [OF dispatch_round_keeps [OF 1(2)] d]
  show ?case
  proof (cases s)
    case (Inl e)
    with 1(3) d first show ?thesis by (simp add: dispatch_loop.simps)
  next
    case (Inr t)
    show ?thesis
    proof (cases t)
      case (Finished r')
      with 1(3) d Inr first show ?thesis by (simp add: dispatch_loop.simps)
    next
      case (Again ms' c)
      have "same_files ps w1 w'"
        by (rule 1(1) [OF d [symmetric, unfolded Inr Again] refl refl 1(2)])
           (use 1(3) d Inr Again in \<open>simp add: dispatch_loop.simps\<close>)
      with first show ?thesis by (rule same_files.trans)
    qed
  qed
qed

lemma dispatch_once_keeps: "env_keeps ps env \<Longrightarrow> keeps (same_files ps) (dispatch_once env q)"
  unfolding dispatch_once_def
  by (intro same_files_rules existing_pause_keeps) (rule keepsI, rule dispatch_loop_keeps)

lemma run_cycle_keeps: "env_keeps ps (sc_env s) \<Longrightarrow> keeps (same_files ps) (run_cycle s js)"
proof (induction js)
  case Nil
  show ?case unfolding run_cycle.simps by (intro same_files_rules)
next
  case (Cons j js)
  then show ?case unfolding run_cycle.simps by (intro same_files_rules dispatch_once_keeps) simp_all
qed

lemma reg_upsert_keeps: "p \<notin> ps \<Longrightarrow> keeps (same_files ps) (reg_upsert p raw)"
  unfolding reg_upsert_def by (intro same_files_rules same_files_write_opt)

lemma update_registry_keeps:
  "p \<notin> ps \<Longrightarrow> keeps (same_files ps) (update_registry_from_dispatch_result p record result)"
  unfolding update_registry_from_dispatch_result_def
  by (intro same_files_rules reg_upsert_keeps load_pause_keeps)

lemma process_job_keeps:
  "env_keeps ps (sc_env s) \<Longrightarrow> registry_for s out \<notin> ps \<Longrightarrow>
     keeps (same_files ps) (process_job s cfg out record ct)"
  unfolding process_job_def
  by (intro same_files_rules reg_upsert_keeps update_registry_keeps run_cycle_keeps)

end

interpretation lease_file: quiet_files "{child out ''job_leases.json''}" for out
  by unfold_locales (simp add: outside_runs_def)

section \<open>Leases\<close>

text \<open>A lease file that can be read and holds no lease of this holder.\<close>

definition no_lease_of :: "string \<Rightarrow> path \<Rightarrow> world \<Rightarrow> bool" where
  "no_lease_of holder p w =
     ((\<forall>i. dt_valid (wd_clock w i)) \<and>
      (\<exists>f. read_file (wd_files w) p = Inr f \<and> lease_good f \<and>
         (\<forall>k l. lease_of f k = Some l \<longrightarrow> ls_holder l \<noteq> strip holder)))"

text \<open>The same after one claim.\<close>

definition one_lease_of :: "string \<Rightarrow> path \<Rightarrow> string \<Rightarrow> world \<Rightarrow> bool" where
  "one_lease_of holder p job w =
     ((\<forall>i. dt_valid (wd_clock w i)) \<and>
      (\<exists>f l. read_file (wd_files w) p = Inr (leases.store f job l) \<and> lease_good f \<and>
         lease_ok job l \<and> ls_holder l = strip holder \<and>
         (\<forall>k l. lease_of f k = Some l \<longrightarrow> ls_holder l \<noteq> strip holder)))"

lemma same_files_leases:
  assumes "same_files {p} w w'"
  shows "no_lease_of h p w \<Longrightarrow> no_lease_of h p w'" "one_lease_of h p j w \<Longrightarrow> one_lease_of h p j w'"
proof -
  have "wd_clock w' = wd_clock w" and "read_file (wd_files w') p = read_file (wd_files w) p"
    using assms by (simp_all add: same_files_def read_file_def exists_path_def read_json_def)
  then show "no_lease_of h p w \<Longrightarrow> no_lease_of h p w'" "one_lease_of h p j w \<Longrightarrow> one_lease_of h p j w'"
    by (simp_all add: no_lease_of_def one_lease_of_def)
qed

lemma store_written: "lease_good f \<Longrightarrow> \<exists>v. leases.store f k l = Some v"
  by (auto simp: leases.good_def leases.store_def)

lemma claim_result:
  assumes "no_lease_of h p w" and "claim_lease p job h n w = (r, w')"
  shows "if r = Inr True then one_lease_of h p (strip job) w' else no_lease_of h p w'"
proof -
  from assms(1) obtain f where f: "read_file (wd_files w) p = Inr f" "lease_good f"
    and idle: "\<And>k l. lease_of f k = Some l \<Longrightarrow> ls_holder l \<noteq> strip h"
    and clock: "\<And>i. dt_valid (wd_clock w i)" by (auto simp: no_lease_of_def)
  let ?c = "\<lambda>i. wd_clock w (wd_ticks w + i)"
  let ?w = "w\<lparr>wd_ticks := wd_ticks w + 3\<rparr>"
  let ?claim = "lease_claim f job h (PInt n) (?c 0) (?c 1) (?c 2)"
  have run: "claim_lease p job h n w =
      run_bind (run_res ?claim) (\<lambda>((granted, l), f'). run_bind (run_write_opt p f') (\<lambda>_. run_return granted)) ?w"
    by (simp add: claim_lease_def run_bind_def run_read_def run_clock_def f(1))
  show ?thesis
  proof (cases ?claim)
    case (Inl e)
    with assms(2) run have "r = Inl e" "w' = ?w" by (simp_all add: run_bind_def run_res_def)
    with f idle clock show ?thesis by (auto simp: no_lease_of_def)
  next
    case (Inr x)
    obtain granted l f' where x: "x = ((granted, l), f')" by (metis surj_pair)
    note eff = claim_effect [OF f(2) clock clock Inr [unfolded x]]
    from assms(2) run Inr x have r: "run_bind (run_write_opt p f') (\<lambda>_. run_return granted) ?w = (r, w')"
      by (simp add: run_bind_def run_res_def)
    show ?thesis
    proof (cases granted)
      case True
      with eff have f': "f' = leases.store f (strip job) l" and l: "lease_ok (strip job) l" "ls_holder l = strip h"
        by auto
      from store_written [OF f(2)] obtain v where v: "f' = Some v" unfolding f' by blast
      from r v True have "r = Inr True" and w': "w' = ?w\<lparr>wd_files := (wd_files w)(p \<mapsto> JsonText v)\<rparr>"
        by (simp_all add: run_bind_def run_write_def run_return_def)
      have "read_file (wd_files w') p = Inr (leases.store f (strip job) l)"
        using v f' by (simp add: w')
      with l f idle clock \<open>r = Inr True\<close> show ?thesis unfolding one_lease_of_def by (auto simp: w')
    next
      case False
      with eff have f': "f' = f" by simp
      from r False have "r = Inr False" by (cases f') (simp_all add: run_bind_def run_write_def run_return_def)
      moreover have "read_file (wd_files w') p = Inr f" "wd_clock w' = wd_clock w"
        using r f f' by (cases f; auto simp: run_bind_def run_write_def run_return_def)+
      ultimately show ?thesis using f idle clock unfolding no_lease_of_def by auto
    qed
  qed
qed

lemma release_result:
  assumes "one_lease_of h p (strip job) w" and "release_lease p job h w = (r, w')"
  shows "no_lease_of h p w' \<and> r = Inr True"
proof -
  from assms(1) obtain f l where f: "read_file (wd_files w) p = Inr (leases.store f (strip job) l)"
    "lease_good f" and l: "lease_ok (strip job) l" "ls_holder l = strip h"
    and idle: "\<And>k l. lease_of f k = Some l \<Longrightarrow> ls_holder l \<noteq> strip h"
    and clock: "\<And>i. dt_valid (wd_clock w i)" by (auto simp: one_lease_of_def)
  let ?f = "leases.store f (strip job) l"
  have good: "lease_good ?f" and look: "lease_of ?f = (lease_of f)(strip job \<mapsto> l)"
    using leases.good_store [OF f(2) l(1)] leases.lookup_store [OF f(2) l(1)] .
  obtain ls where ls: "lease_load ?f = Inr ls" "lease_of ?f = map_of ls"
    "\<And>k. lease_write (drop_key k ls) = leases.remove ?f k" using good by (rule lease_loadE) blast
  have job: "strip job \<noteq> []" using l(1) by (simp add: lease_ok_def)
  have mine: "map_of ls (strip job) = Some l" using look by (simp add: ls(2) [symmetric])
  have "strip (ls_holder l) = strip h" using l(2) by simp
  then have rel: "lease_release ?f job (Some h) = Inr (True, leases.remove ?f (strip job))"
    by (simp add: lease_release_def job ls(1) mine ls(3))
  obtain v where v: "leases.remove ?f (strip job) = Some v"
    using good by (auto simp: leases.good_def leases.remove_def)
  have "r = Inr True" and w': "w' = w\<lparr>wd_files := (wd_files w)(p \<mapsto> JsonText v)\<rparr>"
    using assms(2) f(1)
    by (simp_all add: release_lease_def run_bind_def run_read_def run_res_def rel v run_write_def run_return_def)
  moreover have "read_file (wd_files w') p = Inr (leases.remove ?f (strip job))" by (simp add: w' v)
  moreover have "lease_good (leases.remove ?f (strip job))" using good by (rule leases.remove_good)
  moreover have "lease_of (leases.remove ?f (strip job)) k = Some l' \<Longrightarrow> ls_holder l' \<noteq> strip h" for k l'
    using idle by (auto simp: leases.lookup_remove [OF good] look split: if_splits)
  ultimately show ?thesis using clock unfolding no_lease_of_def by (auto simp: w')
qed

text \<open>The job's own work may do what it likes but write the lease file; the clean-up then releases.\<close>

lemma held_job:
  assumes "one_lease_of h p (strip job) w" and "keeps (same_files {p}) m"
    and "run_finally m (release_lease p job h) w = (r, w')"
  shows "no_lease_of h p w'"
proof -
  obtain r1 w1 where m: "m w = (r1, w1)" by force
  from same_files_leases(2) [OF keepsD [OF assms(2) m] assms(1)] have "one_lease_of h p (strip job) w1" .
  moreover obtain r2 w2 where rel: "release_lease p job h w1 = (r2, w2)" by force
  ultimately have "no_lease_of h p w2 \<and> r2 = Inr True" by (rule release_result)
  with m rel assms(3) show ?thesis by (simp add: run_finally_def)
qed

lemma job_gate_keeps: "keeps (same_files ps) (job_gate cfg ct record)"
  unfolding job_gate_def by (intro same_files_rules)

lemma cycle_jobs_leases:
  assumes "sc_registry s = None" "sc_leases s = None"
    and env: "env_keeps {child out ''job_leases.json''} (sc_env s)"
  shows "no_lease_of (cs_holder cfg) (child out ''job_leases.json'') w \<Longrightarrow>
    cycle_jobs s cfg out rs ct w = (r, w') \<Longrightarrow>
    no_lease_of (cs_holder cfg) (child out ''job_leases.json'') w'"
proof (induction rs arbitrary: ct w)
  case (Cons j rs)
  let ?p = "child out ''job_leases.json''"
  let ?job = "normalize_text [] (PStr (jr_job_id j))"
  have lease: "lease_for s out = ?p" and reg: "registry_for s out \<notin> {?p}"
    using assms(1,2) by (simp_all add: lease_for_def registry_for_def)
  obtain g w1 where g: "job_gate cfg ct (job_dict j) w = (g, w1)" by force
  have w1: "no_lease_of (cs_holder cfg) ?p w1"
    using same_files_leases(1) [OF keepsD [OF job_gate_keeps g] Cons.prems(1)] .
  note run = Cons.prems(2) [unfolded cycle_jobs.simps lease run_bind_def [of "job_gate _ _ _"] g prod.case]
  show ?case
  proof (cases g)
    case (Inl e)
    with run w1 show ?thesis by simp
  next
    case (Inr gate)
    show ?thesis
    proof (cases gate)
      case (Skip ct')
      with run Inr show ?thesis by (auto intro: Cons.IH [OF w1])
    next
      case Stop
      with run Inr w1 show ?thesis by simp
    next
      case Claim_it
      obtain c w2 where c: "claim_lease ?p ?job (cs_holder cfg) (cs_lease_seconds cfg) w1 = (c, w2)" by force
      note run2 = run [unfolded Inr Claim_it Let_def sum.case gate.case
          run_bind_def [of "claim_lease _ _ _ _"] c prod.case]
      note res = claim_result [OF w1 c]
      show ?thesis
      proof (cases c)
        case (Inl e)
        with run2 res show ?thesis by simp
      next
        case (Inr granted)
        show ?thesis
        proof (cases granted)
          case False
          with run2 res Inr show ?thesis by (auto intro: Cons.IH)
        next
          case True
          let ?m = "process_job s cfg out (job_dict j) (ct\<lparr>ct_claimed := Suc (ct_claimed ct)\<rparr>)"
          obtain r3 w3 where m: "run_finally ?m (release_lease ?p ?job (cs_holder cfg)) w2 = (r3, w3)" by force
          have "one_lease_of (cs_holder cfg) ?p (strip ?job) w2" using res True Inr by simp
          then have w3: "no_lease_of (cs_holder cfg) ?p w3"
            by (rule held_job [OF _ lease_file.process_job_keeps [OF env reg] m])
          show ?thesis
          proof (cases r3)
            case (Inl e)
            with run2 \<open>c = Inr granted\<close> True m have "w' = w3" by (simp add: run_bind_def)
            with w3 show ?thesis by simp
          next
            case (Inr ct')
            with run2 \<open>c = Inr granted\<close> True m have "cycle_jobs s cfg out rs ct' w3 = (r, w')"
              by (simp add: run_bind_def)
            then show ?thesis by (rule Cons.IH [OF w3])
          qed
        qed
      qed
    qed
  qed
qed simp

text \<open>C28. A scheduler leaves no lease behind: when the cycle over the registry ends, by returning or by
  an exception of the runner, the executor or the files, every lease it claimed is released.\<close>

theorem scheduler_leaves_no_lease_behind:
  assumes "sc_registry s = None" and "sc_leases s = None"
    and "env_keeps {child out ''job_leases.json''} (sc_env s)"
    and "no_lease_of (cs_holder cfg) (child out ''job_leases.json'') w"
    and "cycle_jobs s cfg out records ct w = (r, w')"
  shows "no_lease_of (cs_holder cfg) (child out ''job_leases.json'') w'"
  using assms(4,5) by (rule cycle_jobs_leases [OF assms(1-3)])

section \<open>The summary\<close>

lemma status_of_result:
  "status \<in> set outcomes \<Longrightarrow> dispatch_status_of (dispatch_result job status ms audit extra) = status"
proof -
  have "\<forall>s \<in> set outcomes. strip s = s \<and> s \<noteq> []" by code_simp
  then show "status \<in> set outcomes \<Longrightarrow> ?thesis"
    by (auto simp: dispatch_status_of_def dispatch_result_def)
qed

text \<open>What the dispatcher returns as its audit is the whole log, which has no entries of a record.\<close>

lemma audit_has_no_reason:
  assumes "concluded root job ms r w"
  shows "get (audit_of r) k = PNone \<or> k \<in> {''schema_version'', ''job_id'', ''records''}"
    and "reason_of r = []"
proof -
  from assms obtain status audit extra a w0 where r: "r = dispatch_result job status ms audit extra"
    and "record_audit root job a w0 = (Inr audit, w)" by (auto simp: concluded_def)
  then obtain f now v where "audit_append f (audit_dict job a) now = Inr (audit, v)"
    by (auto simp: record_audit_def append_audit_def run_simps case_prod_unfold)
  then have k: "get audit k = PNone \<or> k \<in> {''schema_version'', ''job_id'', ''records''}" for k
    by (auto simp: audit_append_def res_bind_eq_Inr Let_def split: if_splits)
  then show "get (audit_of r) k = PNone \<or> k \<in> {''schema_version'', ''job_id'', ''records''}"
    by (simp add: r audit_of_def dispatch_result_def)
  have "get (audit_of r) ''routing_reason'' = PNone"
    using k [of "''routing_reason''"] by (simp add: r audit_of_def dispatch_result_def)
  then show "reason_of r = []" by (simp add: reason_of_def)
qed

lemma upserted_fields:
  assumes "reg_upsert p raw w = (Inr r, w')"
  obtains r0 where "read_record raw = Inr r0" "jr_current_state r = jr_current_state r0"
    "jr_terminal_status r = jr_terminal_status r0"
    "jr_whether_human_required r = jr_whether_human_required r0"
proof -
  from assms obtain f now f' where "registry_upsert f now raw = Inr (r, f')"
    by (auto simp: reg_upsert_def run_simps case_prod_unfold)
  then obtain e r1 where n: "normalize_record raw now e = Inr r1"
    and r: "r = r1\<lparr>jr_job_id := normalize_text [] (get raw ''job_id'')\<rparr>"
    unfolding registry_upsert_def Let_def by (auto simp: res_bind_eq_Inr split: if_splits)
  from n obtain r0 where "read_record raw = Inr r0" "r1 = stamped now
      (case e of None \<Rightarrow> r0 | Some at \<Rightarrow> r0\<lparr>jr_created_at := at\<rparr>)"
    by (auto simp: normalize_record_def res_bind_eq_Inr)
  then show thesis
    by (intro that [of r0]) (simp_all add: r stamped_def split: option.split)
qed

text \<open>What the registry records of a dispatch.\<close>

lemma registered_outcome:
  assumes "concluded root job ms r w0"
    and "update_registry_from_dispatch_result p record r w = (Inr rec, w')"
  shows "dispatch_status_of r = ''executed'' \<Longrightarrow> jr_current_state rec = STATE_COMPLETED"
    and "dispatch_status_of r = ''paused'' \<Longrightarrow> jr_current_state rec = STATE_PAUSED"
    and "dispatch_status_of r = ''escalated'' \<Longrightarrow> jr_current_state rec = STATE_ESCALATED \<and>
      jr_terminal_status rec = None \<and> \<not> jr_whether_human_required rec"
proof -
  have human: "get (audit_of r) ''whether_human_required'' = PNone"
    using audit_has_no_reason(1) [OF assms(1), of "''whether_human_required''"] by simp
  have reason: "\<not> is_terminal_refusal_reason (reason_of r)"
    unfolding audit_has_no_reason(2) [OF assms(1)] by code_simp
  from assms(2) obtain head pause w1 where
    up: "reg_upsert p (put_all (head @ [(''whether_human_required'', PBool False)] @
      outcome_entries (dispatch_status_of r) (reason_of r) pause) record) w1 = (Inr rec, w')"
    by (auto simp: update_registry_from_dispatch_result_def run_simps Let_def human)
       (metis append_Cons append_Nil)
  let ?raw = "put_all (head @ [(''whether_human_required'', PBool False)] @
      outcome_entries (dispatch_status_of r) (reason_of r) pause) record"
  from up obtain r0 where r0: "read_record ?raw = Inr r0" and rec: "jr_current_state rec = jr_current_state r0"
    "jr_terminal_status rec = jr_terminal_status r0"
    "jr_whether_human_required rec = jr_whether_human_required r0" by (rule upserted_fields)
  have states: "STATE_COMPLETED \<in> set job_states" "STATE_PAUSED \<in> set job_states"
    "STATE_ESCALATED \<in> set job_states" by (simp_all add: job_states_def)
  show "dispatch_status_of r = ''executed'' \<Longrightarrow> jr_current_state rec = STATE_COMPLETED"
    using r0 states by (auto simp: rec read_record_def res_bind_eq_Inr put_all_get outcome_entries_def)
  show "dispatch_status_of r = ''paused'' \<Longrightarrow> jr_current_state rec = STATE_PAUSED"
    using r0 states
    by (auto simp: rec read_record_def res_bind_eq_Inr put_all_get outcome_entries_def Let_def)
  show "dispatch_status_of r = ''escalated'' \<Longrightarrow> jr_current_state rec = STATE_ESCALATED \<and>
      jr_terminal_status rec = None \<and> \<not> jr_whether_human_required rec"
    using r0 states reason
    by (auto simp: rec read_record_def res_bind_eq_Inr put_all_get outcome_entries_def Let_def)
qed

text \<open>Right after the dispatch the registry calls every escalated job merely escalated, without a
  terminal status and not in need of a human: the refusal's reason and the human flag are looked
  up in the log object instead of its last record, where neither is.\<close>

theorem escalations_are_registered_without_their_reason:
  assumes "dispatch_once env q w = (Inr r, w1)" and "get r ''dispatch_status'' = PStr ''escalated''"
    and "update_registry_from_dispatch_result p record r w2 = (Inr rec, w3)"
  shows "jr_current_state rec = STATE_ESCALATED \<and> jr_terminal_status rec = None \<and>
    \<not> jr_whether_human_required rec"
proof -
  from dispatch_once_concluded [OF assms(1)] obtain job ms where
    c: "concluded (job_root q job) job ms r w1" by blast
  have "strip ''escalated'' = ''escalated''" by code_simp
  with assms(2) have "dispatch_status_of r = ''escalated''" by (simp add: dispatch_status_of_def)
  with registered_outcome(3) [OF c assms(3)] show ?thesis by blast
qed

lemma concluded_status: "concluded root job ms r w \<Longrightarrow> dispatch_status_of r \<in> set outcomes"
  by (auto simp: concluded_def status_of_result)

text \<open>What holds of the counters after every job.\<close>

definition counters_ok :: "cycle_settings \<Rightarrow> nat \<Rightarrow> counters \<Rightarrow> bool" where
  "counters_ok cfg n ct =
     (ct_claimed ct = ct_paused ct + ct_completed ct + ct_escalated ct + ct_failed ct \<and>
      ct_run ct \<le> ct_claimed ct \<and> ct_processed ct = ct_run ct \<and> ct_resumed ct = 0 \<and>
      ct_claimed ct + ct_skipped_paused ct + ct_skipped_leased ct + ct_skipped_retry ct \<le> n \<and>
      (\<forall>m. cs_max_jobs cfg = Some m \<longrightarrow> 0 < m \<longrightarrow> int (ct_run ct) \<le> m))"

lemma counters_ok_mono: "counters_ok cfg n ct \<Longrightarrow> counters_ok cfg (Suc n) ct"
  by (auto simp: counters_ok_def)

definition below_limit :: "cycle_settings \<Rightarrow> counters \<Rightarrow> bool" where
  "below_limit cfg ct = (\<forall>m. cs_max_jobs cfg = Some m \<longrightarrow> 0 < m \<longrightarrow> int (ct_processed ct) < m)"

lemma job_gate_result:
  assumes "job_gate cfg ct record w = (Inr g, w')"
  shows "case g of
      Skip ct' \<Rightarrow> ct' = ct \<or> ct' = ct\<lparr>ct_skipped_paused := Suc (ct_skipped_paused ct)\<rparr> \<or>
        ct' = ct\<lparr>ct_skipped_retry := Suc (ct_skipped_retry ct)\<rparr>
    | Stop \<Rightarrow> True
    | Claim_it \<Rightarrow> below_limit cfg ct \<and>
        lower (normalize_text STATE_PENDING (get record ''current_state'')) \<noteq> STATE_PAUSED"
  using assms
  by (auto simp: job_gate_def Let_def run_simps below_limit_def split: if_splits option.splits)

text \<open>One more outcome, and nothing else.\<close>

definition counted_once :: "counters \<Rightarrow> counters \<Rightarrow> bool" where
  "counted_once ct ct' =
     (ct_paused ct' + ct_completed ct' + ct_escalated ct' + ct_failed ct' =
        Suc (ct_paused ct + ct_completed ct + ct_escalated ct + ct_failed ct) \<and>
      ct_claimed ct' = ct_claimed ct \<and> ct_run ct' = ct_run ct \<and> ct_processed ct' = ct_processed ct \<and>
      ct_resumed ct' = ct_resumed ct \<and> ct_skipped_paused ct' = ct_skipped_paused ct \<and>
      ct_skipped_leased ct' = ct_skipped_leased ct \<and> ct_skipped_retry ct' = ct_skipped_retry ct)"

lemma count_outcome_once:
  assumes "dispatch_status_of r \<in> set outcomes"
  shows "counted_once ct (count_outcome r ct)"
proof -
  from assms consider "dispatch_status_of r = ''executed''" | "dispatch_status_of r = ''escalated''"
    | "dispatch_status_of r = ''paused''" by (auto simp: outcomes_def)
  then show ?thesis by cases (simp_all add: count_outcome_def counted_once_def)
qed

lemma process_job_counts:
  assumes "process_job s cfg out record ct w = (Inr ct', w')"
    and "lower (normalize_text STATE_PENDING (get record ''current_state'')) \<noteq> STATE_PAUSED"
    and "counters_ok cfg n ct0" and "below_limit cfg ct0"
    and "ct = ct0\<lparr>ct_claimed := Suc (ct_claimed ct0)\<rparr>"
  shows "counters_ok cfg (Suc n) ct'"
proof (cases "scheduler_job_from_record (job_settings.truncate cfg) out record")
  case None
  with assms(1) have "ct' = ct\<lparr>ct_failed := Suc (ct_failed ct)\<rparr>" by (auto simp: process_job_def run_simps)
  with assms(3,5) show ?thesis by (auto simp: counters_ok_def)
next
  case (Some j)
  have before: "normalize_text STATE_PENDING (get record ''current_state'') \<noteq> STATE_PAUSED"
  proof
    assume "normalize_text STATE_PENDING (get record ''current_state'') = STATE_PAUSED"
    moreover have "lower STATE_PAUSED = STATE_PAUSED" by code_simp
    ultimately show False using assms(2) by simp
  qed
  let ?ct1 = "ct\<lparr>ct_run := Suc (ct_run ct), ct_processed := Suc (ct_processed ct)\<rparr>"
  from assms(1) Some before obtain r w1 where r: "dispatch_once (sc_env s) (request_of_job j) w = (Inr r, w1)"
    and ct': "ct' = count_outcome r ?ct1"
    by (auto simp: process_job_def run_simps Let_def)
  from dispatch_once_concluded [OF r] concluded_status have "dispatch_status_of r \<in> set outcomes" by blast
  then have "counted_once ?ct1 (count_outcome r ?ct1)" by (rule count_outcome_once)
  with assms(3,4) show ?thesis
    unfolding ct' assms(5) by (auto simp: counters_ok_def below_limit_def counted_once_def)
qed

lemma finally_result: "run_finally m c w = (Inr x, w') \<Longrightarrow> \<exists>w1. m w = (Inr x, w1)"
  by (auto simp: run_finally_def split: prod.splits sum.splits)

lemma cycle_jobs_counts:
  "cycle_jobs s cfg out rs ct w = (Inr ct', w') \<Longrightarrow> counters_ok cfg n ct \<Longrightarrow>
     counters_ok cfg (n + length rs) ct'"
proof (induction rs arbitrary: ct w n)
  case (Cons j rs)
  from Cons.prems(1) obtain g w1 where g: "job_gate cfg ct (job_dict j) w = (Inr g, w1)"
    by (auto simp: run_simps)
  note gate = job_gate_result [OF g]
  show ?case
  proof (cases g)
    case (Skip ct1)
    from gate Skip Cons.prems(2) have ok: "counters_ok cfg (Suc n) ct1"
      by (auto simp: counters_ok_def)
    from Cons.prems(1) g Skip have "cycle_jobs s cfg out rs ct1 w1 = (Inr ct', w')"
      by (auto simp: run_simps)
    from Cons.IH [OF this ok] show ?thesis by simp
  next
    case Stop
    with Cons.prems g have "ct' = ct" by (auto simp: run_simps)
    with Cons.prems(2) show ?thesis by (auto simp: counters_ok_def)
  next
    case Claim_it
    let ?B = "\<lambda>claimed. if \<not> claimed
             then cycle_jobs s cfg out rs (ct\<lparr>ct_skipped_leased := Suc (ct_skipped_leased ct)\<rparr>)
             else
               run_bind
                 (run_finally
                   (process_job s cfg out (job_dict j) (ct\<lparr>ct_claimed := Suc (ct_claimed ct)\<rparr>))
                   (release_lease (lease_for s out) (normalize_text [] (PStr (jr_job_id j))) (cs_holder cfg)))
                 (\<lambda>ct'. cycle_jobs s cfg out rs ct')"
    have "run_bind (claim_lease (lease_for s out) (normalize_text [] (PStr (jr_job_id j)))
        (cs_holder cfg) (cs_lease_seconds cfg)) ?B w1 = (Inr ct', w')"
      using Cons.prems(1) Claim_it
      unfolding cycle_jobs.simps run_bind_def [of "job_gate _ _ _"] g Let_def by simp
    then obtain claimed w2 where rest: "?B claimed w2 = (Inr ct', w')"
      unfolding run_bind_Inr_iff by blast
    show ?thesis
    proof (cases claimed)
      case False
      have "counters_ok cfg (Suc n) (ct\<lparr>ct_skipped_leased := Suc (ct_skipped_leased ct)\<rparr>)"
        using Cons.prems(2) by (auto simp: counters_ok_def)
      from Cons.IH [OF _ this] rest False show ?thesis by simp
    next
      case True
      with rest obtain ct1 w3 w4 where
        p: "process_job s cfg out (job_dict j) (ct\<lparr>ct_claimed := Suc (ct_claimed ct)\<rparr>) w2 = (Inr ct1, w4)"
        and c: "cycle_jobs s cfg out rs ct1 w3 = (Inr ct', w')"
        by (auto simp: run_bind_Inr_iff dest: finally_result)
      from gate Claim_it have "counters_ok cfg (Suc n) ct1"
        by (intro process_job_counts [OF p _ Cons.prems(2)]) simp_all
      from Cons.IH [OF c this] show ?thesis by simp
    qed
  qed
qed simp

text \<open>C30. A cycle's summary adds up: every claimed job is counted in exactly one outcome, no more jobs
  run than the limit allows, claimed and skipped jobs are among those considered, and no job is
  ever counted as resumed, because a paused record is skipped before it could be.\<close>

theorem cycle_summary_adds_up:
  assumes "cycle_jobs s cfg out records no_jobs w = (Inr ct, w')"
  shows "ct_claimed ct = ct_paused ct + ct_completed ct + ct_escalated ct + ct_failed ct \<and>
    ct_run ct \<le> ct_claimed ct \<and>
    ct_claimed ct + ct_skipped_paused ct + ct_skipped_leased ct + ct_skipped_retry ct \<le> length records \<and>
    (\<forall>m. cs_max_jobs cfg = Some m \<longrightarrow> 0 < m \<longrightarrow> int (ct_run ct) \<le> m) \<and> ct_resumed ct = 0"
proof -
  have "counters_ok cfg 0 no_jobs" by (simp add: counters_ok_def no_jobs_def)
  from cycle_jobs_counts [OF assms this] show ?thesis by (simp add: counters_ok_def)
qed

section \<open>An executed job\<close>

lemma audited_executed:
  assumes "audit_records (Some v) = recs @ [PDict rec]" and "get rec ''outcome_status'' = PStr ''executed''"
  shows "\<exists>human. audited_state (Some v) eligible = Some (state_dict STATE_COMPLETED None human None)"
proof -
  have words: "strip ''executed'' = ''executed''" by code_simp
  obtain u us where us: "recs @ [PDict rec] = u # us" by (cases recs) auto
  then have "last (u # us) = PDict rec" by (metis last_snoc)
  moreover from assms(1) us have "get (mapping_or_empty v) ''records'' = PList (u # us)"
    by (auto simp: audit_records_def records_of_def split: py.splits)
  ultimately show ?thesis using words assms(2)
    by (simp add: audited_state_def Let_def) blast
qed


section \<open>Witnesses\<close>

definition demo_scheduler :: "string \<Rightarrow> scheduler" where
  "demo_scheduler action = \<lparr>sc_env = demo_env action, sc_registry = None, sc_leases = None\<rparr>"

definition demo_cycle :: cycle_settings where
  "demo_cycle =
     \<lparr>js_dry_run = False, js_stop_on_failure = True, js_max_retry_dispatches = 3,
      js_write_authority = PNone, js_policy_snapshot = PNone, cs_holder = ''scheduler-1'',
      cs_lease_seconds = 300, cs_max_jobs = Some 1\<rparr>"

definition demo_record :: "string option \<Rightarrow> string \<Rightarrow> job_record" where
  "demo_record artifacts state =
     \<lparr>jr_job_id = ''job-1'', jr_repo_or_workspace = None, jr_current_state = state,
      jr_created_at = ''2024-01-01T00:00:00'', jr_updated_at = ''2024-01-01T00:00:00'',
      jr_run_root = Some ''out/job-1'', jr_artifact_root = artifacts,
      jr_next_eligible_at = None, jr_retry_class = None, jr_retry_budget_remaining = Some 3,
      jr_whether_human_required = False, jr_terminal_status = None\<rparr>"

lemma demo_env_keeps: "env_keeps {child out ''job_leases.json''} (demo_env action)"
  unfolding env_keeps_def demo_env_def demo_runner_def Let_def
  by (simp, intro allI conjI same_files_rules same_files_write) simp_all

lemma demo_no_lease: "no_lease_of h p (demo_world (\<lambda>_. None))"
proof -
  have "dt_valid noon" by code_simp
  moreover have "\<exists>st. load_section (sort_key fst) ''leases'' lease_entry None = Inr st"
    by (simp add: load_section_def)
  ultimately show ?thesis
    by (simp add: no_lease_of_def demo_world_def leases.good_def)
qed

theorem scheduler_leaves_no_lease_behind_witness:
  "\<exists>r w'. cycle_jobs (demo_scheduler ''proceed_to_pr'') demo_cycle (path_of ''out'')
      [demo_record (Some ''in/job-1'') STATE_PENDING] no_jobs (demo_world (\<lambda>_. None)) = (r, w') \<and>
     no_lease_of ''scheduler-1'' (child (path_of ''out'') ''job_leases.json'') w'"
proof -
  let ?s = "demo_scheduler ''proceed_to_pr''" and ?out = "path_of ''out''"
  obtain r w' where r: "cycle_jobs ?s demo_cycle ?out [demo_record (Some ''in/job-1'') STATE_PENDING] no_jobs
      (demo_world (\<lambda>_. None)) = (r, w')" by force
  have s: "sc_registry ?s = None" "sc_leases ?s = None" "sc_env ?s = demo_env ''proceed_to_pr''"
    "cs_holder demo_cycle = ''scheduler-1''" by (simp_all add: demo_scheduler_def demo_cycle_def)
  from scheduler_leaves_no_lease_behind [OF s(1,2) _ demo_no_lease r]
  have "no_lease_of ''scheduler-1'' (child ?out ''job_leases.json'') w'"
    by (simp add: s(3,4) demo_env_keeps)
  with r show ?thesis by blast
qed

theorem cycle_summary_adds_up_witness:
  "\<exists>ct w'. cycle_jobs (demo_scheduler ''proceed_to_pr'') demo_cycle (path_of ''out'')
      [demo_record None STATE_PENDING, demo_record None STATE_PAUSED] no_jobs (early_world (\<lambda>_. None)) = (Inr ct, w') \<and>
     ct_claimed ct = 1 \<and> ct_failed ct = 1 \<and> ct_skipped_paused ct = 1 \<and> ct_resumed ct = 0"
proof -
  have "returned (\<lambda>ct. ct_claimed ct = 1 \<and> ct_failed ct = 1 \<and> ct_skipped_paused ct = 1)
     (cycle_jobs (demo_scheduler ''proceed_to_pr'') demo_cycle (path_of ''out'')
      [demo_record None STATE_PENDING, demo_record None STATE_PAUSED] no_jobs (early_world (\<lambda>_. None)))"
    by code_simp
  then obtain ct w' where r: "cycle_jobs (demo_scheduler ''proceed_to_pr'') demo_cycle (path_of ''out'')
      [demo_record None STATE_PENDING, demo_record None STATE_PAUSED] no_jobs (early_world (\<lambda>_. None)) = (Inr ct, w')"
    "ct_claimed ct = 1 \<and> ct_failed ct = 1 \<and> ct_skipped_paused ct = 1" by (rule returnedE)
  from cycle_summary_adds_up [OF r(1)] r show ?thesis by blast
qed

theorem escalations_are_registered_without_their_reason_witness:
  "\<exists>r w1 rec w2. dispatch_once (demo_env ''no such action'') demo_request (demo_world (\<lambda>_. None)) = (Inr r, w1) \<and>
     get r ''dispatch_status'' = PStr ''escalated'' \<and>
     update_registry_from_dispatch_result (path_of ''registry'')
       (job_dict (demo_record None STATE_PENDING)) r w1 = (Inr rec, w2) \<and>
     jr_current_state rec = STATE_ESCALATED \<and> jr_terminal_status rec = None"
proof -
  let ?d = "dispatch_once (demo_env ''no such action'') demo_request"
  let ?u = "update_registry_from_dispatch_result (path_of ''registry'') (job_dict (demo_record None STATE_PENDING))"
  have "returned (\<lambda>(status, rec). status = PStr ''escalated'')
      (run_bind ?d (\<lambda>r. run_bind (?u r) (\<lambda>rec. run_return (get r ''dispatch_status'', rec)))
        (demo_world (\<lambda>_. None)))" by code_simp
  then obtain x w where "run_bind ?d (\<lambda>r. run_bind (?u r) (\<lambda>rec. run_return (get r ''dispatch_status'', rec)))
        (demo_world (\<lambda>_. None)) = (Inr x, w)" and x: "fst x = PStr ''escalated''"
    by (rule returnedE) (simp add: case_prod_unfold)
  then obtain r w1 rec w2 where r: "?d (demo_world (\<lambda>_. None)) = (Inr r, w1)" "?u r w1 = (Inr rec, w2)"
    "x = (get r ''dispatch_status'', rec)" unfolding run_bind_Inr_iff run_return_def by blast
  from r(3) x have e: "get r ''dispatch_status'' = PStr ''escalated''" by simp
  from escalations_are_registered_without_their_reason [OF r(1) e r(2)] r(1,2) e show ?thesis by blast
qed


end
