(* ===== verification/Action_Handoff.thy ===== *)
theory Action_Handoff
  imports Next_Action Execution_Authority Run_Dispatcher
begin

text \<open>
  \<open>automation/control/action_handoff.py\<close>: the runner hands the controller's decision to the
  dispatcher as a file. The handoff repeats the decision, says whether the action can be consumed,
  and summarises the GitHub evidence the run was given.

  The table of tokens with a reason of their own why they are unsupported is empty in the source,
  and so has no branch here.
\<close>

section \<open>Evidence\<close>

definition evidence_statuses :: "string list" where
  "evidence_statuses =
     [''success'', ''empty'', ''not_found'', ''auth_failure'', ''api_failure'', ''unsupported_query'']"

definition normalize_evidence_status :: "py \<Rightarrow> string" where
  "normalize_evidence_status v =
     (let s = normalize_text ''api_failure'' v in
      if s \<in> set evidence_statuses then s else ''api_failure'')"

text \<open>The items by name: a single one when the evidence has a status itself.\<close>

definition extract_evidence_items :: "py \<Rightarrow> (string \<times> dict) list" where
  "extract_evidence_items evidence =
     (let d = mapping_or_empty evidence in
      if has_key d ''status''
      then [(normalize_text ''external_evidence'' (get d ''operation''), d)]
      else List.map_filter (\<lambda>(k, v). map_option
             (\<lambda>p. (normalize_text ''external_evidence'' (PStr k), p)) (as_mapping v)) (sort_key fst d))"

definition derive_evidence_constraints :: "dict \<Rightarrow> string list" where
  "derive_evidence_constraints item =
     (let operation = normalize_text ''unknown_operation'' (get item ''operation'');
          status = normalize_evidence_status (get item ''status'');
          data = mapping_or_empty (get item ''data'')
      in if status = ''empty'' then [''github_evidence_empty:'' @ operation]
         else if status = ''not_found'' then [''github_evidence_not_found:'' @ operation]
         else if status = ''auth_failure'' then [''github_evidence_auth_failure:'' @ operation]
         else if status = ''api_failure'' then [''github_evidence_api_failure:'' @ operation]
         else if status = ''unsupported_query'' then [''github_evidence_unsupported_query:'' @ operation]
         else if operation = ''get_pr_status_summary'' then
           (let state = normalize_text [] (get data ''checks_state'')
            in if state \<noteq> [] \<and> state \<noteq> ''passing'' then [''github_checks_state:'' @ state] else [])
         else if operation = ''find_open_pr'' then
           (if get data ''matched'' = PBool False then [''github_open_pr_not_matched''] else [])
         else if operation = ''compare_refs'' then
           (if normalize_text [] (get data ''comparison_status'') \<in> {''unknown'', []}
            then [''github_compare_inconclusive''] else [])
         else if operation = ''get_branch_head'' then
           (if get data ''exists'' = PBool False \<or> normalize_text [] (get data ''head_sha'') = []
            then [''github_branch_head_inconclusive''] else [])
         else [])"

definition item_status :: "string \<times> dict \<Rightarrow> string" where
  "item_status item = normalize_evidence_status (get (snd item) ''status'')"

definition summarize_external_evidence :: "py \<Rightarrow> dict \<times> string list" where
  "summarize_external_evidence evidence =
     (let items = extract_evidence_items evidence in
      ([(''provided'', PBool (items \<noteq> [])), (''items_total'', PInt (int (length items))),
        (''items'', PList (map (\<lambda>item. PDict
           [(''name'', PStr (fst item)),
            (''operation'', PStr (normalize_text (fst item) (get (snd item) ''operation''))),
            (''status'', PStr (item_status item))]) items)),
        (''status_counts'', PDict (map (\<lambda>s.
           (s, PInt (int (count_list (map item_status items) s)))) evidence_statuses))],
       sorted_list_of_set {c \<in> \<Union> (set ` derive_evidence_constraints ` snd ` set items). c \<noteq> []}))"

section \<open>The handoff\<close>

definition all_first_class_action_tokens :: "string list" where
  "all_first_class_action_tokens = map action_token (sort_key action_token (map snd action_authorities))"

definition resolve_consumable :: "string \<Rightarrow> bool \<times> string option" where
  "resolve_consumable next_action =
     (if next_action \<in> set all_first_class_action_tokens then (True, None)
      else if next_action \<in> set allowed_next_actions
      then (False, Some ''action is not mapped to a bounded executor in this phase'')
      else (False, Some (''unsupported next_action token: '' @ next_action)))"

definition build_action_handoff_payload :: "string \<Rightarrow> dict \<Rightarrow> datetime \<Rightarrow> py \<Rightarrow> dict res" where
  "build_action_handoff_payload job_id decision now evidence =
     (let next_action = normalize_text [] (get decision ''next_action'');
          (consumable, unsupported) = resolve_consumable next_action;
          (summary, constraints) = summarize_external_evidence evidence
      in res_bind (normalize_retry_context (get decision ''updated_retry_context'') PNone) (\<lambda>ctx.
         res_bind (as_non_negative_int 0 (PInt (retry_budget_remaining ctx))) (\<lambda>default_budget.
         res_bind (as_non_negative_int default_budget (get decision ''retry_budget_remaining''))
           (\<lambda>budget.
         Inr [(''handoff_schema_version'', PStr ''v1''),
              (''job_id'', PStr (normalize_text [] (PStr job_id))),
              (''next_action'', PStr next_action),
              (''reason'', PStr (normalize_text [] (get decision ''reason''))),
              (''whether_human_required'', PBool (truthy (get decision ''whether_human_required''))),
              (''retry_budget_remaining'', PInt budget),
              (''updated_retry_context'', PDict (retry_context_dict ctx)),
              (''action_consumable'', PBool consumable),
              (''unsupported_reason'', opt_str unsupported),
              (''retry_class'',
                 if next_action \<in> set allowed_retry_classes then PStr next_action else PNone),
              (''evidence_summary'', PDict summary),
              (''evidence_constraints'', PList (map PStr constraints)),
              (''handoff_created_at'', PStr (iso_seconds now))]))))"

text \<open>What \<open>evaluate_next_action\<close> returns, as the dictionary the runner passes on.\<close>

definition decision_dict :: "decision \<Rightarrow> dict" where
  "decision_dict d =
     [(''next_action'', PStr (dc_next_action d)), (''reason'', PStr (dc_reason d)),
      (''progression_outcome'', PStr (dc_progression_outcome d)),
      (''result_acceptance'', PStr (dc_result_acceptance d)),
      (''progression_rule_id'', PStr (dc_progression_rule_id d)),
      (''retry_budget_remaining'', PInt (dc_retry_budget_remaining d)),
      (''whether_human_required'', PBool (dc_whether_human_required d)),
      (''updated_retry_context'', PDict (retry_context_dict (dc_updated_retry_context d)))]"

end
