(* ===== verification/Dispatch_Routing.thy ===== *)
theory Dispatch_Routing
  imports Dispatch
begin

text \<open>
  What the dispatcher's routing guarantees: the cache of a dispatch answers as a fresh routing
  would, and the executor is called for cleared executor actions only.
\<close>

section \<open>The cache\<close>

text \<open>What the dispatcher reads of a routing.\<close>

definition routing_view :: "routing \<Rightarrow> bool \<times> bool \<times> string \<times> string option \<times> string option" where
  "routing_view r =
     (rt_known_action r, rt_allowed r, rt_reason r, rt_routing_class r, rt_resolved_lane r)"

lemma routing_view_reads:
  assumes "routing_view r = routing_view s"
  shows "routing_refusal r = routing_refusal s" "routing_class_of r = routing_class_of s"
proof -
  have eqs: "rt_known_action r = rt_known_action s" "rt_allowed r = rt_allowed s"
    "rt_reason r = rt_reason s" "rt_routing_class r = rt_routing_class s"
    "rt_resolved_lane r = rt_resolved_lane s" using assms by (simp_all add: routing_view_def)
  show "routing_refusal r = routing_refusal s" "routing_class_of r = routing_class_of s"
    unfolding routing_refusal_def routing_class_of_def resolved_lane_of_def eqs by (rule refl)+
qed

abbreviation lanes_of :: "string \<Rightarrow> py \<Rightarrow> dict \<Rightarrow> requested_lane_input" where
  "lanes_of action policy handoff \<equiv> normalize_requested_lane_input action policy (PDict handoff)"

lemma lane_input_token [simp]:
  "normalize_requested_lane_input (normalize_lower [] (PStr a)) p h =
     normalize_requested_lane_input a p h"
  by (simp only: normalize_requested_lane_input_def normalize_lower_idem)

text \<open>The fields of the requested lane, as a function of the lane values of the two surfaces.\<close>

definition lane_conflict :: "string option \<times> string option \<Rightarrow> string option \<times> string option \<Rightarrow> string option" where
  "lane_conflict p h =
     (if snd p \<noteq> None \<or> snd h \<noteq> None \<or> fst p \<noteq> None \<and> fst h \<noteq> None \<and> fst p \<noteq> fst h
      then Some ''requested_lane_conflict'' else None)"

definition policy_value :: "string \<Rightarrow> py \<Rightarrow> string option \<times> string option" where
  "policy_value a p = surface_value (surface_lane_candidates ''policy_snapshot'' (mapping_or_empty p)
     (normalize_lower [] (PStr a)))"

definition handoff_value :: "string \<Rightarrow> py \<Rightarrow> string option \<times> string option" where
  "handoff_value a h = surface_value (surface_lane_candidates ''handoff'' (mapping_or_empty h)
     (normalize_lower [] (PStr a)))"

lemma lane_input_fields:
  fixes a :: string and p h :: py
  defines "ri \<equiv> normalize_requested_lane_input a p h"
  shows "ri_policy_lane ri = fst (policy_value a p)" "ri_handoff_lane ri = fst (handoff_value a h)"
    and "ri_conflict_reason ri = lane_conflict (policy_value a p) (handoff_value a h)"
    and "ri_requested_lane ri = (if ri_conflict_reason ri \<noteq> None then None
      else if ri_policy_lane ri \<noteq> None then ri_policy_lane ri else ri_handoff_lane ri)"
    and "ri_fingerprint ri = ''policy='' @ or_blank (ri_policy_lane ri) @ ''|handoff='' @
      or_blank (ri_handoff_lane ri) @ ''|conflict='' @ or_blank (ri_conflict_reason ri)"
proof -
  obtain pl pc where pv: "policy_value a p = (pl, pc)" by force
  obtain hl hc where hv: "handoff_value a h = (hl, hc)" by force
  note defs = ri_def normalize_requested_lane_input_def Let_def policy_value_def [symmetric]
    handoff_value_def [symmetric] pv hv prod.case
  show "ri_policy_lane ri = fst (policy_value a p)" "ri_handoff_lane ri = fst (handoff_value a h)"
    unfolding defs by (simp_all split: prod.split)
  show c: "ri_conflict_reason ri = lane_conflict (policy_value a p) (handoff_value a h)"
    unfolding defs lane_conflict_def by (simp split: prod.split)
  show "ri_requested_lane ri = (if ri_conflict_reason ri \<noteq> None then None
      else if ri_policy_lane ri \<noteq> None then ri_policy_lane ri else ri_handoff_lane ri)"
    unfolding defs by (cases pl; cases hl) simp_all
  show "ri_fingerprint ri = ''policy='' @ or_blank (ri_policy_lane ri) @ ''|handoff='' @
      or_blank (ri_handoff_lane ri) @ ''|conflict='' @ or_blank (ri_conflict_reason ri)"
    unfolding defs by (simp split: prod.split)
qed

lemma policy_lane_same: "ri_policy_lane (lanes_of a p h) = ri_policy_lane (lanes_of a p h')"
  by (simp add: lane_input_fields(1))

lemma conflict_values: "ri_conflict_reason (normalize_requested_lane_input a p h) \<in>
    {None, Some ''requested_lane_conflict''}"
  by (simp add: lane_input_fields(3) lane_conflict_def)

lemma requested_lane_determined:
  assumes "ri_policy_lane (normalize_requested_lane_input a p h) =
      ri_policy_lane (normalize_requested_lane_input a p h')"
    and "ri_handoff_lane (normalize_requested_lane_input a p h) =
      ri_handoff_lane (normalize_requested_lane_input a p h')"
    and "ri_conflict_reason (normalize_requested_lane_input a p h) =
      ri_conflict_reason (normalize_requested_lane_input a p h')"
  shows "ri_requested_lane (normalize_requested_lane_input a p h) =
      ri_requested_lane (normalize_requested_lane_input a p h')"
  using assms by (simp only: lane_input_fields(4))

lemmas fingerprint_eq = lane_input_fields(5)

lemma strip_fingerprint:
  "normalize_text ''_'' (PStr (ri_fingerprint (normalize_requested_lane_input a p h))) =
     ri_fingerprint (normalize_requested_lane_input a p h)"
proof -
  let ?f = "ri_fingerprint (normalize_requested_lane_input a p h)"
  have "or_blank (ri_conflict_reason (normalize_requested_lane_input a p h)) \<in>
      {''_'', ''requested_lane_conflict''}"
    using conflict_values [of a p h] by (auto simp: or_blank_def)
  then have "last ?f = CHR ''_'' \<or> last ?f = CHR ''t''" and "?f \<noteq> []" and "hd ?f = CHR ''p''"
    by (auto simp: fingerprint_eq)
  then have "stripped ?f"
    by (auto simp: stripped_def is_space_def code_def)
  with \<open>?f \<noteq> []\<close> show ?thesis by (simp add: strip_stripped)
qed

text \<open>A fingerprint tells two handoffs apart unless one asks for the lane \<open>_\<close>.\<close>

lemma fingerprint_inject:
  assumes "ri_fingerprint (lanes_of a p h) = ri_fingerprint (lanes_of a p h')"
    and "ri_handoff_lane (lanes_of a p h) \<noteq> Some ''_''"
    and "ri_handoff_lane (lanes_of a p h') \<noteq> Some ''_''"
  shows "ri_handoff_lane (lanes_of a p h) = ri_handoff_lane (lanes_of a p h')"
    and "ri_conflict_reason (lanes_of a p h) = ri_conflict_reason (lanes_of a p h')"
proof -
  let ?h = "\<lambda>h. ri_handoff_lane (lanes_of a p h)"
  let ?c = "\<lambda>h. ri_conflict_reason (lanes_of a p h)"
  have eq: "or_blank (?h h) @ ''|conflict='' @ or_blank (?c h) =
      or_blank (?h h') @ ''|conflict='' @ or_blank (?c h')"
    using assms(1) policy_lane_same [of a p h h'] by (simp add: fingerprint_eq)
  have c: "?c g \<in> {None, Some ''requested_lane_conflict''}" for g by (rule conflict_values)
  have "last (or_blank (?h h) @ ''|conflict='' @ or_blank (?c h)) =
      last (or_blank (?h h') @ ''|conflict='' @ or_blank (?c h'))" by (simp only: eq)
  with c [of h] c [of h'] show cc: "?c h = ?c h'" by (auto simp: or_blank_def)
  with eq have "or_blank (?h h) = or_blank (?h h')" by simp
  with assms(2,3) show "?h h = ?h h'" by (auto simp: or_blank_def split: option.splits)
qed

lemma resolve_view:
  assumes "ri_requested_lane (lanes_of a p h) = ri_requested_lane (lanes_of a p h')"
    and "ri_conflict_reason (lanes_of a p h) = ri_conflict_reason (lanes_of a p h')"
  shows "routing_view (resolve_action_routing a p (PDict h)) =
    routing_view (resolve_action_routing a p (PDict h'))"
proof (cases "get_action_authority a")
  case None
  then show ?thesis
    by (simp add: routing_view_def resolve_action_routing_def evaluate_action_authority_def Let_def)
next
  case (Some au)
  have "action_token au = normalize_lower [] (PStr a)" using Some by (rule authority_found)
  then have tok: "normalize_requested_lane_input (action_token au) p g =
      normalize_requested_lane_input a p g" for g by (simp only: lane_input_token)
  show ?thesis
    unfolding routing_view_def resolve_action_routing_def evaluate_action_authority_def Some
      option.case tok Let_def assms
    by (simp add: outcome_for_def split: if_split)
qed

text \<open>A cache filled with fresh routings of handoffs that satisfy \<open>P\<close>.\<close>

definition cache_from :: "(string \<Rightarrow> dict \<Rightarrow> bool) \<Rightarrow> py \<Rightarrow> routing_cache \<Rightarrow> bool" where
  "cache_from P policy cache =
     (\<forall>(key, r) \<in> set cache. \<exists>action handoff. strip action = action \<and> action \<noteq> [] \<and>
        P action handoff \<and> key = routing_cache_key action policy handoff \<and>
        r = resolve_action_routing action policy (PDict handoff))"

lemma cache_from_Nil [simp]: "cache_from P policy []"
  by (simp add: cache_from_def)

lemma cached_routing_from:
  assumes "cache_from P policy cache" and "strip action = action" "action \<noteq> []" "P action handoff"
    and "cached_routing action policy handoff cache = (r, cache')"
  shows "cache_from P policy cache'"
    and "\<exists>h. P action h \<and> r = resolve_action_routing action policy (PDict h) \<and>
      routing_cache_key action policy handoff = routing_cache_key action policy h"
proof -
  let ?key = "routing_cache_key action policy handoff"
  show "cache_from P policy cache'"
  proof (cases "map_of cache ?key")
    case None
    with assms(5) have "cache' = (?key, resolve_action_routing action policy (PDict handoff)) # cache"
      by (auto simp: cached_routing_def Let_def)
    with assms(1-4) show ?thesis
      unfolding cache_from_def by (auto simp del: split_paired_All)
  next
    case (Some s)
    with assms show ?thesis by (simp add: cached_routing_def Let_def)
  qed
  show "\<exists>h. P action h \<and> r = resolve_action_routing action policy (PDict h) \<and>
      ?key = routing_cache_key action policy h"
  proof (cases "map_of cache ?key")
    case None
    with assms(4,5) show ?thesis by (auto simp: cached_routing_def Let_def)
  next
    case (Some s)
    then have mem: "(?key, s) \<in> set cache" by (rule map_of_SomeD)
    with assms(1) obtain a h where a: "strip a = a" "a \<noteq> []" "P a h"
      "?key = routing_cache_key a policy h"
      "s = resolve_action_routing a policy (PDict h)" by (auto simp: cache_from_def)
    then have "a = action" using assms(2,3) by (simp add: routing_cache_key_def)
    with a Some assms(5) show ?thesis by (auto simp: cached_routing_def Let_def)
  qed
qed

text \<open>The one lane text the key of the cache cannot tell from no request at all is the underscore.\<close>

definition names_a_lane :: "py \<Rightarrow> string \<Rightarrow> dict \<Rightarrow> bool" where
  "names_a_lane policy action handoff = (ri_handoff_lane (lanes_of action policy handoff) \<noteq> Some ''_'')"

lemma same_key_view:
  assumes "strip action = action" "names_a_lane policy action h" "names_a_lane policy action h'"
    and "routing_cache_key action policy h = routing_cache_key action policy h'"
  shows "routing_view (resolve_action_routing action policy (PDict h)) =
    routing_view (resolve_action_routing action policy (PDict h'))"
proof -
  have fp: "ri_fingerprint (lanes_of action policy h) = ri_fingerprint (lanes_of action policy h')"
    using assms(4) unfolding routing_cache_key_def strip_fingerprint by simp
  note same = fingerprint_inject [OF fp assms(2,3) [unfolded names_a_lane_def]]
  have "ri_requested_lane (lanes_of action policy h) = ri_requested_lane (lanes_of action policy h')"
    by (rule requested_lane_determined) (use same policy_lane_same in auto)
  then show ?thesis by (rule resolve_view) (rule same(2))
qed


text \<open>After a handoff without a lane request, one that asks for the lane \<open>_\<close> is answered from the
  cache and allowed, although a fresh routing refuses the unknown lane.\<close>

theorem underscore_lane_is_answered_from_the_cache:
  "let plain = []; odd = [(''requested_execution_lane'', PStr ''_'')];
       (r1, cache) = cached_routing ''proceed_to_pr'' PNone plain [];
       (r2, _) = cached_routing ''proceed_to_pr'' PNone odd cache
   in routing_refusal r2 = None \<and>
      routing_refusal (resolve_action_routing ''proceed_to_pr'' PNone (PDict odd)) =
        Some ''authority_requested_lane_unknown''"
  by code_simp

section \<open>The executor\<close>

definition has_receipt :: "dict \<Rightarrow> bool" where
  "has_receipt r = has_key r ''receipt''"

lemma conclude_receipt:
  assumes "conclude root job ms st a extra w = (Inr r, w')" and "\<not> has_key extra ''receipt''"
  shows "\<not> has_receipt r"
  using assms by (auto simp: conclude_def dispatch_result_def has_receipt_def run_simps)

lemma no_receipt:
  "escalate rn routed reason w = (Inr r, w') \<Longrightarrow> \<not> has_receipt r"
  "short_circuit rn c w = (Inr r, w') \<Longrightarrow> \<not> has_receipt r"
  "pause_run q rn p why w = (Inr r, w') \<Longrightarrow> \<not> has_receipt r"
  by (auto simp: escalate_def short_circuit_def pause_run_def Let_def run_simps case_prod_unfold
      dest: conclude_receipt)

lemma retry_branch_receipt:
  "retry_branch env q n rn cache w = (Inr (Finished r), w') \<Longrightarrow> \<not> has_receipt r"
  by (auto simp: retry_branch_def run_simps Let_def split: if_splits prod.splits dest: no_receipt)

lemma routed_round_receipt:
  assumes "routed_round env q n rn cls cache w = (Inr (Finished r), w')" and "has_receipt r"
  shows "cls = ROUTING_CLASS_EXECUTOR \<and>
    executor_refusal q (rn_action rn) (as_bool (get (rn_handoff rn) ''action_consumable'')) = None"
  using assms
  by (auto simp: routed_round_def executor_branch_def run_simps
      split: if_splits option.splits dest: no_receipt retry_branch_receipt)

lemma executor_actions: "list_all (\<lambda>(t, a). routing_class a = ROUTING_CLASS_EXECUTOR \<longrightarrow>
    t \<in> set executor_action_tokens) action_authorities"
  by code_simp

lemma executor_class_action:
  assumes "routing_refusal (resolve_action_routing action p h) = None"
    and "routing_class_of (resolve_action_routing action p h) = ROUTING_CLASS_EXECUTOR"
  shows "lower (strip action) \<in> set executor_action_tokens"
proof -
  let ?r = "resolve_action_routing action p h"
  have "rt_allowed ?r" using assms(1) by (auto simp: routing_refusal_def Let_def split: if_splits)
  then have allowed: "ev_allowed (evaluate_action_authority action p h)"
    by (simp add: resolve_action_routing_def Let_def)
  then obtain a where a: "get_action_authority action = Some a"
    by (cases "get_action_authority action") (simp_all add: evaluate_action_authority_def)
  then have mem: "(lower (strip action), a) \<in> set action_authorities"
    by (auto simp: get_action_authority_def Let_def split: if_splits dest: map_of_SomeD)
  have "ev_routing_class (evaluate_action_authority action p h) = Some (routing_class a)"
    using evaluation_known(2,6) [OF a, of p h] allowed by auto
  then have "routing_class a = ROUTING_CLASS_EXECUTOR"
    using assms(2) authority_found(1) [OF a]
    by (auto simp: resolve_action_routing_def Let_def routing_class_of_def only_known_def
        lower_or_none_def authority_shape_def lane_of_class_def literal_text known_routing_classes_def
        split: if_splits)
  with executor_actions mem show ?thesis by (auto simp: list_all_iff)
qed

text \<open>The clearance of an executor call: what the two decision files and the request must say.\<close>

definition cleared :: "dispatch_request \<Rightarrow> dict \<Rightarrow> dict \<Rightarrow> string \<Rightarrow> bool" where
  "cleared q next_payload handoff action =
     (action \<noteq> [] \<and>
      normalize_text [] (get handoff ''next_action'') \<in> {[], action} \<and>
      normalize_text [] (get next_payload ''next_action'') \<in> {[], action} \<and>
      lower action \<in> set executor_action_tokens \<and>
      executor_refusal q action (as_bool (get handoff ''action_consumable'')) = None)"

definition receipt_cleared :: "dispatch_request \<Rightarrow> dict \<Rightarrow> bool" where
  "receipt_cleared q r =
     (has_receipt r \<longrightarrow> (\<exists>job fs next_payload handoff action. get r ''job_id'' = PStr job \<and>
        object_at fs (child (job_root q job) ''next_action.json'') = Some next_payload \<and>
        object_at fs (child (job_root q job) ''action_handoff.json'') = Some handoff \<and>
        cleared q next_payload handoff action))"

abbreviation any_handoff :: "string \<Rightarrow> dict \<Rightarrow> bool" where
  "any_handoff \<equiv> \<lambda>_ _. True"

lemma artifacts_on_disk:
  assumes "run_decision_artifacts root w = (Inr (n, h), w')"
  shows "object_at (wd_files w) (child root ''next_action.json'') = Some n"
    and "object_at (wd_files w) (child root ''action_handoff.json'') = Some h"
  using assms
  by (auto simp: run_decision_artifacts_def run_simps Let_def res_bind_eq_Inr read_json_eq_Inr
      object_at_def split: if_splits option.splits)

lemma decided_round_receipt:
  assumes "decided_round env q n rn cache w = (Inr s, w')"
    and "cache_from any_handoff (dq_policy_snapshot q) cache"
  shows "case s of
      Again ms c \<Rightarrow> cache_from any_handoff (dq_policy_snapshot q) c
    | Finished r \<Rightarrow> has_receipt r \<longrightarrow> (\<exists>action. cleared q (rn_next rn) (rn_handoff rn) action)"
  using assms(1)
proof (cases rule: decided_roundE)
  case (refused rn' routed reason r)
  then show ?thesis by (auto dest: no_receipt)
next
  case (routed action routing cache')
  have strip: "strip action = action"
    by (rule routed(6))
  note from_cache = cached_routing_from [OF assms(2) strip routed(3) TrueI routed(1)]
  show ?thesis
  proof (cases s)
    case (Again ms c)
    with routed(7) obtain w1 where "retry_branch env q n (rn\<lparr>rn_action := action\<rparr>) cache' w1 =
        (Inr (Again ms c), w')" by (auto dest: routed_round_again)
    then have "c = cache'" by (rule retry_branch_again)
    with Again from_cache(1) show ?thesis by simp
  next
    case (Finished r)
    show ?thesis
    proof (cases "has_receipt r")
      case True
      from routed_round_receipt [OF routed(7) [unfolded Finished] True]
      have cls: "routing_class_of routing = ROUTING_CLASS_EXECUTOR"
        and ref: "executor_refusal q action (as_bool (get (rn_handoff rn) ''action_consumable'')) = None"
        by simp_all
      from from_cache(2) obtain h where "routing = resolve_action_routing action (dq_policy_snapshot q) (PDict h)"
        by blast
      with executor_class_action routed(2) cls strip have "lower action \<in> set executor_action_tokens" by metis
      with routed(3-5) ref Finished show ?thesis by (auto simp: cleared_def)
    qed (simp add: Finished)
  qed
qed

lemma dispatch_round_receipt:
  assumes "dispatch_round env q n ms cache w = (Inr s, w')"
    and "cache_from any_handoff (dq_policy_snapshot q) cache"
  shows "case s of
      Again ms c \<Rightarrow> cache_from any_handoff (dq_policy_snapshot q) c
    | Finished r \<Rightarrow> receipt_cleared q r"
  using assms(1)
proof (cases rule: dispatch_roundE)
  case (unreadable manifest w1 reason r)
  then show ?thesis using conclude_receipt by (auto simp: receipt_cleared_def)
next
  case (decided manifest w1 rn)
  note rec = decided_round_receipt [OF decided(6) assms(2)]
  show ?thesis
  proof (cases s)
    case (Finished r)
    have "get r ''job_id'' = PStr (rn_job rn)"
      using decided_round_concluded [OF decided(6) [unfolded Finished]]
      by (auto simp: concluded_def dispatch_result_def)
    with rec Finished artifacts_on_disk [OF decided(5)] decided(4) show ?thesis
      unfolding receipt_cleared_def job_root_def by auto
  qed (use rec in simp)
qed

lemma dispatch_loop_receipt:
  assumes "dispatch_loop env q n ms cache w = (Inr r, w')"
    and "cache_from any_handoff (dq_policy_snapshot q) cache"
  shows "receipt_cleared q r"
  using assms
proof (induction env q n ms cache w rule: dispatch_loop.induct)
  case (1 env q n ms cache w)
  obtain s w1 where d: "dispatch_round env q n ms cache w = (s, w1)" by force
  show ?case
  proof (cases s)
    case (Inl e)
    with 1(2) d show ?thesis by (simp add: dispatch_loop.simps)
  next
    case (Inr t)
    note rec = dispatch_round_receipt [OF d [unfolded Inr] 1(3)]
    show ?thesis
    proof (cases t)
      case (Finished r')
      with 1(2) d Inr rec show ?thesis by (simp add: dispatch_loop.simps)
    next
      case (Again ms' c)
      show ?thesis
        by (rule 1(1) [OF d [symmetric, unfolded Inr Again] refl refl])
           (use 1(2) d Inr Again rec in \<open>simp_all add: dispatch_loop.simps\<close>)
    qed
  qed
qed


section \<open>Witnesses\<close>



end
