(* ===== verification/Handing_Over.thy ===== *)
theory Handing_Over
  imports Action_Handoff Dispatch_Routing
begin

text \<open>
  From the decision to the dispatch: what the dispatcher reads back from the files the runner
  leaves of a decision, and what it then does with a decision to retry a prompt.
\<close>

section \<open>The evidence\<close>

lemma evidence_status_known [simp]: "normalize_evidence_status v \<in> set evidence_statuses"
  by (simp add: normalize_evidence_status_def evidence_statuses_def Let_def)

lemma sum_count_list:
  "distinct xs \<Longrightarrow> set ys \<subseteq> set xs \<Longrightarrow> sum_list (map (count_list ys) xs) = length ys"
  by (simp add: sum_list_distinct_conv_sum_set sum_count_set)

lemma sum_list_int: "sum_list (map (\<lambda>x. int (f x)) xs) = int (sum_list (map f xs))"
  by (induction xs) simp_all

text \<open>An item that gives no reason for a constraint.\<close>

definition conclusive :: "dict \<Rightarrow> bool" where
  "conclusive item =
     (let operation = normalize_text ''unknown_operation'' (get item ''operation'');
          data = mapping_or_empty (get item ''data'')
      in normalize_text ''api_failure'' (get item ''status'') = ''success'' \<and>
         (operation = ''get_pr_status_summary'' \<longrightarrow>
            normalize_text [] (get data ''checks_state'') \<in> {[], ''passing''}) \<and>
         (operation = ''find_open_pr'' \<longrightarrow> get data ''matched'' \<noteq> PBool False) \<and>
         (operation = ''compare_refs'' \<longrightarrow>
            normalize_text [] (get data ''comparison_status'') \<notin> {[], ''unknown''}) \<and>
         (operation = ''get_branch_head'' \<longrightarrow>
            get data ''exists'' \<noteq> PBool False \<and> normalize_text [] (get data ''head_sha'') \<noteq> []))"

lemma status_success:
  "normalize_evidence_status v = ''success'' \<longleftrightarrow> normalize_text ''api_failure'' v = ''success''"
  by (auto simp: normalize_evidence_status_def evidence_statuses_def Let_def)

lemma no_constraint_iff: "derive_evidence_constraints item = [] \<longleftrightarrow> conclusive item"
proof (cases "normalize_evidence_status (get item ''status'') = ''success''")
  case True
  then show ?thesis
    unfolding derive_evidence_constraints_def conclusive_def Let_def status_success [symmetric]
    by simp
next
  case False
  have "normalize_evidence_status (get item ''status'') \<in> set evidence_statuses" by simp
  with False show ?thesis
    unfolding derive_evidence_constraints_def conclusive_def Let_def status_success [symmetric]
    by (auto simp: evidence_statuses_def)
qed

lemma constraint_not_Nil: "c \<in> set (derive_evidence_constraints item) \<Longrightarrow> c \<noteq> []"
  by (auto simp: derive_evidence_constraints_def Let_def split: if_splits)

text \<open>The evidence summary accounts for every item: the counts by status add up to the number of
  items, and the constraints, in order and without repetition, are none exactly when every item
  succeeded and is conclusive.\<close>

theorem evidence_summary_accounts_for_every_item:
  "\<exists>counts items. get (fst (summarize_external_evidence e)) ''status_counts'' = PDict counts \<and>
     items = extract_evidence_items e \<and> map fst counts = evidence_statuses \<and>
     sum_list (map (\<lambda>(_, v). case v of PInt n \<Rightarrow> n | _ \<Rightarrow> 0) counts) = int (length items) \<and>
     sorted (snd (summarize_external_evidence e)) \<and> distinct (snd (summarize_external_evidence e)) \<and>
     (snd (summarize_external_evidence e) = [] \<longleftrightarrow> list_all (conclusive \<circ> snd) items)"
proof -
  let ?items = "extract_evidence_items e"
  let ?sts = "map item_status ?items"
  let ?cs = "{c \<in> \<Union> (set ` derive_evidence_constraints ` snd ` set ?items). c \<noteq> []}"
  have "sum_list (map (\<lambda>s. int (count_list ?sts s)) evidence_statuses) =
      int (sum_list (map (count_list ?sts) evidence_statuses))"
    by (rule sum_list_int)
  also have "sum_list (map (count_list ?sts) evidence_statuses) = length ?sts"
  proof (rule sum_count_list)
    show "distinct evidence_statuses" by code_simp
    show "set ?sts \<subseteq> set evidence_statuses" by (auto simp: item_status_def)
  qed
  also have "int (length ?sts) = int (length ?items)" by simp
  finally have sum: "sum_list (map (\<lambda>s. int (count_list ?sts s)) evidence_statuses) = int (length ?items)" .
  have fin: "finite ?cs" by simp
  have "?cs = (\<Union>i \<in> set ?items. set (derive_evidence_constraints (snd i)))"
    using constraint_not_Nil by blast
  then have "?cs = {} \<longleftrightarrow> (\<forall>i \<in> set ?items. derive_evidence_constraints (snd i) = [])" by simp
  then have none: "sorted_list_of_set ?cs = [] \<longleftrightarrow> list_all (conclusive \<circ> snd) ?items"
    using fin by (simp add: no_constraint_iff list_all_iff)
  have cs: "snd (summarize_external_evidence e) = sorted_list_of_set ?cs"
    and counts: "get (fst (summarize_external_evidence e)) ''status_counts'' =
      PDict (map (\<lambda>s. (s, PInt (int (count_list ?sts s)))) evidence_statuses)"
    unfolding summarize_external_evidence_def Let_def by (simp_all only: fst_conv snd_conv) simp
  show ?thesis
    unfolding cs none
    by (intro exI [of _ "map (\<lambda>s. (s, PInt (int (count_list ?sts s)))) evidence_statuses"]
        exI [of _ ?items])
       (use sum in \<open>simp add: counts comp_def\<close>)
qed

section \<open>The decision read back\<close>

lemma allowed_action_facts:
  assumes "a \<in> set allowed_next_actions"
  shows "strip a = a" and "a \<noteq> []" and "resolve_consumable a = (True, None)"
proof -
  have "\<forall>a \<in> set allowed_next_actions. strip a = a \<and> a \<noteq> [] \<and>
      a \<in> set all_first_class_action_tokens" by code_simp
  with assms show "strip a = a" "a \<noteq> []" "resolve_consumable a = (True, None)"
    by (auto simp: resolve_consumable_def)
qed

text \<open>What every decision of the controller satisfies.\<close>

definition decision_ok :: "decision \<Rightarrow> bool" where
  "decision_ok d =
     (dc_next_action d \<in> set allowed_next_actions \<and> context_ok (dc_updated_retry_context d) \<and>
      dc_retry_budget_remaining d = retry_budget_remaining (dc_updated_retry_context d) \<and>
      (dc_next_action d \<in> set allowed_retry_classes \<longrightarrow>
         prior_retry_class (dc_updated_retry_context d) = Some (dc_next_action d) \<and>
         1 \<le> prior_attempt_count (dc_updated_retry_context d)))"

lemma controller_decision_ok:
  assumes "evaluate_next_action manifest units ctx pol plan = Inr d"
  shows "decision_ok d"
proof -
  from assms obtain c i and s :: run_signals where c: "context_ok c"
    and a: "dc_next_action d = pg_next_action (progression_matrix i)"
    and u: "update_retry_context (retry_context_dict c) (dc_next_action d)
      (rs_observed_attempt_count s) = Inr (dc_updated_retry_context d)"
    and b: "dc_retry_budget_remaining d = retry_budget_remaining (dc_updated_retry_context d)"
    by (rule decisionE) blast
  have "dc_next_action d \<in> set allowed_next_actions"
    unfolding a using matrix_actions [of i] by (auto simp: allowed_next_actions_def)
  moreover have "context_ok (dc_updated_retry_context d)" by (rule update_retry_context_ok [OF c u])
  moreover have "0 \<le> prior_attempt_count c" using c by (simp add: context_ok_def)
  ultimately show ?thesis
    using u [symmetric] unfolding update_retry_context_eq [OF c] decision_ok_def b
    by (auto simp: Let_def)
qed

text \<open>The handoff of such a decision, as the file holds it.\<close>

definition handed_over :: "string \<Rightarrow> decision \<Rightarrow> datetime \<Rightarrow> py \<Rightarrow> dict \<Rightarrow> bool" where
  "handed_over job d now evidence h' =
     (\<exists>h. build_action_handoff_payload job (decision_dict d) now evidence = Inr h \<and>
          json_value (PDict h) = PDict h')"

lemma handoff_written:
  assumes "decision_ok d"
  obtains h h' where "build_action_handoff_payload job (decision_dict d) now evidence = Inr h"
    "json_value (PDict h) = PDict h'"
    "get h' ''next_action'' = PStr (dc_next_action d)"
    "get h' ''action_consumable'' = PBool True"
    "get h' ''whether_human_required'' = PBool (dc_whether_human_required d)"
    "get h' ''retry_budget_remaining'' = PInt (dc_retry_budget_remaining d)"
    "get h' ''updated_retry_context'' =
       json_value (PDict (retry_context_dict (dc_updated_retry_context d)))"
proof -
  let ?c = "dc_updated_retry_context d"
  from assms have a: "dc_next_action d \<in> set allowed_next_actions" and c: "context_ok ?c"
    and b: "dc_retry_budget_remaining d = retry_budget_remaining ?c"
    by (simp_all add: decision_ok_def)
  have budget: "0 \<le> retry_budget_remaining ?c" using c by (simp add: context_ok_def)
  have ctx: "normalize_retry_context (PDict (retry_context_dict ?c)) PNone = Inr ?c"
    by (rule normalize_retry_context_roundtrip [OF c, where b = 1]) (simp add: read_default_budget_def)
  obtain summary constraints where e: "summarize_external_evidence evidence = (summary, constraints)" by force
  have "\<exists>h. build_action_handoff_payload job (decision_dict d) now evidence = Inr h \<and> keys_ok h \<and>
      get h ''next_action'' = PStr (dc_next_action d) \<and> get h ''action_consumable'' = PBool True \<and>
      get h ''whether_human_required'' = PBool (dc_whether_human_required d) \<and>
      get h ''retry_budget_remaining'' = PInt (dc_retry_budget_remaining d) \<and>
      get h ''updated_retry_context'' = PDict (retry_context_dict ?c)"
    using budget
    by (simp add: build_action_handoff_payload_def Let_def decision_dict_def e b ctx
        allowed_action_facts [OF a] keys_ok_def)
  then obtain h where h: "build_action_handoff_payload job (decision_dict d) now evidence = Inr h"
    "keys_ok h" "get h ''next_action'' = PStr (dc_next_action d)" "get h ''action_consumable'' = PBool True"
    "get h ''whether_human_required'' = PBool (dc_whether_human_required d)"
    "get h ''retry_budget_remaining'' = PInt (dc_retry_budget_remaining d)"
    "get h ''updated_retry_context'' = PDict (retry_context_dict ?c)" by blast
  obtain h' where j: "json_value (PDict h) = PDict h'" "\<And>k. get h' k = json_value (get h k)"
    by (rule json_dict [OF h(2)]) (rule that)
  show thesis by (rule that [OF h(1) j(1)]) (simp_all only: j(2) h(3-7) json_value.simps)
qed

lemma handed_over_reads:
  assumes "decision_ok d" and "handed_over job d now evidence h'"
  shows "get h' ''next_action'' = PStr (dc_next_action d)"
    and "get h' ''action_consumable'' = PBool True"
    and "get h' ''whether_human_required'' = PBool (dc_whether_human_required d)"
    and "resolve_retry_details h' = Inr
      \<lparr>sg_class = prior_retry_class (dc_updated_retry_context d),
       sg_budget = Some (dc_retry_budget_remaining d),
       sg_missing = Some (missing_signal_count (dc_updated_retry_context d)),
       sg_attempts = Some (prior_attempt_count (dc_updated_retry_context d))\<rparr>"
proof -
  let ?c = "dc_updated_retry_context d"
  from assms(2) obtain h where h: "build_action_handoff_payload job (decision_dict d) now evidence = Inr h"
    "json_value (PDict h) = PDict h'" by (auto simp: handed_over_def)
  obtain h1 h1' where w: "build_action_handoff_payload job (decision_dict d) now evidence = Inr h1"
    "json_value (PDict h1) = PDict h1'" "get h1' ''next_action'' = PStr (dc_next_action d)"
    "get h1' ''action_consumable'' = PBool True"
    "get h1' ''whether_human_required'' = PBool (dc_whether_human_required d)"
    "get h1' ''retry_budget_remaining'' = PInt (dc_retry_budget_remaining d)"
    "get h1' ''updated_retry_context'' = json_value (PDict (retry_context_dict ?c))"
    by (rule handoff_written [OF assms(1)])
  from h w(1,2) have "h1' = h'" by simp
  note r = w(3-7) [unfolded this]
  show "get h' ''next_action'' = PStr (dc_next_action d)" "get h' ''action_consumable'' = PBool True"
    "get h' ''whether_human_required'' = PBool (dc_whether_human_required d)" by (fact r)+
  have "keys_ok (retry_context_dict ?c)" by (simp add: keys_ok_def retry_context_dict_def)
  then obtain c' where c': "json_value (PDict (retry_context_dict ?c)) = PDict c'"
    "\<And>k. get c' k = json_value (get (retry_context_dict ?c) k)" by (rule json_dict) (rule that)
  have g: "get (retry_context_dict ?c) ''prior_attempt_count'' = PInt (prior_attempt_count ?c)"
    "get (retry_context_dict ?c) ''prior_retry_class'' = opt_str (prior_retry_class ?c)"
    "get (retry_context_dict ?c) ''missing_signal_count'' = PInt (missing_signal_count ?c)"
    by (simp_all add: retry_context_dict_def)
  have "text_or_none (opt_str (prior_retry_class ?c)) = prior_retry_class ?c"
    using assms(1)
    by (cases "prior_retry_class ?c") (auto simp: decision_ok_def context_ok_def)
  then show "resolve_retry_details h' = Inr
      \<lparr>sg_class = prior_retry_class ?c, sg_budget = Some (dc_retry_budget_remaining d),
       sg_missing = Some (missing_signal_count ?c), sg_attempts = Some (prior_attempt_count ?c)\<rparr>"
    by (simp add: resolve_retry_details_def r c' Let_def g)
qed

text \<open>C18. What the controller decided is what the dispatcher reads: the handoff of a decision can always
  be built, and read back from its file it names the decision's action as consumable, asks for a
  human when the decision does, and carries the decision's retry class, budget and counts.\<close>

theorem dispatcher_reads_the_decision_back:
  assumes "evaluate_next_action manifest units ctx pol plan = Inr d"
  shows "\<exists>h h'. build_action_handoff_payload job (decision_dict d) now evidence = Inr h \<and>
    json_value (PDict h) = PDict h' \<and> get h' ''next_action'' = PStr (dc_next_action d) \<and>
    as_bool (get h' ''action_consumable'') \<and>
    as_bool (get h' ''whether_human_required'') = dc_whether_human_required d \<and>
    resolve_retry_details h' = Inr
      \<lparr>sg_class = prior_retry_class (dc_updated_retry_context d),
       sg_budget = Some (dc_retry_budget_remaining d),
       sg_missing = Some (missing_signal_count (dc_updated_retry_context d)),
       sg_attempts = Some (prior_attempt_count (dc_updated_retry_context d))\<rparr>"
proof -
  note ok = controller_decision_ok [OF assms]
  obtain h h' where h: "build_action_handoff_payload job (decision_dict d) now evidence = Inr h"
    "json_value (PDict h) = PDict h'" by (rule handoff_written [OF ok])
  then have "handed_over job d now evidence h'" by (auto simp: handed_over_def)
  from handed_over_reads [OF ok this] h show ?thesis by auto
qed

section \<open>A decision to retry a prompt\<close>

lemma merged_details:
  assumes "merge_retry_signals h p = Inr s" and "resolve_retry_details h = Inr g"
    and "sg_class g = Some a" and "sg_attempts g = Some n"
  shows "sg_class s = Some a" and "n \<le> count_of (sg_attempts s)"
proof -
  from assms(1,2) obtain budget missing attempts where s: "s =
      \<lparr>sg_class = (case sg_class g of Some c \<Rightarrow> Some c
         | None \<Rightarrow> text_or_none (get (mapping_or_empty p) ''prior_retry_class'')),
       sg_budget = merge_option min (sg_budget g) budget,
       sg_missing = merge_option max (sg_missing g) missing,
       sg_attempts = merge_option max (sg_attempts g) attempts\<rparr>"
    by (auto simp: merge_retry_signals_def Let_def res_bind_eq_Inr)
  show "sg_class s = Some a" by (simp add: s assms(3))
  show "n \<le> count_of (sg_attempts s)"
    by (cases attempts) (simp_all add: s assms(4) count_of_def)
qed

lemma charged_class_is_refused:
  assumes "rn_action rn \<in> set prompt_retries" and "sg_class (rn_signals rn) = Some (rn_action rn)"
    and "1 \<le> count_of (sg_attempts (rn_signals rn))"
  shows "retry_verdict rn n m k \<noteq> Inr (True, why)"
  using assms by (auto dest: retry_verdict_allowed)

text \<open>The two decision files of a job hold a decision and its handoff.\<close>

definition hands_over :: "files \<Rightarrow> path \<Rightarrow> string \<Rightarrow> decision \<Rightarrow> datetime \<Rightarrow> py \<Rightarrow> bool" where
  "hands_over fs root job d now evidence =
     (fs (child root ''next_action.json'') = Some (JsonText (json_value (PDict (decision_dict d)))) \<and>
      (\<exists>h. build_action_handoff_payload job (decision_dict d) now evidence = Inr h \<and>
         fs (child root ''action_handoff.json'') = Some (JsonText (json_value (PDict h)))))"

lemma decided_action:
  assumes "normalize_text [] (get handoff ''next_action'') \<in> {[], action}"
    and "get handoff ''next_action'' = PStr a" and "strip a = a" and "a \<noteq> []"
  shows "action = a"
  using assms by simp


section \<open>Witnesses\<close>

text \<open>One unit whose execution failed: the controller decides to retry the prompt.\<close>

definition failed_units :: "dict list" where
  "failed_units =
     [[(''pr_id'', PStr ''pr-1''), (''receipt'', PDict []),
       (''result'', PDict [(''execution'', PDict [(''status'', PStr ''failed''),
          (''verify'', PDict [(''status'', PStr ''passed'')])])])]]"

definition fresh_context :: retry_context where
  "fresh_context =
     \<lparr>prior_attempt_count = 0, prior_retry_class = None, missing_signal_count = 0,
      retry_budget_remaining = 1\<rparr>"

definition retry_decision_made :: decision where
  "retry_decision_made =
     \<lparr>dc_next_action = ''same_prompt_retry'',
      dc_reason = ''explicit execution/tool failure with valid planned scope'',
      dc_progression_outcome = OUTCOME_RETRY_WITH_SAME_PROMPT,
      dc_result_acceptance = RESULT_REJECTED,
      dc_progression_rule_id = ''retry_execution_with_same_prompt'', dc_retry_budget_remaining = 0,
      dc_whether_human_required = False,
      dc_updated_retry_context = \<lparr>prior_attempt_count = 1,
        prior_retry_class = Some ''same_prompt_retry'', missing_signal_count = 0,
        retry_budget_remaining = 0\<rparr>\<rparr>"

lemma retry_decided:
  "evaluate_next_action [] failed_units (PDict (retry_context_dict fresh_context)) PNone PNone =
     Inr retry_decision_made"
  by code_simp

text \<open>A runner that leaves the decision and its handoff.\<close>

definition deciding_runner :: "dispatch_request \<Rightarrow> dict run" where
  "deciding_runner q =
     run_bind (run_res (build_action_handoff_payload ''job-1'' (decision_dict retry_decision_made) noon PNone))
       (\<lambda>h. let root = job_root q ''job-1'' in
      run_bind (run_write (child root ''next_action.json'')
          (json_value (PDict (decision_dict retry_decision_made)))) (\<lambda>_.
      run_bind (run_write (child root ''action_handoff.json'') (json_value (PDict h))) (\<lambda>_.
      run_return [(''job_id'', PStr ''job-1'')])))"

definition deciding_env :: environment where
  "deciding_env = (demo_env [])\<lparr>en_runner := deciding_runner\<rparr>"

theorem dispatcher_reads_the_decision_back_witness:
  "\<exists>h h'. build_action_handoff_payload ''job-1'' (decision_dict retry_decision_made) noon PNone = Inr h \<and>
     json_value (PDict h) = PDict h' \<and> get h' ''next_action'' = PStr ''same_prompt_retry''"
  using dispatcher_reads_the_decision_back [OF retry_decided, of "''job-1''" noon PNone]
  by (auto simp: retry_decision_made_def)


end
