(* ===== verification/Lease_Refinement.thy ===== *)
theory Lease_Refinement
  imports Job_Lease Pause_State
begin

text \<open>
  The contract of the lease file: a table that says for each job who holds it and until when. A
  call may take a job that is free, lapsed or the caller's own, may drop a job the caller holds,
  or does nothing. Every sequence of calls on the file, failed ones included, is a run of the table.
\<close>

section \<open>The table\<close>

type_synonym lease_table = "string \<Rightarrow> (string \<times> datetime option) option"

fun lapsed :: "datetime \<Rightarrow> datetime option \<Rightarrow> bool" where
  "lapsed now None = True"
| "lapsed now (Some expiry) = (dt_less now expiry = Inr False)"

inductive lease_step :: "string option \<Rightarrow> clock_readings \<Rightarrow> lease_table \<Rightarrow> lease_table \<Rightarrow> bool" where
  taken: "\<lbrakk>\<forall>h0 e0. tbl job = Some (h0, e0) \<longrightarrow> h0 = h \<or> lapsed t1 e0;
          0 < d; add_seconds t2 d = Inr e\<rbrakk> \<Longrightarrow>
     lease_step (Some h) (t1, t2, t3) tbl (tbl(job \<mapsto> (h, Some (floor_seconds e))))"
| dropped: "\<lbrakk>tbl job = Some (h0, e0); who = None \<or> who = Some h0\<rbrakk> \<Longrightarrow>
     lease_step who ts tbl (tbl(job := None))"
| untouched: "lease_step who ts tbl tbl"

inductive_cases lease_stepE: "lease_step who ts tbl tbl'"

inductive lease_run :: "(string option \<times> clock_readings) list \<Rightarrow> lease_table \<Rightarrow> lease_table \<Rightarrow> bool" where
  finished: "lease_run [] tbl tbl"
| called: "\<lbrakk>lease_step who ts tbl tbl'; lease_run cs tbl' tbl''\<rbrakk> \<Longrightarrow> lease_run ((who, ts) # cs) tbl tbl''"

inductive_simps lease_run_simps:
  "lease_run [] tbl tbl'" "lease_run ((who, ts) # cs) tbl tbl'"

text \<open>In the table a lease that has not lapsed stays with its holder.\<close>

lemma step_keeps_holder:
  assumes "lease_step who (t1, t2, t3) tbl tbl'" and "tbl job = Some (h, e)"
    and "\<not> lapsed t1 e" and "who \<noteq> None" and "who \<noteq> Some h"
  shows "tbl' job = Some (h, e)"
  using assms by (auto elim!: lease_stepE split: if_splits)

lemma run_keeps_holder:
  "lease_run cs tbl tbl' \<Longrightarrow> tbl job = Some (h, e) \<Longrightarrow>
     \<forall>(who, t1, t2, t3) \<in> set cs. \<not> lapsed t1 e \<and> who \<noteq> None \<and> who \<noteq> Some h \<Longrightarrow>
     tbl' job = Some (h, e)"
proof (induction rule: lease_run.induct)
  case (called who ts tbl tbl' cs tbl'')
  obtain t1 t2 t3 where ts: "ts = (t1, t2, t3)" by (cases ts)
  with called have "tbl' job = Some (h, e)" by (auto intro: step_keeps_holder)
  with called show ?case by simp
qed

section \<open>The file\<close>

definition table_of :: "py option \<Rightarrow> lease_table" where
  "table_of f k =
     map_option (\<lambda>l. (ls_holder l, parse_iso_datetime (PStr (ls_expires_at l)))) (lease_of f k)"

text \<open>For whom a call is made; a release that names nobody is made for anybody.\<close>

fun caller :: "lease_call \<Rightarrow> string option" where
  "caller (Claim job h n) = Some (strip h)"
| "caller (Renew job h n) = Some (strip h)"
| "caller (Release job who) =
     (case who of None \<Rightarrow> None | Some h \<Rightarrow> if strip h = [] then None else Some (strip h))"

lemma table_of_store:
  assumes "lease_good f" and "lease_ok k l" and "dt_valid e" and "ls_expires_at l = iso_seconds e"
  shows "table_of (leases.store f k l) = (table_of f)(k \<mapsto> (ls_holder l, Some (floor_seconds e)))"
  using assms by (auto simp: table_of_def leases.lookup_store)

lemma inactive_lapsed:
  "is_active_lease l t = Inr False \<Longrightarrow> lapsed t (parse_iso_datetime (PStr (ls_expires_at l)))"
  by (cases "parse_iso_datetime (PStr (ls_expires_at l))")
     (simp_all add: is_active_lease_def del: normalize_text_PStr)

lemma renewed_expiry:
  assumes "lease_renew f job h n t1 t2 = Inr ((True, Some l), f')"
  shows "\<exists>d e. 0 < d \<and> add_seconds t2 d = Inr e \<and> ls_expires_at l = iso_seconds e"
proof -
  from assms obtain d ls where d: "as_non_negative_int 0 n = Inr d" "0 < d"
    and t: "strip job \<noteq> []" "strip h \<noteq> []" and ls: "lease_load f = Inr ls"
    by (auto simp: lease_renew_def res_bind_eq_Inr split: if_splits)
  note run = assms [unfolded lease_renew_def d(1) ls res_bind_Inr]
  from run d t obtain l0 where l0: "map_of ls (strip job) = Some l0" by (cases "map_of ls (strip job)") auto
  from run d t l0 obtain a e where "is_active_lease l0 t1 = Inr a" "add_seconds t2 d = Inr e"
    by (auto simp: res_bind_eq_Inr split: if_splits)
  with run d t l0 show ?thesis by (auto simp: Let_def split: if_splits)
qed

lemma claim_refines:
  assumes "lease_good f" and "readings_valid ts"
  shows "lease_step (Some (strip h)) ts (table_of f) (table_of (run_call (Claim job h n) ts f))"
proof -
  obtain t1 t2 t3 where ts: "ts = (t1, t2, t3)" by (cases ts)
  with assms(2) have v: "dt_valid t2" "dt_valid t3" by simp_all
  show ?thesis
  proof (cases "lease_claim f job h n t1 t2 t3")
    case (Inl e)
    then show ?thesis by (simp add: ts file_after_def untouched)
  next
    case (Inr r)
    obtain g l f' where r: "r = ((g, l), f')" by (metis surj_pair)
    note eff = claim_effect [OF assms(1) v Inr [unfolded r]]
    show ?thesis
    proof (cases g)
      case False
      with eff Inr r show ?thesis by (simp add: ts file_after_def untouched)
    next
      case True
      with eff obtain d e where l: "f' = leases.store f (strip job) l" "lease_ok (strip job) l"
        "ls_holder l = strip h" "0 < d" "add_seconds t2 d = Inr e" "ls_expires_at l = iso_seconds e"
        and free: "\<forall>l0. lease_of f (strip job) = Some l0 \<longrightarrow>
          is_active_lease l0 t1 = Inr False \<or> ls_holder l0 = strip h" by auto
      have "table_of f' = (table_of f)(strip job \<mapsto> (strip h, Some (floor_seconds e)))"
        using table_of_store [OF assms(1) l(2) add_seconds_valid [OF v(1) l(5)] l(6)] l(1,3) by simp
      moreover have "\<forall>h0 e0. table_of f (strip job) = Some (h0, e0) \<longrightarrow> h0 = strip h \<or> lapsed t1 e0"
        using free by (auto simp: table_of_def dest: inactive_lapsed)
      ultimately show ?thesis
        using taken [OF _ l(4,5)] by (simp add: ts file_after_def Inr r)
    qed
  qed
qed

lemma renew_refines:
  assumes "lease_good f" and "readings_valid ts"
  shows "lease_step (Some (strip h)) ts (table_of f) (table_of (run_call (Renew job h n) ts f))"
proof -
  obtain t1 t2 t3 where ts: "ts = (t1, t2, t3)" by (cases ts)
  with assms(2) have v: "dt_valid t2" by simp
  show ?thesis
  proof (cases "lease_renew f job h n t1 t2")
    case (Inl e)
    then show ?thesis by (simp add: ts file_after_def untouched)
  next
    case (Inr r)
    obtain g lo f' where r: "r = ((g, lo), f')" by (metis surj_pair)
    note eff = renew_effect [OF assms(1) v Inr [unfolded r]]
    show ?thesis
    proof (cases g)
      case False
      with eff Inr r show ?thesis by (simp add: ts file_after_def untouched)
    next
      case True
      with eff obtain l0 l where l: "lo = Some l" "lease_of f (strip job) = Some l0"
        "ls_holder l0 = strip h" "f' = leases.store f (strip job) l" "lease_ok (strip job) l"
        "ls_holder l = strip h" by auto
      from renewed_expiry [of f job h n t1 t2 l f'] Inr r l(1) True obtain d e where
        e: "0 < d" "add_seconds t2 d = Inr e" "ls_expires_at l = iso_seconds e" by auto
      have "table_of f' = (table_of f)(strip job \<mapsto> (strip h, Some (floor_seconds e)))"
        using table_of_store [OF assms(1) l(5) add_seconds_valid [OF v e(2)] e(3)] l(4,6) by simp
      moreover have "\<forall>h0 e0. table_of f (strip job) = Some (h0, e0) \<longrightarrow> h0 = strip h \<or> lapsed t1 e0"
        using l(2,3) by (auto simp: table_of_def)
      ultimately show ?thesis
        using taken [OF _ e(1,2)] by (simp add: ts file_after_def Inr r)
    qed
  qed
qed

lemma release_refines:
  assumes "lease_good f"
  shows "lease_step (caller (Release job who)) ts (table_of f) (table_of (run_call (Release job who) ts f))"
proof (cases "lease_release f job who")
  case (Inl e)
  then show ?thesis by (cases ts) (simp add: file_after_def untouched)
next
  case (Inr r)
  obtain g f' where r: "r = (g, f')" by force
  note eff = release_effect [OF assms Inr [unfolded r]]
  show ?thesis
  proof (cases g)
    case False
    with eff Inr r show ?thesis by (cases ts) (simp add: file_after_def untouched)
  next
    case True
    with eff obtain l where l: "f' = leases.remove f (strip job)" "lease_of f (strip job) = Some l"
      "case who of None \<Rightarrow> True | Some h \<Rightarrow> strip h = [] \<or> ls_holder l = strip h" by auto
    have "table_of f' = (table_of f)(strip job := None)"
      by (auto simp: l(1) table_of_def leases.lookup_remove [OF assms])
    moreover have "caller (Release job who) = None \<or> caller (Release job who) = Some (ls_holder l)"
      using l(3) by (auto split: option.splits)
    moreover have "table_of f (strip job) =
        Some (ls_holder l, parse_iso_datetime (PStr (ls_expires_at l)))" by (simp add: table_of_def l(2))
    ultimately show ?thesis using dropped by (cases ts) (simp add: file_after_def Inr r)
  qed
qed

lemma run_call_refines:
  "lease_good f \<Longrightarrow> readings_valid ts \<Longrightarrow>
     lease_step (caller c) ts (table_of f) (table_of (run_call c ts f))"
  by (cases c) (use claim_refines renew_refines release_refines in \<open>simp_all only: caller.simps\<close>)

text \<open>C25. The lease file refines the table of holders: whatever sequence of claims, renewals and releases
  is made on a well-formed file, refused and failing ones included, the table it denotes takes a
  run of the contract, in which a job is only taken when it is free, lapsed or the caller's own,
  and only dropped for its holder or by a release that names nobody.\<close>

theorem lease_file_refines_the_table:
  assumes "lease_good f" and "\<forall>(c, ts) \<in> set cs. readings_valid ts"
  shows "lease_run (map (\<lambda>(c, ts). (caller c, ts)) cs) (table_of f) (table_of (run_calls cs f))"
  using assms
proof (induction cs arbitrary: f)
  case (Cons x cs)
  obtain c ts where x: "x = (c, ts)" by (metis surj_pair)
  from Cons.prems x have ts: "readings_valid ts" by simp
  have "lease_good (run_call c ts f)" using Cons.prems(1) ts by (rule run_call_good)
  with Cons.IH Cons.prems(2) have
    "lease_run (map (\<lambda>(c, ts). (caller c, ts)) cs) (table_of (run_call c ts f)) (table_of (run_calls (x # cs) f))"
    by (simp add: x)
  with called [OF run_call_refines [OF Cons.prems(1) ts, of c]] show ?case by (simp add: x)
qed (simp add: finished)

theorem lease_file_refines_the_table_witness:
  "lease_run [(Some ''a'', t0, t0, t0), (Some ''b'', t0, t0, t0), (None, t0, t0, t0)] (\<lambda>_. None)
     (table_of (run_calls [(Claim ''job'' ''a'' (PInt 60), t0, t0, t0),
       (Claim ''job'' ''b'' (PInt 60), t0, t0, t0), (Release ''job'' None, t0, t0, t0)] None))"
proof -
  have strips: "strip ''a'' = ''a''" "strip ''b'' = ''b''" by code_simp+
  have start: "table_of None = (\<lambda>_. None)" by (simp add: table_of_def fun_eq_iff)
  show ?thesis
    using lease_file_refines_the_table [OF leases.good_None(1), of "[(Claim ''job'' ''a'' (PInt 60), t0, t0, t0),
       (Claim ''job'' ''b'' (PInt 60), t0, t0, t0), (Release ''job'' None, t0, t0, t0)]"] t0_facts(1)
    by (simp add: start strips del: run_calls.simps)
qed

end
