(* ===== verification/Action_Executor.thy ===== *)
theory Action_Executor
  imports Dispatch
begin

text \<open>
  \<open>automation/control/action_executor.py\<close>: the executor of the four GitHub actions. It reads the
  handoff again, checks the routing, the write authority, the category and the repository for
  itself, calls the client of the action, and leaves a receipt.

  The four clients are objects the executor is given: programs that take their keyword arguments
  as a dictionary, and the directory of the write receipts.
\<close>

section \<open>Receipts\<close>

definition receipt_filename_for_action :: "string \<Rightarrow> string" where
  "receipt_filename_for_action action =
     (if action = ''github.pr.update'' then ''pr_update_receipt.json''
      else if action = ''proceed_to_merge'' then ''merge_receipt.json''
      else if action = ''rollback_required'' then ''rollback_receipt.json''
      else ''pr_creation_receipt.json'')"

definition default_receipt :: "string \<Rightarrow> string option \<Rightarrow> string \<Rightarrow> bool \<Rightarrow> dict" where
  "default_receipt job_id requested_action executed_at human =
     [(''job_id'', PStr job_id), (''requested_action'', opt_str requested_action),
      (''attempted'', PBool False), (''succeeded'', PBool False), (''refusal_reason'', PNone),
      (''repository'', PNone), (''base_branch'', PNone), (''head_branch'', PNone),
      (''pr_number'', PNone), (''pr_url'', PNone), (''merge_commit_sha'', PNone),
      (''merged_state_summary'', PNone), (''checks_state_summary'', PNone),
      (''rollback_target'', PNone), (''rollback_scope_summary'', PNone),
      (''rollback_result_summary'', PNone), (''title_preview'', PNone), (''body_preview'', PNone),
      (''body_summary'', PNone),
      (''evidence_used_summary'', PDict [(''read_operations'', PList []), (''constraints'', PList [])]),
      (''write_idempotency'', PNone), (''write_authority_state'', PNone),
      (''whether_human_required'', PBool human), (''executed_at'', PStr executed_at)]"

definition persist_receipt :: "path \<Rightarrow> string \<Rightarrow> dict \<Rightarrow> dict run" where
  "persist_receipt root action receipt =
     run_bind (run_write (child root (receipt_filename_for_action (strip action)))
       (json_value (PDict receipt))) (\<lambda>_. run_return receipt)"

section \<open>The write authority\<close>

text \<open>\<open>_normalize_string_list(value, sort_items=True)\<close>.\<close>

definition normalize_string_list :: "py \<Rightarrow> string list" where
  "normalize_string_list v =
     (let items = (case v of PList vs \<Rightarrow> vs | PTuple vs \<Rightarrow> vs | _ \<Rightarrow> [])
      in sort (remdups (filter (\<lambda>t. t \<noteq> []) (map (\<lambda>i. strip (py_str i)) items))))"

record write_authority =
  wa_state :: string
  wa_actions_allowed :: bool
  wa_categories :: "string list"
  wa_actions :: "string list"

definition normalize_write_authority :: "py \<Rightarrow> write_authority" where
  "normalize_write_authority v =
     (let source = mapping_or_empty v;
          given = lower (normalize_text [] (get source ''state''));
          state = (if given \<noteq> [] then given
                   else if \<not> as_bool (get source ''enabled'') then ''disabled''
                   else if as_bool (get source ''kill_switch'') then ''blocked''
                   else if as_bool (get source ''dry_run'') then ''dry_run_only''
                   else ''write_allowed'')
      in \<lparr>wa_state = state,
          wa_actions_allowed = (if has_key source ''write_actions_allowed''
            then as_bool (get source ''write_actions_allowed'') else state = ''write_allowed''),
          wa_categories = normalize_string_list (get source ''allowed_categories''),
          wa_actions = normalize_string_list (get source ''allowed_actions'')\<rparr>)"

section \<open>The plan of the run\<close>

text \<open>One of the three planning files the manifest's artefact directory holds; \<open>{}\<close> when unreadable.\<close>

definition planning_artifact :: "files \<Rightarrow> dict \<Rightarrow> string \<Rightarrow> dict" where
  "planning_artifact fs manifest name =
     (let dir = normalize_text [] (get manifest ''artifact_input_dir'') in
      if dir = [] \<or> fs (path_of dir) \<noteq> Some Directory then []
      else case object_at fs (child (path_of dir) (name @ ''.json'')) of None \<Rightarrow> [] | Some d \<Rightarrow> d)"

definition planned_prs :: "dict \<Rightarrow> dict list" where
  "planned_prs pr_plan = List.map_filter as_mapping (list_items (get pr_plan ''prs''))"

definition derive_single_category :: "dict \<Rightarrow> string" where
  "derive_single_category pr_plan =
     (case sorted_list_of_set {c \<in> (\<lambda>p. normalize_text [] (get p ''tier_category'')) ` set (planned_prs pr_plan).
           c \<noteq> []} of
        [c] \<Rightarrow> c
      | _ \<Rightarrow> [])"

definition newline :: string where
  "newline = [char_of (10 :: nat)]"

definition build_title_and_body :: "string \<Rightarrow> string \<Rightarrow> string \<Rightarrow> dict \<Rightarrow> string \<times> string" where
  "build_title_and_body job_id requested_action reason pr_plan =
     (let prs = planned_prs pr_plan;
          draft = ''['' @ job_id @ ''] planned execution draft'';
          title = (case prs of
              [p] \<Rightarrow> normalize_text draft (get p ''title'')
            | _ \<Rightarrow> draft @ '' ('' @ nat_str (length prs) @ '' slices)'');
          lines =
            [''Bounded draft PR created from persisted action handoff.'', ''job_id: '' @ job_id,
             ''requested_action: '' @ requested_action,
             ''decision_reason: '' @ normalize_text ''(none)'' (PStr reason),
             ''plan_id: '' @ normalize_text ''(unknown)'' (get pr_plan ''plan_id'')] @
            (if prs = [] then [] else ''planned_slices:'' # map (\<lambda>p.
               ''- '' @ normalize_text ''(unknown)'' (get p ''pr_id'') @ '': '' @
               normalize_text ''(untitled)'' (get p ''title'')) prs)
      in (title, strip (join newline lines)))"

definition policy_flag :: "py \<Rightarrow> string \<Rightarrow> bool" where
  "policy_flag policy_snapshot key =
     (let d = mapping_or_empty policy_snapshot in
      case as_mapping (get d ''pr_creation'') of
        Some c \<Rightarrow> if has_key c key then as_bool (get c key)
                  else has_key d key \<and> as_bool (get d key)
      | None \<Rightarrow> has_key d key \<and> as_bool (get d key))"

section \<open>The gates\<close>

definition supported_actions :: "string list" where
  "supported_actions = [''proceed_to_pr'', ''github.pr.update'', ''proceed_to_merge'', ''rollback_required'']"

text \<open>The routing is resolved afresh and must be the executor's.\<close>

definition routing_gate :: "py \<Rightarrow> dict \<Rightarrow> dict \<Rightarrow> string option" where
  "routing_gate policy_snapshot next_payload handoff =
     (let requested = normalize_text [] (get handoff ''next_action'');
          token = normalize_text [] (get next_payload ''next_action'');
          r = resolve_action_routing requested policy_snapshot (PDict handoff)
      in if token \<noteq> [] \<and> requested \<noteq> [] \<and> token \<noteq> requested then Some ''next_action_handoff_mismatch''
         else if requested \<notin> set supported_actions
         then Some (''unsupported_action:'' @ (if requested = [] then ''missing'' else requested))
         else if \<not> rt_known_action r then Some ''authority_action_unclassified''
         else if \<not> rt_allowed r
         then Some (''authority_'' @ normalize_text ''lane_not_allowed'' (PStr (rt_reason r)))
         else if routing_class_of r \<noteq> ROUTING_CLASS_EXECUTOR
         then Some ''authority_routing_mismatch:executor_requires_executor_class''
         else if resolved_lane_of r \<noteq> LANE_GITHUB_DETERMINISTIC
         then Some ''authority_routing_mismatch:executor_requires_github_deterministic''
         else if \<not> as_bool (get handoff ''action_consumable'')
         then Some (''handoff_action_not_consumable:'' @
           normalize_text ''handoff_not_consumable'' (get handoff ''unsupported_reason''))
         else None)"

definition write_gate :: "py \<Rightarrow> string \<Rightarrow> string option" where
  "write_gate authority action =
     (let a = normalize_write_authority authority in
      if \<not> truthy authority then Some ''write_authority_missing''
      else if wa_state a \<noteq> ''write_allowed'' \<or> \<not> wa_actions_allowed a
      then Some (''write_authority_blocked:'' @ (if wa_state a = [] then ''unknown'' else wa_state a))
      else if wa_actions a \<noteq> [] \<and> action \<notin> set (wa_actions a) then Some ''write_action_not_allowed''
      else None)"

definition category_gate :: "py \<Rightarrow> string \<Rightarrow> string option" where
  "category_gate authority category =
     (let allowed = wa_categories (normalize_write_authority authority) in
      if allowed = [] then None
      else if category = [] then Some ''category_missing_for_authority_gate''
      else if category \<notin> set allowed then Some ''category_not_allowed_for_execution''
      else None)"

section \<open>The clients\<close>

type_synonym client = "dict \<Rightarrow> path \<Rightarrow> dict run"

record executor =
  ex_pr_creator :: "client option"
  ex_pr_updater :: "client option"
  ex_merge_executor :: "client option"
  ex_rollback_executor :: "client option"

text \<open>An action that passed the routing: its files, its receipt so far, and its repository.\<close>

record order =
  xo_root :: path
  xo_action :: string
  xo_job :: string
  xo_handoff :: dict
  xo_receipt :: dict
  xo_repository :: string
  xo_brief :: dict
  xo_facts :: dict
  xo_plan :: dict

definition refuse :: "order \<Rightarrow> string \<Rightarrow> dict run" where
  "refuse ord reason =
     persist_receipt (xo_root ord) (xo_action ord) (put ''refusal_reason'' (PStr reason) (xo_receipt ord))"

text \<open>\<open>dict(x) if isinstance(x, Mapping) else None\<close>.\<close>

definition mapping_or_none :: "py \<Rightarrow> py" where
  "mapping_or_none v = (case as_mapping v of Some d \<Rightarrow> PDict d | None \<Rightarrow> PNone)"

text \<open>The receipt of a client's result: the entries of every action around those of this one.\<close>

definition settle :: "order \<Rightarrow> dict \<Rightarrow> dict \<Rightarrow> dict run" where
  "settle ord result entries =
     persist_receipt (xo_root ord) (xo_action ord) (put_all
       ([(''attempted'', PBool (truthy (get result ''attempted''))),
         (''succeeded'', PBool (truthy (get result ''succeeded''))),
         (''refusal_reason'', opt_str (text_or_none (get result ''refusal_reason'')))] @
        entries @
        [(''evidence_used_summary'', case as_mapping (get result ''evidence_used_summary'') of
            Some d \<Rightarrow> PDict d
          | None \<Rightarrow> PDict [(''read_operations'', PList []), (''constraints'', PList [])]),
         (''write_idempotency'', mapping_or_none (get result ''idempotency''))]) (xo_receipt ord))"

definition call_client :: "order \<Rightarrow> client \<Rightarrow> dict \<Rightarrow> (dict \<Rightarrow> dict res) \<Rightarrow> dict run" where
  "call_client ord client kwargs entries =
     run_bind (run_try (client kwargs (child (xo_root ord) ''write_receipts''))) (\<lambda>r.
     case r of
       Inl _ \<Rightarrow> refuse ord ''write_receipt_store_unavailable_or_corrupt''
     | Inr result \<Rightarrow> run_bind (run_res (entries result)) (settle ord result))"

definition or_else :: "string option \<Rightarrow> string \<Rightarrow> py" where
  "or_else v d = (case v of Some s \<Rightarrow> PStr s | None \<Rightarrow> opt_str (non_empty d))"

definition create_pr :: "executor \<Rightarrow> dispatch_request \<Rightarrow> order \<Rightarrow> dict run" where
  "create_pr ex q ord =
     (case ex_pr_creator ex of
        None \<Rightarrow> refuse ord ''pr_creation_executor_unavailable''
      | Some client \<Rightarrow>
          (let policy = dq_policy_snapshot q;
               head = normalize_text
                 (normalize_text [] (get (mapping_or_empty policy) ''head_branch'')) (opt_str (dq_head_branch q));
               base = normalize_text
                 (normalize_text (normalize_text [] (get (xo_facts ord) ''default_branch''))
                   (get (xo_brief ord) ''target_branch'')) (opt_str (dq_base_branch q));
               (title, body) = build_title_and_body (xo_job ord) (xo_action ord)
                 (normalize_text [] (get (xo_handoff ord) ''reason'')) (xo_plan ord)
           in if head = [] then refuse ord ''head_branch_missing''
              else if title = [] then refuse ord ''title_generation_failed''
              else call_client ord client
                ([(''job_id'', PStr (xo_job ord)), (''repository'', PStr (xo_repository ord)),
                  (''head_branch'', PStr head), (''base_branch'', opt_str (non_empty base)),
                  (''title'', PStr title), (''body'', PStr body)] @
                 map (\<lambda>k. (k, PBool (policy_flag policy k)))
                   [''allow_missing_compare_evidence'', ''allow_missing_open_pr_evidence'',
                    ''allow_missing_check_evidence'', ''allow_not_found_as_absence''])
                (\<lambda>r. Inr
                  [(''base_branch'', or_else (text_or_none (get r ''base_branch'')) base),
                   (''head_branch'', or_else (text_or_none (get r ''head_branch'')) head),
                   (''pr_number'', get r ''pr_number''),
                   (''pr_url'', opt_str (text_or_none (get r ''pr_url''))),
                   (''title_preview'', or_else (text_or_none (get r ''title_preview'')) title),
                   (''body_preview'', or_else (text_or_none (get r ''body_preview'')) body),
                   (''body_summary'', opt_str (text_or_none (get r ''body_summary'')))])))"

text \<open>The pull request number of the request, or else of the policy snapshot.\<close>

definition resolved_pr_number :: "dispatch_request \<Rightarrow> int option res" where
  "resolved_pr_number q =
     as_optional_int (if dq_pr_number q \<noteq> None then opt_int (dq_pr_number q)
       else get (mapping_or_empty (dq_policy_snapshot q)) ''pr_number'')"

definition first_mapping :: "py list \<Rightarrow> dict" where
  "first_mapping vs =
     (case filter (\<lambda>d. d \<noteq> []) (map mapping_or_empty vs) of d # _ \<Rightarrow> d | [] \<Rightarrow> [])"

definition text_of_value :: "py \<Rightarrow> py" where
  "text_of_value v = (if v = PNone then PNone else PStr (py_str v))"

definition update_pr :: "executor \<Rightarrow> dispatch_request \<Rightarrow> order \<Rightarrow> dict run" where
  "update_pr ex q ord =
     (case ex_pr_updater ex of
        None \<Rightarrow> refuse ord ''pr_update_executor_unavailable''
      | Some client \<Rightarrow>
          run_bind (run_res (resolved_pr_number q)) (\<lambda>number.
          if number = None \<or> the number \<le> 0 then refuse ord ''update_pr_number_missing_or_invalid''
          else
            let payload = first_mapping
                  [dq_pr_update q, get (mapping_or_empty (dq_policy_snapshot q)) ''pr_update'',
                   get (xo_handoff ord) ''pr_update'']
            in if \<not> list_ex (has_key payload) [''title'', ''body'', ''base_branch'']
               then refuse ord ''pr_update_missing_or_invalid''
               else call_client ord client
                 [(''job_id'', PStr (xo_job ord)), (''repository'', PStr (xo_repository ord)),
                  (''pr_number'', opt_int number),
                  (''title'', text_of_value (get payload ''title'')),
                  (''body'', text_of_value (get payload ''body'')),
                  (''base_branch'', text_of_value (get payload ''base_branch''))]
                 (\<lambda>r. res_bind (as_optional_int (get r ''pr_number'')) (\<lambda>n. Inr
                   [(''pr_number'', opt_int n),
                    (''pr_url'', opt_str (text_or_none (get r ''pr_url''))),
                    (''title_preview'', opt_str (text_or_none (get r ''title_preview''))),
                    (''body_preview'', opt_str (text_or_none (get r ''body_preview''))),
                    (''base_branch'', opt_str (text_or_none (get r ''base_branch'')))]))))"

definition merge_pr :: "executor \<Rightarrow> dispatch_request \<Rightarrow> order \<Rightarrow> dict run" where
  "merge_pr ex q ord =
     (case ex_merge_executor ex of
        None \<Rightarrow> refuse ord ''merge_executor_unavailable''
      | Some client \<Rightarrow>
          run_bind (run_res (resolved_pr_number q)) (\<lambda>number.
          if number = None \<or> the number \<le> 0 then refuse ord ''merge_pr_number_missing_or_invalid''
          else call_client ord client
            [(''job_id'', PStr (xo_job ord)), (''repository'', PStr (xo_repository ord)),
             (''pr_number'', opt_int number),
             (''expected_head_sha'', opt_str (text_or_none (opt_str (dq_expected_head_sha q))))]
            (\<lambda>r. res_bind (as_optional_int (get r ''pr_number'')) (\<lambda>n. Inr
              [(''pr_number'', opt_int n),
               (''merge_commit_sha'', opt_str (text_or_none (get r ''merge_commit_sha''))),
               (''merged_state_summary'', mapping_or_none (get r ''merged_state_summary'')),
               (''checks_state_summary'', mapping_or_none (get r ''checks_state_summary''))]))))"

definition roll_back :: "executor \<Rightarrow> dispatch_request \<Rightarrow> order \<Rightarrow> dict run" where
  "roll_back ex q ord =
     (case ex_rollback_executor ex of
        None \<Rightarrow> refuse ord ''rollback_executor_unavailable''
      | Some client \<Rightarrow>
          (let target = first_mapping
                 [dq_rollback_target q, get (mapping_or_empty (dq_policy_snapshot q)) ''rollback_target''];
               fields = map (\<lambda>k. (k, normalize_text [] (get target k)))
                 [''repo_path'', ''target_ref'', ''pre_merge_sha'', ''post_merge_sha'']
           in if list_ex (\<lambda>(k, v). v = []) fields then refuse ord ''rollback_target_missing_or_ambiguous''
              else call_client ord client
                ([(''job_id'', PStr (xo_job ord)), (''repository'', PStr (xo_repository ord))] @
                 map (\<lambda>(k, v). (k, PStr v)) fields)
                (\<lambda>r. Inr
                  [(''rollback_target'', mapping_or_none (get r ''rollback_target'')),
                   (''rollback_scope_summary'', mapping_or_none (get r ''rollback_scope_summary'')),
                   (''rollback_result_summary'', mapping_or_none (get r ''rollback_result_summary''))])))"

section \<open>The execution\<close>

definition perform_action :: "executor \<Rightarrow> dispatch_request \<Rightarrow> order \<Rightarrow> dict run" where
  "perform_action ex q ord =
     (if xo_action ord = ''proceed_to_pr'' then create_pr ex q ord
      else if xo_action ord = ''github.pr.update'' then update_pr ex q ord
      else if xo_action ord = ''proceed_to_merge'' then merge_pr ex q ord
      else if xo_action ord = ''rollback_required'' then roll_back ex q ord
      else refuse ord ''unsupported_action_dispatch'')"

text \<open>A readable handoff: the gates in their order, then the action.\<close>

definition execute_handoff ::
    "executor \<Rightarrow> dispatch_request \<Rightarrow> path \<Rightarrow> files \<Rightarrow> string \<Rightarrow> string \<Rightarrow> dict \<Rightarrow> dict run" where
  "execute_handoff ex q root fs executed_at default_job handoff =
     (let or_empty = (\<lambda>name. case object_at fs (child root name) of None \<Rightarrow> [] | Some d \<Rightarrow> d);
          manifest = or_empty ''manifest.json'';
          next_payload = or_empty ''next_action.json'';
          action = normalize_text [] (get handoff ''next_action'');
          job = normalize_text (normalize_text default_job (get manifest ''job_id'')) (get handoff ''job_id'');
          receipt = default_receipt job (non_empty action) executed_at
            (truthy (get handoff ''whether_human_required''));
          ord = \<lparr>xo_root = root, xo_action = action, xo_job = job, xo_handoff = handoff,
            xo_receipt = receipt, xo_repository = [], xo_brief = planning_artifact fs manifest ''project_brief'',
            xo_facts = planning_artifact fs manifest ''repo_facts'',
            xo_plan = planning_artifact fs manifest ''pr_plan''\<rparr>;
          wa = dq_write_authority q;
          ord1 = ord\<lparr>xo_receipt := put ''write_authority_state''
            (opt_str (non_empty (wa_state (normalize_write_authority wa)))) receipt\<rparr>;
          repository = normalize_text (normalize_text
            (normalize_text [] (get (xo_brief ord) ''target_repo'')) (get (xo_facts ord) ''repo''))
            (opt_str (dq_repository q))
      in case routing_gate (dq_policy_snapshot q) next_payload handoff of
           Some reason \<Rightarrow> refuse ord reason
         | None \<Rightarrow>
             (case write_gate wa action of
                Some reason \<Rightarrow> refuse ord1 reason
              | None \<Rightarrow>
                  (case category_gate wa
                      (normalize_text (derive_single_category (xo_plan ord)) (opt_str (dq_category q))) of
                     Some reason \<Rightarrow> refuse ord1 reason
                   | None \<Rightarrow>
                       if repository = [] then refuse ord1 ''repository_missing''
                       else perform_action ex q (ord1\<lparr>xo_repository := repository,
                         xo_receipt := put ''repository'' (PStr repository) (xo_receipt ord1)\<rparr>))))"

text \<open>\<open>execute_from_run_dir\<close>; a handoff that is missing or no JSON object is refused with a receipt.\<close>

definition execute_from_run_dir :: "executor \<Rightarrow> dispatch_request \<Rightarrow> path \<Rightarrow> dict run" where
  "execute_from_run_dir ex q root =
     run_bind run_files (\<lambda>fs.
     if fs root \<noteq> Some Directory
     then run_raise (ValueError (''run artifact directory does not exist: '' @ path_str root))
     else
       run_bind run_now (\<lambda>now.
       let executed_at = iso_seconds now;
           default_job = normalize_text ''unknown_job''
             (PStr (if path_parts root = [] then [] else last (path_parts root)));
           handoff_path = child root ''action_handoff.json'';
           failed = (\<lambda>reason. persist_receipt root [] (put ''refusal_reason'' (PStr reason)
             (default_receipt default_job None executed_at True)))
       in if \<not> exists_path fs handoff_path then failed ''action_handoff_missing''
          else case res_bind (read_json fs handoff_path) (\<lambda>v. case as_mapping v of
                 Some d \<Rightarrow> Inr d
               | None \<Rightarrow> Inl (ValueError (''expected JSON object at '' @ path_str handoff_path))) of
            Inl e \<Rightarrow> failed (''action_handoff_invalid:'' @ normalize_text ''invalid_json'' (PStr (exc_text e)))
          | Inr handoff \<Rightarrow> execute_handoff ex q root fs executed_at default_job handoff))"

text \<open>The dispatcher's environment with this executor.\<close>

definition with_executor :: "executor \<Rightarrow> environment \<Rightarrow> environment" where
  "with_executor ex env = env\<lparr>en_executor := execute_from_run_dir ex\<rparr>"

end
