(* ===== verification/Json_Digest.thy ===== *)
theory Json_Digest
  imports Prelude "HOL-Library.Word"
begin

text \<open>
  What the write clients take from the standard library: the compact text \<open>json.dumps\<close> gives a
  value, its UTF-8 bytes, and the hexadecimal SHA-256 digest of them. The constants of SHA-256 are
  computed as the standard defines them, from the square and cube roots of the first primes.
\<close>

unbundle bit_operations_syntax

section \<open>JSON texts\<close>

definition backslash :: char where
  "backslash = char_of (92 :: nat)"

definition json_char :: "char \<Rightarrow> string" where
  "json_char c =
     (let n = code c in
      if n = 34 \<or> n = 92 then [backslash, c]
      else if n = 8 then [backslash, CHR ''b'']
      else if n = 9 then [backslash, CHR ''t'']
      else if n = 10 then [backslash, CHR ''n'']
      else if n = 12 then [backslash, CHR ''f'']
      else if n = 13 then [backslash, CHR ''r'']
      else if n < 32 then [backslash, CHR ''u'', CHR ''0'', CHR ''0'', hex_char (n div 16), hex_char (n mod 16)]
      else [c])"

definition json_quote :: "string \<Rightarrow> string" where
  "json_quote s = char_of (34 :: nat) # concat (map json_char s) @ [char_of (34 :: nat)]"

text \<open>
  \<open>json.dumps(v, ensure_ascii=False, separators=(",", ":"))\<close>; \<open>sort_keys\<close> is the order
  \<open>json_value\<close> puts the keys in.
\<close>

fun json_text :: "py \<Rightarrow> string" where
  "json_text PNone = ''null''"
| "json_text (PBool b) = (if b then ''true'' else ''false'')"
| "json_text (PInt i) = int_str i"
| "json_text (PFloat r) =
     (if r = ''inf'' then ''Infinity'' else if r = ''-inf'' then ''-Infinity''
      else if r = ''nan'' then ''NaN'' else r)"
| "json_text (PStr s) = json_quote s"
| "json_text (PList vs) = ''['' @ join '','' (map json_text vs) @ '']''"
| "json_text (PTuple vs) = ''['' @ join '','' (map json_text vs) @ '']''"
| "json_text (PDict d) =
     ''{'' @ join '','' (map (\<lambda>kv. json_quote (fst kv) @ '':'' @ json_text (snd kv)) d) @ ''}''"

definition json_dumps_sorted :: "py \<Rightarrow> string" where
  "json_dumps_sorted v = json_text (json_value v)"

text \<open>\<open>text.encode("utf-8")\<close>.\<close>

definition utf8 :: "string \<Rightarrow> nat list" where
  "utf8 s = concat (map (\<lambda>c. let n = code c in if n < 128 then [n] else [192 + n div 64, 128 + n mod 64]) s)"

section \<open>SHA-256\<close>

text \<open>The integer part of a root: the bits of the answer from the highest down.\<close>

fun root_bits :: "nat \<Rightarrow> nat \<Rightarrow> nat \<Rightarrow> nat \<Rightarrow> nat" where
  "root_bits k n r 0 = r"
| "root_bits k n r (Suc i) =
     root_bits k n (if (r + 2 ^ i) ^ k \<le> n then r + 2 ^ i else r) i"

definition is_prime :: "nat \<Rightarrow> bool" where
  "is_prime p = (2 \<le> p \<and> list_all (\<lambda>d. p mod d \<noteq> 0) [2..<p])"

definition primes_below :: "nat \<Rightarrow> nat list" where
  "primes_below n = filter is_prime [2..<n]"

definition fraction_bits :: "nat \<Rightarrow> nat \<Rightarrow> 32 word" where
  "fraction_bits k p = of_nat (root_bits k (p * 2 ^ (32 * k)) 0 40)"

definition round_constants :: "32 word list" where
  "round_constants = map (fraction_bits 3) (primes_below 312)"

definition initial_hash :: "32 word list" where
  "initial_hash = map (fraction_bits 2) (primes_below 20)"

definition sha_pad :: "nat list \<Rightarrow> nat list" where
  "sha_pad bs =
     bs @ [128] @ replicate ((119 - length bs mod 64) mod 64) 0 @
     map (\<lambda>i. (8 * length bs) div 2 ^ (8 * i) mod 256) (rev [0..<8])"

fun big_endian :: "nat list \<Rightarrow> 32 word list" where
  "big_endian (a # b # c # d # bs) =
     of_nat (((a * 256 + b) * 256 + c) * 256 + d) # big_endian bs"
| "big_endian _ = []"

definition rotr :: "nat \<Rightarrow> 32 word \<Rightarrow> 32 word" where
  "rotr n x = (drop_bit n x OR push_bit (32 - n) x)"

definition next_schedule :: "32 word list \<Rightarrow> 32 word list" where
  "next_schedule ws =
     (let n = length ws; a = ws ! (n - 15); b = ws ! (n - 2);
          s0 = rotr 7 a XOR rotr 18 a XOR drop_bit 3 a;
          s1 = rotr 17 b XOR rotr 19 b XOR drop_bit 10 b
      in ws @ [ws ! (n - 16) + s0 + ws ! (n - 7) + s1])"

fun sha_round :: "32 word list \<Rightarrow> 32 word \<times> 32 word \<Rightarrow> 32 word list" where
  "sha_round [a, b, c, d, e, f, g, h] (k, w) =
     (let t1 = h + (rotr 6 e XOR rotr 11 e XOR rotr 25 e) + ((e AND f) XOR (NOT e AND g)) + k + w;
          t2 = (rotr 2 a XOR rotr 13 a XOR rotr 22 a) + ((a AND b) XOR (a AND c) XOR (b AND c))
      in [t1 + t2, a, b, c, d + t1, e, f, g])"
| "sha_round st kw = st"

definition sha_block :: "32 word list \<Rightarrow> 32 word list \<Rightarrow> 32 word list" where
  "sha_block st ws =
     map2 (+) st (foldl sha_round st (zip round_constants ((next_schedule ^^ 48) ws)))"

fun chunks :: "nat \<Rightarrow> 'a list \<Rightarrow> 'a list list" where
  "chunks 0 xs = []"
| "chunks (Suc n) xs = (if xs = [] then [] else take 16 xs # chunks n (drop 16 xs))"

definition sha256 :: "nat list \<Rightarrow> 32 word list" where
  "sha256 bs = (let ws = big_endian (sha_pad bs) in foldl sha_block initial_hash (chunks (length ws) ws))"

definition hex_word :: "32 word \<Rightarrow> string" where
  "hex_word w = map (\<lambda>i. hex_char (unat w div 16 ^ i mod 16)) (rev [0..<8])"

text \<open>\<open>sha256(text.encode("utf-8")).hexdigest()\<close>.\<close>

definition sha256_hex :: "string \<Rightarrow> string" where
  "sha256_hex s = concat (map hex_word (sha256 (utf8 s)))"

section \<open>A digest is a text of 64 hexadecimal digits\<close>

lemma length_sha_round [simp]: "length (sha_round st kw) = length st"
  by (cases "(st, kw)" rule: sha_round.cases) (simp_all add: Let_def)

lemma length_sha_rounds [simp]: "length (foldl sha_round st kws) = length st"
  by (induction kws arbitrary: st) simp_all

lemma length_sha_blocks [simp]: "length (foldl sha_block st bs) = length st"
  by (induction bs arbitrary: st) (simp_all add: sha_block_def)

lemma length_sha256 [simp]: "length (sha256 bs) = 8"
proof -
  have "length (primes_below 20) = 8" by code_simp
  then show ?thesis by (simp add: sha256_def Let_def initial_hash_def)
qed

definition hex_digit :: "char \<Rightarrow> bool" where
  "hex_digit c = (48 \<le> code c \<and> code c \<le> 57 \<or> 97 \<le> code c \<and> code c \<le> 102)"

lemma hex_char_digit: "d < 16 \<Longrightarrow> hex_digit (hex_char d)"
  by (auto simp: hex_digit_def hex_char_def code_char_of)

lemma sha256_hex_digits:
  "length (sha256_hex s) = 64" "list_all hex_digit (sha256_hex s)"
proof -
  have "length (concat (map hex_word ws)) = 8 * length ws" for ws
    by (induction ws) (simp_all add: hex_word_def)
  then show "length (sha256_hex s) = 64" by (simp add: sha256_hex_def)
  show "list_all hex_digit (sha256_hex s)"
    by (auto simp: sha256_hex_def list_all_iff hex_word_def intro: hex_char_digit)
qed

lemma hex_digit_no_space: "hex_digit c \<Longrightarrow> \<not> is_space c"
  by (auto simp: hex_digit_def is_space_def Let_def)

lemma sha256_hex_text [simp]: "strip (sha256_hex s) = sha256_hex s" "sha256_hex s \<noteq> []"
proof -
  show ne: "sha256_hex s \<noteq> []" using sha256_hex_digits(1) [of s] by auto
  then have "hex_digit (hd (sha256_hex s))" "hex_digit (last (sha256_hex s))"
    using sha256_hex_digits(2) [of s] by (auto simp: list_all_iff)
  then show "strip (sha256_hex s) = sha256_hex s"
    by (intro strip_stripped) (simp add: stripped_def hex_digit_no_space)
qed

end
