(* ===== verification/Write_Idempotency.thy ===== *)
theory Write_Idempotency
  imports Json_Digest Job_Store
begin

text \<open>
  \<open>automation/github/write_idempotency.py\<close>: whether a write to GitHub was made before. A write is
  identified by the job, the kind of write, its target and a fingerprint of what it intends; the
  records of earlier writes are searched for the same write and for one on another target.
\<close>

section \<open>Classifications\<close>

definition DEDUPE_FIRST_ATTEMPT :: string where
  "DEDUPE_FIRST_ATTEMPT = ''first_attempt''"

definition DEDUPE_REPLAY_SAME_INTENT :: string where
  "DEDUPE_REPLAY_SAME_INTENT = ''replay_same_intent''"

definition DEDUPE_CONFLICTING_PRIOR_INTENT :: string where
  "DEDUPE_CONFLICTING_PRIOR_INTENT = ''conflicting_prior_intent''"

definition DEDUPE_PRECONDITION_CHANGED :: string where
  "DEDUPE_PRECONDITION_CHANGED = ''precondition_changed''"

definition DEDUPE_UNKNOWN_NEEDS_HUMAN :: string where
  "DEDUPE_UNKNOWN_NEEDS_HUMAN = ''unknown_needs_human''"

lemmas dedupe_statuses = DEDUPE_FIRST_ATTEMPT_def DEDUPE_REPLAY_SAME_INTENT_def
  DEDUPE_CONFLICTING_PRIOR_INTENT_def DEDUPE_PRECONDITION_CHANGED_def DEDUPE_UNKNOWN_NEEDS_HUMAN_def

definition final_classifications :: "string list" where
  "final_classifications =
     [''applied'', ''already_applied'', ''no_op'', ''conflict'', ''precondition_changed'', ''needs_human'',
      ''auth_failure'', ''api_failure'', ''unsupported'', ''failed'']"

definition normalize_final_classification :: "py \<Rightarrow> string" where
  "normalize_final_classification v =
     (let c = normalize_text ''failed'' v in if c \<in> set final_classifications then c else ''failed'')"

section \<open>Fingerprints and keys\<close>

text \<open>\<open>_normalize_for_hash\<close>: keys stripped and in order, a later entry of the same key wins.\<close>

fun normalize_for_hash :: "py \<Rightarrow> py" where
  "normalize_for_hash (PDict d) =
     PDict (put_all (sort_key fst (filter (\<lambda>kv. fst kv \<noteq> [])
       (map (\<lambda>kv. (strip (fst kv), normalize_for_hash (snd kv))) d))) [])"
| "normalize_for_hash (PList vs) = PList (map normalize_for_hash vs)"
| "normalize_for_hash (PTuple vs) = PList (map normalize_for_hash vs)"
| "normalize_for_hash v = v"

definition stable_intent_fingerprint :: "dict \<Rightarrow> string" where
  "stable_intent_fingerprint intent = sha256_hex (json_dumps_sorted (normalize_for_hash (PDict intent)))"

definition stable_idempotency_key :: "string \<Rightarrow> string \<Rightarrow> dict \<Rightarrow> string \<Rightarrow> string" where
  "stable_idempotency_key job_id write_action target fingerprint =
     sha256_hex (json_dumps_sorted (PDict
       [(''job_id'', PStr (strip job_id)), (''write_action'', PStr (strip write_action)),
        (''target_identifiers'', normalize_for_hash (PDict target)),
        (''intent_fingerprint'', PStr (strip fingerprint))]))"

text \<open>
  Python's \<open>==\<close> on values: a truth value is a number, an integral float is the integer (up to the
  sixteen digits its text shows without an exponent), \<open>nan\<close> is nothing.
\<close>

definition number_text :: "py \<Rightarrow> string option" where
  "number_text v =
     (case v of
        PBool b \<Rightarrow> Some (if b then ''1.0'' else ''0.0'')
      | PInt i \<Rightarrow> Some (int_str i @ ''.0'')
      | PFloat r \<Rightarrow> Some (if r = ''-0.0'' then ''0.0'' else r)
      | _ \<Rightarrow> None)"

fun py_eq :: "py \<Rightarrow> (py \<Rightarrow> bool)" where
  "py_eq (PStr s) = (\<lambda>v. v = PStr s)"
| "py_eq PNone = (\<lambda>v. v = PNone)"
| "py_eq (PList xs) =
     (let eqs = map py_eq xs in
      (\<lambda>v. case v of PList ys \<Rightarrow> list_all2 (\<lambda>eq y. eq y) eqs ys | _ \<Rightarrow> False))"
| "py_eq (PTuple xs) =
     (let eqs = map py_eq xs in
      (\<lambda>v. case v of PTuple ys \<Rightarrow> list_all2 (\<lambda>eq y. eq y) eqs ys | _ \<Rightarrow> False))"
| "py_eq (PDict d) =
     (let eqs = map (\<lambda>kv. (fst kv, py_eq (snd kv))) d in
      (\<lambda>v. case v of
         PDict e \<Rightarrow> length eqs = length e \<and>
           list_all (\<lambda>(k, eq). case map_of e k of None \<Rightarrow> False | Some y \<Rightarrow> eq y) eqs
       | _ \<Rightarrow> False))"
| "py_eq x = (\<lambda>v. number_text x = number_text v \<and> number_text x \<noteq> Some ''nan'')"

section \<open>The status of a write\<close>

record dedupe =
  dd_status :: string
  dd_key :: string
  dd_fingerprint :: string
  dd_matched :: "dict option"
  dd_conflicting :: "dict option"

definition record_matches_key :: "string \<Rightarrow> dict \<Rightarrow> bool" where
  "record_matches_key key r = (normalize_text [] (get r ''idempotency_key'') = key)"

definition done_classifications :: "string list" where
  "done_classifications = [''applied'', ''already_applied'', ''no_op'']"

text \<open>What the record of the same write says of it.\<close>

definition prior_status :: "dict \<Rightarrow> string" where
  "prior_status r =
     (let c = normalize_final_classification (get r ''final_classification'') in
      if c \<in> set done_classifications then DEDUPE_REPLAY_SAME_INTENT
      else if c = ''precondition_changed'' then DEDUPE_PRECONDITION_CHANGED
      else if c = ''conflict'' then DEDUPE_CONFLICTING_PRIOR_INTENT
      else if c = ''needs_human'' then DEDUPE_UNKNOWN_NEEDS_HUMAN
      else DEDUPE_FIRST_ATTEMPT)"

text \<open>A write of the same job and kind that was made on another target.\<close>

definition conflicts_with :: "string \<Rightarrow> string \<Rightarrow> dict \<Rightarrow> dict \<Rightarrow> bool" where
  "conflicts_with job_id write_action target r =
     (normalize_text [] (get r ''job_id'') = strip job_id \<and>
      normalize_text [] (get r ''write_action'') = strip write_action \<and>
      \<not> py_eq (normalize_for_hash (PDict (mapping_or_empty (get r ''target_identifiers''))))
          (normalize_for_hash (PDict target)) \<and>
      normalize_final_classification (get r ''final_classification'') \<in> set done_classifications)"

definition evaluate_write_dedupe_status ::
    "string \<Rightarrow> string \<Rightarrow> dict \<Rightarrow> dict \<Rightarrow> dict list \<Rightarrow> dedupe" where
  "evaluate_write_dedupe_status job_id write_action target intent records =
     (let fingerprint = stable_intent_fingerprint intent;
          key = stable_idempotency_key job_id write_action target fingerprint;
          answer = (\<lambda>status matched conflicting. \<lparr>dd_status = status, dd_key = key,
            dd_fingerprint = fingerprint, dd_matched = matched, dd_conflicting = conflicting\<rparr>)
      in if records = [] then answer DEDUPE_FIRST_ATTEMPT None None
         else case List.find (record_matches_key key) records of
           Some r \<Rightarrow> answer (prior_status r) (Some r) None
         | None \<Rightarrow>
             (case List.find (conflicts_with job_id write_action target) records of
                Some r \<Rightarrow> answer DEDUPE_CONFLICTING_PRIOR_INTENT None (Some r)
              | None \<Rightarrow> answer DEDUPE_FIRST_ATTEMPT None None))"

section \<open>What the status says\<close>

lemma dedupe_key [simp]:
  "dd_key (evaluate_write_dedupe_status job act target intent rs) =
     stable_idempotency_key job act target (stable_intent_fingerprint intent)"
  "dd_fingerprint (evaluate_write_dedupe_status job act target intent rs) = stable_intent_fingerprint intent"
  by (simp_all add: evaluate_write_dedupe_status_def Let_def split: option.split)

lemma key_text [simp]:
  "strip (stable_idempotency_key job act target fp) = stable_idempotency_key job act target fp"
  "stable_idempotency_key job act target fp \<noteq> []"
  by (simp_all add: stable_idempotency_key_def)

lemma fingerprint_text [simp]:
  "strip (stable_intent_fingerprint i) = stable_intent_fingerprint i" "stable_intent_fingerprint i \<noteq> []"
  by (simp_all add: stable_intent_fingerprint_def)

lemma normalize_final_classification_known [simp]:
  "normalize_final_classification v \<in> set final_classifications"
proof -
  have "''failed'' \<in> set final_classifications" by (simp add: final_classifications_def)
  then show ?thesis by (simp add: normalize_final_classification_def Let_def)
qed

lemma normalize_final_classification_text:
  "c \<in> set final_classifications \<Longrightarrow> normalize_final_classification (PStr c) = c"
proof -
  assume c: "c \<in> set final_classifications"
  have "list_all (\<lambda>c. strip c = c \<and> c \<noteq> []) final_classifications" by code_simp
  with c have "strip c = c" "c \<noteq> []" unfolding list_all_iff by blast+
  then have "normalize_text d (PStr c) = c" for d by simp
  with c show ?thesis unfolding normalize_final_classification_def Let_def by (simp only: if_True)
qed

text \<open>A record under the key of a write decides alone; without one, any conflicting record does.\<close>

lemma status_of_match:
  "List.find (record_matches_key (stable_idempotency_key job act target (stable_intent_fingerprint intent))) rs =
     Some r \<Longrightarrow>
   dd_status (evaluate_write_dedupe_status job act target intent rs) = prior_status r \<and>
   dd_matched (evaluate_write_dedupe_status job act target intent rs) = Some r"
  by (cases rs) (simp_all add: evaluate_write_dedupe_status_def Let_def)

lemma find_unique:
  assumes "r \<in> set rs" and "P r" and "\<And>r'. r' \<in> set rs \<Longrightarrow> P r' \<Longrightarrow> r' = r"
  shows "List.find P rs = Some r"
  using assms
proof (induction rs)
  case (Cons x rs)
  show ?case
  proof (cases "P x")
    case True
    have "x = r" by (rule Cons.prems(3)) (simp_all add: True)
    with True show ?thesis by simp
  next
    case False
    with Cons.prems(1,2) have "r \<in> set rs" by auto
    then have "List.find P rs = Some r" using Cons.prems(2)
      by (rule Cons.IH) (rule Cons.prems(3), simp_all)
    with False show ?thesis by simp
  qed
qed simp

end
