(* ===== verification/Write_Receipts.thy ===== *)
theory Write_Receipts
  imports Write_Idempotency World "HOL-Library.Product_Lexorder"
begin

text \<open>
  \<open>automation/github/write_receipts.py\<close>: the files that keep, for each kind of write, one record per
  idempotency key: what was asked, what was seen, how it ended and how often it was tried.

  The lock is a file of its own beside the records; \<open>flock\<close> on it and the temporary file of the
  atomic replacement leave nothing behind and are not modelled.
\<close>

section \<open>Reading\<close>

definition action_path :: "path \<Rightarrow> string \<Rightarrow> path" where
  "action_path root write_action =
     path_join root (normalize_text ''unknown_action'' (PStr write_action) @ ''.json'')"

definition lock_path :: "path \<Rightarrow> string \<Rightarrow> path" where
  "lock_path root write_action =
     (let p = action_path root write_action in child (parent p) (last (path_parts p) @ ''.lock''))"

definition read_action_payload :: "files \<Rightarrow> path \<Rightarrow> string \<Rightarrow> dict res" where
  "read_action_payload fs root write_action =
     (let p = action_path root write_action in
      if \<not> exists_path fs p
      then Inr [(''schema_version'', PStr ''v1''),
             (''write_action'', PStr (normalize_text ''unknown_action'' (PStr write_action))),
             (''records_by_key'', PDict []), (''updated_at'', PStr [])]
      else case read_json fs p of
          Inl (OSError _) \<Rightarrow> Inl (ValueError (''unreadable write receipt file: '' @ path_str p))
        | Inl _ \<Rightarrow> Inl (ValueError (''corrupted write receipt file: '' @ path_str p))
        | Inr v \<Rightarrow>
            (case as_mapping v of
               None \<Rightarrow> Inl (ValueError (''invalid write receipt structure at '' @ path_str p))
             | Some d \<Rightarrow>
                 if get d ''records_by_key'' \<noteq> PNone \<and> as_mapping (get d ''records_by_key'') = None
                 then Inl (ValueError (''invalid records_by_key in write receipt file: '' @ path_str p))
                 else Inr d))"

definition mapping_fields :: "string list" where
  "mapping_fields =
     [''target_identifiers'', ''request_snapshot'', ''response_summary'', ''precondition_snapshot'',
      ''observed_github_facts'']"

text \<open>The fields every record has in a common form; the others are kept as they are.\<close>

definition common_form :: "string \<Rightarrow> string \<Rightarrow> int \<Rightarrow> dict \<Rightarrow> dict" where
  "common_form key write_action attempts r =
     put_all ([(''idempotency_key'', PStr key),
       (''job_id'', PStr (normalize_text [] (get r ''job_id''))),
       (''write_action'', PStr write_action),
       (''final_classification'',
          PStr (normalize_final_classification (get r ''final_classification''))),
       (''attempt_count'', PInt attempts)] @
       map (\<lambda>f. (f, PDict (mapping_or_empty (get r f)))) mapping_fields) r"

definition receipt_entry :: "string \<Rightarrow> string \<times> py \<Rightarrow> (string \<times> dict) option res" where
  "receipt_entry write_action kv =
     (let key = strip (fst kv) in
      case as_mapping (snd kv) of
        None \<Rightarrow> Inr None
      | Some r \<Rightarrow>
          if key = [] then Inr None
          else res_bind (as_non_negative_int_signed 0 (get r ''attempt_count'')) (\<lambda>attempts.
            Inr (Some (key, common_form key
              (normalize_text write_action (get r ''write_action'')) attempts r))))"

record receipts =
  rr_action :: string
  rr_records :: "(string \<times> dict) list"
  rr_updated_at :: string

definition load_action :: "string \<Rightarrow> dict \<Rightarrow> receipts res" where
  "load_action write_action payload =
     res_bind (load_entries (receipt_entry write_action)
       (mapping_or_empty (get payload ''records_by_key'')) []) (\<lambda>rs.
     Inr \<lparr>rr_action = normalize_text write_action (get payload ''write_action''),
          rr_records = rs,
          rr_updated_at = normalize_text [] (get payload ''updated_at'')\<rparr>)"

definition load_receipts :: "path \<Rightarrow> string \<Rightarrow> receipts run" where
  "load_receipts root write_action =
     run_bind run_files (\<lambda>fs.
     run_res (res_bind (read_action_payload fs root write_action) (load_action write_action)))"

definition list_records :: "path \<Rightarrow> string \<Rightarrow> dict list run" where
  "list_records root write_action =
     run_bind (load_receipts root write_action) (\<lambda>st.
     run_return (map snd (sort_key (\<lambda>(k, r). (normalize_text [] (get r ''created_at''), strip k))
       (rr_records st))))"

definition get_receipt :: "path \<Rightarrow> string \<Rightarrow> string \<Rightarrow> dict option run" where
  "get_receipt root write_action key =
     (if strip key = [] then run_return None
      else run_bind (load_receipts root write_action) (\<lambda>st.
        run_return (map_of (rr_records st) (strip key))))"

section \<open>Writing\<close>

definition receipts_py :: "receipts \<Rightarrow> py" where
  "receipts_py st =
     PDict [(''schema_version'', PStr ''v1''), (''write_action'', PStr (rr_action st)),
       (''records_by_key'', PDict (map (\<lambda>kr. (fst kr, PDict (snd kr))) (rr_records st))),
       (''updated_at'', PStr (rr_updated_at st))]"

text \<open>\<open>mkdir(parents=True, exist_ok=True)\<close>, and the lock file opened for appending.\<close>

definition run_mkdir :: "path \<Rightarrow> unit run" where
  "run_mkdir p w =
     (case wd_files w p of
        None \<Rightarrow> (Inr (), w\<lparr>wd_files := (wd_files w)(p \<mapsto> Directory)\<rparr>)
      | Some Directory \<Rightarrow> (Inr (), w)
      | Some _ \<Rightarrow> (Inl (OSError ''file exists''), w))"

definition run_touch :: "path \<Rightarrow> unit run" where
  "run_touch p w =
     (case wd_files w p of
        None \<Rightarrow> (Inr (), w\<lparr>wd_files := (wd_files w)(p \<mapsto> BrokenText)\<rparr>)
      | Some Directory \<Rightarrow> (Inl (OSError ''is a directory''), w)
      | Some _ \<Rightarrow> (Inr (), w))"

text \<open>The record a write leaves: counted on, and created when the key was first used.\<close>

definition next_record ::
    "(string \<times> dict) list \<Rightarrow> string \<Rightarrow> string \<Rightarrow> string \<Rightarrow> dict \<Rightarrow> dict res" where
  "next_record rs key write_action updated_at payload =
     (let existing = (case map_of rs key of None \<Rightarrow> [] | Some r \<Rightarrow> r) in
      res_bind (as_non_negative_int_signed 0 (get existing ''attempt_count'')) (\<lambda>attempts.
      Inr (put_all
        [(''created_at'', PStr (normalize_text (strip updated_at) (get existing ''created_at''))),
         (''updated_at'', PStr (strip updated_at))]
        (common_form key write_action (attempts + 1) payload))))"

definition persist_record :: "path \<Rightarrow> string \<Rightarrow> string \<Rightarrow> dict \<Rightarrow> string \<Rightarrow> dict run" where
  "persist_record root write_action key payload updated_at =
     (if strip key = [] then run_raise (ValueError ''idempotency_key is required'')
      else if strip write_action = [] then run_raise (ValueError ''write_action is required'')
      else
        run_bind (run_mkdir root) (\<lambda>_.
        run_bind (run_touch (lock_path root (strip write_action))) (\<lambda>_.
        run_bind (load_receipts root (strip write_action)) (\<lambda>st.
        run_bind (run_res (next_record (rr_records st) (strip key) (strip write_action) updated_at payload))
          (\<lambda>r.
        run_bind (run_write (action_path root (strip write_action))
            (json_value (receipts_py (st\<lparr>rr_records := put (strip key) r (rr_records st),
               rr_updated_at := strip updated_at\<rparr>)))) (\<lambda>_.
        run_return r))))))"

section \<open>Records in the form the file gives them back\<close>

text \<open>An object after a round through a file: what its keys give is what they gave, read back.\<close>

definition canon :: "dict \<Rightarrow> dict" where
  "canon r = sort_key fst (map (\<lambda>kv. (fst kv, json_value (snd kv))) r)"

lemma json_value_dict: "json_value (PDict r) = PDict (canon r)"
  by (simp add: json_value.simps(3) canon_def)

lemma map_of_insort:
  "map_of (insort_key fst kv d) = (map_of d)(fst kv \<mapsto> snd kv)"
  by (induction d) (auto simp: fun_eq_iff)

lemma map_of_sort_key: "map_of (sort_key fst d) = map_of d"
  by (induction d) (simp_all add: map_of_insort fun_eq_iff)

lemma get_canon [simp]: "get (canon r) k = json_value (get r k)"
proof -
  have "map_of (map (\<lambda>kv. (fst kv, json_value (snd kv))) r) k = map_option json_value (map_of r k)"
    by (induction r) auto
  then show ?thesis by (simp add: canon_def get_def get_or_def map_of_sort_key split: option.split)
qed

lemma json_value_idem [simp]: "json_value (json_value v) = json_value v"
proof (induction v rule: json_value.induct)
  case (3 d)
  let ?f = "\<lambda>kv. (fst kv, json_value (snd kv))"
  have "canon (canon d) = sort_key fst (map (?f \<circ> ?f) d)"
    by (simp add: canon_def sort_key_map_fst [of ?f, symmetric])
  also have "map (?f \<circ> ?f) d = map ?f d" using 3 by auto
  finally show ?case by (simp add: json_value_dict) (simp add: canon_def)
qed simp_all

lemma canon_canon [simp]: "canon (canon r) = canon r"
  using json_value_idem [of "PDict r"] by (simp add: json_value_dict)

lemma put_same: "map_of d k = Some v \<Longrightarrow> put k v d = d"
  unfolding put_def by (induction d) (auto split: if_splits)

lemma put_all_same: "\<forall>(k, v) \<in> set kvs. map_of d k = Some v \<Longrightarrow> put_all kvs d = d"
  by (induction kvs) (auto simp: put_all_def put_same)

lemma get_map_of: "get d k = v \<Longrightarrow> v \<noteq> PNone \<Longrightarrow> map_of d k = Some v"
  by (auto simp: get_def get_or_def split: option.splits)

section \<open>The file as a store of records\<close>

lemma common_form_get:
  "get (common_form key act n r) ''idempotency_key'' = PStr key"
  "get (common_form key act n r) ''job_id'' = PStr (normalize_text [] (get r ''job_id''))"
  "get (common_form key act n r) ''write_action'' = PStr act"
  "get (common_form key act n r) ''final_classification'' =
     PStr (normalize_final_classification (get r ''final_classification''))"
  "get (common_form key act n r) ''attempt_count'' = PInt n"
  "f \<in> set mapping_fields \<Longrightarrow> get (common_form key act n r) f = PDict (mapping_or_empty (get r f))"
  by (auto simp: common_form_def put_all_get mapping_fields_def)

text \<open>The keys of the common form; every other key is left alone.\<close>

definition common_keys :: "string list" where
  "common_keys =
     [''idempotency_key'', ''job_id'', ''write_action'', ''final_classification'', ''attempt_count''] @ mapping_fields"

lemma common_form_other: "f \<notin> set common_keys \<Longrightarrow> get (common_form key act n r) f = get r f"
  by (auto simp: common_form_def put_all_get mapping_fields_def common_keys_def)

lemma common_form_same:
  assumes "get r ''idempotency_key'' = PStr key" and "get r ''write_action'' = PStr act"
    and "get r ''attempt_count'' = PInt n"
    and "get r ''job_id'' = PStr (normalize_text [] (get r ''job_id''))"
    and "get r ''final_classification'' =
      PStr (normalize_final_classification (get r ''final_classification''))"
    and "\<And>f. f \<in> set mapping_fields \<Longrightarrow> \<exists>m. get r f = PDict m"
  shows "common_form key act n r = r"
proof -
  have "map_of r f = Some (PDict (mapping_or_empty (get r f)))" if f: "f \<in> set mapping_fields" for f
  proof -
    from assms(6) [OF f] obtain m where "get r f = PDict m" ..
    then show ?thesis by (simp add: get_map_of)
  qed
  moreover have "map_of r ''idempotency_key'' = Some (PStr key)" "map_of r ''write_action'' = Some (PStr act)"
    "map_of r ''attempt_count'' = Some (PInt n)"
    by (rule get_map_of, rule assms, simp)+
  moreover have "map_of r ''job_id'' = Some (PStr (normalize_text [] (get r ''job_id'')))"
    by (rule get_map_of, rule assms(4), simp)
  moreover have "map_of r ''final_classification'' =
      Some (PStr (normalize_final_classification (get r ''final_classification'')))"
    by (rule get_map_of, rule assms(5), simp)
  ultimately show ?thesis
    unfolding common_form_def by (intro put_all_same) auto
qed

lemma normalize_text_again [simp]:
  "normalize_text [] (PStr (normalize_text [] v)) = normalize_text [] v"
  by simp

lemma classification_again [simp]:
  "normalize_final_classification (PStr (normalize_final_classification v)) = normalize_final_classification v"
  by (rule normalize_final_classification_text) simp

text \<open>A record in common form, once read back, is in common form.\<close>

lemma common_form_canon:
  assumes "\<And>f. f \<in> set common_keys \<Longrightarrow> get r' f = get (common_form key act n r) f"
  shows "common_form key act n (canon r') = canon r'"
proof (rule common_form_same)
  have keys: "set mapping_fields \<subseteq> set common_keys" "''idempotency_key'' \<in> set common_keys"
    "''job_id'' \<in> set common_keys" "''write_action'' \<in> set common_keys"
    "''final_classification'' \<in> set common_keys" "''attempt_count'' \<in> set common_keys"
    by (auto simp: common_keys_def)
  show "get (canon r') ''idempotency_key'' = PStr key" "get (canon r') ''write_action'' = PStr act"
    "get (canon r') ''attempt_count'' = PInt n"
    "get (canon r') ''job_id'' = PStr (normalize_text [] (get (canon r') ''job_id''))"
    "get (canon r') ''final_classification'' =
      PStr (normalize_final_classification (get (canon r') ''final_classification''))"
    using keys by (simp_all add: assms common_form_get)
  fix f assume f: "f \<in> set mapping_fields"
  with keys have "get r' f = PDict (mapping_or_empty (get r f))" by (auto simp: assms common_form_get)
  then show "\<exists>m. get (canon r') f = PDict m" by (simp add: json_value_dict)
qed

definition action_name :: "string \<Rightarrow> string" where
  "action_name write_action = normalize_text ''unknown_action'' (PStr write_action)"

lemma action_name_text: "action_name a \<noteq> []" "strip (action_name a) = action_name a"
proof -
  have "strip ''unknown_action'' = ''unknown_action''" by code_simp
  then show "action_name a \<noteq> []" "strip (action_name a) = action_name a" by (simp_all add: action_name_def)
qed

definition receipt_ok :: "string \<Rightarrow> dict \<Rightarrow> bool" where
  "receipt_ok k r =
     (k \<noteq> [] \<and> strip k = k \<and> canon r = r \<and>
      (\<exists>act n. 0 \<le> n \<and> act \<noteq> [] \<and> strip act = act \<and> common_form k act n r = r))"

definition receipt_lookup :: "string \<Rightarrow> dict \<Rightarrow> string \<Rightarrow> dict option" where
  "receipt_lookup a payload k =
     (case load_action (action_name a) payload of
        Inl _ \<Rightarrow> None | Inr st \<Rightarrow> map_option canon (map_of (rr_records st) k))"

definition receipt_good :: "string \<Rightarrow> dict \<Rightarrow> bool" where
  "receipt_good a payload = (\<exists>st. load_action (action_name a) payload = Inr st)"

text \<open>The payload of the file after a record is stored.\<close>

definition receipt_store :: "string \<Rightarrow> dict \<Rightarrow> string \<Rightarrow> dict \<Rightarrow> dict" where
  "receipt_store a payload k r =
     (case load_action (action_name a) payload of
        Inl _ \<Rightarrow> payload
      | Inr st \<Rightarrow> mapping_or_empty (json_value (receipts_py
          (st\<lparr>rr_records := put k r (rr_records st), rr_updated_at := normalize_text [] (get r ''updated_at'')\<rparr>))))"

lemma receipt_entry_ok:
  assumes "receipt_entry (action_name a) kv = Inr (Some (k, r))"
  shows "receipt_ok k (canon r)"
proof -
  from assms obtain r0 n where r0: "k = strip (fst kv)" "k \<noteq> []"
    "as_non_negative_int_signed 0 (get r0 ''attempt_count'') = Inr n"
    "r = common_form k (normalize_text (action_name a) (get r0 ''write_action'')) n r0"
    by (auto simp: receipt_entry_def Let_def res_bind_eq_Inr split: option.splits if_splits)
  have "0 \<le> n" using r0(3) by (auto dest: as_non_negative_int_signed_nonneg [rotated])
  moreover have "common_form k (normalize_text (action_name a) (get r0 ''write_action'')) n (canon r) = canon r"
    by (rule common_form_canon) (simp add: r0(4))
  moreover have "normalize_text (action_name a) v \<noteq> []"
    "strip (normalize_text (action_name a) v) = normalize_text (action_name a) v" for v
    using action_name_text [of a] by (simp_all add: normalize_text_def Let_def)
  ultimately show ?thesis using r0(1,2) unfolding receipt_ok_def by auto
qed

lemma receipt_entry_written:
  assumes "receipt_ok k r"
  shows "receipt_entry act (k, PDict r) = Inr (Some (k, r))"
proof -
  from assms obtain a n where r: "k \<noteq> []" "strip k = k" "0 \<le> n" "a \<noteq> []" "strip a = a" "common_form k a n r = r"
    by (auto simp: receipt_ok_def)
  have "get r ''attempt_count'' = PInt n" "get r ''write_action'' = PStr a"
    using common_form_get(3,5) [of k a n r] r(6) by simp_all
  with r show ?thesis by (simp add: receipt_entry_def Let_def)
qed

lemma receipts_written:
  assumes "\<And>k r. (k, r) \<in> set (rr_records st) \<Longrightarrow> receipt_ok k (canon r)" and "keys_ok (rr_records st)"
    and "rr_action st \<noteq> []" and "strip (rr_action st) = rr_action st"
  shows "load_action act (mapping_or_empty (json_value (receipts_py st))) = Inr
    \<lparr>rr_action = rr_action st,
     rr_records = map (\<lambda>kr. (fst kr, canon (snd kr))) (sort_key fst (rr_records st)),
     rr_updated_at = strip (rr_updated_at st)\<rparr>"
proof -
  let ?rs = "map (\<lambda>kr. (fst kr, canon (snd kr))) (sort_key fst (rr_records st))"
  have "canon (map (\<lambda>kr. (fst kr, PDict (snd kr))) (rr_records st)) =
      map (\<lambda>kr. (fst kr, PDict (snd kr))) ?rs"
    by (simp add: canon_def [of "map _ _"] json_value_dict comp_def sort_key_map_fst)
  moreover have "load_entries (receipt_entry act) (map (\<lambda>kr. (fst kr, PDict (snd kr))) ?rs) [] = Inr ([] @ ?rs)"
  proof (rule load_entries_written)
    fix k r assume "(k, r) \<in> set ?rs"
    then have "receipt_ok k r" using assms(1) by auto
    then show "receipt_entry act (k, PDict r) = Inr (Some (k, r))" by (rule receipt_entry_written)
  next
    have "keys_ok ?rs = keys_ok (sort_key fst (rr_records st))" by (simp add: keys_ok_def comp_def)
    with assms(2) show "keys_ok ([] @ ?rs)" by simp
  qed
  ultimately show ?thesis
    using assms(3,4)
    by (simp add: load_action_def receipts_py_def json_value_dict)
qed

lemma loaded_receipts:
  assumes "load_action (action_name a) payload = Inr st"
  shows "(k, r) \<in> set (rr_records st) \<Longrightarrow> receipt_ok k (canon r)" and "keys_ok (rr_records st)"
    and "rr_action st \<noteq> []" and "strip (rr_action st) = rr_action st"
proof -
  from assms have load: "load_entries (receipt_entry (action_name a))
      (mapping_or_empty (get payload ''records_by_key'')) [] = Inr (rr_records st)"
    and act: "rr_action st = normalize_text (action_name a) (get payload ''write_action'')"
    by (auto simp: load_action_def res_bind_eq_Inr)
  show "(k, r) \<in> set (rr_records st) \<Longrightarrow> receipt_ok k (canon r)"
    by (rule load_entries_all [OF load]) (auto intro: receipt_entry_ok)
  show "keys_ok (rr_records st)" by (rule load_entries_keys [OF load]) simp
  show "rr_action st \<noteq> []" "strip (rr_action st) = rr_action st"
    using action_name_text [of a] by (simp_all add: act normalize_text_def Let_def)
qed

interpretation receipt_files: job_store "receipt_lookup a" "receipt_store a" "receipt_good a" receipt_ok for a
proof
  fix f k r assume "receipt_good a f" and ok: "receipt_ok k r"
  then obtain st where st: "load_action (action_name a) f = Inr st" by (auto simp: receipt_good_def)
  let ?st = "st\<lparr>rr_records := put k r (rr_records st), rr_updated_at := normalize_text [] (get r ''updated_at'')\<rparr>"
  have canon: "canon r = r" using ok by (simp add: receipt_ok_def)
  have "receipt_ok k' (canon r')" if "(k', r') \<in> set (rr_records ?st)" for k' r'
    using that set_put [of k r "rr_records st"] loaded_receipts(1) [OF st] ok canon by auto
  moreover have "keys_ok (rr_records ?st)" "rr_action ?st \<noteq> []" "strip (rr_action ?st) = rr_action ?st"
    using loaded_receipts(2-) [OF st] by simp_all
  ultimately have load: "load_action (action_name a) (receipt_store a f k r) = Inr
    \<lparr>rr_action = rr_action st,
     rr_records = map (\<lambda>kr. (fst kr, canon (snd kr))) (sort_key fst (put k r (rr_records st))),
     rr_updated_at = strip (normalize_text [] (get r ''updated_at''))\<rparr>"
    using receipts_written [of ?st "action_name a"] by (simp add: receipt_store_def st)
  show "receipt_good a (receipt_store a f k r)" by (simp add: receipt_good_def load)
  have mapped: "map_of (map (\<lambda>kr. (fst kr, canon (snd kr))) d) k' = map_option canon (map_of d k')" for d k'
    by (induction d) auto
  have "map_of (sort_key fst (put k r (rr_records st))) = (map_of (rr_records st))(k \<mapsto> r)"
    unfolding map_of_sort_key by simp
  then show "receipt_lookup a (receipt_store a f k r) = (receipt_lookup a f)(k \<mapsto> r)"
    by (auto simp: receipt_lookup_def load st mapped fun_eq_iff canon option.map_comp comp_def)
qed

section \<open>Storing a record in the world\<close>

text \<open>The kinds of write whose file is directly under the directory of the receipts.\<close>

definition plain_action :: "string \<Rightarrow> bool" where
  "plain_action a =
     (a \<noteq> [] \<and> strip a = a \<and> path_of (a @ ''.json'') = \<lparr>path_root = [], path_parts = [a @ ''.json'']\<rparr>)"

lemma plain_action_path:
  assumes "plain_action a"
  shows "action_path root a = child root (a @ ''.json'')"
    and "lock_path root a = child root (a @ ''.json.lock'')" and "action_name a = a"
  using assms by (simp_all add: plain_action_def action_path_def path_join_def child_def
      lock_path_def parent_def Let_def action_name_def)

lemma child_neq [simp]: "child p a \<noteq> p" "p \<noteq> child p a"
  by (cases p, simp add: child_def)+

text \<open>The payload of the file of a kind of write.\<close>

definition receipts_in :: "files \<Rightarrow> path \<Rightarrow> string \<Rightarrow> dict" where
  "receipts_in fs root a = (case read_action_payload fs root a of Inl _ \<Rightarrow> [] | Inr d \<Rightarrow> d)"

lemma read_action_payload_cong:
  "fs (action_path root a) = fs' (action_path root a) \<Longrightarrow>
     read_action_payload fs root a = read_action_payload fs' root a"
  by (simp add: read_action_payload_def Let_def exists_path_def read_json_def)

lemma load_receipts_good:
  assumes "load_receipts root a w = (Inr st, w')" and "plain_action a"
  shows "receipt_good a (receipts_in (wd_files w) root a)" and "w' = w"
    and "receipt_lookup a (receipts_in (wd_files w) root a) = map_option canon \<circ> map_of (rr_records st)"
    and "load_action a (receipts_in (wd_files w) root a) = Inr st"
proof -
  from assms(1) obtain d where "read_action_payload (wd_files w) root a = Inr d" "load_action a d = Inr st"
    and w: "w' = w" by (auto simp: load_receipts_def run_simps res_bind_eq_Inr)
  then show "load_action a (receipts_in (wd_files w) root a) = Inr st" by (simp add: receipts_in_def)
  with plain_action_path(3) [OF assms(2)] w
  show "receipt_good a (receipts_in (wd_files w) root a)" "w' = w"
    "receipt_lookup a (receipts_in (wd_files w) root a) = map_option canon \<circ> map_of (rr_records st)"
    by (simp_all add: receipt_good_def receipt_lookup_def fun_eq_iff)
qed

lemma next_record_facts:
  assumes "next_record rs key act t payload = Inr r"
    and "key \<noteq> []" and "strip key = key" and "act \<noteq> []" and "strip act = act"
  shows "receipt_ok key (canon r)"
    and "get r ''updated_at'' = PStr (strip t)"
    and "get r ''final_classification'' =
      PStr (normalize_final_classification (get payload ''final_classification''))"
    and "get r ''idempotency_key'' = PStr key"
    and "f \<notin> set common_keys \<Longrightarrow> f \<noteq> ''created_at'' \<Longrightarrow> f \<noteq> ''updated_at'' \<Longrightarrow> get r f = get payload f"
    and "\<exists>n. as_non_negative_int_signed 0 (get (case map_of rs key of None \<Rightarrow> [] | Some r \<Rightarrow> r) ''attempt_count'') = Inr n \<and>
           0 \<le> n \<and> get r ''attempt_count'' = PInt (n + 1)"
    and "get r ''created_at'' = PStr (normalize_text (strip t)
           (get (case map_of rs key of None \<Rightarrow> [] | Some r \<Rightarrow> r) ''created_at''))"
proof -
  let ?old = "case map_of rs key of None \<Rightarrow> [] | Some r \<Rightarrow> r"
  from assms(1) obtain n where n: "as_non_negative_int_signed 0 (get ?old ''attempt_count'') = Inr n"
    and r: "r = put_all
        [(''created_at'', PStr (normalize_text (strip t) (get ?old ''created_at''))),
         (''updated_at'', PStr (strip t))]
        (common_form key act (n + 1) payload)"
    by (auto simp: next_record_def Let_def res_bind_eq_Inr)
  have n0: "0 \<le> n" using n by (auto dest: as_non_negative_int_signed_nonneg [rotated])
  have same: "get r f = get (common_form key act (n + 1) payload) f"
    if "f \<noteq> ''created_at''" "f \<noteq> ''updated_at''" for f
    using that by (simp add: r put_all_get)
  have common: "get r f = get (common_form key act (n + 1) payload) f" if "f \<in> set common_keys" for f
    by (rule same) (use that in \<open>auto simp: common_keys_def mapping_fields_def\<close>)
  from common_form_canon [OF this] have "common_form key act (n + 1) (canon r) = canon r" by simp
  with n0 assms(2-5) show "receipt_ok key (canon r)"
    unfolding receipt_ok_def by (auto intro!: exI [of _ act] exI [of _ "n + 1"])
  show "get r ''updated_at'' = PStr (strip t)"
    "get r ''created_at'' = PStr (normalize_text (strip t) (get ?old ''created_at''))"
    by (simp_all add: r put_all_get)
  show "get r ''final_classification'' =
      PStr (normalize_final_classification (get payload ''final_classification''))"
    "get r ''idempotency_key'' = PStr key"
    by (simp_all add: same common_form_get)
  show "f \<notin> set common_keys \<Longrightarrow> f \<noteq> ''created_at'' \<Longrightarrow> f \<noteq> ''updated_at'' \<Longrightarrow> get r f = get payload f"
    by (simp add: same common_form_other)
  show "\<exists>n. as_non_negative_int_signed 0 (get ?old ''attempt_count'') = Inr n \<and> 0 \<le> n \<and>
      get r ''attempt_count'' = PInt (n + 1)"
    using n n0 by (intro exI [of _ n]) (simp add: same common_form_get)
qed

lemma map_put: "map (\<lambda>kr. (fst kr, g (snd kr))) (put k r d) = put k (g r) (map (\<lambda>kr. (fst kr, g (snd kr))) d)"
  unfolding put_def by (induction d) auto

lemma receipt_store_canon: "receipt_store a f k (canon r) =
    (case load_action (action_name a) f of
       Inl _ \<Rightarrow> f
     | Inr st \<Rightarrow> mapping_or_empty (json_value (receipts_py
         (st\<lparr>rr_records := put k r (rr_records st),
             rr_updated_at := normalize_text [] (json_value (get r ''updated_at''))\<rparr>))))"
proof -
  have "canon (map (\<lambda>kr. (fst kr, PDict (snd kr))) (put k (canon r) d)) =
      canon (map (\<lambda>kr. (fst kr, PDict (snd kr))) (put k r d))" for d
    by (simp add: map_put [of PDict] canon_def [of "put _ _ _"] map_put [of json_value] json_value_dict)
  then show ?thesis
    by (simp add: receipt_store_def receipts_py_def json_value_dict split: sum.split)
       (simp add: canon_def json_value_dict)
qed

text \<open>
  What storing a record does: the file of its kind is the one with the record stored, and beside
  it only the lock file and the directory may be new.
\<close>

lemma persist_record_effect:
  assumes "persist_record root a key payload t w = (Inr r, w')" and "plain_action a"
    and "key \<noteq> []" and "strip key = key"
  shows "receipt_good a (receipts_in (wd_files w) root a)"
    and "read_action_payload (wd_files w') root a = Inr (receipt_store a (receipts_in (wd_files w) root a) key (canon r))"
    and "\<exists>st. load_receipts root a w = (Inr st, w) \<and> next_record (rr_records st) key a t payload = Inr r"
    and "p \<notin> {root, child root (a @ ''.json''), child root (a @ ''.json.lock'')} \<Longrightarrow> wd_files w' p = wd_files w p"
    and "wd_clock w' = wd_clock w"
    and "\<exists>v. wd_files w' (child root (a @ ''.json'')) = Some (JsonText v)"
proof -
  note path = plain_action_path [OF assms(2)]
  let ?p = "child root (a @ ''.json'')" and ?l = "child root (a @ ''.json.lock'')"
  have a: "strip a = a" "a \<noteq> []" using assms(2) by (simp_all add: plain_action_def)
  from assms(1,3,4) a obtain w1 w2 st where w1: "run_mkdir root w = (Inr (), w1)"
    and w2: "run_touch ?l w1 = (Inr (), w2)"
    and st: "load_receipts root a w2 = (Inr st, w2)"
    and r: "next_record (rr_records st) key a t payload = Inr r"
    and w': "w' = w2\<lparr>wd_files := (wd_files w2)(?p \<mapsto> JsonText (json_value (receipts_py
      (st\<lparr>rr_records := put key r (rr_records st), rr_updated_at := strip t\<rparr>))))\<rparr>"
    by (auto simp: persist_record_def run_simps path dest: load_receipts_good(2) [OF _ assms(2)])
  have f1: "wd_files w1 = wd_files w \<or> wd_files w1 = (wd_files w)(root \<mapsto> Directory)" "wd_clock w1 = wd_clock w"
    using w1 by (auto simp: run_mkdir_def split: option.splits file_entry.splits)
  have f2: "wd_files w2 = wd_files w1 \<or> wd_files w2 = (wd_files w1)(?l \<mapsto> BrokenText)" "wd_clock w2 = wd_clock w1"
    using w2 by (auto simp: run_touch_def split: option.splits file_entry.splits)
  have "wd_files w2 ?p = wd_files w ?p" using f1 f2 by auto
  then have same: "read_action_payload (wd_files w2) root a = read_action_payload (wd_files w) root a"
    by (intro read_action_payload_cong) (simp add: path)
  then have eq: "receipts_in (wd_files w2) root a = receipts_in (wd_files w) root a"
    by (simp add: receipts_in_def)
  note good = load_receipts_good [OF st assms(2), unfolded eq]
  show "receipt_good a (receipts_in (wd_files w) root a)" by (rule good(1))
  have "load_receipts root a w = (Inr st, w)"
    using st same by (simp add: load_receipts_def run_simps run_bind_def run_files_def run_res_def)
  with r show "\<exists>st. load_receipts root a w = (Inr st, w) \<and> next_record (rr_records st) key a t payload = Inr r"
    by blast
  have "get r ''updated_at'' = PStr (strip t)"
    by (rule next_record_facts(2) [OF r assms(3,4) a(2,1)])
  then have "receipt_store a (receipts_in (wd_files w) root a) key (canon r) =
      mapping_or_empty (json_value (receipts_py
        (st\<lparr>rr_records := put key r (rr_records st), rr_updated_at := strip t\<rparr>)))"
    by (simp add: receipt_store_canon path good(4))
  moreover have "read_action_payload (wd_files w') root a =
      Inr (mapping_or_empty (json_value (receipts_py
        (st\<lparr>rr_records := put key r (rr_records st), rr_updated_at := strip t\<rparr>))))"
    by (simp add: w' read_action_payload_def path exists_path_def Let_def
        receipts_py_def json_value_dict)
  ultimately show "read_action_payload (wd_files w') root a =
      Inr (receipt_store a (receipts_in (wd_files w) root a) key (canon r))" by simp
  show "p \<notin> {root, ?p, ?l} \<Longrightarrow> wd_files w' p = wd_files w p"
    using f1 f2 by (auto simp: w')
  show "wd_clock w' = wd_clock w" using f1 f2 by (simp add: w')
  show "\<exists>v. wd_files w' ?p = Some (JsonText v)" by (simp add: w')
qed

lemma get_receipt_lookup:
  assumes "load_receipts root a w = (Inr st, w)" and "plain_action a" and "strip k \<noteq> []"
  shows "get_receipt root a k w = (Inr (map_of (rr_records st) (strip k)), w)"
    and "map_option canon (map_of (rr_records st) (strip k)) =
      receipt_lookup a (receipts_in (wd_files w) root a) (strip k)"
  using assms load_receipts_good(3) [OF assms(1,2)]
  by (simp_all add: get_receipt_def run_bind_def run_return_def)

text \<open>The state the file is loaded to after a record was stored.\<close>

lemma persisted_loads:
  assumes "persist_record root a key payload t w = (Inr r, w')" and "plain_action a"
    and "key \<noteq> []" and "strip key = key"
  obtains st st' where "load_receipts root a w = (Inr st, w)" "next_record (rr_records st) key a t payload = Inr r"
    "load_receipts root a w' = (Inr st', w')"
    "map_option canon \<circ> map_of (rr_records st') = (map_option canon \<circ> map_of (rr_records st))(key \<mapsto> canon r)"
proof -
  note eff = persist_record_effect [OF assms]
  have a: "a \<noteq> []" "strip a = a" "action_name a = a" using assms(2) by (simp_all add: plain_action_def plain_action_path)
  from eff(3) obtain st where st: "load_receipts root a w = (Inr st, w)"
    "next_record (rr_records st) key a t payload = Inr r" by blast
  have ok: "receipt_ok key (canon r)" by (rule next_record_facts(1) [OF st(2) assms(3,4) a(1,2)])
  from receipt_files.good_store [OF eff(1) ok] obtain st' where
    st': "load_action a (receipt_store a (receipts_in (wd_files w) root a) key (canon r)) = Inr st'"
    by (auto simp: receipt_good_def a)
  then have load: "load_receipts root a w' = (Inr st', w')"
    by (simp add: load_receipts_def run_bind_def run_files_def run_res_def eff(2))
  have "map_option canon \<circ> map_of (rr_records st') =
      receipt_lookup a (receipt_store a (receipts_in (wd_files w) root a) key (canon r))"
    using load_receipts_good(3) [OF load assms(2)] by (simp add: receipts_in_def eff(2))
  also have "\<dots> = (receipt_lookup a (receipts_in (wd_files w) root a))(key \<mapsto> canon r)"
    by (rule receipt_files.lookup_store [OF eff(1) ok])
  also have "receipt_lookup a (receipts_in (wd_files w) root a) = map_option canon \<circ> map_of (rr_records st)"
    by (rule load_receipts_good(3) [OF st(1) assms(2)])
  finally show thesis by (intro that [OF st load])
qed

section \<open>The receipt of a write is read back\<close>

text \<open>C24. A stored receipt is read back: under its key the file then gives the record that was stored,
  counted one higher than the one it had and created when that one was, or counted once and created
  now; and what it gives under every other key is what it gave before.\<close>

theorem stored_receipt_is_read_back:
  assumes "persist_record root a key payload t w = (Inr r, w')" and "plain_action a"
    and "key \<noteq> []" and "strip key = key"
  shows "\<exists>r'. get_receipt root a key w' = (Inr (Some r'), w') \<and>
    json_value (PDict r') = json_value (PDict r) \<and>
    (\<exists>old. get_receipt root a key w = (Inr old, w) \<and>
       (case old of
          None \<Rightarrow> get r ''attempt_count'' = PInt 1 \<and> get r ''created_at'' = PStr (strip t)
        | Some o1 \<Rightarrow> (\<exists>n. get o1 ''attempt_count'' = PInt n \<and> get r ''attempt_count'' = PInt (n + 1)) \<and>
            get r ''created_at'' = PStr (normalize_text (strip t) (get o1 ''created_at'')))) \<and>
    (\<forall>k. strip k \<notin> {[], key} \<longrightarrow> (\<exists>old new. get_receipt root a k w = (Inr old, w) \<and>
       get_receipt root a k w' = (Inr new, w') \<and>
       map_option (\<lambda>d. json_value (PDict d)) new = map_option (\<lambda>d. json_value (PDict d)) old))"
proof -
  have a: "a \<noteq> []" "strip a = a" "action_name a = a" using assms(2) by (simp_all add: plain_action_def plain_action_path)
  obtain st st' where st: "load_receipts root a w = (Inr st, w)"
    and r: "next_record (rr_records st) key a t payload = Inr r"
    and st': "load_receipts root a w' = (Inr st', w')"
    and new: "map_option canon \<circ> map_of (rr_records st') = (map_option canon \<circ> map_of (rr_records st))(key \<mapsto> canon r)"
    by (rule persisted_loads [OF assms])
  note facts = next_record_facts(6,7) [OF r assms(3,4) a(1,2)]
  have before: "get_receipt root a k w = (Inr (map_of (rr_records st) (strip k)), w)"
    and after: "get_receipt root a k w' = (Inr (map_of (rr_records st') (strip k)), w')" if "strip k \<noteq> []" for k
    using get_receipt_lookup(1) [OF st assms(2) that] get_receipt_lookup(1) [OF st' assms(2) that] by simp_all
  have view: "map_option canon (map_of (rr_records st') k) =
      (if k = key then Some (canon r) else map_option canon (map_of (rr_records st) k))" for k
    using fun_cong [OF new, of k] by simp
  from view [of key] obtain r' where r': "map_of (rr_records st') key = Some r'" "canon r' = canon r" by auto
  have count: "\<exists>n. get o1 ''attempt_count'' = PInt n \<and> 0 \<le> n" if "map_of (rr_records st) key = Some o1" for o1
  proof -
    have "receipt_ok key (canon o1)"
      by (rule loaded_receipts(1) [of a _ st])
        (use load_receipts_good(4) [OF st assms(2)] a that in \<open>auto dest: map_of_SomeD\<close>)
    then obtain act n where "common_form key act n (canon o1) = canon o1" "0 \<le> n" by (auto simp: receipt_ok_def)
    then have "get (canon o1) ''attempt_count'' = PInt n" "0 \<le> n" using common_form_get(5) [of key act n "canon o1"] by simp_all
    then show ?thesis by (cases "get o1 ''attempt_count''") (simp_all add: json_value_dict)
  qed
  have "case map_of (rr_records st) key of
      None \<Rightarrow> get r ''attempt_count'' = PInt 1 \<and> get r ''created_at'' = PStr (strip t)
    | Some o1 \<Rightarrow> (\<exists>n. get o1 ''attempt_count'' = PInt n \<and> get r ''attempt_count'' = PInt (n + 1)) \<and>
        get r ''created_at'' = PStr (normalize_text (strip t) (get o1 ''created_at''))"
  proof (cases "map_of (rr_records st) key")
    case None
    with facts show ?thesis by auto
  next
    case (Some o1)
    with count facts show ?thesis by auto
  qed
  moreover have "map_option (\<lambda>d. json_value (PDict d)) (map_of (rr_records st') k) =
      map_option (\<lambda>d. json_value (PDict d)) (map_of (rr_records st) k)" if "k \<noteq> key" for k
    using view [of k] that by (cases "map_of (rr_records st') k"; cases "map_of (rr_records st) k")
      (simp_all add: json_value_dict)
  ultimately show ?thesis
    using before after r' assms(3,4) by (auto simp: json_value_dict)
qed

text \<open>The first receipt of a kind of write is always stored.\<close>

lemma first_receipt_is_stored:
  assumes "plain_action a" and "strip key = key" and "key \<noteq> []"
    and "wd_files w root \<in> {None, Some Directory}" and "wd_files w (child root (a @ ''.json'')) = None"
    and "wd_files w (child root (a @ ''.json.lock'')) = None"
  shows "\<exists>r w'. persist_record root a key payload t w = (Inr r, w')"
proof -
  note path = plain_action_path [OF assms(1)]
  have a: "a \<noteq> []" "strip a = a" using assms(1) by (simp_all add: plain_action_def)
  obtain w1 where w1: "run_mkdir root w = (Inr (), w1)" "wd_files w1 = (wd_files w)(root \<mapsto> Directory)"
    using assms(4) by (auto simp: run_mkdir_def fun_upd_idem)
  obtain w2 where w2: "run_touch (child root (a @ ''.json.lock'')) w1 = (Inr (), w2)"
    "wd_files w2 = (wd_files w1)(child root (a @ ''.json.lock'') \<mapsto> BrokenText)"
    using assms(6) by (auto simp: run_touch_def w1(2))
  have "load_receipts root a w2 = (Inr \<lparr>rr_action = a, rr_records = [], rr_updated_at = []\<rparr>, w2)"
    using assms(5) path a by (simp add: load_receipts_def run_bind_def run_files_def run_res_def
        read_action_payload_def exists_path_def w1(2) w2(2) load_action_def)
  then show ?thesis
    using assms(2,3) a w1(1) w2(1)
    by (simp add: persist_record_def run_bind_def path next_record_def run_res_def run_write_def run_return_def)
qed

theorem stored_receipt_is_read_back_witness:
  "\<exists>w r w' r'. persist_record \<lparr>path_root = [], path_parts = [''receipts'']\<rparr> ''bounded_merge'' ''key''
       [(''final_classification'', PStr ''applied'')] ''noon'' w = (Inr r, w') \<and>
     get_receipt \<lparr>path_root = [], path_parts = [''receipts'']\<rparr> ''bounded_merge'' ''key'' w' = (Inr (Some r'), w') \<and>
     json_value (PDict r') = json_value (PDict r)"
proof -
  let ?root = "\<lparr>path_root = [], path_parts = [''receipts'']\<rparr>"
  let ?w = "\<lparr>wd_files = (\<lambda>_. None), wd_dirs = (\<lambda>_. None), wd_clock = (\<lambda>_. \<lparr>micros = 0, offset = None\<rparr>), wd_ticks = 0\<rparr>"
  have plain: "plain_action ''bounded_merge''" and key: "strip ''key'' = ''key''" by code_simp+
  obtain r w' where r: "persist_record ?root ''bounded_merge'' ''key'' [(''final_classification'', PStr ''applied'')]
      ''noon'' ?w = (Inr r, w')"
    using first_receipt_is_stored [OF plain key, of ?w ?root "[(''final_classification'', PStr ''applied'')]" "''noon''"]
    by auto
  from stored_receipt_is_read_back [OF r plain _ key] obtain r' where
    "get_receipt ?root ''bounded_merge'' ''key'' w' = (Inr (Some r'), w')" "json_value (PDict r') = json_value (PDict r)"
    by auto
  with r show ?thesis by blast
qed

end
