(* ===== verification/GitHub_Writes.thy ===== *)
theory GitHub_Writes
  imports Write_Receipts
begin

text \<open>
  What the four bounded writes of \<open>automation/github\<close> share: reading the answers of the read
  backend, the receipt of a write, and the gate that compares a write with the earlier ones.

  The read and the write backend, the GitHub client behind the first, and \<open>git\<close> are objects the
  writers are given; an operation is named by its method, with its arguments as a dictionary.
\<close>

section \<open>The backends\<close>

record github =
  gh_read :: "string \<Rightarrow> dict \<Rightarrow> dict run"
  gh_pull_request :: "string \<Rightarrow> int \<Rightarrow> (string + dict) run"
  gh_write :: "string \<Rightarrow> dict \<Rightarrow> dict run"
  gh_git :: "string \<Rightarrow> string list \<Rightarrow> (int \<times> string \<times> string) run"
  gh_expanduser :: "string \<Rightarrow> string"

definition blocking_statuses :: "string list" where
  "blocking_statuses = [''auth_failure'', ''api_failure'', ''unsupported_query'']"

definition missing_statuses :: "string list" where
  "missing_statuses = [''empty'', ''not_found'']"

definition result_status :: "dict \<Rightarrow> string" where
  "result_status payload = normalize_text ''api_failure'' (get payload ''status'')"

definition result_data :: "dict \<Rightarrow> dict" where
  "result_data payload = mapping_or_empty (get payload ''data'')"

definition result_error :: "dict \<Rightarrow> dict" where
  "result_error payload = mapping_or_empty (get payload ''error'')"

definition text_in :: "dict \<Rightarrow> string \<Rightarrow> string" where
  "text_in d k = normalize_text [] (get d k)"

text \<open>\<open>text or None\<close>.\<close>

definition some_text :: "string \<Rightarrow> py" where
  "some_text s = (if s = [] then PNone else PStr s)"

definition evidence_item :: "dict \<Rightarrow> py" where
  "evidence_item payload = PDict
     [(''operation'', PStr (normalize_text ''unknown_operation'' (get payload ''operation''))),
      (''status'', PStr (result_status payload)), (''ok'', PBool (truthy (get payload ''ok'')))]"

definition evidence_used :: "py list \<Rightarrow> string list \<Rightarrow> dict" where
  "evidence_used evidence constraints =
     [(''read_operations'', PList evidence),
      (''constraints'', PList (map PStr (sorted_list_of_set (set constraints))))]"

text \<open>A text among the arguments of a call.\<close>

definition text_arg :: "dict \<Rightarrow> string \<Rightarrow> string option" where
  "text_arg kwargs k = (case get kwargs k of PStr s \<Rightarrow> Some s | _ \<Rightarrow> None)"

definition text_given :: "dict \<Rightarrow> string \<Rightarrow> string" where
  "text_given kwargs k = (case text_arg kwargs k of Some s \<Rightarrow> s | None \<Rightarrow> [])"

text \<open>The refusal of an answer that is no success: the reason goes by the kind of its status.\<close>

definition status_gate :: "string \<Rightarrow> string \<Rightarrow> dict \<Rightarrow> string option" where
  "status_gate failed missing payload =
     (let status = result_status payload in
      if status \<in> set blocking_statuses then Some (failed @ '':'' @ status)
      else if status \<in> set missing_statuses then Some (missing @ '':'' @ status)
      else None)"

text \<open>The reason of the first check that fails.\<close>

definition first_reason :: "(bool \<times> string) list \<Rightarrow> string option" where
  "first_reason checks = map_option snd (List.find fst checks)"

definition text_or_unknown :: "string \<Rightarrow> string" where
  "text_or_unknown s = (if s = [] then ''unknown'' else s)"

definition failure_classification :: "string \<Rightarrow> string" where
  "failure_classification error_kind =
     (if error_kind = ''auth_failure'' then ''auth_failure''
      else if error_kind = ''api_failure'' then ''api_failure''
      else if error_kind = ''unsupported_query'' then ''unsupported''
      else ''failed'')"

section \<open>A write and its receipt\<close>

record write_request =
  wq_store :: "path option"
  wq_action :: string
  wq_job :: string
  wq_target :: dict
  wq_intent :: dict
  wq_request :: dict
  wq_dedupe :: "dedupe option"

definition persist_write_receipt ::
    "write_request \<Rightarrow> string \<Rightarrow> string \<Rightarrow> dict \<Rightarrow> dict \<Rightarrow> dict \<Rightarrow> unit run" where
  "persist_write_receipt rq final_classification execution_status response observed precondition =
     (case (wq_store rq, wq_dedupe rq) of
        (Some root, Some dd) \<Rightarrow>
          run_bind run_now (\<lambda>now.
          run_bind (persist_record root (wq_action rq) (dd_key dd)
            [(''idempotency_key'', PStr (dd_key dd)), (''job_id'', PStr (wq_job rq)),
             (''write_action'', PStr (wq_action rq)), (''target_identifiers'', PDict (wq_target rq)),
             (''intent_fingerprint'', PStr (dd_fingerprint dd)),
             (''execution_status'', PStr (normalize_text ''not_attempted'' (PStr execution_status))),
             (''observed_github_facts'', PDict observed),
             (''final_classification'', PStr final_classification),
             (''request_snapshot'', PDict (wq_request rq)), (''response_summary'', PDict response),
             (''precondition_snapshot'', PDict precondition)]
            (iso_seconds now)) (\<lambda>_.
          run_return ()))
      | _ \<Rightarrow> run_return ())"

definition with_idempotency :: "write_request \<Rightarrow> dict \<Rightarrow> dict" where
  "with_idempotency rq payload =
     (case wq_dedupe rq of
        None \<Rightarrow> payload
      | Some dd \<Rightarrow> put ''idempotency'' (PDict
          [(''write_action'', PStr (wq_action rq)), (''idempotency_key'', PStr (dd_key dd)),
           (''intent_fingerprint'', PStr (dd_fingerprint dd)),
           (''dedupe_status'', PStr (normalize_text ''first_attempt'' (PStr (dd_status dd))))]) payload)"

section \<open>The gate on earlier writes\<close>

definition prior_records :: "write_request \<Rightarrow> dict list run" where
  "prior_records rq =
     (case wq_store rq of None \<Rightarrow> run_return [] | Some root \<Rightarrow> list_records root (wq_action rq))"

definition evaluate_dedupe :: "write_request \<Rightarrow> dict list \<Rightarrow> write_request" where
  "evaluate_dedupe rq records =
     rq\<lparr>wq_dedupe := Some (evaluate_write_dedupe_status (wq_job rq) (wq_action rq) (wq_target rq)
       (wq_intent rq) records)\<rparr>"

definition dedupe_status :: "write_request \<Rightarrow> string" where
  "dedupe_status rq =
     (case wq_dedupe rq of
        None \<Rightarrow> ''first_attempt''
      | Some dd \<Rightarrow> normalize_text ''first_attempt'' (PStr (dd_status dd)))"

text \<open>The three statuses that end a write before anything is read from GitHub.\<close>

definition dedupe_gate :: "write_request \<Rightarrow> (string \<Rightarrow> dict) \<Rightarrow> dict run \<Rightarrow> dict run" where
  "dedupe_gate rq refusal continue =
     (let status = dedupe_status rq;
          stop = (\<lambda>classification why reason.
            run_bind (persist_write_receipt rq classification ''not_attempted'' [(''reason'', PStr why)] [] [])
              (\<lambda>_. run_return (refusal reason)))
      in if status = DEDUPE_CONFLICTING_PRIOR_INTENT
         then stop ''conflict'' ''conflicting_prior_intent'' ''idempotency_conflict:conflicting_prior_intent''
         else if status = DEDUPE_PRECONDITION_CHANGED
         then stop ''precondition_changed'' ''prior_precondition_changed'' ''idempotency_precondition_changed''
         else if status = DEDUPE_UNKNOWN_NEEDS_HUMAN
         then stop ''needs_human'' ''prior_needs_human'' ''idempotency_unknown_needs_human''
         else continue)"

definition is_replay :: "write_request \<Rightarrow> bool" where
  "is_replay rq = (dedupe_status rq = DEDUPE_REPLAY_SAME_INTENT)"

end
