(* ===== verification/Draft_PR.thy ===== *)
theory Draft_PR
  imports GitHub_Writes
begin

text \<open>
  \<open>automation/github/pr_creator.py\<close>: a draft pull request is created when both branches are there,
  the head is ahead of the base, no open pull request of the two is found, and the checks of the
  head can be read; a write that was made before is not made again.
\<close>

record draft_call =
  dp_request :: write_request
  dp_repo :: string
  dp_head :: string
  dp_base :: string
  dp_title :: string
  dp_body :: string

text \<open>What evidence may be missing.\<close>

record draft_allowances =
  al_compare :: bool
  al_open_pr :: bool
  al_checks :: bool
  al_not_found :: bool

definition is_line_break :: "char \<Rightarrow> bool" where
  "is_line_break c = (code c \<in> {10, 11, 12, 13, 28, 29, 30, 133})"

definition body_summary :: "string \<Rightarrow> string" where
  "body_summary body = normalize_text ''(empty)'' (PStr (takeWhile (\<lambda>c. \<not> is_line_break c) body))"

definition draft_call_of ::
    "path option \<Rightarrow> string \<Rightarrow> string \<Rightarrow> string \<Rightarrow> string \<Rightarrow> string \<Rightarrow> string \<Rightarrow> draft_call" where
  "draft_call_of store job repo head_branch base title body =
     \<lparr>dp_request = \<lparr>wq_store = store, wq_action = ''create_draft_pr'', wq_job = job,
        wq_target = [(''repository'', PStr repo), (''head_branch'', PStr head_branch), (''base_branch'', PStr base)],
        wq_intent = [(''title'', PStr title), (''body'', PStr body), (''draft'', PBool True)],
        wq_request = [(''repository'', PStr repo), (''head_branch'', PStr head_branch), (''base_branch'', PStr base),
          (''title'', PStr title), (''body_summary'', PStr (body_summary body))],
        wq_dedupe = None\<rparr>,
      dp_repo = repo, dp_head = head_branch, dp_base = base, dp_title = title, dp_body = body\<rparr>"

definition draft_result ::
    "draft_call \<Rightarrow> bool \<Rightarrow> bool \<Rightarrow> py \<Rightarrow> int option \<Rightarrow> string \<Rightarrow> dict \<Rightarrow> dict" where
  "draft_result dc attempted succeeded reason number url evidence =
     with_idempotency (dp_request dc)
       [(''job_id'', PStr (wq_job (dp_request dc))), (''attempted'', PBool attempted),
        (''succeeded'', PBool succeeded), (''refusal_reason'', reason),
        (''repository'', some_text (dp_repo dc)), (''base_branch'', some_text (dp_base dc)),
        (''head_branch'', some_text (dp_head dc)), (''pr_number'', opt_int number),
        (''pr_url'', some_text url), (''title_preview'', some_text (dp_title dc)),
        (''body_preview'', some_text (dp_body dc)), (''body_summary'', PStr (body_summary (dp_body dc))),
        (''evidence_used_summary'', PDict evidence)]"

definition draft_refusal :: "draft_call \<Rightarrow> py list \<Rightarrow> string list \<Rightarrow> string \<Rightarrow> dict" where
  "draft_refusal dc evidence constraints reason =
     draft_result dc False False (PStr reason) None [] (evidence_used evidence constraints)"

section \<open>The branches\<close>

record branch_heads =
  bh_head_sha :: string
  bh_base_sha :: string
  bh_comparison :: string

definition draft_preconditions :: "branch_heads \<Rightarrow> dict" where
  "draft_preconditions bh =
     [(''head_sha'', PStr (bh_head_sha bh)), (''base_sha'', PStr (bh_base_sha bh)),
      (''comparison_status'', PStr (bh_comparison bh))]"

text \<open>A branch that is there, with its head; \<open>which\<close> is \<open>head_branch\<close> or \<open>base_branch\<close>.\<close>

definition read_branch_head ::
    "github \<Rightarrow> draft_call \<Rightarrow> string \<Rightarrow> string \<Rightarrow> py list \<Rightarrow> (string \<Rightarrow> py list \<Rightarrow> dict run) \<Rightarrow> dict run" where
  "read_branch_head gh dc which branch evidence continue =
     run_bind (gh_read gh ''get_branch_head'' [(''repo'', PStr (dp_repo dc)), (''branch'', PStr branch)])
       (\<lambda>p.
     let ev = evidence @ [evidence_item p]; d = result_data p; sha = text_in d ''head_sha'' in
     case status_gate (which @ ''_lookup_failed'') (which @ ''_missing'') p of
       Some reason \<Rightarrow> run_return (draft_refusal dc ev [] reason)
     | None \<Rightarrow>
         if get d ''exists'' = PBool False \<or> sha = []
         then run_return (draft_refusal dc ev [] (which @ ''_missing_or_unresolved''))
         else continue sha ev)"

section \<open>The write\<close>

definition perform_draft ::
    "github \<Rightarrow> draft_call \<Rightarrow> branch_heads \<Rightarrow> py list \<Rightarrow> string list \<Rightarrow> string \<Rightarrow> dict run" where
  "perform_draft gh dc bh evidence constraints open_status =
     run_bind (gh_write gh ''create_draft_pr''
       [(''repo'', PStr (dp_repo dc)), (''title'', PStr (dp_title dc)), (''body'', PStr (dp_body dc)),
        (''head_branch'', PStr (dp_head dc)), (''base_branch'', PStr (dp_base dc))]) (\<lambda>p.
     let status = result_status p; pr = mapping_or_empty (get (result_data p) ''pr'');
         url = text_in pr ''html_url''
     in run_bind (run_res (as_optional_int (get pr ''number''))) (\<lambda>number.
        if status \<noteq> ''success'' then
          let kind = normalize_text status (get (result_error p) ''kind'')
          in run_bind (persist_write_receipt (dp_request dc) (failure_classification kind) ''failed''
               [(''status'', PStr status), (''error_kind'', PStr kind)]
               [(''open_pr_lookup_status'', PStr open_status)] (draft_preconditions bh)) (\<lambda>_.
             run_return (draft_result dc True False (PStr (''draft_pr_creation_failed:'' @ kind)) None []
               (evidence_used evidence constraints @
                [(''write_result'', PDict [(''status'', PStr status), (''error_kind'', PStr kind)])])))
        else
          run_bind (persist_write_receipt (dp_request dc) ''applied'' ''attempted''
            [(''status'', PStr status), (''pr_number'', opt_int number), (''pr_url'', some_text url)]
            [(''open_pr_lookup_status'', PStr open_status)] (draft_preconditions bh)) (\<lambda>_.
          run_return (draft_result dc True True PNone number url
            (evidence_used evidence constraints @
             [(''write_result'', PDict [(''status'', PStr status)])])))))"

text \<open>The checks of the head are read; then a replay, which found no pull request of its own, ends.\<close>

definition check_and_draft ::
    "github \<Rightarrow> draft_call \<Rightarrow> draft_allowances \<Rightarrow> branch_heads \<Rightarrow> py list \<Rightarrow> string list \<Rightarrow> string \<Rightarrow> bool \<Rightarrow> dict run" where
  "check_and_draft gh dc al bh evidence constraints open_status matched =
     run_bind (gh_read gh ''get_pr_status_summary''
       [(''repo'', PStr (dp_repo dc)), (''commit_sha'', PStr (bh_head_sha bh))]) (\<lambda>p.
     let ev = evidence @ [evidence_item p]; status = result_status p;
         allowed = (if status = ''empty'' \<and> al_checks al then Some [''checks_summary_empty'']
           else if status = ''not_found'' \<and> al_checks al \<and> al_not_found al
           then Some [''checks_summary_not_found_treated_as_absence'']
           else if status \<in> set missing_statuses then None else Some [])
     in if status \<in> set blocking_statuses
        then run_return (draft_refusal dc ev constraints (''checks_summary_failed:'' @ status))
        else case allowed of
          None \<Rightarrow> run_return (draft_refusal dc ev constraints (''checks_summary_missing:'' @ status))
        | Some extra \<Rightarrow>
            if is_replay (dp_request dc) then
              run_bind (persist_write_receipt (dp_request dc) ''precondition_changed'' ''not_attempted''
                [(''reason'', PStr ''replay_without_matching_open_pr'')]
                [(''open_pr_lookup_status'', PStr open_status), (''open_pr_matched'', PBool matched)]
                (draft_preconditions bh)) (\<lambda>_.
              run_return (draft_refusal dc ev (constraints @ extra) ''idempotency_replay_precondition_changed''))
            else perform_draft gh dc bh ev (constraints @ extra) open_status)"

text \<open>An open pull request of the two branches: success without an attempt.\<close>

definition existing_pr ::
    "draft_call \<Rightarrow> branch_heads \<Rightarrow> py list \<Rightarrow> string list \<Rightarrow> string \<Rightarrow> dict \<Rightarrow> dict run" where
  "existing_pr dc bh evidence constraints open_status data =
     (let pr = mapping_or_empty (get data ''pr''); url = text_in pr ''html_url'' in
      run_bind (run_res (as_optional_int (get pr ''number''))) (\<lambda>number.
      run_bind (persist_write_receipt (dp_request dc) ''already_applied'' ''not_attempted''
        [(''reason'', PStr ''open_pr_already_exists''), (''pr_number'', opt_int number),
         (''pr_url'', some_text url)]
        [(''open_pr_lookup_status'', PStr open_status), (''open_pr_matched'', PBool True)]
        (draft_preconditions bh)) (\<lambda>_.
      run_return (draft_result dc False True PNone number url
        (evidence_used evidence (constraints @ [''open_pr_already_exists_noop'']) @
         [(''write_result'', PDict [(''status'', PStr ''already_applied'')])])))))"

definition find_and_draft ::
    "github \<Rightarrow> draft_call \<Rightarrow> draft_allowances \<Rightarrow> branch_heads \<Rightarrow> py list \<Rightarrow> string list \<Rightarrow> dict run" where
  "find_and_draft gh dc al bh evidence constraints =
     run_bind (gh_read gh ''find_open_pr''
       [(''repo'', PStr (dp_repo dc)), (''head_branch'', PStr (dp_head dc)),
        (''base_branch'', PStr (dp_base dc))]) (\<lambda>p.
     let ev = evidence @ [evidence_item p]; status = result_status p; d = result_data p in
     if status \<in> set blocking_statuses
     then run_return (draft_refusal dc ev constraints (''open_pr_lookup_failed:'' @ status))
     else if status = ''success'' \<and> truthy (get d ''matched'')
     then existing_pr dc bh ev constraints status d
     else if status = ''not_found'' \<and> \<not> (al_not_found al \<and> al_open_pr al)
     then run_return (draft_refusal dc ev constraints ''open_pr_lookup_missing:not_found'')
     else check_and_draft gh dc al bh ev
       (constraints @ (if status = ''not_found'' then [''open_pr_lookup_not_found_treated_as_absence'']
          else if status = ''empty'' then [''open_pr_lookup_empty''] else []))
       status (truthy (get d ''matched'')))"

definition compare_and_draft ::
    "github \<Rightarrow> draft_call \<Rightarrow> draft_allowances \<Rightarrow> string \<Rightarrow> string \<Rightarrow> py list \<Rightarrow> dict run" where
  "compare_and_draft gh dc al head_sha base_sha evidence =
     run_bind (gh_read gh ''compare_refs''
       [(''repo'', PStr (dp_repo dc)), (''base'', PStr (dp_base dc)), (''head'', PStr (dp_head dc))]) (\<lambda>p.
     let ev = evidence @ [evidence_item p]; status = result_status p;
         state = normalize_text ''unknown'' (get (result_data p) ''comparison_status'');
         bh = \<lparr>bh_head_sha = head_sha, bh_base_sha = base_sha, bh_comparison = state\<rparr>
     in if status \<in> set blocking_statuses
        then run_return (draft_refusal dc ev [] (''compare_refs_failed:'' @ status))
        else if status \<in> set missing_statuses then
          if al_compare al \<and> status = ''empty''
          then find_and_draft gh dc al bh ev [''compare_refs_missing:'' @ status]
          else run_return (draft_refusal dc ev [] (''compare_refs_missing:'' @ status))
        else if state \<notin> {''ahead'', ''diverged''}
        then run_return (draft_refusal dc ev [] (''compare_refs_not_creatable:'' @ state))
        else find_and_draft gh dc al bh ev [])"

text \<open>With the base branch known: the gate on earlier writes, then the branches.\<close>

definition draft_on_base ::
    "github \<Rightarrow> draft_call \<Rightarrow> draft_allowances \<Rightarrow> py list \<Rightarrow> dict run" where
  "draft_on_base gh dc al evidence =
     (if dp_head dc = dp_base dc
      then run_return (draft_refusal dc evidence [] ''head_and_base_branch_must_differ'')
      else
        run_bind (prior_records (dp_request dc)) (\<lambda>records.
        let dc1 = dc\<lparr>dp_request := evaluate_dedupe (dp_request dc) records\<rparr> in
        dedupe_gate (dp_request dc1) (draft_refusal dc1 evidence [])
          (read_branch_head gh dc1 ''head_branch'' (dp_head dc) evidence (\<lambda>head_sha ev1.
           read_branch_head gh dc1 ''base_branch'' (dp_base dc) ev1 (\<lambda>base_sha ev2.
           compare_and_draft gh dc1 al head_sha base_sha ev2)))))"

definition create_draft_pr ::
    "github \<Rightarrow> path option \<Rightarrow> draft_allowances \<Rightarrow> string \<Rightarrow> string \<Rightarrow> string \<Rightarrow> string option \<Rightarrow> string \<Rightarrow> string \<Rightarrow> dict run" where
  "create_draft_pr gh store al job_id repository head_branch base_branch title body =
     (let repo = strip repository; base = normalize_text [] (opt_str base_branch);
          call = (\<lambda>base. draft_call_of store (strip job_id) repo (strip head_branch) base (strip title) (strip body));
          dc = call base
      in if repo = [] then run_return (draft_refusal dc [] [] ''repository_missing'')
         else if dp_head dc = [] then run_return (draft_refusal dc [] [] ''head_branch_missing'')
         else if dp_title dc = [] then run_return (draft_refusal dc [] [] ''pr_title_missing'')
         else if base \<noteq> [] then draft_on_base gh dc al []
         else
           run_bind (gh_read gh ''get_default_branch'' [(''repo'', PStr repo)]) (\<lambda>p.
           let ev = [evidence_item p]; found = text_in (result_data p) ''default_branch'' in
           case status_gate ''default_branch_lookup_failed'' ''default_branch_missing'' p of
             Some reason \<Rightarrow> run_return (draft_refusal dc ev [] reason)
           | None \<Rightarrow>
               if found = [] then run_return (draft_refusal dc ev [] ''base_branch_unresolved'')
               else draft_on_base gh (call found) al ev))"

end
