(* ===== verification/PR_Update.thy ===== *)
theory PR_Update
  imports GitHub_Writes
begin

text \<open>
  \<open>automation/github/pr_updater.py\<close>: the title, body and base of an open, unmerged pull request are
  set to what was asked for, unless they are so already; an update that was made before and no
  longer stands is not made again.
\<close>

record update_call =
  uc_request :: write_request
  uc_repo :: string
  uc_number :: "int option"
  uc_update :: dict

text \<open>The fields asked for, in the order title, body, base.\<close>

definition requested_update :: "string option \<Rightarrow> string option \<Rightarrow> string option \<Rightarrow> dict" where
  "requested_update title body base =
     List.map_filter (\<lambda>(k, v). map_option (\<lambda>s. (k, PStr (strip s))) v)
       [(''title'', title), (''body'', body), (''base_branch'', base)]"

definition update_call_of :: "path option \<Rightarrow> string \<Rightarrow> string \<Rightarrow> int option \<Rightarrow> dict \<Rightarrow> update_call" where
  "update_call_of store job repo number update =
     \<lparr>uc_request = \<lparr>wq_store = store, wq_action = ''update_existing_pr'', wq_job = job,
        wq_target = [(''repository'', PStr repo), (''pr_number'', opt_int number)],
        wq_intent = update,
        wq_request = [(''repository'', PStr repo), (''pr_number'', opt_int number),
          (''requested_update'', PDict update)],
        wq_dedupe = None\<rparr>,
      uc_repo = repo, uc_number = number, uc_update = update\<rparr>"

text \<open>What is shown of a pull request.\<close>

record pr_preview =
  pp_number :: "int option"
  pp_url :: string
  pp_title :: string
  pp_body :: string
  pp_base :: string
  pp_head :: string

definition pr_preview_of :: "dict \<Rightarrow> pr_preview res" where
  "pr_preview_of pr =
     res_bind (as_optional_int (get pr ''number'')) (\<lambda>number. Inr
       \<lparr>pp_number = number, pp_url = text_in pr ''html_url'', pp_title = text_in pr ''title'',
        pp_body = text_in pr ''body'', pp_base = text_in (mapping_or_empty (get pr ''base'')) ''ref'',
        pp_head = text_in (mapping_or_empty (get pr ''head'')) ''ref''\<rparr>)"

definition update_result ::
    "update_call \<Rightarrow> bool \<Rightarrow> bool \<Rightarrow> py \<Rightarrow> py \<Rightarrow> py \<Rightarrow> py \<Rightarrow> py \<Rightarrow> dict \<Rightarrow> dict" where
  "update_result uc attempted succeeded reason url title body base evidence =
     with_idempotency (uc_request uc)
       [(''job_id'', PStr (wq_job (uc_request uc))), (''requested_action'', PStr ''github.pr.update''),
        (''attempted'', PBool attempted), (''succeeded'', PBool succeeded), (''refusal_reason'', reason),
        (''repository'', some_text (uc_repo uc)), (''pr_number'', opt_int (uc_number uc)), (''pr_url'', url),
        (''title_preview'', title), (''body_preview'', body), (''base_branch'', base),
        (''evidence_used_summary'', PDict evidence)]"

definition update_failure :: "update_call \<Rightarrow> bool \<Rightarrow> py list \<Rightarrow> string list \<Rightarrow> string \<Rightarrow> dict" where
  "update_failure uc attempted evidence constraints reason =
     update_result uc attempted False (PStr reason) PNone (get (uc_update uc) ''title'')
       (get (uc_update uc) ''body'') (get (uc_update uc) ''base_branch'') (evidence_used evidence constraints)"

definition update_refusal :: "update_call \<Rightarrow> py list \<Rightarrow> string \<Rightarrow> dict" where
  "update_refusal uc evidence reason = update_failure uc False evidence [] reason"

section \<open>The update\<close>

text \<open>Whether the pull request already is as asked for.\<close>

definition matches_requested :: "dict \<Rightarrow> pr_preview \<Rightarrow> bool" where
  "matches_requested update pp =
     list_all (\<lambda>(k, shown). has_key update k \<longrightarrow> get update k = PStr shown)
       [(''title'', pp_title pp), (''body'', pp_body pp), (''base_branch'', pp_base pp)]"

definition update_preconditions :: "update_call \<Rightarrow> pr_preview \<Rightarrow> string \<Rightarrow> dict" where
  "update_preconditions uc pp commit_sha =
     [(''observed_pr_number'', opt_int (pp_number pp)), (''observed_title'', PStr (pp_title pp)),
      (''observed_base_ref'', PStr (pp_base pp)), (''observed_head_ref'', PStr (pp_head pp)),
      (''observed_commit_sha'', some_text commit_sha), (''requested_update'', PDict (uc_update uc))]"

definition first_text :: "string \<Rightarrow> string \<Rightarrow> py" where
  "first_text a b = (if a = [] then some_text b else PStr a)"

text \<open>The answer of the write backend: its classification when it is one of the three of a done write.\<close>

definition write_classification :: "dict \<Rightarrow> string" where
  "write_classification data =
     (let c = normalize_text ''applied'' (get data ''classification'') in
      if c \<in> set done_classifications then c else ''applied'')"

definition perform_update ::
    "github \<Rightarrow> update_call \<Rightarrow> dict \<Rightarrow> pr_preview \<Rightarrow> dict \<Rightarrow> dict \<Rightarrow> py list \<Rightarrow> string list \<Rightarrow> dict run" where
  "perform_update gh uc current pp facts precondition evidence constraints =
     run_bind (gh_write gh ''update_existing_pr''
       [(''repo'', PStr (uc_repo uc)), (''pr_number'', opt_int (uc_number uc)),
        (''title'', get (uc_update uc) ''title''), (''body'', get (uc_update uc) ''body''),
        (''base_branch'', get (uc_update uc) ''base_branch''), (''current_pr'', PDict current)]) (\<lambda>p.
     let status = result_status p; d = result_data p in
     run_bind (run_res (pr_preview_of (mapping_or_empty (get d ''pr'')))) (\<lambda>up.
     if status \<noteq> ''success'' then
       let kind = normalize_text status (get (result_error p) ''kind'')
       in run_bind (persist_write_receipt (uc_request uc) (failure_classification kind) ''failed''
            [(''status'', PStr status), (''error_kind'', PStr kind)] facts precondition) (\<lambda>_.
          run_return (update_failure uc True evidence constraints (''pr_update_failed:'' @ kind)))
     else
       let class = write_classification d; updated = truthy (get_or d ''updated'' (PBool True))
       in run_bind (persist_write_receipt (uc_request uc) class
            (if class = ''applied'' then ''attempted'' else ''not_attempted'')
            [(''status'', PStr status), (''classification'', PStr class), (''updated'', PBool updated)]
            facts precondition) (\<lambda>_.
          run_return (update_result uc updated True PNone
            (first_text (pp_url up) (pp_url pp)) (first_text (pp_title up) (pp_title pp))
            (first_text (pp_body up) (pp_body pp)) (first_text (pp_base up) (pp_base pp))
            (evidence_used evidence constraints @
             [(''write_result'', PDict [(''status'', PStr status), (''classification'', PStr class),
               (''updated'', PBool updated)])])))))"

text \<open>What is done once the pull request was read: nothing, when it is as asked for; nor for a replay.\<close>

definition compare_and_update ::
    "github \<Rightarrow> update_call \<Rightarrow> dict \<Rightarrow> string \<Rightarrow> bool \<Rightarrow> string \<Rightarrow> py list \<Rightarrow> dict run" where
  "compare_and_update gh uc current pr_state pr_merged commit_sha evidence =
     run_bind (run_res (pr_preview_of current)) (\<lambda>pp.
     let constraints = (if commit_sha = [] then [''pr_head_commit_missing''] else []);
         facts = [(''pr_state'', some_text pr_state), (''pr_merged'', PBool pr_merged)];
         precondition = update_preconditions uc pp commit_sha
     in if matches_requested (uc_update uc) pp then
          run_bind (persist_write_receipt (uc_request uc) ''already_applied'' ''not_attempted''
            [(''reason'', PStr ''requested_update_already_applied'')] facts precondition) (\<lambda>_.
          run_return (update_result uc False True PNone (some_text (pp_url pp)) (some_text (pp_title pp))
            (some_text (pp_body pp)) (some_text (pp_base pp))
            (evidence_used evidence (constraints @ [''update_already_applied_noop'']) @
             [(''write_result'', PDict [(''status'', PStr ''already_applied'')])])))
        else if is_replay (uc_request uc) then
          run_bind (persist_write_receipt (uc_request uc) ''precondition_changed'' ''not_attempted''
            [(''reason'', PStr ''update_replay_precondition_changed'')] facts precondition) (\<lambda>_.
          run_return (update_failure uc False evidence constraints ''idempotency_precondition_changed:update_replay''))
        else perform_update gh uc current pp facts precondition evidence constraints)"

definition read_and_update :: "github \<Rightarrow> update_call \<Rightarrow> dict run" where
  "read_and_update gh uc =
     run_bind (gh_read gh ''get_pr_status_summary''
       [(''repo'', PStr (uc_repo uc)), (''pr_number'', opt_int (uc_number uc))]) (\<lambda>p.
     let ev = [evidence_item p]; d = result_data p; state = text_in d ''pr_state'';
         merged = truthy (get d ''pr_merged''); commit_sha = text_in d ''commit_sha'';
         missing = (if commit_sha = [] then [''pr_head_commit_missing''] else [])
     in case status_gate ''pr_status_unavailable'' ''pr_status_missing'' p of
          Some reason \<Rightarrow> run_return (update_refusal uc ev reason)
        | None \<Rightarrow>
            if merged then run_return (update_refusal uc ev ''pr_already_merged'')
            else if state \<noteq> [] \<and> state \<noteq> ''open''
            then run_return (update_refusal uc ev (''pr_state_not_updatable:'' @ state))
            else
              run_bind (gh_pull_request gh (uc_repo uc) (the (uc_number uc))) (\<lambda>pr.
              case pr of
                Inl kind \<Rightarrow>
                  let k = normalize_text ''api_failure'' (PStr kind)
                  in run_return (update_failure uc False ev missing
                       ((if k \<in> set missing_statuses then ''pr_lookup_missing:'' else ''pr_lookup_failed:'') @ k))
              | Inr current \<Rightarrow> compare_and_update gh uc current state merged commit_sha ev))"

definition update_pull_request ::
    "github \<Rightarrow> path option \<Rightarrow> string \<Rightarrow> string \<Rightarrow> py \<Rightarrow> string option \<Rightarrow> string option \<Rightarrow> string option \<Rightarrow> dict run" where
  "update_pull_request gh store job_id repository pr_number title body base =
     run_bind (run_res (as_optional_int pr_number)) (\<lambda>number.
     let repo = strip repository;
         uc = update_call_of store (strip job_id) repo number (requested_update title body base)
     in if repo = [] then run_return (update_refusal uc [] ''repository_missing'')
        else if number = None \<or> the number \<le> 0
        then run_return (update_refusal uc [] ''pr_number_missing_or_invalid'')
        else if uc_update uc = [] then run_return (update_refusal uc [] ''pr_update_missing_or_invalid'')
        else if has_key (uc_update uc) ''base_branch'' \<and> text_in (uc_update uc) ''base_branch'' = []
        then run_return (update_refusal uc [] ''base_branch_empty_when_explicitly_provided'')
        else
          run_bind (run_try (prior_records (uc_request uc))) (\<lambda>prior.
          case prior of
            Inl _ \<Rightarrow> run_return (update_refusal uc [] ''write_receipt_store_unavailable_or_corrupt'')
          | Inr records \<Rightarrow>
              let uc1 = uc\<lparr>uc_request := evaluate_dedupe (uc_request uc) records\<rparr> in
              dedupe_gate (uc_request uc1) (update_refusal uc1 []) (read_and_update gh uc1)))"

end
