(* ===== verification/Bounded_Merge.thy ===== *)
theory Bounded_Merge
  imports GitHub_Writes
begin

text \<open>
  \<open>automation/github/merge_executor.py\<close>: a pull request is merged when GitHub shows it open, no
  draft, unmerged, with passing checks and cleanly mergeable, when it is the one open pull request
  of its branch, and when its base is there and behind it; the head seen is the head merged.
\<close>

record merge_call =
  mc_request :: write_request
  mc_repo :: string
  mc_number :: "int option"
  mc_expected_sha :: string

definition merge_call_of :: "path option \<Rightarrow> string \<Rightarrow> string \<Rightarrow> int option \<Rightarrow> string \<Rightarrow> merge_call" where
  "merge_call_of store job repo number expected =
     \<lparr>mc_request = \<lparr>wq_store = store, wq_action = ''bounded_merge'', wq_job = job,
        wq_target = [(''repository'', PStr repo), (''pr_number'', opt_int number)],
        wq_intent = [(''merge_method'', PStr ''merge''),
          (''expected_head_sha'', some_text expected)],
        wq_request = [(''repository'', PStr repo), (''pr_number'', opt_int number),
          (''expected_head_sha'', some_text expected),
          (''merge_method'', PStr ''merge'')],
        wq_dedupe = None\<rparr>,
      mc_repo = repo, mc_number = number, mc_expected_sha = expected\<rparr>"

definition merge_result ::
    "merge_call \<Rightarrow> bool \<Rightarrow> bool \<Rightarrow> py \<Rightarrow> string \<Rightarrow> dict \<Rightarrow> string \<Rightarrow> dict \<Rightarrow> dict" where
  "merge_result mc attempted succeeded reason merge_commit merged checks evidence =
     with_idempotency (mc_request mc)
       [(''job_id'', PStr (wq_job (mc_request mc))), (''requested_action'', PStr ''proceed_to_merge''),
        (''attempted'', PBool attempted), (''succeeded'', PBool succeeded), (''refusal_reason'', reason),
        (''repository'', some_text (mc_repo mc)), (''pr_number'', opt_int (mc_number mc)),
        (''merge_commit_sha'', some_text merge_commit), (''merged_state_summary'', PDict merged),
        (''checks_state_summary'', PDict [(''checks_state'', PStr checks)]),
        (''evidence_used_summary'', PDict evidence)]"

definition merge_refusal :: "merge_call \<Rightarrow> py list \<Rightarrow> string \<Rightarrow> dict" where
  "merge_refusal mc evidence reason =
     merge_result mc False False (PStr reason) [] [(''merged'', PBool False)] ''unknown''
       (evidence_used evidence [])"

section \<open>What GitHub shows of the pull request\<close>

record pr_view =
  pv_commit_sha :: string
  pv_state :: string
  pv_draft :: bool
  pv_merged :: bool
  pv_mergeable :: string
  pv_checks :: string
  pv_head_ref :: string
  pv_base_ref :: string

definition pr_view_of :: "dict \<Rightarrow> pr_view" where
  "pr_view_of payload =
     (let d = result_data payload in
      \<lparr>pv_commit_sha = text_in d ''commit_sha'', pv_state = text_in d ''pr_state'',
       pv_draft = truthy (get d ''pr_draft''), pv_merged = truthy (get d ''pr_merged''),
       pv_mergeable = text_in d ''mergeable_state'',
       pv_checks = normalize_text ''unknown'' (get d ''checks_state''),
       pv_head_ref = text_in d ''pr_head_ref'', pv_base_ref = text_in d ''pr_base_ref''\<rparr>)"

definition merge_preconditions :: "merge_call \<Rightarrow> pr_view \<Rightarrow> dict" where
  "merge_preconditions mc v =
     [(''expected_pr_number'', opt_int (mc_number mc)),
      (''expected_head_sha'', some_text (mc_expected_sha mc)),
      (''observed_head_sha'', some_text (pv_commit_sha v)), (''observed_pr_state'', some_text (pv_state v)),
      (''observed_pr_draft'', PBool (pv_draft v)), (''observed_pr_merged'', PBool (pv_merged v)),
      (''observed_mergeable_state'', some_text (pv_mergeable v)),
      (''observed_checks_state'', some_text (pv_checks v)),
      (''observed_head_ref'', some_text (pv_head_ref v)), (''observed_base_ref'', some_text (pv_base_ref v))]"

text \<open>A pull request that is merged already: success without an attempt.\<close>

definition already_merged :: "merge_call \<Rightarrow> pr_view \<Rightarrow> py list \<Rightarrow> dict \<Rightarrow> dict run" where
  "already_merged mc v evidence response =
     run_bind (persist_write_receipt (mc_request mc) ''already_applied'' ''not_attempted'' response
       [(''pr_merged'', PBool True)] (merge_preconditions mc v)) (\<lambda>_.
     run_return (merge_result mc False True PNone []
       [(''merged'', PBool True), (''mergeable_state'', PStr (pv_mergeable v))] (pv_checks v)
       (evidence_used evidence [''merge_already_applied_noop''] @
        [(''write_result'', PDict [(''status'', PStr ''already_applied'')])])))"

text \<open>The head that was seen when the same merge was made before.\<close>

definition prior_head_sha :: "merge_call \<Rightarrow> string" where
  "prior_head_sha mc =
     (case wq_dedupe (mc_request mc) of
        None \<Rightarrow> []
      | Some dd \<Rightarrow>
          (case dd_matched dd of
             None \<Rightarrow> []
           | Some r \<Rightarrow> text_in (mapping_or_empty (get r ''precondition_snapshot'')) ''observed_head_sha''))"

definition merge_checks :: "merge_call \<Rightarrow> pr_view \<Rightarrow> (bool \<times> string) list" where
  "merge_checks mc v =
     [(pv_commit_sha v = [], ''pr_head_commit_missing''),
      (mc_expected_sha mc \<noteq> [] \<and> mc_expected_sha mc \<noteq> pv_commit_sha v, ''expected_head_sha_mismatch''),
      (pv_state v \<noteq> [] \<and> pv_state v \<noteq> ''open'', ''pr_state_not_mergeable:'' @ pv_state v),
      (pv_draft v, ''pr_is_draft'')]"

definition mergeability_checks :: "pr_view \<Rightarrow> (bool \<times> string) list" where
  "mergeability_checks v =
     [(pv_checks v \<noteq> ''passing'', ''checks_not_passing:'' @ text_or_unknown (pv_checks v)),
      (pv_mergeable v \<noteq> ''clean'', ''mergeability_not_clean:'' @ text_or_unknown (pv_mergeable v)),
      (pv_head_ref v = [] \<or> pv_base_ref v = [], ''pr_branch_identity_missing'')]"

section \<open>The merge\<close>

definition perform_merge :: "github \<Rightarrow> merge_call \<Rightarrow> pr_view \<Rightarrow> py list \<Rightarrow> string \<Rightarrow> string \<Rightarrow> dict run" where
  "perform_merge gh mc v evidence open_status compare_state =
     run_bind (gh_write gh ''merge_pull_request''
       [(''repo'', PStr (mc_repo mc)), (''pr_number'', opt_int (mc_number mc)),
        (''expected_head_sha'', PStr (pv_commit_sha v)), (''merge_method'', PStr ''merge'')]) (\<lambda>p.
     let status = result_status p; d = result_data p;
         merge_commit = text_in d ''merge_commit_sha''
     in if status \<noteq> ''success'' \<or> \<not> truthy (get d ''merged'') \<or> merge_commit = [] then
          let kind = normalize_text status (get (result_error p) ''kind'')
          in run_bind (persist_write_receipt (mc_request mc) (failure_classification kind) ''failed''
               [(''status'', PStr status), (''error_kind'', PStr kind)]
               [(''pr_merged'', PBool (pv_merged v)), (''open_pr_lookup_status'', PStr open_status)]
               (merge_preconditions mc v)) (\<lambda>_.
             run_return (merge_result mc True False (PStr (''merge_execution_failed:'' @ kind)) []
               [(''merged'', PBool False)] ''unknown''
               (evidence_used evidence [] @
                [(''write_result'', PDict [(''status'', PStr status), (''error_kind'', PStr kind)])])))
        else
          run_bind (persist_write_receipt (mc_request mc) ''applied'' ''attempted''
            [(''status'', PStr status), (''merge_commit_sha'', PStr merge_commit), (''merged'', PBool True)]
            [(''open_pr_lookup_status'', PStr open_status), (''compare_status'', PStr compare_state)]
            (merge_preconditions mc v)) (\<lambda>_.
          run_return (merge_result mc True True PNone merge_commit
            [(''merged'', PBool True), (''mergeable_state'', PStr (pv_mergeable v))] (pv_checks v)
            (evidence_used evidence [] @ [(''write_result'', PDict [(''status'', PStr status)])]))))"

text \<open>The base branch is there, and the head is ahead of it.\<close>

definition compare_and_merge :: "github \<Rightarrow> merge_call \<Rightarrow> pr_view \<Rightarrow> py list \<Rightarrow> string \<Rightarrow> dict run" where
  "compare_and_merge gh mc v evidence open_status =
     run_bind (gh_read gh ''get_branch_head''
       [(''repo'', PStr (mc_repo mc)), (''branch'', PStr (pv_base_ref v))]) (\<lambda>b.
     let ev1 = evidence @ [evidence_item b]; bd = result_data b in
     case status_gate ''base_branch_lookup_failed'' ''base_branch_lookup_missing'' b of
       Some reason \<Rightarrow> run_return (merge_refusal mc ev1 reason)
     | None \<Rightarrow>
         if get bd ''exists'' = PBool False \<or> text_in bd ''head_sha'' = []
         then run_return (merge_refusal mc ev1 ''base_branch_head_missing'')
         else
           run_bind (gh_read gh ''compare_refs''
             [(''repo'', PStr (mc_repo mc)), (''base'', PStr (pv_base_ref v)),
              (''head'', PStr (pv_commit_sha v))]) (\<lambda>c.
           let ev2 = ev1 @ [evidence_item c];
               state = normalize_text ''unknown'' (get (result_data c) ''comparison_status'')
           in case status_gate ''compare_refs_failed'' ''compare_refs_missing'' c of
                Some reason \<Rightarrow> run_return (merge_refusal mc ev2 reason)
              | None \<Rightarrow>
                  if state \<notin> {''ahead'', ''diverged''}
                  then run_return (merge_refusal mc ev2 (''compare_refs_not_mergeable:'' @ state))
                  else perform_merge gh mc v ev2 open_status state))"

text \<open>The pull request is the one open pull request of its branches.\<close>

definition identify_and_merge :: "github \<Rightarrow> merge_call \<Rightarrow> pr_view \<Rightarrow> py list \<Rightarrow> dict run" where
  "identify_and_merge gh mc v evidence =
     (let owner = (if CHR ''/'' \<in> set (mc_repo mc)
                   then takeWhile (\<lambda>c. c \<noteq> CHR ''/'') (mc_repo mc) else []);
          query_head = (if owner = [] then pv_head_ref v else owner @ '':'' @ pv_head_ref v)
      in run_bind (gh_read gh ''find_open_pr''
           [(''repo'', PStr (mc_repo mc)), (''head_branch'', PStr query_head),
            (''base_branch'', PStr (pv_base_ref v))]) (\<lambda>p.
         let ev = evidence @ [evidence_item p]; d = result_data p in
         case status_gate ''open_pr_lookup_failed'' ''open_pr_lookup_missing'' p of
           Some reason \<Rightarrow> run_return (merge_refusal mc ev reason)
         | None \<Rightarrow>
             if \<not> truthy (get d ''matched'') then run_return (merge_refusal mc ev ''open_pr_not_matched'')
             else
               run_bind (run_res (as_optional_int (get d ''match_count''))) (\<lambda>count.
               if count \<noteq> Some 1 then run_return (merge_refusal mc ev ''open_pr_ambiguous'')
               else
                 run_bind (run_res (as_optional_int (get (mapping_or_empty (get d ''pr'')) ''number'')))
                   (\<lambda>matched.
                 if matched \<noteq> mc_number mc
                 then run_return (merge_refusal mc ev ''open_pr_number_mismatch'')
                 else compare_and_merge gh mc v ev (result_status p)))))"

text \<open>The checks on what GitHub shows, in their order; a replay first looks for the merge it replays.\<close>

definition judge_and_merge :: "github \<Rightarrow> merge_call \<Rightarrow> pr_view \<Rightarrow> py list \<Rightarrow> dict run" where
  "judge_and_merge gh mc v evidence =
     (let replay = is_replay (mc_request mc); prior = prior_head_sha mc in
      if replay \<and> pv_merged v
      then already_merged mc v evidence
        [(''reason'', PStr ''pr_already_merged_on_replay''), (''observed_head_sha'', some_text (pv_commit_sha v))]
      else if replay \<and> prior \<noteq> [] \<and> pv_commit_sha v \<noteq> [] \<and> prior \<noteq> pv_commit_sha v
      then run_bind (persist_write_receipt (mc_request mc) ''precondition_changed'' ''not_attempted''
          [(''reason'', PStr ''merge_head_sha_changed_on_replay'')]
          [(''pr_merged'', PBool (pv_merged v)), (''observed_head_sha'', PStr (pv_commit_sha v))]
          (merge_preconditions mc v)) (\<lambda>_.
        run_return (merge_refusal mc evidence ''idempotency_precondition_changed:head_sha_changed''))
      else case first_reason (merge_checks mc v) of
        Some reason \<Rightarrow> run_return (merge_refusal mc evidence reason)
      | None \<Rightarrow>
          if pv_merged v then already_merged mc v evidence [(''reason'', PStr ''pr_already_merged'')]
          else case first_reason (mergeability_checks v) of
            Some reason \<Rightarrow> run_return (merge_refusal mc evidence reason)
          | None \<Rightarrow> identify_and_merge gh mc v evidence)"

definition execute_merge ::
    "github \<Rightarrow> path option \<Rightarrow> string \<Rightarrow> string \<Rightarrow> py \<Rightarrow> string option \<Rightarrow> dict run" where
  "execute_merge gh store job_id repository pr_number expected_head_sha =
     run_bind (run_res (as_optional_int pr_number)) (\<lambda>number.
     let repo = strip repository;
         mc = merge_call_of store (strip job_id) repo number
           (normalize_text [] (opt_str expected_head_sha))
     in if repo = [] then run_return (merge_refusal mc [] ''repository_missing'')
        else if number = None \<or> the number \<le> 0
        then run_return (merge_refusal mc [] ''pr_number_missing_or_invalid'')
        else
          run_bind (prior_records (mc_request mc)) (\<lambda>records.
          let mc1 = mc\<lparr>mc_request := evaluate_dedupe (mc_request mc) records\<rparr> in
          dedupe_gate (mc_request mc1) (merge_refusal mc1 [])
            (run_bind (gh_read gh ''get_pr_status_summary''
                [(''repo'', PStr repo), (''pr_number'', opt_int number)]) (\<lambda>p.
             case status_gate ''pr_status_unavailable'' ''pr_status_missing'' p of
               Some reason \<Rightarrow> run_return (merge_refusal mc1 [evidence_item p] reason)
             | None \<Rightarrow> judge_and_merge gh mc1 (pr_view_of p) [evidence_item p]))))"

end
