(* ===== verification/Bounded_Rollback.thy ===== *)
theory Bounded_Rollback
  imports GitHub_Writes
begin

text \<open>
  \<open>automation/github/rollback_executor.py\<close> and \<open>orchestrator/rollback_executor.py\<close>: one merge is
  reverted when the branch still is where the merge left it, on GitHub and in the working copy.
  A call of \<open>git\<close> answers with its return code, its output and its error output.
\<close>

section \<open>The revert in the working copy\<close>

definition normalize_ref :: "string \<Rightarrow> string" where
  "normalize_ref ref =
     (let r = strip ref in
      if r = [] then [] else if starts_with r ''refs/'' then r else ''refs/heads/'' @ r)"

type_synonym git_answer = "int \<times> string \<times> string"

fun git_failed :: "git_answer \<Rightarrow> bool" where
  "git_failed (rc, out, err) = (rc \<noteq> 0)"

fun git_output :: "git_answer \<Rightarrow> string" where
  "git_output (rc, out, err) = strip out"

text \<open>\<open>(stderr or stdout or default).strip()\<close>.\<close>

fun git_error :: "string \<Rightarrow> git_answer \<Rightarrow> string" where
  "git_error d (rc, out, err) = strip (if err \<noteq> [] then err else if out \<noteq> [] then out else d)"

record rollback_state =
  rb_status :: string
  rb_attempted :: bool
  rb_consistent :: bool
  rb_current :: "string option"
  rb_result :: "string option"
  rb_error :: "string option"

definition rollback_dict :: "string \<Rightarrow> rollback_state \<Rightarrow> dict" where
  "rollback_dict attempted_at st =
     [(''status'', PStr (rb_status st)), (''attempted'', PBool (rb_attempted st)),
      (''attempted_at'', PStr attempted_at), (''consistency_check_passed'', PBool (rb_consistent st)),
      (''current_head_sha'', opt_str (rb_current st)), (''rollback_result_sha'', opt_str (rb_result st)),
      (''error'', opt_str (rb_error st))]"

definition skipped :: "rollback_state \<Rightarrow> string \<Rightarrow> rollback_state run" where
  "skipped st error = run_return (st\<lparr>rb_error := Some error\<rparr>)"

text \<open>The revert itself, once everything is where it should be.\<close>

definition revert_merge :: "github \<Rightarrow> string \<Rightarrow> string \<Rightarrow> rollback_state \<Rightarrow> rollback_state run" where
  "revert_merge gh repo post_sha st0 =
     (let st = st0\<lparr>rb_consistent := True, rb_attempted := True\<rparr> in
      run_bind (gh_git gh repo [''-c'', ''user.name=Codex Rollback'', ''-c'',
        ''user.email=codex-rollback@example.com'', ''revert'', ''--no-edit'', ''-m'', ''1'', post_sha]) (\<lambda>a.
      if git_failed a then
        run_bind (gh_git gh repo [''revert'', ''--abort'']) (\<lambda>_.
        run_bind (gh_git gh repo [''rev-parse'', ''HEAD'']) (\<lambda>h.
        run_return (st\<lparr>rb_status := ''failed'', rb_error := Some (git_error ''git revert failed'' a),
          rb_result := (if git_failed h then None else Some (git_output h))\<rparr>)))
      else
        run_bind (gh_git gh repo [''rev-parse'', ''HEAD'']) (\<lambda>h.
        if git_failed h
        then run_return (st\<lparr>rb_status := ''failed'',
          rb_error := Some (git_error ''rollback succeeded but failed to read HEAD'' h)\<rparr>)
        else if git_output h = [] \<or> Some (git_output h) = rb_current st
        then run_return (st\<lparr>rb_status := ''failed'', rb_result := Some (git_output h),
          rb_error := Some ''rollback_did_not_produce_new_commit''\<rparr>)
        else run_return (st\<lparr>rb_status := ''succeeded'', rb_result := Some (git_output h), rb_error := None\<rparr>))))"

definition check_and_revert ::
    "github \<Rightarrow> string \<Rightarrow> string \<Rightarrow> string \<Rightarrow> string \<Rightarrow> rollback_state \<Rightarrow> rollback_state run" where
  "check_and_revert gh repo ref pre_sha post_sha st =
     run_bind (gh_git gh repo [''rev-parse'', ''--is-inside-work-tree'']) (\<lambda>inside.
     if git_failed inside then skipped st (git_error ''not a git working tree'' inside)
     else
       run_bind (gh_git gh repo [''rev-parse'', ''HEAD'']) (\<lambda>h.
       if git_failed h then skipped st (git_error ''failed to read HEAD'' h)
       else
         let st1 = st\<lparr>rb_current := Some (git_output h)\<rparr> in
         if ref = [] then skipped st1 ''target_ref is required''
         else if pre_sha = [] then skipped st1 ''pre_merge_sha is required''
         else if post_sha = [] then skipped st1 ''post_merge_sha is required''
         else
           run_bind (gh_git gh repo [''rev-parse'', ref]) (\<lambda>t.
           if git_failed t then skipped st1 (git_error ''failed to resolve target_ref'' t)
           else if git_output t \<noteq> git_output h then skipped st1 ''target_ref_drift_detected''
           else if git_output h \<noteq> post_sha then skipped st1 ''current_head_mismatch_post_merge''
           else
             run_bind (gh_git gh repo [''rev-parse'', post_sha @ ''^{commit}'']) (\<lambda>p.
             if git_failed p then skipped st1 (git_error ''failed to resolve post_merge_sha'' p)
             else revert_merge gh repo post_sha st1))))"

definition execute_constrained_rollback :: "github \<Rightarrow> string \<Rightarrow> string \<Rightarrow> string \<Rightarrow> string \<Rightarrow> dict run" where
  "execute_constrained_rollback gh repo_path target_ref pre_merge_sha post_merge_sha =
     run_bind run_now (\<lambda>now.
     run_bind run_files (\<lambda>fs.
     let repo_dir = path_of (gh_expanduser gh repo_path); repo = path_str repo_dir;
         st = \<lparr>rb_status = ''skipped'', rb_attempted = False, rb_consistent = False, rb_current = None,
               rb_result = None, rb_error = None\<rparr>
     in run_bind
          (if fs repo_dir \<noteq> Some Directory then skipped st (''repo_path is not a directory: '' @ repo)
           else check_and_revert gh repo (normalize_ref target_ref) (strip pre_merge_sha)
             (strip post_merge_sha) st) (\<lambda>st'.
        run_return (rollback_dict (iso_seconds (now\<lparr>offset := Some 0\<rparr>)) st'))))"

section \<open>The bounded rollback\<close>

record rollback_call =
  lc_request :: write_request
  lc_repo :: string
  lc_repo_path :: string
  lc_branch :: string
  lc_pre_sha :: string
  lc_post_sha :: string

definition rollback_call_of ::
    "path option \<Rightarrow> string \<Rightarrow> string \<Rightarrow> string \<Rightarrow> string \<Rightarrow> string \<Rightarrow> string \<Rightarrow> rollback_call" where
  "rollback_call_of store job repo repo_path branch pre_sha post_sha =
     (let target = [(''target_ref'', PStr branch), (''pre_merge_sha'', PStr pre_sha),
            (''post_merge_sha'', PStr post_sha)]
      in \<lparr>lc_request = \<lparr>wq_store = store, wq_action = ''rollback_preparation_write_path'', wq_job = job,
            wq_target = (''repository'', PStr repo) # target,
            wq_intent = [(''mode'', PStr ''constrained_single_merge_revert'')],
            wq_request = (''repository'', PStr repo) # (''repo_path'', PStr repo_path) # target,
            wq_dedupe = None\<rparr>,
          lc_repo = repo, lc_repo_path = repo_path, lc_branch = branch, lc_pre_sha = pre_sha,
          lc_post_sha = post_sha\<rparr>)"

definition rollback_result :: "rollback_call \<Rightarrow> bool \<Rightarrow> bool \<Rightarrow> py \<Rightarrow> dict \<Rightarrow> py list \<Rightarrow> string list \<Rightarrow> dict" where
  "rollback_result lc attempted succeeded reason summary evidence constraints =
     with_idempotency (lc_request lc)
       [(''job_id'', PStr (wq_job (lc_request lc))), (''requested_action'', PStr ''rollback_required''),
        (''attempted'', PBool attempted), (''succeeded'', PBool succeeded), (''refusal_reason'', reason),
        (''repository'', some_text (lc_repo lc)),
        (''rollback_target'', PDict
          [(''repo_path'', some_text (lc_repo_path lc)), (''target_ref'', some_text (lc_branch lc)),
           (''pre_merge_sha'', some_text (lc_pre_sha lc)), (''post_merge_sha'', some_text (lc_post_sha lc))]),
        (''rollback_scope_summary'', PDict
          [(''mode'', PStr ''constrained_single_merge_revert''), (''bounded'', PBool True)]),
        (''rollback_result_summary'', PDict summary),
        (''evidence_used_summary'', PDict (evidence_used evidence constraints))]"

definition rollback_refusal :: "rollback_call \<Rightarrow> py list \<Rightarrow> string \<Rightarrow> dict" where
  "rollback_refusal lc evidence reason =
     rollback_result lc False False (PStr reason)
       [(''status'', PStr ''not_attempted''), (''error'', PStr reason)] evidence []"

definition rollback_summary :: "dict \<Rightarrow> string \<Rightarrow> py \<Rightarrow> dict" where
  "rollback_summary r status error =
     [(''status'', PStr status), (''error'', error),
      (''consistency_check_passed'', PBool (truthy (get r ''consistency_check_passed''))),
      (''current_head_sha'', some_text (text_in r ''current_head_sha'')),
      (''rollback_result_sha'', some_text (text_in r ''rollback_result_sha''))]"

definition rollback_preconditions :: "rollback_call \<Rightarrow> string \<Rightarrow> dict" where
  "rollback_preconditions lc remote_head =
     [(''expected_target_ref'', PStr (lc_branch lc)), (''expected_pre_merge_sha'', PStr (lc_pre_sha lc)),
      (''expected_post_merge_sha'', PStr (lc_post_sha lc)),
      (''observed_remote_head_sha'', some_text remote_head)]"

definition perform_rollback :: "github \<Rightarrow> rollback_call \<Rightarrow> string \<Rightarrow> string \<Rightarrow> py list \<Rightarrow> dict run" where
  "perform_rollback gh lc remote_head compare_state evidence =
     run_bind (execute_constrained_rollback gh (lc_repo_path lc) (lc_branch lc) (lc_pre_sha lc) (lc_post_sha lc))
       (\<lambda>r.
     let status = normalize_text ''failed'' (get r ''status''); attempted = truthy (get r ''attempted'');
         error = normalize_text ''unknown'' (get r ''error'')
     in if status \<noteq> ''succeeded'' then
          run_bind (persist_write_receipt (lc_request lc) ''failed''
            (if attempted then ''failed'' else ''not_attempted'')
            [(''status'', PStr status), (''error'', PStr error)]
            [(''observed_remote_head_sha'', PStr remote_head)] (rollback_preconditions lc remote_head)) (\<lambda>_.
          run_return (rollback_result lc attempted False
            (PStr (''rollback_execution_'' @ status @ '':'' @ error))
            (rollback_summary r status (PStr error)) evidence []))
        else
          run_bind (persist_write_receipt (lc_request lc) ''applied'' ''attempted''
            [(''status'', PStr status),
             (''rollback_result_sha'', some_text (text_in r ''rollback_result_sha''))]
            [(''observed_remote_head_sha'', PStr remote_head), (''compare_state'', PStr compare_state)]
            (rollback_preconditions lc remote_head)) (\<lambda>_.
          run_return (rollback_result lc attempted True PNone (rollback_summary r status PNone) evidence [])))"

text \<open>The merge is ahead of what it is reverted to, and its commit is known.\<close>

definition compare_and_roll_back :: "github \<Rightarrow> rollback_call \<Rightarrow> string \<Rightarrow> py list \<Rightarrow> dict run" where
  "compare_and_roll_back gh lc remote_head evidence =
     run_bind (gh_read gh ''compare_refs''
       [(''repo'', PStr (lc_repo lc)), (''base'', PStr (lc_pre_sha lc)), (''head'', PStr (lc_post_sha lc))])
       (\<lambda>c.
     let ev1 = evidence @ [evidence_item c];
         state = normalize_text ''unknown'' (get (result_data c) ''comparison_status'') in
     case status_gate ''rollback_compare_failed'' ''rollback_compare_missing'' c of
       Some reason \<Rightarrow> run_return (rollback_refusal lc ev1 reason)
     | None \<Rightarrow>
         if state \<notin> {''ahead'', ''diverged''}
         then run_return (rollback_refusal lc ev1 (''rollback_compare_not_actionable:'' @ state))
         else
           run_bind (gh_read gh ''get_pr_status_summary''
             [(''repo'', PStr (lc_repo lc)), (''commit_sha'', PStr (lc_post_sha lc))]) (\<lambda>p.
           let ev2 = ev1 @ [evidence_item p] in
           case status_gate ''rollback_commit_status_failed'' ''rollback_commit_status_missing'' p of
             Some reason \<Rightarrow> run_return (rollback_refusal lc ev2 reason)
           | None \<Rightarrow> perform_rollback gh lc remote_head state ev2))"

text \<open>A replay first looks whether the branch is back, or has moved on.\<close>

definition judge_and_roll_back :: "github \<Rightarrow> rollback_call \<Rightarrow> dict \<Rightarrow> py list \<Rightarrow> dict run" where
  "judge_and_roll_back gh lc branch_data evidence =
     (let remote_head = text_in branch_data ''head_sha''; replay = is_replay (lc_request lc);
          facts = [(''observed_remote_head_sha'', PStr remote_head)];
          precondition = rollback_preconditions lc remote_head
      in if replay \<and> remote_head = lc_pre_sha lc then
           run_bind (persist_write_receipt (lc_request lc) ''already_applied'' ''not_attempted''
             [(''reason'', PStr ''rollback_already_applied'')] facts precondition) (\<lambda>_.
           run_return (rollback_result lc False True PNone
             [(''status'', PStr ''already_applied''), (''error'', PNone),
              (''consistency_check_passed'', PBool True), (''current_head_sha'', PStr remote_head),
              (''rollback_result_sha'', PStr (lc_pre_sha lc))]
             evidence [''rollback_already_applied_noop'']))
         else if replay \<and> remote_head \<noteq> [] \<and> remote_head \<noteq> lc_post_sha lc then
           run_bind (persist_write_receipt (lc_request lc) ''precondition_changed'' ''not_attempted''
             [(''reason'', PStr ''rollback_head_changed_on_replay'')] facts precondition) (\<lambda>_.
           run_return (rollback_refusal lc evidence ''idempotency_precondition_changed:rollback_head_changed''))
         else if get branch_data ''exists'' = PBool False \<or> remote_head = []
         then run_return (rollback_refusal lc evidence ''branch_head_missing'')
         else if remote_head \<noteq> lc_post_sha lc
         then run_return (rollback_refusal lc evidence ''rollback_target_head_mismatch'')
         else compare_and_roll_back gh lc remote_head evidence)"

definition execute_rollback ::
    "github \<Rightarrow> path option \<Rightarrow> string \<Rightarrow> string \<Rightarrow> string \<Rightarrow> string \<Rightarrow> string \<Rightarrow> string \<Rightarrow> dict run" where
  "execute_rollback gh store job_id repository repo_path target_ref pre_merge_sha post_merge_sha =
     (let lc = rollback_call_of store (strip job_id) (strip repository) (strip repo_path) (strip target_ref)
            (strip pre_merge_sha) (strip post_merge_sha)
      in case first_reason
           [(lc_repo lc = [], ''repository_missing''), (lc_repo_path lc = [], ''repo_path_missing''),
            (lc_branch lc = [], ''target_ref_missing''), (lc_pre_sha lc = [], ''pre_merge_sha_missing''),
            (lc_post_sha lc = [], ''post_merge_sha_missing'')] of
           Some reason \<Rightarrow> run_return (rollback_refusal lc [] reason)
         | None \<Rightarrow>
             run_bind (prior_records (lc_request lc)) (\<lambda>records.
             let lc1 = lc\<lparr>lc_request := evaluate_dedupe (lc_request lc) records\<rparr> in
             dedupe_gate (lc_request lc1) (rollback_refusal lc1 [])
               (run_bind (gh_read gh ''get_branch_head''
                   [(''repo'', PStr (lc_repo lc)), (''branch'', PStr (lc_branch lc))]) (\<lambda>b.
                case status_gate ''branch_lookup_failed'' ''branch_lookup_missing'' b of
                  Some reason \<Rightarrow> run_return (rollback_refusal lc1 [evidence_item b] reason)
                | None \<Rightarrow> judge_and_roll_back gh lc1 (result_data b) [evidence_item b]))))"

end
