(* ===== verification/GitHub_Clients.thy ===== *)
theory GitHub_Clients
  imports Action_Executor Draft_PR PR_Update Bounded_Merge Bounded_Rollback
begin

text \<open>
  The four bounded writers as the clients of the action executor: each takes its keyword arguments
  from the dictionary the executor calls it with, and keeps its receipts where the executor says.
\<close>

definition draft_client :: "github \<Rightarrow> client" where
  "draft_client gh kwargs store =
     create_draft_pr gh (Some store)
       \<lparr>al_compare = as_bool (get kwargs ''allow_missing_compare_evidence''),
        al_open_pr = as_bool (get kwargs ''allow_missing_open_pr_evidence''),
        al_checks = as_bool (get kwargs ''allow_missing_check_evidence''),
        al_not_found = as_bool (get kwargs ''allow_not_found_as_absence'')\<rparr>
       (text_given kwargs ''job_id'') (text_given kwargs ''repository'') (text_given kwargs ''head_branch'')
       (text_arg kwargs ''base_branch'') (text_given kwargs ''title'') (text_given kwargs ''body'')"

definition update_client :: "github \<Rightarrow> client" where
  "update_client gh kwargs store =
     update_pull_request gh (Some store) (text_given kwargs ''job_id'') (text_given kwargs ''repository'')
       (get kwargs ''pr_number'') (text_arg kwargs ''title'') (text_arg kwargs ''body'')
       (text_arg kwargs ''base_branch'')"

definition merge_client :: "github \<Rightarrow> client" where
  "merge_client gh kwargs store =
     execute_merge gh (Some store) (text_given kwargs ''job_id'') (text_given kwargs ''repository'')
       (get kwargs ''pr_number'') (text_arg kwargs ''expected_head_sha'')"

definition rollback_client :: "github \<Rightarrow> client" where
  "rollback_client gh kwargs store =
     execute_rollback gh (Some store) (text_given kwargs ''job_id'') (text_given kwargs ''repository'')
       (text_given kwargs ''repo_path'') (text_given kwargs ''target_ref'')
       (text_given kwargs ''pre_merge_sha'') (text_given kwargs ''post_merge_sha'')"

definition github_clients :: "github \<Rightarrow> executor" where
  "github_clients gh =
     \<lparr>ex_pr_creator = Some (draft_client gh), ex_pr_updater = Some (update_client gh),
      ex_merge_executor = Some (merge_client gh), ex_rollback_executor = Some (rollback_client gh)\<rparr>"

end
