(* ===== verification/Executing.thy ===== *)
theory Executing
  imports Action_Executor Dispatch_Routing
begin

text \<open>
  What the executor guarantees, alone and behind the dispatcher: no client is called without write
  authority, every execution leaves its receipt, and the executor's own routing check agrees with
  the dispatcher's.
\<close>

section \<open>Receipts\<close>

lemma run_write_files: "run_write p v w = (Inr (), w\<lparr>wd_files := (wd_files w)(p \<mapsto> JsonText v)\<rparr>)"
  by (simp add: run_write_def)

lemma persist_receipt_result:
  "persist_receipt root action receipt w =
     (Inr receipt, w\<lparr>wd_files := (wd_files w)(child root (receipt_filename_for_action (strip action)) \<mapsto>
       JsonText (json_value (PDict receipt)))\<rparr>)"
  by (simp add: persist_receipt_def run_bind_def run_write_files run_return_def)

lemma receipt_filename_known: "receipt_filename_for_action a \<in> set executor_receipt_filenames"
  by (simp add: receipt_filename_for_action_def executor_receipt_filenames_def)

text \<open>A result that is in one of the receipt files.\<close>

definition receipt_kept :: "path \<Rightarrow> dict \<Rightarrow> world \<Rightarrow> bool" where
  "receipt_kept root r w =
     (\<exists>name \<in> set executor_receipt_filenames.
        wd_files w (child root name) = Some (JsonText (json_value (PDict r))))"

lemma persist_receipt_kept: "persist_receipt root a rec w = (Inr r, w') \<Longrightarrow> receipt_kept root r w'"
  by (auto simp: persist_receipt_result receipt_kept_def
      intro: bexI [OF _ receipt_filename_known [of "strip a"]])

lemma refuse_kept: "refuse ord reason w = (Inr r, w') \<Longrightarrow> receipt_kept (xo_root ord) r w'"
  unfolding refuse_def by (rule persist_receipt_kept)

lemma call_client_kept:
  assumes "call_client ord client kwargs entries w = (Inr r, w')"
  shows "receipt_kept (xo_root ord) r w'"
proof -
  obtain c w1 where c: "client kwargs (child (xo_root ord) ''write_receipts'') w = (c, w1)" by force
  note run = assms [unfolded call_client_def run_bind_def [of "run_try _"] run_try_def c prod.case sum.case]
  show ?thesis
  proof (cases c)
    case (Inl e)
    with run show ?thesis by (auto dest: refuse_kept)
  next
    case (Inr result)
    with run show ?thesis by (auto simp: run_simps settle_def dest: persist_receipt_kept)
  qed
qed

lemma perform_action_kept:
  assumes "perform_action ex q ord w = (Inr r, w')"
  shows "receipt_kept (xo_root ord) r w'"
proof -
  note kept = refuse_kept call_client_kept
  have "create_pr ex q ord w = (Inr r, w') \<Longrightarrow> ?thesis"
    unfolding create_pr_def Let_def case_prod_unfold
    by (auto split: option.splits if_splits dest: kept)
  moreover have "update_pr ex q ord w = (Inr r, w') \<Longrightarrow> ?thesis"
    unfolding update_pr_def Let_def
    by (auto simp: run_simps split: option.splits if_splits dest: kept)
  moreover have "merge_pr ex q ord w = (Inr r, w') \<Longrightarrow> ?thesis"
    unfolding merge_pr_def Let_def
    by (auto simp: run_simps split: option.splits if_splits dest: kept)
  moreover have "roll_back ex q ord w = (Inr r, w') \<Longrightarrow> ?thesis"
    unfolding roll_back_def Let_def
    by (auto split: option.splits if_splits dest: kept)
  moreover have "refuse ord ''unsupported_action_dispatch'' w = (Inr r, w') \<Longrightarrow> ?thesis" by (rule refuse_kept)
  ultimately show ?thesis using assms unfolding perform_action_def by (auto split: if_splits)
qed

text \<open>How an execution can go: a refusal before the clients, or the action.\<close>

lemma execute_handoffE:
  assumes "execute_handoff ex q root fs executed_at default_job handoff w = (s, w')"
  obtains (refused) ord reason where "refuse ord reason w = (s, w')" "xo_root ord = root"
      "get (xo_receipt ord) ''attempted'' = PBool False" "get (xo_receipt ord) ''succeeded'' = PBool False"
      "\<And>ex'. execute_handoff ex' q root fs executed_at default_job handoff w = (s, w')"
  | (performed) ord where "perform_action ex q ord w = (s, w')" "xo_root ord = root"
      "xo_action ord = normalize_text [] (get handoff ''next_action'')"
      "write_gate (dq_write_authority q) (xo_action ord) = None"
      "\<exists>next_payload. routing_gate (dq_policy_snapshot q) next_payload handoff = None"
      "get (xo_receipt ord) ''succeeded'' = PBool False"
      "get (xo_receipt ord) ''requested_action'' = opt_str (non_empty (xo_action ord))"
      "get (xo_receipt ord) ''attempted'' = PBool False"
proof -
  let ?obj = "\<lambda>name. case object_at fs (child root name) of None \<Rightarrow> [] | Some d \<Rightarrow> d"
  let ?manifest = "?obj ''manifest.json''"
  let ?action = "normalize_text [] (get handoff ''next_action'')"
  let ?job = "normalize_text (normalize_text default_job (get ?manifest ''job_id'')) (get handoff ''job_id'')"
  define receipt where "receipt =
    default_receipt ?job (non_empty ?action) executed_at (truthy (get handoff ''whether_human_required''))"
  define ord where "ord = \<lparr>xo_root = root, xo_action = ?action, xo_job = ?job, xo_handoff = handoff,
    xo_receipt = receipt, xo_repository = [], xo_brief = planning_artifact fs ?manifest ''project_brief'',
    xo_facts = planning_artifact fs ?manifest ''repo_facts'',
    xo_plan = planning_artifact fs ?manifest ''pr_plan''\<rparr>"
  define ord1 where "ord1 = ord\<lparr>xo_receipt := put ''write_authority_state''
    (opt_str (non_empty (wa_state (normalize_write_authority (dq_write_authority q))))) receipt\<rparr>"
  define repository where "repository = normalize_text (normalize_text
    (normalize_text [] (get (xo_brief ord) ''target_repo'')) (get (xo_facts ord) ''repo''))
    (opt_str (dq_repository q))"
  define ord2 where "ord2 = ord1\<lparr>xo_repository := repository,
    xo_receipt := put ''repository'' (PStr repository) (xo_receipt ord1)\<rparr>"
  have run: "execute_handoff ex q root fs executed_at default_job handoff w =
    (case routing_gate (dq_policy_snapshot q) (?obj ''next_action.json'') handoff of
       Some reason \<Rightarrow> refuse ord reason w
     | None \<Rightarrow>
         (case write_gate (dq_write_authority q) ?action of
            Some reason \<Rightarrow> refuse ord1 reason w
          | None \<Rightarrow>
              (case category_gate (dq_write_authority q)
                  (normalize_text (derive_single_category (xo_plan ord)) (opt_str (dq_category q))) of
                 Some reason \<Rightarrow> refuse ord1 reason w
               | None \<Rightarrow>
                   if repository = [] then refuse ord1 ''repository_missing'' w
                   else perform_action ex q ord2 w)))" for ex
    unfolding execute_handoff_def Let_def receipt_def [symmetric] ord_def [symmetric] ord1_def [symmetric]
      repository_def [symmetric] ord2_def [symmetric]
    by (simp split: option.split)
  have fields: "xo_root ord = root" "xo_root ord1 = root" "xo_root ord2 = root" "xo_action ord2 = ?action"
    by (simp_all add: ord_def ord1_def ord2_def)
  have "get receipt ''attempted'' = PBool False" "get receipt ''succeeded'' = PBool False"
    "get receipt ''requested_action'' = opt_str (non_empty ?action)"
    by (simp_all add: receipt_def default_receipt_def)
  then have asked: "get (xo_receipt ord2) ''requested_action'' = opt_str (non_empty ?action)"
    and none: "get (xo_receipt x) ''attempted'' = PBool False" "get (xo_receipt x) ''succeeded'' = PBool False"
    if "x \<in> {ord, ord1, ord2}" for x using that by (auto simp: ord_def ord1_def ord2_def)
  show thesis
  proof (cases "\<exists>x reason. x \<in> {ord, ord1} \<and> (\<forall>ex. execute_handoff ex q root fs executed_at default_job handoff w = refuse x reason w)")
    case True
    then obtain x reason where x: "x \<in> {ord, ord1}"
      "\<And>ex. execute_handoff ex q root fs executed_at default_job handoff w = refuse x reason w" by blast
    with assms have r: "refuse x reason w = (s, w')" by simp
    show thesis by (rule refused [OF r]) (use x r fields none in auto)
  next
    case False
    then have no: "\<not> (\<forall>ex. execute_handoff ex q root fs executed_at default_job handoff w = refuse x reason w)"
      if "x \<in> {ord, ord1}" for x reason using that by blast
    have ok: "routing_gate (dq_policy_snapshot q) (?obj ''next_action.json'') handoff = None"
    proof (cases "routing_gate (dq_policy_snapshot q) (?obj ''next_action.json'') handoff")
      case (Some reason)
      then show ?thesis using no [of ord reason] unfolding run by simp
    qed simp
    have ok1: "write_gate (dq_write_authority q) ?action = None"
    proof (cases "write_gate (dq_write_authority q) ?action")
      case (Some reason)
      then show ?thesis using no [of ord1 reason] unfolding run ok by simp
    qed simp
    let ?gate = "category_gate (dq_write_authority q)
      (normalize_text (derive_single_category (xo_plan ord)) (opt_str (dq_category q)))"
    have ok2: "?gate = None"
    proof (cases ?gate)
      case (Some reason)
      then show ?thesis using no [of ord1 reason] unfolding run ok ok1 by simp
    qed simp
    have "repository \<noteq> []" using no [of ord1 "''repository_missing''"] unfolding run ok ok1 ok2 by auto
    then have run2: "execute_handoff ex q root fs executed_at default_job handoff w = perform_action ex q ord2 w"
      unfolding run ok ok1 ok2 by simp
    show thesis
      by (rule performed [of ord2]) (use assms ok ok1 run2 fields none asked in auto)
  qed
qed

lemma execute_from_run_dirE:
  assumes "execute_from_run_dir ex q root w = (Inr r, w')"
  obtains (unreadable) rec where "persist_receipt root [] rec (w\<lparr>wd_ticks := Suc (wd_ticks w)\<rparr>) = (Inr r, w')"
      "get rec ''attempted'' = PBool False" "get rec ''succeeded'' = PBool False"
      "object_at (wd_files w) (child root ''action_handoff.json'') = None"
  | (readable) handoff executed_at default_job where
      "object_at (wd_files w) (child root ''action_handoff.json'') = Some handoff"
      "execute_handoff ex q root (wd_files w) executed_at default_job handoff
         (w\<lparr>wd_ticks := Suc (wd_ticks w)\<rparr>) = (Inr r, w')"
      "\<And>ex'. execute_from_run_dir ex' q root w = execute_handoff ex' q root (wd_files w) executed_at
         default_job handoff (w\<lparr>wd_ticks := Suc (wd_ticks w)\<rparr>)"
proof -
  let ?w = "w\<lparr>wd_ticks := Suc (wd_ticks w)\<rparr>" and ?p = "child root ''action_handoff.json''"
  from assms have dir: "wd_files w root = Some Directory"
    by (auto simp: execute_from_run_dir_def run_simps Let_def split: if_splits)
  define at where "at = iso_seconds (wd_clock w (wd_ticks w))"
  define dj where "dj = normalize_text ''unknown_job''
    (PStr (if path_parts root = [] then [] else last (path_parts root)))"
  have run: "execute_from_run_dir ex q root w =
    (if \<not> exists_path (wd_files w) ?p
     then persist_receipt root [] (put ''refusal_reason'' (PStr ''action_handoff_missing'') (default_receipt dj None at True)) ?w
     else case res_bind (read_json (wd_files w) ?p) (\<lambda>v. case as_mapping v of
                 Some d \<Rightarrow> Inr d
               | None \<Rightarrow> Inl (ValueError (''expected JSON object at '' @ path_str ?p))) of
            Inl e \<Rightarrow> persist_receipt root [] (put ''refusal_reason'' (PStr (''action_handoff_invalid:'' @
              normalize_text ''invalid_json'' (PStr (exc_text e)))) (default_receipt dj None at True)) ?w
          | Inr handoff \<Rightarrow> execute_handoff ex q root (wd_files w) at dj handoff ?w)" for ex
    by (simp add: execute_from_run_dir_def run_bind_def run_files_def run_now_def dir Let_def
        at_def [symmetric] dj_def [symmetric] del: normalize_text_PStr split: sum.split)
  show thesis
  proof (cases "object_at (wd_files w) ?p")
    case None
    have no: "get (put ''refusal_reason'' v (default_receipt dj None at True)) ''attempted'' = PBool False"
      "get (put ''refusal_reason'' v (default_receipt dj None at True)) ''succeeded'' = PBool False" for v
      by (simp_all add: default_receipt_def)
    have "\<exists>v. persist_receipt root [] (put ''refusal_reason'' v (default_receipt dj None at True)) ?w = (Inr r, w')"
    proof (cases "exists_path (wd_files w) ?p")
      case False
      with assms show ?thesis unfolding run by auto
    next
      case True
      obtain e where "res_bind (read_json (wd_files w) ?p) (\<lambda>v. case as_mapping v of Some d \<Rightarrow> Inr d
          | None \<Rightarrow> Inl (ValueError (''expected JSON object at '' @ path_str ?p))) = Inl e"
        using None by (auto simp: object_at_def read_json_def split: option.splits file_entry.splits)
      with assms True show ?thesis unfolding run by auto
    qed
    then obtain v where "persist_receipt root [] (put ''refusal_reason'' v (default_receipt dj None at True)) ?w =
        (Inr r, w')" ..
    then show thesis by (rule unreadable) (simp_all only: no None)
  next
    case (Some handoff)
    then have "wd_files w ?p = Some (JsonText (PDict handoff))"
      by (auto simp: object_at_def split: option.splits file_entry.splits elim: as_mapping.elims)
    then have "execute_from_run_dir ex q root w = execute_handoff ex q root (wd_files w) at dj handoff ?w" for ex
      by (simp add: run exists_path_def)
    with assms Some show thesis by (intro readable [of handoff at dj]) simp_all
  qed
qed


text \<open>C15. Without write authority no client is called: when the authority is missing, does not allow
  writes, or does not list the action the handoff names, the execution is the same whatever the
  clients would do, the receipt says that nothing was attempted, and it is the only file written.\<close>

theorem no_client_is_called_without_write_authority:
  assumes "object_at (wd_files w) (child root ''action_handoff.json'') = Some handoff"
    and "write_gate (dq_write_authority q) (normalize_text [] (get handoff ''next_action'')) \<noteq> None"
    and "execute_from_run_dir ex q root w = (Inr r, w')"
  shows "execute_from_run_dir ex' q root w = (Inr r, w') \<and>
    get r ''attempted'' = PBool False \<and> get r ''succeeded'' = PBool False \<and>
    (\<forall>p. p \<notin> child root ` set executor_receipt_filenames \<longrightarrow> wd_files w' p = wd_files w p)"
  using assms(3)
proof (cases rule: execute_from_run_dirE)
  case (unreadable rec)
  with assms(1) show ?thesis by simp
next
  case (readable h executed_at default_job)
  with assms(1) have h: "h = handoff" by simp
  from readable(2) show ?thesis
  proof (cases rule: execute_handoffE)
    case (refused ord reason)
    have files: "wd_files w' = (wd_files w)(child root (receipt_filename_for_action (strip (xo_action ord))) \<mapsto>
        JsonText (json_value (PDict r)))"
      and r: "r = put ''refusal_reason'' (PStr reason) (xo_receipt ord)"
      using refused(1,2) by (auto simp: refuse_def persist_receipt_result)
    have "p \<notin> child root ` set executor_receipt_filenames \<longrightarrow> wd_files w' p = wd_files w p" for p
      using receipt_filename_known by (auto simp: files)
    moreover have "execute_from_run_dir ex' q root w = (Inr r, w')"
      unfolding readable(3) by (rule refused(5))
    ultimately show ?thesis using refused(3,4) by (simp add: r)
  next
    case (performed ord)
    with assms(2) h show ?thesis by simp
  qed
qed

section \<open>The two routing checks\<close>

lemma supported_are_tokens: "supported_actions = executor_action_tokens"
  by (simp add: supported_actions_def executor_action_tokens_def)


section \<open>Behind the dispatcher\<close>

text \<open>A result with a receipt comes from one call of the executor.\<close>

definition from_executor :: "environment \<Rightarrow> dispatch_request \<Rightarrow> dict \<Rightarrow> bool" where
  "from_executor env q r =
     (has_receipt r \<longrightarrow> (\<exists>job receipt w1 w2.
        en_executor env q (job_root q job) w1 = (Inr receipt, w2) \<and>
        get r ''job_id'' = PStr job \<and> get r ''receipt'' = PDict receipt \<and>
        get r ''dispatch_status'' =
          PStr (if as_bool (get receipt ''succeeded'') then ''executed'' else ''escalated'')))"

lemma executor_branch_result:
  assumes "executor_branch env q rn w = (Inr r, w')" and "rn_root rn = job_root q (rn_job rn)"
  shows "from_executor env q r"
  using assms
  by (fastforce simp: executor_branch_def from_executor_def run_simps Let_def conclude_def dispatch_result_def
      split: option.splits dest: no_receipt)

lemma routed_round_result:
  assumes "routed_round env q n rn cls cache w = (Inr (Finished r), w')"
    and "rn_root rn = job_root q (rn_job rn)"
  shows "from_executor env q r"
proof (cases "has_receipt r")
  case True
  with assms(1) obtain w1 where "executor_branch env q rn w1 = (Inr r, w')"
    by (auto simp: routed_round_def run_simps split: if_splits option.splits
        dest: no_receipt retry_branch_receipt)
  then show ?thesis using assms(2) by (rule executor_branch_result)
qed (simp add: from_executor_def)

lemma dispatch_round_result:
  assumes "dispatch_round env q n ms cache w = (Inr (Finished r), w')"
  shows "from_executor env q r"
  using assms
proof (cases rule: dispatch_roundE)
  case (unreadable manifest w1 reason r')
  then show ?thesis using conclude_receipt by (auto simp: from_executor_def)
next
  case (decided manifest w1 rn)
  from decided(6) show ?thesis
  proof (cases rule: decided_roundE)
    case (refused rn' routed reason r')
    then show ?thesis using no_receipt(1) by (auto simp: from_executor_def)
  next
    case (routed action routing cache')
    show ?thesis
      by (rule routed_round_result [OF routed(7)]) (simp add: decided(4) job_root_def)
  qed
qed

text \<open>What holds of the result of every round holds of the result of the dispatch loop.\<close>

lemma dispatch_loop_result:
  assumes "\<And>env q n ms cache w r w'. dispatch_round env q n ms cache w = (Inr (Finished r), w') \<Longrightarrow> P env q r"
  shows "dispatch_loop env q n ms cache w = (Inr r, w') \<Longrightarrow> P env q r"
proof (induction env q n ms cache w rule: dispatch_loop.induct)
  case (1 env q n ms cache w)
  obtain s w1 where d: "dispatch_round env q n ms cache w = (s, w1)" by force
  show ?case
  proof (cases s)
    case (Inl e)
    with 1(2) d show ?thesis by (simp add: dispatch_loop.simps)
  next
    case (Inr t)
    show ?thesis
    proof (cases t)
      case (Finished r')
      with 1(2) d Inr show ?thesis by (auto simp: dispatch_loop.simps intro: assms)
    next
      case (Again ms' c)
      show ?thesis
        by (rule 1(1) [OF d [symmetric, unfolded Inr Again] refl refl])
           (use 1(2) d Inr Again in \<open>simp add: dispatch_loop.simps\<close>)
    qed
  qed
qed

lemma dispatch_once_result:
  assumes "dispatch_once env q w = (Inr r, w')"
  shows "from_executor env q r"
proof -
  let ?job = "normalize_text [] (opt_str (dq_job_id q))"
  from assms consider
      (paused) "handle_existing_pause_if_any (job_root q ?job) ?job w = (Inr (Some r), w')"
    | (run) w1 where "dispatch_loop env q 0 [] [] w1 = (Inr r, w')"
    by (auto simp: dispatch_once_def Let_def run_simps job_root_def split: if_splits option.splits)
  then show ?thesis
  proof cases
    case paused
    then have "\<not> has_receipt r"
      by (auto simp: handle_existing_pause_if_any_def run_simps Let_def split: if_splits
          dest: conclude_receipt)
    then show ?thesis by (simp add: from_executor_def)
  next
    case run
    from dispatch_round_result this show ?thesis by (rule dispatch_loop_result [where P = from_executor])
  qed
qed

text \<open>The client of an action.\<close>

definition client_of :: "executor \<Rightarrow> string \<Rightarrow> client option" where
  "client_of ex action =
     (if action = ''proceed_to_pr'' then ex_pr_creator ex
      else if action = ''github.pr.update'' then ex_pr_updater ex
      else if action = ''proceed_to_merge'' then ex_merge_executor ex
      else if action = ''rollback_required'' then ex_rollback_executor ex else None)"

lemma refuse_result:
  "refuse ord reason w = (Inr r, w') \<Longrightarrow> r = put ''refusal_reason'' (PStr reason) (xo_receipt ord)"
  by (auto simp: refuse_def persist_receipt_result)

lemma no_client_refuses:
  assumes "client_of ex (xo_action ord) = None" and "perform_action ex q ord w = (Inr r, w')"
  shows "get r ''succeeded'' = get (xo_receipt ord) ''succeeded''"
  using assms
  by (auto simp: perform_action_def client_of_def create_pr_def update_pr_def merge_pr_def roll_back_def
      split: if_splits dest!: refuse_result)

text \<open>The receipt names the action it was asked for, whatever the client answers.\<close>

lemma call_client_names_action:
  assumes "call_client ord client kwargs entries w = (Inr r, w')"
    and "\<And>result es. entries result = Inr es \<Longrightarrow> ''requested_action'' \<notin> fst ` set es"
  shows "get r ''requested_action'' = get (xo_receipt ord) ''requested_action''"
proof -
  obtain c w1 where c: "client kwargs (child (xo_root ord) ''write_receipts'') w = (c, w1)" by force
  note run = assms(1) [unfolded call_client_def run_bind_def [of "run_try _"] run_try_def c prod.case sum.case]
  show ?thesis
  proof (cases c)
    case (Inl e)
    with run show ?thesis by (auto dest!: refuse_result)
  next
    case (Inr result)
    with run obtain es where es: "entries result = Inr es" "settle ord result es w1 = (Inr r, w')"
      by (auto simp: run_simps)
    from assms(2) [OF es(1)] have "map_of (rev es) ''requested_action'' = None"
      by (simp add: map_of_eq_None_iff)
    with es(2) show ?thesis by (auto simp: settle_def persist_receipt_result put_all_get split: option.splits)
  qed
qed

lemma perform_action_names_action:
  assumes "perform_action ex q ord w = (Inr r, w')"
  shows "get r ''requested_action'' = get (xo_receipt ord) ''requested_action''"
proof -
  note names = refuse_result call_client_names_action
  have "create_pr ex q ord w = (Inr r, w') \<Longrightarrow> ?thesis"
    unfolding create_pr_def Let_def case_prod_unfold
    by (auto split: option.splits if_splits dest!: names)
  moreover have "update_pr ex q ord w = (Inr r, w') \<Longrightarrow> ?thesis"
    unfolding update_pr_def Let_def
    by (auto simp: run_simps res_bind_eq_Inr split: option.splits if_splits dest!: names)
  moreover have "merge_pr ex q ord w = (Inr r, w') \<Longrightarrow> ?thesis"
    unfolding merge_pr_def Let_def
    by (auto simp: run_simps res_bind_eq_Inr split: option.splits if_splits dest!: names)
  moreover have "roll_back ex q ord w = (Inr r, w') \<Longrightarrow> ?thesis"
    unfolding roll_back_def Let_def
    by (auto split: option.splits if_splits dest!: names)
  moreover have "refuse ord ''unsupported_action_dispatch'' w = (Inr r, w') \<Longrightarrow> ?thesis"
    by (auto dest!: refuse_result)
  ultimately show ?thesis using assms unfolding perform_action_def by (auto split: if_splits)
qed

text \<open>C8. An executed dispatch had write authority: when a dispatch with this executor ends executed with
  a receipt, the action the receipt names is one of the four and has a client, the request's write
  authority allows writes and this action, and the policy of the request and some handoff of the
  action route it to the executor.\<close>

theorem executed_dispatch_had_write_authority:
  assumes "dispatch_once (with_executor ex env) q w = (Inr r, w')" and "has_key r ''receipt''"
    and "get r ''dispatch_status'' = PStr ''executed''"
  shows "\<exists>receipt action. get r ''receipt'' = PDict receipt \<and>
    get receipt ''requested_action'' = PStr action \<and> action \<in> set supported_actions \<and>
    client_of ex action \<noteq> None \<and> write_gate (dq_write_authority q) action = None \<and>
    (\<exists>handoff next_payload. normalize_text [] (get handoff ''next_action'') = action \<and>
       routing_gate (dq_policy_snapshot q) next_payload handoff = None)"
proof -
  from dispatch_once_result [OF assms(1)] assms(2,3) obtain job receipt w1 w2 where
    receipt: "get r ''receipt'' = PDict receipt"
    and run: "execute_from_run_dir ex q (job_root q job) w1 = (Inr receipt, w2)"
    and ok: "as_bool (get receipt ''succeeded'')"
    by (auto simp: from_executor_def has_receipt_def with_executor_def split: if_splits)
  from run show ?thesis
  proof (cases rule: execute_from_run_dirE)
    case (unreadable rec)
    with ok show ?thesis by (auto simp: persist_receipt_result)
  next
    case (readable handoff executed_at default_job)
    from readable(2) show ?thesis
    proof (cases rule: execute_handoffE)
      case (refused ord reason)
      with ok refuse_result [OF refused(1)] show ?thesis by simp
    next
      case (performed ord)
      have "client_of ex (xo_action ord) \<noteq> None"
      proof
        assume "client_of ex (xo_action ord) = None"
        from no_client_refuses [OF this performed(1)] performed(6) ok show False by simp
      qed
      moreover have "xo_action ord \<in> set supported_actions"
        using performed(5) by (auto simp: routing_gate_def Let_def performed(3) split: if_splits)
      moreover from this have "get receipt ''requested_action'' = PStr (xo_action ord)"
        using perform_action_names_action [OF performed(1)] performed(7)
        by (auto simp: non_empty_def supported_actions_def)
      ultimately show ?thesis using receipt performed(3-5) by metis
    qed
  qed
qed

section \<open>Witnesses\<close>

definition demo_root :: path where
  "demo_root = job_root demo_request ''job-1''"

definition demo_handoff :: dict where
  "demo_handoff =
     [(''next_action'', PStr ''proceed_to_pr''), (''action_consumable'', PBool True),
      (''job_id'', PStr ''job-1'')]"

text \<open>The run directory, with and without a handoff in it.\<close>

definition run_directory :: files where
  "run_directory = (\<lambda>p. if p = demo_root then Some Directory else None)"

definition handoff_files :: files where
  "handoff_files = run_directory(child demo_root ''action_handoff.json'' \<mapsto> JsonText (PDict demo_handoff))"

definition authorised_request :: "dict \<Rightarrow> dispatch_request" where
  "authorised_request authority =
     demo_request\<lparr>dq_write_authority := PDict authority, dq_repository := Some ''owner/repo'',
       dq_head_branch := Some ''feature''\<rparr>"

text \<open>A client that opens the pull request.\<close>

definition creating_executor :: executor where
  "creating_executor =
     \<lparr>ex_pr_creator = Some (\<lambda>kwargs store. run_return
        [(''attempted'', PBool True), (''succeeded'', PBool True), (''pr_number'', PInt 7)]),
      ex_pr_updater = None, ex_merge_executor = None, ex_rollback_executor = None\<rparr>"

definition no_clients :: executor where
  "no_clients = \<lparr>ex_pr_creator = None, ex_pr_updater = None, ex_merge_executor = None,
     ex_rollback_executor = None\<rparr>"


theorem no_client_is_called_without_write_authority_witness:
  "\<exists>r w'. execute_from_run_dir creating_executor
       (authorised_request [(''enabled'', PBool True), (''kill_switch'', PBool True)]) demo_root
       (early_world handoff_files) = (Inr r, w') \<and>
     execute_from_run_dir no_clients
       (authorised_request [(''enabled'', PBool True), (''kill_switch'', PBool True)]) demo_root
       (early_world handoff_files) = (Inr r, w') \<and> get r ''attempted'' = PBool False"
proof -
  let ?q = "authorised_request [(''enabled'', PBool True), (''kill_switch'', PBool True)]"
  have "returned (\<lambda>_. True) (execute_from_run_dir creating_executor ?q demo_root (early_world handoff_files))"
    by code_simp
  then obtain r w' where r: "execute_from_run_dir creating_executor ?q demo_root (early_world handoff_files) = (Inr r, w')"
    by (rule returnedE)
  have h: "object_at (wd_files (early_world handoff_files)) (child demo_root ''action_handoff.json'') = Some demo_handoff"
    by (simp add: early_world_def demo_world_def handoff_files_def object_at_def)
  have g: "write_gate (dq_write_authority ?q) (normalize_text [] (get demo_handoff ''next_action'')) \<noteq> None"
    by code_simp
  from no_client_is_called_without_write_authority [OF h g r, of no_clients] r show ?thesis by blast
qed


theorem executed_dispatch_had_write_authority_witness:
  "\<exists>r w'. dispatch_once (with_executor creating_executor (demo_env ''proceed_to_pr''))
       (authorised_request [(''enabled'', PBool True)]) (early_world run_directory) = (Inr r, w') \<and>
     get r ''dispatch_status'' = PStr ''executed'' \<and>
     (\<exists>action \<in> set supported_actions. write_gate (PDict [(''enabled'', PBool True)]) action = None \<and>
        client_of creating_executor action \<noteq> None)"
proof -
  let ?x = "dispatch_once (with_executor creating_executor (demo_env ''proceed_to_pr''))
    (authorised_request [(''enabled'', PBool True)]) (early_world run_directory)"
  have "returned (\<lambda>r. has_key r ''receipt'' \<and> get r ''dispatch_status'' = PStr ''executed'') ?x" by code_simp
  then obtain r w' where r: "?x = (Inr r, w')"
    "has_key r ''receipt'' \<and> get r ''dispatch_status'' = PStr ''executed''" by (rule returnedE)
  have wa: "dq_write_authority (authorised_request [(''enabled'', PBool True)]) = PDict [(''enabled'', PBool True)]"
    by (simp add: authorised_request_def)
  from executed_dispatch_had_write_authority [OF r(1) conjunct1 [OF r(2)] conjunct2 [OF r(2)], unfolded wa]
  obtain action where "action \<in> set supported_actions" "client_of creating_executor action \<noteq> None"
    "write_gate (PDict [(''enabled'', PBool True)]) action = None" by (elim exE conjE) (rule that)
  with r show ?thesis by blast
qed

end
