(* ===== verification/Writing_Once.thy ===== *)
theory Writing_Once
  imports Draft_PR PR_Update Bounded_Merge
begin

text \<open>
  What the receipts are for. A key is closed when its receipt says that the write was made, or that
  it must not be: from then on a draft is not created and an update not written under that key,
  however often it is asked for, whatever GitHub answers and whatever fails in between.
\<close>

section \<open>Closed keys\<close>

definition stop_classifications :: "string list" where
  "stop_classifications = [''conflict'', ''precondition_changed'', ''needs_human'']"

text \<open>A key whose receipt is of one of the given classifications.\<close>

definition key_in :: "string list \<Rightarrow> path \<Rightarrow> string \<Rightarrow> string \<Rightarrow> world \<Rightarrow> bool" where
  "key_in classes root a key w =
     (\<exists>st r. load_receipts root a w = (Inr st, w) \<and> map_of (rr_records st) key = Some r \<and>
        normalize_final_classification (get r ''final_classification'') \<in> set classes)"

definition closed_classifications :: "string list" where
  "closed_classifications = done_classifications @ stop_classifications"

lemma key_in_cong:
  assumes "key_in cs root a key w" and "plain_action a"
    and "wd_files w' (child root (a @ ''.json'')) = wd_files w (child root (a @ ''.json''))"
  shows "key_in cs root a key w'"
proof -
  have "read_action_payload (wd_files w') root a = read_action_payload (wd_files w) root a"
    by (rule read_action_payload_cong) (simp add: plain_action_path [OF assms(2)] assms(3))
  with assms(1) show ?thesis
    by (auto simp: key_in_def load_receipts_def run_bind_def run_files_def run_res_def)
qed

text \<open>The status of a write whose key has a receipt is what the receipt says.\<close>

lemma key_in_status:
  assumes "key_in cs root a (stable_idempotency_key (wq_job rq) (wq_action rq) (wq_target rq)
      (stable_intent_fingerprint (wq_intent rq))) w"
    and "plain_action a" and "wq_store rq = Some root" and "wq_action rq = a"
  obtains rs r where "prior_records rq w = (Inr rs, w)"
    "wq_dedupe (evaluate_dedupe rq rs) = Some \<lparr>dd_status = prior_status r,
       dd_key = stable_idempotency_key (wq_job rq) (wq_action rq) (wq_target rq)
         (stable_intent_fingerprint (wq_intent rq)),
       dd_fingerprint = stable_intent_fingerprint (wq_intent rq), dd_matched = Some r, dd_conflicting = None\<rparr>"
    "normalize_final_classification (get r ''final_classification'') \<in> set cs"
proof -
  let ?key = "stable_idempotency_key (wq_job rq) (wq_action rq) (wq_target rq)
    (stable_intent_fingerprint (wq_intent rq))"
  from assms(1) obtain st r where st: "load_receipts root a w = (Inr st, w)"
    and r: "map_of (rr_records st) ?key = Some r"
    and c: "normalize_final_classification (get r ''final_classification'') \<in> set cs"
    by (auto simp: key_in_def)
  define rs where "rs = map snd (sort_key (\<lambda>(k, r). (normalize_text [] (get r ''created_at''), strip k))
    (rr_records st))"
  have a: "action_name a = a" by (rule plain_action_path(3) [OF assms(2)])
  note loaded = loaded_receipts(1,2) [of a, unfolded a, OF load_receipts_good(4) [OF st assms(2)]]
  have own: "get r' ''idempotency_key'' = PStr k \<and> strip k = k" if "(k, r') \<in> set (rr_records st)" for k r'
  proof -
    from loaded(1) [OF that] obtain act n where "common_form k act n (canon r') = canon r'" "strip k = k"
      by (auto simp: receipt_ok_def)
    with common_form_get(1) [of k act n "canon r'"] have "json_value (get r' ''idempotency_key'') = PStr k" by simp
    with \<open>strip k = k\<close> show ?thesis by (cases "get r' ''idempotency_key''") (simp_all add: json_value_dict)
  qed
  have find: "List.find (record_matches_key ?key) rs = Some r"
  proof (rule find_unique)
    have mem: "(?key, r) \<in> set (rr_records st)" using r by (rule map_of_SomeD)
    then show "r \<in> set rs" by (force simp: rs_def)
    show "record_matches_key ?key r" using own [OF mem] by (simp add: record_matches_key_def)
    fix r' assume r': "r' \<in> set rs" and m: "record_matches_key ?key r'"
    from r' obtain k where k: "(k, r') \<in> set (rr_records st)" by (auto simp: rs_def)
    with m own [OF k] have "k = ?key" by (auto simp: record_matches_key_def split: if_splits)
    with k loaded(2) have "map_of (rr_records st) ?key = Some r'" by (auto simp: keys_ok_def)
    with r show "r' = r" by simp
  qed
  then have ne: "rs \<noteq> []" by auto
  show thesis
  proof (rule that [OF _ _ c])
    show "prior_records rq w = (Inr rs, w)"
      by (simp add: prior_records_def assms(3,4) list_records_def run_bind_def st rs_def run_return_def)
    show "wq_dedupe (evaluate_dedupe rq rs) = Some \<lparr>dd_status = prior_status r, dd_key = ?key,
       dd_fingerprint = stable_intent_fingerprint (wq_intent rq), dd_matched = Some r, dd_conflicting = None\<rparr>"
      using find ne by (simp add: evaluate_dedupe_def evaluate_write_dedupe_status_def Let_def)
  qed
qed

lemma prior_status_cases:
  "normalize_final_classification (get r ''final_classification'') \<in> set closed_classifications \<Longrightarrow>
     prior_status r \<noteq> DEDUPE_FIRST_ATTEMPT"
  by (auto simp: prior_status_def Let_def closed_classifications_def stop_classifications_def
      done_classifications_def dedupe_statuses)

text \<open>Storing a receipt puts its key into the class of its classification; one that raises changes no record.\<close>

lemma persist_record_raises:
  assumes "persist_record root a key payload t w = (Inl e, w')" and "plain_action a"
  shows "wd_files w' (child root (a @ ''.json'')) = wd_files w (child root (a @ ''.json''))"
proof -
  note path = plain_action_path [OF assms(2)]
  have a: "strip a = a" using assms(2) by (simp add: plain_action_def)
  have mkdir: "wd_files w1 (child root (a @ ''.json'')) = wd_files w (child root (a @ ''.json''))"
    if "run_mkdir root w = (x, w1)" for x w w1
    using that by (auto simp: run_mkdir_def split: option.splits file_entry.splits)
  have touch: "wd_files w1 (child root (a @ ''.json'')) = wd_files w (child root (a @ ''.json''))"
    if "run_touch (child root (a @ ''.json.lock'')) w = (x, w1)" for x w w1
    using that by (auto simp: run_touch_def split: option.splits file_entry.splits)
  have load: "w1 = w" if "load_receipts root a w = (x, w1)" for x w w1
    using that by (auto simp: load_receipts_def run_bind_def run_files_def run_res_def)
  from assms(1) show ?thesis
    by (auto simp: persist_record_def run_bind_def run_raise_def run_res_def run_write_def run_return_def path a
        split: prod.splits sum.splits if_splits dest!: mkdir touch load)
qed

lemma persist_write_receipt_key:
  assumes "persist_write_receipt rq c ex response observed precondition w = (x, w')"
    and "wq_store rq = Some root" and "wq_dedupe rq = Some dd" and "plain_action (wq_action rq)"
    and "strip (dd_key dd) = dd_key dd" and "dd_key dd \<noteq> []"
    and "normalize_final_classification (PStr c) \<in> set cs"
  shows "if x = Inr () then key_in cs root (wq_action rq) (dd_key dd) w'
    else wd_files w' (child root (wq_action rq @ ''.json'')) = wd_files w (child root (wq_action rq @ ''.json''))"
proof -
  let ?w = "w\<lparr>wd_ticks := Suc (wd_ticks w)\<rparr>"
  let ?payload = "[(''idempotency_key'', PStr (dd_key dd)), (''job_id'', PStr (wq_job rq)),
     (''write_action'', PStr (wq_action rq)), (''target_identifiers'', PDict (wq_target rq)),
     (''intent_fingerprint'', PStr (dd_fingerprint dd)),
     (''execution_status'', PStr (normalize_text ''not_attempted'' (PStr ex))),
     (''observed_github_facts'', PDict observed), (''final_classification'', PStr c),
     (''request_snapshot'', PDict (wq_request rq)), (''response_summary'', PDict response),
     (''precondition_snapshot'', PDict precondition)]"
  let ?persist = "persist_record root (wq_action rq) (dd_key dd) ?payload (iso_seconds (wd_clock w (wd_ticks w))) ?w"
  have run: "(x, w') = (case ?persist of (Inl e, w1) \<Rightarrow> (Inl e, w1) | (Inr r, w1) \<Rightarrow> (Inr (), w1))"
    using assms(1-3) by (simp add: persist_write_receipt_def run_bind_def run_now_def run_return_def
        del: normalize_text_PStr split: prod.splits sum.splits)
  obtain y w1 where p: "?persist = (y, w1)" by force
  show ?thesis
  proof (cases y)
    case (Inl e)
    with run p persist_record_raises [OF p [unfolded Inl] assms(4)] show ?thesis by simp
  next
    case (Inr r)
    have a: "wq_action rq \<noteq> []" "strip (wq_action rq) = wq_action rq" using assms(4) by (simp_all add: plain_action_def)
    obtain st st' where st0: "load_receipts root (wq_action rq) ?w = (Inr st, ?w)" and st: "next_record (rr_records st) (dd_key dd) (wq_action rq)
        (iso_seconds (wd_clock w (wd_ticks w))) ?payload = Inr r"
      "load_receipts root (wq_action rq) w1 = (Inr st', w1)"
      "map_option canon \<circ> map_of (rr_records st') =
         (map_option canon \<circ> map_of (rr_records st))(dd_key dd \<mapsto> canon r)"
      by (rule persisted_loads [OF p [unfolded Inr] assms(4,6,5)])
    from fun_cong [OF st(3), of "dd_key dd"] obtain r' where
      r': "map_of (rr_records st') (dd_key dd) = Some r'" "canon r' = canon r" by auto
    have "get r ''final_classification'' = PStr (normalize_final_classification (PStr c))"
      using next_record_facts(3) [OF st(1) assms(6,5) a] by simp
    then have "json_value (get r' ''final_classification'') = PStr (normalize_final_classification (PStr c))"
      using get_canon [of r' "''final_classification''"] get_canon [of r "''final_classification''"] r'(2) by simp
    then have "get r' ''final_classification'' = PStr (normalize_final_classification (PStr c))"
      by (cases "get r' ''final_classification''") (simp_all add: json_value_dict)
    with assms(7) r'(1) st(2) run p Inr show ?thesis by (auto simp: key_in_def)
  qed
qed

section \<open>Programs that write nothing\<close>

text \<open>
  Two programs, one with another write backend, that do the same on every world in which a key is
  closed, keep it closed, and attempt no write.
\<close>

definition quiet :: "(world \<Rightarrow> bool) \<Rightarrow> dict run \<Rightarrow> dict run \<Rightarrow> bool" where
  "quiet P m m' =
     (\<forall>w. P w \<longrightarrow> m' w = m w \<and> P (snd (m w)) \<and>
        (\<forall>r. fst (m w) = Inr r \<longrightarrow> get r ''attempted'' = PBool False))"

named_theorems quiet_rules "programs that write nothing"

lemma quiet_return [quiet_rules]:
  "get r ''attempted'' = PBool False \<Longrightarrow> quiet P (run_return r) (run_return r)"
  by (simp add: quiet_def run_return_def)

lemma quiet_if [quiet_rules]:
  "(b \<Longrightarrow> quiet P m m') \<Longrightarrow> (\<not> b \<Longrightarrow> quiet P n n') \<Longrightarrow>
     quiet P (if b then m else n) (if b then m' else n')"
  by simp

lemma quiet_option [quiet_rules]:
  "quiet P m m' \<Longrightarrow> (\<And>x. quiet P (f x) (f' x)) \<Longrightarrow>
     quiet P (case v of None \<Rightarrow> m | Some x \<Rightarrow> f x) (case v of None \<Rightarrow> m' | Some x \<Rightarrow> f' x)"
  by (cases v) simp_all

lemma quiet_sum [quiet_rules]:
  "(\<And>x. quiet P (f x) (f' x)) \<Longrightarrow> (\<And>x. quiet P (g x) (g' x)) \<Longrightarrow>
     quiet P (case v of Inl x \<Rightarrow> f x | Inr x \<Rightarrow> g x) (case v of Inl x \<Rightarrow> f' x | Inr x \<Rightarrow> g' x)"
  by (cases v) simp_all

lemma quiet_res [quiet_rules]:
  "(\<And>x. quiet P (f x) (f' x)) \<Longrightarrow> quiet P (run_bind (run_res v) f) (run_bind (run_res v) f')"
  by (cases v) (simp_all add: quiet_def run_bind_def run_res_def)

text \<open>A step that keeps the key closed whether it returns or raises.\<close>

definition keeps_closed :: "(world \<Rightarrow> bool) \<Rightarrow> 'a run \<Rightarrow> bool" where
  "keeps_closed P m = (\<forall>w. P w \<longrightarrow> P (snd (m w)))"

lemma quiet_bind [quiet_rules]:
  assumes "keeps_closed P m" and "\<And>x. quiet P (f x) (f' x)"
  shows "quiet P (run_bind m f) (run_bind m f')"
  unfolding quiet_def
proof (intro allI impI)
  fix w assume P: "P w"
  obtain x w1 where m: "m w = (x, w1)" by force
  with assms(1) P have "P w1" by (auto simp: keeps_closed_def)
  with assms(2) m show "run_bind m f' w = run_bind m f w \<and> P (snd (run_bind m f w)) \<and>
      (\<forall>r. fst (run_bind m f w) = Inr r \<longrightarrow> get r ''attempted'' = PBool False)"
    by (cases x) (simp_all add: run_bind_def quiet_def)
qed

section \<open>Reading and recording keep a key closed\<close>

definition receipts_path :: "path \<Rightarrow> string \<Rightarrow> path" where
  "receipts_path root a = child root (a @ ''.json'')"

text \<open>The backends GitHub is read through leave the receipts alone.\<close>

definition reads_keep :: "github \<Rightarrow> path \<Rightarrow> bool" where
  "reads_keep gh p =
     ((\<forall>op args. keeps (same_files {p}) (gh_read gh op args)) \<and>
      (\<forall>repo n. keeps (same_files {p}) (gh_pull_request gh repo n)))"

abbreviation closed :: "path \<Rightarrow> string \<Rightarrow> string \<Rightarrow> world \<Rightarrow> bool" where
  "closed root a key \<equiv> key_in closed_classifications root a key"

lemma same_files_closed:
  assumes "keeps (same_files {receipts_path root a}) m" and "plain_action a"
  shows "keeps_closed (key_in cs root a key) m"
  unfolding keeps_closed_def
proof (intro allI impI)
  fix w assume c: "key_in cs root a key w"
  obtain x w1 where "m w = (x, w1)" by force
  with keepsD [OF assms(1)] have m: "m w = (x, w1)"
    "wd_files w1 (receipts_path root a) = wd_files w (receipts_path root a)" by (auto simp: same_files_def)
  from key_in_cong [OF c assms(2) m(2) [unfolded receipts_path_def]] m(1)
  show "key_in cs root a key (snd (m w))" by simp
qed

lemma read_closed:
  assumes "reads_keep gh (receipts_path root a)" and "plain_action a"
  shows "keeps_closed (key_in cs root a key) (gh_read gh op args)"
    and "keeps_closed (key_in cs root a key) (gh_pull_request gh repo n)"
  using assms by (auto simp: reads_keep_def intro: same_files_closed)

lemma other_write:
  "gh_read (gh\<lparr>gh_write := b\<rparr>) = gh_read gh" "gh_pull_request (gh\<lparr>gh_write := b\<rparr>) = gh_pull_request gh"
  by simp_all

text \<open>A request whose key is the given one, with its status known.\<close>

definition keyed :: "path \<Rightarrow> string \<Rightarrow> string \<Rightarrow> write_request \<Rightarrow> bool" where
  "keyed root a key rq =
     (wq_store rq = Some root \<and> wq_action rq = a \<and> plain_action a \<and> key \<noteq> [] \<and> strip key = key \<and>
      (\<exists>dd. wq_dedupe rq = Some dd \<and> dd_key dd = key))"

lemma classification_in:
  "set cs \<subseteq> set final_classifications \<Longrightarrow> c \<in> set cs \<Longrightarrow> normalize_final_classification (PStr c) \<in> set cs"
  using normalize_final_classification_text by auto

lemma known_classes:
  "set closed_classifications \<subseteq> set final_classifications"
  "set stop_classifications \<subseteq> set final_classifications"
  "set done_classifications \<subseteq> set final_classifications"
  by (auto simp: closed_classifications_def stop_classifications_def done_classifications_def
      final_classifications_def)

lemma persist_closed:
  assumes "keyed root a key rq" and "c \<in> set cs" and "set cs \<subseteq> set final_classifications"
  shows "keeps_closed (key_in cs root a key) (persist_write_receipt rq c ex response observed precondition)"
  unfolding keeps_closed_def
proof (intro allI impI)
  fix w assume k: "key_in cs root a key w"
  from assms(1) obtain dd where dd: "wq_store rq = Some root" "wq_dedupe rq = Some dd" "wq_action rq = a"
    "plain_action a" "dd_key dd = key" "key \<noteq> []" "strip key = key" by (auto simp: keyed_def)
  obtain x w1 where p: "persist_write_receipt rq c ex response observed precondition w = (x, w1)" by force
  have "normalize_final_classification (PStr c) \<in> set cs" by (rule classification_in) (use assms in auto)
  from persist_write_receipt_key [OF p dd(1,2) _ _ _ this, unfolded dd(3,5), OF dd(4,7,6)]
    key_in_cong [OF k dd(4)] p
  show "key_in cs root a key (snd (persist_write_receipt rq c ex response observed precondition w))"
    by (auto split: if_splits)
qed

lemma prior_closed [quiet_rules]: "keeps_closed P (prior_records rq)"
proof -
  have "snd (prior_records rq w) = w" for w
    by (simp add: prior_records_def list_records_def load_receipts_def run_bind_def run_files_def run_res_def
        run_return_def split: option.split sum.split)
  then show ?thesis by (simp add: keeps_closed_def)
qed

text \<open>The gate on earlier writes stops or goes on with a replay.\<close>

lemma dedupe_gate_quiet:
  assumes "keyed root a key rq" and "\<And>reason. get (refusal reason) ''attempted'' = PBool False"
    and "dedupe_status rq \<in> {DEDUPE_CONFLICTING_PRIOR_INTENT, DEDUPE_PRECONDITION_CHANGED,
           DEDUPE_UNKNOWN_NEEDS_HUMAN, DEDUPE_REPLAY_SAME_INTENT}"
    and "is_replay rq \<Longrightarrow> quiet (closed root a key) m m'"
  shows "quiet (closed root a key) (dedupe_gate rq refusal m) (dedupe_gate rq refusal m')"
proof (cases "is_replay rq")
  case True
  then have "dedupe_gate rq refusal m = m" "dedupe_gate rq refusal m' = m'"
    by (simp_all add: dedupe_gate_def is_replay_def dedupe_statuses Let_def)
  with assms(4) True show ?thesis by simp
next
  case False
  have stop: "quiet (closed root a key) (run_bind (persist_write_receipt rq c ex resp obs pre) (\<lambda>_. run_return (refusal reason)))
      (run_bind (persist_write_receipt rq c ex resp obs pre) (\<lambda>_. run_return (refusal reason)))"
    if "c \<in> set closed_classifications" for c ex resp obs pre reason
    by (intro quiet_rules persist_closed [OF assms(1) that] known_classes assms(2))
  have "''conflict'' \<in> set closed_classifications" "''precondition_changed'' \<in> set closed_classifications"
    "''needs_human'' \<in> set closed_classifications"
    by (simp_all add: closed_classifications_def stop_classifications_def)
  with assms(3) False show ?thesis
    unfolding dedupe_gate_def Let_def is_replay_def by (auto intro!: stop)
qed

lemma closed_status:
  assumes "normalize_final_classification (get r ''final_classification'') \<in> set closed_classifications"
    and "wq_dedupe rq = Some dd" and "dd_status dd = prior_status r"
  shows "dedupe_status rq \<in> {DEDUPE_CONFLICTING_PRIOR_INTENT, DEDUPE_PRECONDITION_CHANGED,
    DEDUPE_UNKNOWN_NEEDS_HUMAN, DEDUPE_REPLAY_SAME_INTENT}"
proof -
  have "list_all (\<lambda>s. normalize_text ''first_attempt'' (PStr s) = s) [DEDUPE_FIRST_ATTEMPT,
      DEDUPE_CONFLICTING_PRIOR_INTENT, DEDUPE_PRECONDITION_CHANGED, DEDUPE_UNKNOWN_NEEDS_HUMAN,
      DEDUPE_REPLAY_SAME_INTENT]" by code_simp
  moreover have "prior_status r \<in> {DEDUPE_FIRST_ATTEMPT, DEDUPE_CONFLICTING_PRIOR_INTENT,
      DEDUPE_PRECONDITION_CHANGED, DEDUPE_UNKNOWN_NEEDS_HUMAN, DEDUPE_REPLAY_SAME_INTENT}"
    by (auto simp: prior_status_def Let_def)
  ultimately have "dedupe_status rq = prior_status r"
    using assms(2,3) unfolding dedupe_status_def by (auto simp del: normalize_text_PStr)
  with prior_status_cases [OF assms(1)] show ?thesis by (auto simp: prior_status_def Let_def)
qed

section \<open>Drafts\<close>

lemma with_idempotency_get [simp]: "k \<noteq> ''idempotency'' \<Longrightarrow> get (with_idempotency rq d) k = get d k"
  by (simp add: with_idempotency_def split: option.split)

lemma draft_refusal_attempted [simp]: "get (draft_refusal dc ev cs reason) ''attempted'' = PBool False"
  by (simp add: draft_refusal_def draft_result_def)

lemma draft_result_attempted [simp]:
  "get (draft_result dc att succ reason n url ev) ''attempted'' = PBool att"
  "get (draft_result dc att succ reason n url ev) ''succeeded'' = PBool succ"
  by (simp_all add: draft_result_def)

lemma closed_members:
  "''already_applied'' \<in> set closed_classifications" "''precondition_changed'' \<in> set closed_classifications"
  "''applied'' \<in> set closed_classifications" "''no_op'' \<in> set closed_classifications"
  by (simp_all add: closed_classifications_def done_classifications_def stop_classifications_def)

lemma replay_write_receipt_closed:
  assumes "keyed root a key rq"
  shows "keeps_closed (closed root a key) (persist_write_receipt rq ''already_applied'' ex resp obs pre)"
    and "keeps_closed (closed root a key) (persist_write_receipt rq ''precondition_changed'' ex resp obs pre)"
  by (intro persist_closed [OF assms] closed_members known_classes)+

lemma check_and_draft_quiet:
  assumes "keyed root a key (dp_request dc)" and "is_replay (dp_request dc)"
    and "reads_keep gh (receipts_path root a)"
  shows "quiet (closed root a key) (check_and_draft gh dc al bh ev cs st m)
    (check_and_draft (gh\<lparr>gh_write := b\<rparr>) dc al bh ev cs st m)"
proof -
  have a: "plain_action a" using assms(1) by (simp add: keyed_def)
  show ?thesis
    unfolding check_and_draft_def Let_def
    by (simp add: assms(2))
       (intro quiet_rules read_closed [OF assms(3) a] replay_write_receipt_closed [OF assms(1)]
         draft_refusal_attempted; simp add: assms(2))
qed

lemma existing_pr_quiet:
  assumes "keyed root a key (dp_request dc)"
  shows "quiet (closed root a key) (existing_pr dc bh ev cs st d) (existing_pr dc bh ev cs st d)"
  unfolding existing_pr_def Let_def
  by (intro quiet_rules replay_write_receipt_closed [OF assms] draft_result_attempted)

lemma compare_and_draft_quiet:
  assumes "keyed root a key (dp_request dc)" and "is_replay (dp_request dc)"
    and "reads_keep gh (receipts_path root a)"
  shows "quiet (closed root a key) (compare_and_draft gh dc al h bs ev)
    (compare_and_draft (gh\<lparr>gh_write := b\<rparr>) dc al h bs ev)"
proof -
  have a: "plain_action a" using assms(1) by (simp add: keyed_def)
  have find: "quiet (closed root a key) (find_and_draft gh dc al bh ev cs)
      (find_and_draft (gh\<lparr>gh_write := b\<rparr>) dc al bh ev cs)" for bh ev cs
    unfolding find_and_draft_def Let_def
    by simp
      (intro quiet_rules read_closed [OF assms(3) a] existing_pr_quiet [OF assms(1)]
        check_and_draft_quiet [OF assms] draft_refusal_attempted)
  show ?thesis
    unfolding compare_and_draft_def Let_def
    by simp (intro quiet_rules read_closed [OF assms(3) a] find draft_refusal_attempted)
qed

lemma read_branch_head_quiet:
  assumes "plain_action a" and "reads_keep gh (receipts_path root a)"
    and "\<And>sha ev. quiet (key_in cs root a key) (f sha ev) (f' sha ev)"
  shows "quiet (key_in cs root a key) (read_branch_head gh dc which branch ev f)
    (read_branch_head (gh\<lparr>gh_write := b\<rparr>) dc which branch ev f')"
  unfolding read_branch_head_def Let_def
  by simp (intro quiet_rules read_closed [OF assms(2,1)] assms(3) draft_refusal_attempted)

text \<open>The key a draft is stored under.\<close>

definition draft_key :: "draft_call \<Rightarrow> string" where
  "draft_key dc =
     (let rq = dp_request dc in stable_idempotency_key (wq_job rq) (wq_action rq) (wq_target rq)
       (stable_intent_fingerprint (wq_intent rq)))"

lemma plain_drafts: "plain_action ''create_draft_pr''"
  and plain_updates: "plain_action ''update_existing_pr''"
  and plain_merges: "plain_action ''bounded_merge''"
  by code_simp+

lemma draft_on_base_quiet:
  assumes "wq_store (dp_request dc) = Some root" and "wq_action (dp_request dc) = ''create_draft_pr''"
    and "reads_keep gh (receipts_path root ''create_draft_pr'')"
  shows "quiet (closed root ''create_draft_pr'' (draft_key dc)) (draft_on_base gh dc al ev)
    (draft_on_base (gh\<lparr>gh_write := b\<rparr>) dc al ev)"
  unfolding quiet_def
proof (intro allI impI)
  fix w assume c: "closed root ''create_draft_pr'' (draft_key dc) w"
  let ?rq = "dp_request dc"
  from c obtain rs r where rs: "prior_records ?rq w = (Inr rs, w)"
    and dd: "wq_dedupe (evaluate_dedupe ?rq rs) = Some \<lparr>dd_status = prior_status r, dd_key = draft_key dc,
       dd_fingerprint = stable_intent_fingerprint (wq_intent ?rq), dd_matched = Some r, dd_conflicting = None\<rparr>"
    and cl: "normalize_final_classification (get r ''final_classification'') \<in> set closed_classifications"
    unfolding draft_key_def Let_def
    by (rule key_in_status [OF _ plain_drafts assms(1,2)]) (simp add: assms(2))
  let ?dc = "dc\<lparr>dp_request := evaluate_dedupe ?rq rs\<rparr>"
  have keyed: "keyed root ''create_draft_pr'' (draft_key dc) (dp_request ?dc)"
    using dd plain_drafts assms(1,2) by (simp add: keyed_def evaluate_dedupe_def draft_key_def Let_def)
  let ?cont = "\<lambda>gh. read_branch_head gh ?dc ''head_branch'' (dp_head dc) ev (\<lambda>head_sha ev1.
           read_branch_head gh ?dc ''base_branch'' (dp_base dc) ev1 (\<lambda>base_sha ev2.
           compare_and_draft gh ?dc al head_sha base_sha ev2))"
  have "quiet (closed root ''create_draft_pr'' (draft_key dc))
      (dedupe_gate (dp_request ?dc) (draft_refusal ?dc ev []) (?cont gh))
      (dedupe_gate (dp_request ?dc) (draft_refusal ?dc ev []) (?cont (gh\<lparr>gh_write := b\<rparr>)))"
  proof (rule dedupe_gate_quiet [OF keyed draft_refusal_attempted])
    show "dedupe_status (dp_request ?dc) \<in> {DEDUPE_CONFLICTING_PRIOR_INTENT, DEDUPE_PRECONDITION_CHANGED,
        DEDUPE_UNKNOWN_NEEDS_HUMAN, DEDUPE_REPLAY_SAME_INTENT}"
      by (rule closed_status [OF cl]) (simp add: dd, simp)
    assume "is_replay (dp_request ?dc)"
    from compare_and_draft_quiet [OF keyed this assms(3)] show
      "quiet (closed root ''create_draft_pr'' (draft_key dc)) (?cont gh) (?cont (gh\<lparr>gh_write := b\<rparr>))"
      by (intro read_branch_head_quiet [OF plain_drafts assms(3)])
  qed
  from \<open>quiet _ (dedupe_gate _ _ _) _\<close> c rs
  show "draft_on_base (gh\<lparr>gh_write := b\<rparr>) dc al ev w = draft_on_base gh dc al ev w \<and>
      closed root ''create_draft_pr'' (draft_key dc) (snd (draft_on_base gh dc al ev w)) \<and>
      (\<forall>r. fst (draft_on_base gh dc al ev w) = Inr r \<longrightarrow> get r ''attempted'' = PBool False)"
    by (simp add: draft_on_base_def run_bind_def quiet_def run_return_def Let_def)
qed

text \<open>A program whose success leaves a condition behind.\<close>

definition achieves :: "(world \<Rightarrow> bool) \<Rightarrow> dict run \<Rightarrow> bool" where
  "achieves P m = (\<forall>w r w'. m w = (Inr r, w') \<longrightarrow> get r ''succeeded'' = PBool True \<longrightarrow> P w')"

named_theorems achieves_rules "what the success of a program leaves behind"

lemma achieves_return [achieves_rules]:
  "get r ''succeeded'' = PBool False \<Longrightarrow> achieves P (run_return r)"
  by (simp add: achieves_def)

lemma achieves_if [achieves_rules]:
  "(b \<Longrightarrow> achieves P m) \<Longrightarrow> (\<not> b \<Longrightarrow> achieves P n) \<Longrightarrow> achieves P (if b then m else n)"
  by simp

lemma achieves_option [achieves_rules]:
  "achieves P m \<Longrightarrow> (\<And>x. achieves P (f x)) \<Longrightarrow> achieves P (case v of None \<Rightarrow> m | Some x \<Rightarrow> f x)"
  by (cases v) simp_all

lemma achieves_sum [achieves_rules]:
  "(\<And>x. achieves P (f x)) \<Longrightarrow> (\<And>x. achieves P (g x)) \<Longrightarrow>
     achieves P (case v of Inl x \<Rightarrow> f x | Inr x \<Rightarrow> g x)"
  by (cases v) simp_all

lemma achieves_bind: "(\<And>x. achieves P (f x)) \<Longrightarrow> achieves P (run_bind m f)"
  unfolding achieves_def by (auto simp: run_simps)

lemma achieves_receipt:
  assumes "keyed root a key rq" and "c \<in> set cs" and "set cs \<subseteq> set final_classifications"
  shows "achieves (key_in cs root a key)
    (run_bind (persist_write_receipt rq c ex resp obs pre) (\<lambda>_. run_return r))"
  unfolding achieves_def
proof (intro allI impI)
  fix w r' w' assume "run_bind (persist_write_receipt rq c ex resp obs pre) (\<lambda>_. run_return r) w = (Inr r', w')"
  then have p: "persist_write_receipt rq c ex resp obs pre w = (Inr (), w')" by (auto simp: run_simps)
  from assms(1) obtain dd where dd: "wq_store rq = Some root" "wq_dedupe rq = Some dd" "wq_action rq = a"
    "plain_action a" "dd_key dd = key" "key \<noteq> []" "strip key = key" by (auto simp: keyed_def)
  have "normalize_final_classification (PStr c) \<in> set cs" by (rule classification_in [OF assms(3,2)])
  from persist_write_receipt_key [OF p dd(1,2) _ _ _ this, unfolded dd(3,5), OF dd(4,7,6)]
  show "key_in cs root a key w'" by simp
qed

lemma achieves_gate:
  assumes "achieves P m" and "\<And>reason. get (refusal reason) ''succeeded'' = PBool False"
  shows "achieves P (dedupe_gate rq refusal m)"
  unfolding dedupe_gate_def Let_def
  by (intro achieves_rules achieves_bind assms)

lemma draft_refusal_succeeded [simp]: "get (draft_refusal dc ev cs reason) ''succeeded'' = PBool False"
  by (simp add: draft_refusal_def)

lemma find_and_draft_achieves:
  assumes "keyed root a key (dp_request dc)"
  shows "achieves (closed root a key) (find_and_draft gh dc al bh ev cs)"
proof -
  note receipt = achieves_receipt [OF assms _ known_classes(1)]
  have "achieves (closed root a key) (existing_pr dc bh ev cs st d)" for ev cs st d
    unfolding existing_pr_def Let_def by (intro achieves_bind receipt closed_members)
  moreover have perform: "achieves (closed root a key) (perform_draft gh dc bh ev cs st)" for ev cs st
    unfolding perform_draft_def Let_def
    by (intro achieves_bind achieves_if receipt closed_members achieves_return) simp
  have "achieves (closed root a key) (check_and_draft gh dc al bh ev cs st m)" for ev cs st m
    unfolding check_and_draft_def Let_def
    by (intro achieves_bind achieves_rules perform draft_refusal_succeeded)
  ultimately show ?thesis
    unfolding find_and_draft_def Let_def
    by (intro achieves_bind achieves_rules draft_refusal_succeeded)
qed

lemma draft_on_base_achieves:
  assumes "wq_store (dp_request dc) = Some root" and "wq_action (dp_request dc) = ''create_draft_pr''"
  shows "achieves (closed root ''create_draft_pr'' (draft_key dc)) (draft_on_base gh dc al ev)"
proof -
  have keyed: "keyed root ''create_draft_pr'' (draft_key dc)
      (dp_request (dc\<lparr>dp_request := evaluate_dedupe (dp_request dc) rs\<rparr>))" for rs
    using plain_drafts assms by (simp add: keyed_def evaluate_dedupe_def draft_key_def Let_def)
  show ?thesis
    unfolding draft_on_base_def Let_def read_branch_head_def compare_and_draft_def
    by (intro achieves_rules achieves_bind achieves_gate find_and_draft_achieves keyed draft_refusal_succeeded)
qed

text \<open>Running a program again and again, whatever it answers.\<close>

definition again :: "'a run \<Rightarrow> nat \<Rightarrow> world \<Rightarrow> world" where
  "again m n w = ((\<lambda>w. snd (m w)) ^^ n) w"

lemma quiet_again:
  assumes "quiet P m m'" and "P w"
  shows "P (again m n w) \<and> m' (again m n w) = m (again m n w) \<and>
    (\<forall>r. fst (m (again m n w)) = Inr r \<longrightarrow> get r ''attempted'' = PBool False)"
proof -
  have "P (again m n w)"
    using assms by (induction n) (auto simp: again_def quiet_def)
  with assms(1) show ?thesis by (auto simp: quiet_def)
qed

text \<open>C9. A draft is created once: after a creation that succeeded, however often the same draft is
  asked for again, with whatever comes back from GitHub, the write backend is not called (any other
  would do as well) and no result claims an attempt.\<close>

theorem draft_pr_is_created_once:
  assumes "create_draft_pr gh (Some root) al job repo branch (Some base) title body w = (Inr r, w1)"
    and "get r ''succeeded'' = PBool True" and "strip base \<noteq> []"
    and "reads_keep gh (receipts_path root ''create_draft_pr'')"
  defines "call \<equiv> \<lambda>gh. create_draft_pr gh (Some root) al job repo branch (Some base) title body"
  shows "call (gh\<lparr>gh_write := other\<rparr>) (again (call gh) n w1) = call gh (again (call gh) n w1) \<and>
    (\<forall>r'. fst (call gh (again (call gh) n w1)) = Inr r' \<longrightarrow> get r' ''attempted'' = PBool False)"
proof -
  define dc where "dc = draft_call_of (Some root) (strip job) (strip repo) (strip branch) (strip base)
    (strip title) (strip body)"
  have dc: "wq_store (dp_request dc) = Some root" "wq_action (dp_request dc) = ''create_draft_pr''"
    by (simp_all add: dc_def draft_call_of_def)
  have body: "call gh = (if strip repo = [] then run_return (draft_refusal dc [] [] ''repository_missing'')
      else if dp_head dc = [] then run_return (draft_refusal dc [] [] ''head_branch_missing'')
      else if dp_title dc = [] then run_return (draft_refusal dc [] [] ''pr_title_missing'')
      else draft_on_base gh dc al [])" for gh
    using assms(3) by (simp add: call_def create_draft_pr_def dc_def Let_def)
  have "achieves (closed root ''create_draft_pr'' (draft_key dc)) (call gh)"
    unfolding body by (intro achieves_rules draft_on_base_achieves dc draft_refusal_succeeded)
  with assms(1,2) have "closed root ''create_draft_pr'' (draft_key dc) w1"
    unfolding achieves_def call_def by blast
  moreover have "quiet (closed root ''create_draft_pr'' (draft_key dc)) (call gh) (call (gh\<lparr>gh_write := other\<rparr>))"
    unfolding body by (intro quiet_rules draft_on_base_quiet dc assms(4) draft_refusal_attempted)
  ultimately show ?thesis using quiet_again by blast
qed

section \<open>Updates\<close>

lemma update_result_flags [simp]:
  "get (update_result uc att succ reason url t bd bs ev) ''attempted'' = PBool att"
  "get (update_result uc att succ reason url t bd bs ev) ''succeeded'' = PBool succ"
  by (simp_all add: update_result_def)

lemma update_failure_flags [simp]:
  "get (update_failure uc att ev cs reason) ''attempted'' = PBool att"
  "get (update_failure uc att ev cs reason) ''succeeded'' = PBool False"
  "get (update_refusal uc ev reason) ''attempted'' = PBool False"
  "get (update_refusal uc ev reason) ''succeeded'' = PBool False"
  by (simp_all add: update_failure_def update_refusal_def)

definition update_key :: "update_call \<Rightarrow> string" where
  "update_key uc =
     (let rq = uc_request uc in stable_idempotency_key (wq_job rq) (wq_action rq) (wq_target rq)
       (stable_intent_fingerprint (wq_intent rq)))"

lemma read_and_update_quiet:
  assumes "keyed root a key (uc_request uc)" and "is_replay (uc_request uc)"
    and "reads_keep gh (receipts_path root a)"
  shows "quiet (closed root a key) (read_and_update gh uc) (read_and_update (gh\<lparr>gh_write := b\<rparr>) uc)"
proof -
  have a: "plain_action a" using assms(1) by (simp add: keyed_def)
  have "quiet (closed root a key) (compare_and_update gh uc cur st m sha ev)
      (compare_and_update (gh\<lparr>gh_write := b\<rparr>) uc cur st m sha ev)" for cur st m sha ev
    unfolding compare_and_update_def Let_def
    by (intro quiet_rules replay_write_receipt_closed [OF assms(1)]; simp add: assms(2))
  then show ?thesis
    unfolding read_and_update_def Let_def other_write
    by (intro quiet_rules read_closed [OF assms(3) a] update_failure_flags)
qed

lemma read_and_update_achieves:
  assumes "keyed root a key (uc_request uc)"
  shows "achieves (closed root a key) (read_and_update gh uc)"
proof -
  note receipt = achieves_receipt [OF assms _ known_classes(1)]
  have "write_classification d \<in> set closed_classifications" for d
    by (simp add: write_classification_def closed_classifications_def done_classifications_def Let_def)
  then have "achieves (closed root a key) (perform_update gh uc cur pp facts pre ev cs)" for cur pp facts pre ev cs
    unfolding perform_update_def Let_def
    by (intro achieves_bind achieves_if receipt achieves_return) simp
  then have "achieves (closed root a key) (compare_and_update gh uc cur st m sha ev)" for cur st m sha ev
    unfolding compare_and_update_def Let_def
    by (intro achieves_bind achieves_if receipt closed_members achieves_return) simp_all
  then show ?thesis
    unfolding read_and_update_def Let_def
    by (intro achieves_rules achieves_bind update_failure_flags)
qed

text \<open>The gated part of an update, as \<open>update_pull_request\<close> runs it.\<close>

definition gated_update :: "github \<Rightarrow> update_call \<Rightarrow> dict run" where
  "gated_update gh uc =
     run_bind (run_try (prior_records (uc_request uc))) (\<lambda>prior.
     case prior of
       Inl _ \<Rightarrow> run_return (update_refusal uc [] ''write_receipt_store_unavailable_or_corrupt'')
     | Inr records \<Rightarrow>
         let uc1 = uc\<lparr>uc_request := evaluate_dedupe (uc_request uc) records\<rparr> in
         dedupe_gate (uc_request uc1) (update_refusal uc1 []) (read_and_update gh uc1))"

lemma gated_update_quiet:
  assumes "wq_store (uc_request uc) = Some root" and "wq_action (uc_request uc) = ''update_existing_pr''"
    and "reads_keep gh (receipts_path root ''update_existing_pr'')"
  shows "quiet (closed root ''update_existing_pr'' (update_key uc)) (gated_update gh uc)
    (gated_update (gh\<lparr>gh_write := b\<rparr>) uc)"
  unfolding quiet_def
proof (intro allI impI)
  fix w assume c: "closed root ''update_existing_pr'' (update_key uc) w"
  let ?rq = "uc_request uc"
  from c obtain rs r where rs: "prior_records ?rq w = (Inr rs, w)"
    and dd: "wq_dedupe (evaluate_dedupe ?rq rs) = Some \<lparr>dd_status = prior_status r, dd_key = update_key uc,
       dd_fingerprint = stable_intent_fingerprint (wq_intent ?rq), dd_matched = Some r, dd_conflicting = None\<rparr>"
    and cl: "normalize_final_classification (get r ''final_classification'') \<in> set closed_classifications"
    unfolding update_key_def Let_def
    by (rule key_in_status [OF _ plain_updates assms(1,2)]) (simp add: assms(2))
  let ?uc = "uc\<lparr>uc_request := evaluate_dedupe ?rq rs\<rparr>"
  have keyed: "keyed root ''update_existing_pr'' (update_key uc) (uc_request ?uc)"
    using dd plain_updates assms(1,2) by (simp add: keyed_def evaluate_dedupe_def update_key_def Let_def)
  have "quiet (closed root ''update_existing_pr'' (update_key uc))
      (dedupe_gate (uc_request ?uc) (update_refusal ?uc []) (read_and_update gh ?uc))
      (dedupe_gate (uc_request ?uc) (update_refusal ?uc []) (read_and_update (gh\<lparr>gh_write := b\<rparr>) ?uc))"
  proof (rule dedupe_gate_quiet [OF keyed update_failure_flags(3)])
    show "dedupe_status (uc_request ?uc) \<in> {DEDUPE_CONFLICTING_PRIOR_INTENT, DEDUPE_PRECONDITION_CHANGED,
        DEDUPE_UNKNOWN_NEEDS_HUMAN, DEDUPE_REPLAY_SAME_INTENT}"
      by (rule closed_status [OF cl]) (simp add: dd, simp)
    assume "is_replay (uc_request ?uc)"
    then show "quiet (closed root ''update_existing_pr'' (update_key uc)) (read_and_update gh ?uc)
        (read_and_update (gh\<lparr>gh_write := b\<rparr>) ?uc)"
      by (rule read_and_update_quiet [OF keyed _ assms(3)])
  qed
  with c rs show "gated_update (gh\<lparr>gh_write := b\<rparr>) uc w = gated_update gh uc w \<and>
      closed root ''update_existing_pr'' (update_key uc) (snd (gated_update gh uc w)) \<and>
      (\<forall>r. fst (gated_update gh uc w) = Inr r \<longrightarrow> get r ''attempted'' = PBool False)"
    by (simp add: gated_update_def run_bind_def run_try_def quiet_def Let_def)
qed

lemma gated_update_achieves:
  assumes "wq_store (uc_request uc) = Some root" and "wq_action (uc_request uc) = ''update_existing_pr''"
  shows "achieves (closed root ''update_existing_pr'' (update_key uc)) (gated_update gh uc)"
proof -
  have "keyed root ''update_existing_pr'' (update_key uc)
      (uc_request (uc\<lparr>uc_request := evaluate_dedupe (uc_request uc) rs\<rparr>))" for rs
    using plain_updates assms by (simp add: keyed_def evaluate_dedupe_def update_key_def Let_def)
  then show ?thesis
    unfolding gated_update_def Let_def
    by (intro achieves_rules achieves_bind achieves_gate read_and_update_achieves update_failure_flags)
qed

text \<open>C23. An update is written once: after an update that succeeded, asking for the same again never calls
  the write backend, not even when the pull request was changed back in between: the update is then
  refused for a changed precondition.\<close>

theorem pr_update_is_written_once:
  assumes "update_pull_request gh (Some root) job repo number title body base w = (Inr r, w1)"
    and "get r ''succeeded'' = PBool True"
    and "reads_keep gh (receipts_path root ''update_existing_pr'')"
  defines "call \<equiv> \<lambda>gh. update_pull_request gh (Some root) job repo number title body base"
  shows "call (gh\<lparr>gh_write := other\<rparr>) (again (call gh) n w1) = call gh (again (call gh) n w1) \<and>
    (\<forall>r'. fst (call gh (again (call gh) n w1)) = Inr r' \<longrightarrow> get r' ''attempted'' = PBool False)"
proof -
  define uc where "uc = (\<lambda>n. update_call_of (Some root) (strip job) (strip repo) n (requested_update title body base))"
  have uc: "wq_store (uc_request (uc n)) = Some root" "wq_action (uc_request (uc n)) = ''update_existing_pr''" for n
    by (simp_all add: uc_def update_call_of_def)
  have run: "call gh = run_bind (run_res (as_optional_int number)) (\<lambda>n.
      if uc_repo (uc n) = [] then run_return (update_refusal (uc n) [] ''repository_missing'')
      else if n = None \<or> the n \<le> 0
      then run_return (update_refusal (uc n) [] ''pr_number_missing_or_invalid'')
      else if uc_update (uc n) = [] then run_return (update_refusal (uc n) [] ''pr_update_missing_or_invalid'')
      else if has_key (uc_update (uc n)) ''base_branch'' \<and> text_in (uc_update (uc n)) ''base_branch'' = []
      then run_return (update_refusal (uc n) [] ''base_branch_empty_when_explicitly_provided'')
      else gated_update gh (uc n))" for gh
    unfolding call_def update_pull_request_def gated_update_def Let_def uc_def
    by (simp add: update_call_of_def)
  have "\<exists>m. as_optional_int number = Inr m"
    using assms(1) by (auto simp: update_pull_request_def run_simps)
  then obtain m where m: "as_optional_int number = Inr m" ..
  have body: "call gh = (if uc_repo (uc m) = [] then run_return (update_refusal (uc m) [] ''repository_missing'')
      else if m = None \<or> the m \<le> 0
      then run_return (update_refusal (uc m) [] ''pr_number_missing_or_invalid'')
      else if uc_update (uc m) = [] then run_return (update_refusal (uc m) [] ''pr_update_missing_or_invalid'')
      else if has_key (uc_update (uc m)) ''base_branch'' \<and> text_in (uc_update (uc m)) ''base_branch'' = []
      then run_return (update_refusal (uc m) [] ''base_branch_empty_when_explicitly_provided'')
      else gated_update gh (uc m))" for gh
    unfolding run m by (rule ext) (simp add: run_bind_def run_res_def)
  have "achieves (closed root ''update_existing_pr'' (update_key (uc m))) (call gh)"
    unfolding body by (intro achieves_rules gated_update_achieves uc update_failure_flags)
  with assms(1,2) have "closed root ''update_existing_pr'' (update_key (uc m)) w1"
    unfolding achieves_def call_def by blast
  moreover have "quiet (closed root ''update_existing_pr'' (update_key (uc m))) (call gh) (call (gh\<lparr>gh_write := other\<rparr>))"
    unfolding body by (intro quiet_rules gated_update_quiet uc assms(3) update_failure_flags)
  ultimately show ?thesis using quiet_again by blast
qed

section \<open>Examples\<close>

text \<open>A GitHub that answers every question with one and the same object.\<close>

definition replying :: "dict \<Rightarrow> github" where
  "replying answer =
     \<lparr>gh_read = (\<lambda>op args. run_return answer), gh_pull_request = (\<lambda>repo n. run_return (Inr [])),
      gh_write = (\<lambda>op args. run_return answer), gh_git = (\<lambda>repo args. run_return (0, [], [])),
      gh_expanduser = (\<lambda>s. s)\<rparr>"

definition demo_answer :: "bool \<Rightarrow> dict" where
  "demo_answer matched =
     [(''status'', PStr ''success''), (''data'', PDict
        [(''exists'', PBool True), (''head_sha'', PStr ''abc''), (''comparison_status'', PStr ''ahead''),
         (''matched'', PBool matched), (''match_count'', PInt 1), (''pr'', PDict [(''number'', PInt 7)]),
         (''commit_sha'', PStr ''abc''), (''pr_state'', PStr ''open''), (''mergeable_state'', PStr ''clean''),
         (''checks_state'', PStr ''passing''), (''pr_head_ref'', PStr ''f''), (''pr_base_ref'', PStr ''main''),
         (''merged'', PBool True), (''merge_commit_sha'', PStr ''def'')])]"

lemma replying_reads:
  "gh_read (replying d) op args w = (Inr d, w)" "gh_write (replying d) op args w = (Inr d, w)"
  "gh_pull_request (replying d) repo n w = (Inr (Inr []), w)" "reads_keep (replying d) p"
  by (simp_all add: replying_def run_return_def reads_keep_def keeps_def same_files_def)

lemma demo_answers:
  "list_all (\<lambda>m. let p = demo_answer m; d = result_data p; pr = mapping_or_empty (get d ''pr'') in
     result_status p = ''success'' \<and> get d ''exists'' = PBool True \<and> text_in d ''head_sha'' = ''abc'' \<and>
     normalize_text ''unknown'' (get d ''comparison_status'') = ''ahead'' \<and> truthy (get d ''matched'') = m \<and>
     as_optional_int (get d ''match_count'') = Inr (Some 1) \<and> as_optional_int (get pr ''number'') = Inr (Some 7) \<and>
     pr_view_of p = \<lparr>pv_commit_sha = ''abc'', pv_state = ''open'', pv_draft = False, pv_merged = False,
       pv_mergeable = ''clean'', pv_checks = ''passing'', pv_head_ref = ''f'', pv_base_ref = ''main''\<rparr> \<and>
     truthy (get d ''merged'') \<and> text_in d ''merge_commit_sha'' = ''def'' \<and>
     status_gate failed missing p = None) [True, False]"
  by code_simp

lemma demo_answer_facts:
  "result_status (demo_answer m) = ''success''" "get (result_data (demo_answer m)) ''exists'' = PBool True"
  "text_in (result_data (demo_answer m)) ''head_sha'' = ''abc''"
  "normalize_text ''unknown'' (get (result_data (demo_answer m)) ''comparison_status'') = ''ahead''"
  "truthy (get (result_data (demo_answer m)) ''matched'') = m"
  "as_optional_int (get (result_data (demo_answer m)) ''match_count'') = Inr (Some 1)"
  "as_optional_int (get (mapping_or_empty (get (result_data (demo_answer m)) ''pr'')) ''number'') = Inr (Some 7)"
  "pr_view_of (demo_answer m) = \<lparr>pv_commit_sha = ''abc'', pv_state = ''open'', pv_draft = False, pv_merged = False,
     pv_mergeable = ''clean'', pv_checks = ''passing'', pv_head_ref = ''f'', pv_base_ref = ''main''\<rparr>"
  "truthy (get (result_data (demo_answer m)) ''merged'')"
  "text_in (result_data (demo_answer m)) ''merge_commit_sha'' = ''def''"
  "status_gate failed missing (demo_answer m) = None"
  using demo_answers [of failed missing] unfolding Let_def by (cases m; simp)+

text \<open>A program that returns a result with a property from a state on.\<close>

definition yields :: "(dict \<Rightarrow> bool) \<Rightarrow> dict run \<Rightarrow> world \<Rightarrow> bool" where
  "yields C m w = (\<exists>r w'. m w = (Inr r, w') \<and> C r)"

abbreviation succeeds :: "dict run \<Rightarrow> world \<Rightarrow> bool" where
  "succeeds \<equiv> yields (\<lambda>r. get r ''succeeded'' = PBool True)"

lemma run_bind_res: "run_bind (run_res (Inr x)) f = f x"
  by (rule ext) (simp add: run_bind_def run_res_def)

lemma yields_bind: "m w = (Inr x, w1) \<Longrightarrow> yields C (run_bind m f) w = yields C (f x) w1"
  by (simp add: yields_def run_bind_def)

lemma yields_return [simp]: "yields C (run_return r) w = C r"
  by (simp add: yields_def)

lemmas succeeds_bind = yields_bind [THEN iffD2]

text \<open>A directory of receipts in which a kind of write has none yet.\<close>

definition no_receipts :: "path \<Rightarrow> string \<Rightarrow> world \<Rightarrow> bool" where
  "no_receipts root a w =
     (wd_files w root \<in> {None, Some Directory} \<and> wd_files w (child root (a @ ''.json'')) = None \<and>
      wd_files w (child root (a @ ''.json.lock'')) = None)"

lemma first_persist:
  assumes "keyed root a key rq" and "no_receipts root a w"
  shows "\<exists>w'. persist_write_receipt rq c ex resp obs pre w = (Inr (), w')"
proof -
  from assms(1) obtain dd where dd: "wq_store rq = Some root" "wq_dedupe rq = Some dd" "plain_action a"
    "wq_action rq = a" "strip (dd_key dd) = dd_key dd" "dd_key dd \<noteq> []" by (auto simp: keyed_def)
  let ?w = "w\<lparr>wd_ticks := Suc (wd_ticks w)\<rparr>"
  have "\<exists>r w'. persist_record root a (dd_key dd) payload t ?w = (Inr r, w')" for payload t
    by (rule first_receipt_is_stored [OF dd(3,5,6)]) (use assms(2) in \<open>simp_all add: no_receipts_def\<close>)
  then have "\<exists>w'. run_bind (persist_record root a (dd_key dd) payload t) (\<lambda>_. run_return ()) ?w = (Inr (), w')"
    for payload t unfolding run_bind_Inr_iff by simp blast
  moreover have "run_bind run_now f w = f (wd_clock w (wd_ticks w)) ?w" for f :: "datetime \<Rightarrow> unit run"
    by (simp add: run_bind_def run_now_def)
  ultimately show ?thesis
    unfolding persist_write_receipt_def dd by (simp only: option.case prod.case)
qed

lemma yields_receipt:
  assumes "keyed root a key rq" and "no_receipts root a w" and "C r"
  shows "yields C (run_bind (persist_write_receipt rq c ex resp obs pre) (\<lambda>_. run_return r)) w"
proof -
  obtain w' where "persist_write_receipt rq c ex resp obs pre w = (Inr (), w')"
    using first_persist [OF assms(1,2)] by blast
  then show ?thesis by (simp add: yields_bind assms(3))
qed

text \<open>The gate on earlier writes lets a first write through.\<close>

lemma first_dedupe: "wq_dedupe (evaluate_dedupe rq []) = Some \<lparr>dd_status = DEDUPE_FIRST_ATTEMPT,
    dd_key = stable_idempotency_key (wq_job rq) (wq_action rq) (wq_target rq) (stable_intent_fingerprint (wq_intent rq)),
    dd_fingerprint = stable_intent_fingerprint (wq_intent rq), dd_matched = None, dd_conflicting = None\<rparr>"
  by (simp add: evaluate_dedupe_def evaluate_write_dedupe_status_def Let_def)

lemma first_gate:
  "dedupe_gate (evaluate_dedupe rq []) refusal m = m" "\<not> is_replay (evaluate_dedupe rq [])"
proof -
  have "dedupe_status (evaluate_dedupe rq []) = DEDUPE_FIRST_ATTEMPT"
    unfolding dedupe_status_def first_dedupe by simp code_simp
  then show "dedupe_gate (evaluate_dedupe rq []) refusal m = m" "\<not> is_replay (evaluate_dedupe rq [])"
    by (simp_all add: dedupe_gate_def is_replay_def dedupe_statuses)
qed

lemma first_write:
  assumes "wq_store rq = Some root" and "plain_action (wq_action rq)" and "no_receipts root (wq_action rq) w"
  shows "prior_records rq w = (Inr [], w)" and "\<exists>key. keyed root (wq_action rq) key (evaluate_dedupe rq [])"
proof -
  note path = plain_action_path [OF assms(2)]
  have "strip (wq_action rq) = wq_action rq" "wq_action rq \<noteq> []" using assms(2) by (simp_all add: plain_action_def)
  then show "prior_records rq w = (Inr [], w)"
    using assms(3)
    by (simp add: no_receipts_def prior_records_def assms(1) list_records_def load_receipts_def run_bind_def run_files_def
        run_res_def run_return_def read_action_payload_def exists_path_def load_action_def path)
  show "\<exists>key. keyed root (wq_action rq) key (evaluate_dedupe rq [])"
    unfolding keyed_def first_dedupe using assms(1,2) by (simp add: evaluate_dedupe_def)
qed

lemma draft_succeeds:
  assumes "wq_store (dp_request dc) = Some root" and "wq_action (dp_request dc) = ''create_draft_pr''"
    and "no_receipts root (wq_action (dp_request dc)) w" and "dp_head dc \<noteq> dp_base dc"
  shows "succeeds (draft_on_base (replying (demo_answer m)) dc al ev) w"
proof -
  let ?gh = "replying (demo_answer m)"
  define dc1 where "dc1 = dc\<lparr>dp_request := evaluate_dedupe (dp_request dc) []\<rparr>"
  have dc1: "dp_request dc1 = evaluate_dedupe (dp_request dc) []" by (simp add: dc1_def)
  have plain: "plain_action (wq_action (dp_request dc))" using plain_drafts assms(2) by simp
  note first = first_write [OF assms(1) plain assms(3)]
  from first(2) obtain key where keyed: "keyed root (wq_action (dp_request dc)) key (dp_request dc1)" by (auto simp: dc1)
  note receipt = yields_receipt [OF keyed assms(3)]
  have perform: "succeeds (perform_draft ?gh dc1 bh ev cs st) w" for bh ev cs st
    unfolding perform_draft_def Let_def
    by (rule succeeds_bind, rule replying_reads, simp add: demo_answer_facts run_bind_res, rule receipt, simp)
  have check: "succeeds (check_and_draft ?gh dc1 al bh ev cs st m) w" for bh ev cs st
    unfolding check_and_draft_def Let_def
    by (rule succeeds_bind, rule replying_reads)
       (simp add: demo_answer_facts dc1 first_gate perform [unfolded dc1] blocking_statuses_def missing_statuses_def)
  have existing: "succeeds (existing_pr dc1 bh ev cs st (result_data (demo_answer m))) w" for bh ev cs st
    unfolding existing_pr_def Let_def by (simp add: demo_answer_facts run_bind_res, rule receipt, simp)
  have found: "succeeds (find_and_draft ?gh dc1 al bh ev cs) w" for bh ev cs
    unfolding find_and_draft_def Let_def
    by (rule succeeds_bind, rule replying_reads)
       (use existing check in \<open>auto simp: demo_answer_facts blocking_statuses_def\<close>)
  have compared: "succeeds (compare_and_draft ?gh dc1 al h b ev) w" for h b ev
    unfolding compare_and_draft_def Let_def
    by (rule succeeds_bind, rule replying_reads)
       (simp add: demo_answer_facts found blocking_statuses_def missing_statuses_def)
  have branch: "succeeds (f ''abc'' (ev @ [evidence_item (demo_answer m)])) w \<Longrightarrow>
      succeeds (read_branch_head ?gh dc1 which branch ev f) w" for which branch ev f
    unfolding read_branch_head_def Let_def
    by (rule succeeds_bind, rule replying_reads) (simp add: demo_answer_facts)
  show ?thesis
    unfolding draft_on_base_def Let_def
    by (simp add: assms(4), rule succeeds_bind, rule first(1), simp add: first_gate dc1_def [symmetric])
       (intro branch compared)
qed

text \<open>Where the receipts of the examples are, and the state they start in.\<close>

definition demo_receipts :: path where
  "demo_receipts = \<lparr>path_root = [], path_parts = [''receipts'']\<rparr>"

definition empty_world :: world where
  "empty_world = \<lparr>wd_files = (\<lambda>_. None), wd_dirs = (\<lambda>_. None),
     wd_clock = (\<lambda>_. \<lparr>micros = 0, offset = None\<rparr>), wd_ticks = 0\<rparr>"

definition all_evidence :: draft_allowances where
  "all_evidence = \<lparr>al_compare = False, al_open_pr = False, al_checks = False, al_not_found = False\<rparr>"

definition demo_draft :: "github \<Rightarrow> dict run" where
  "demo_draft gh = create_draft_pr gh (Some demo_receipts) all_evidence ''job-1'' ''o/r'' ''f'' (Some ''main'')
     ''title'' ''body''"

definition demo_update :: "github \<Rightarrow> dict run" where
  "demo_update gh = update_pull_request gh (Some demo_receipts) ''job-1'' ''o/r'' (PInt 7) (Some ''title'') None None"

lemma demo_texts: "list_all (\<lambda>s. strip s = s) [''job-1'', ''o/r'', ''f'', ''main'', ''title'', ''body'', []]"
  by code_simp

lemma demo_draft_succeeds: "succeeds (demo_draft (replying (demo_answer m))) empty_world"
  unfolding demo_draft_def create_draft_pr_def Let_def
  using demo_texts by (simp add: draft_call_of_def draft_succeeds no_receipts_def empty_world_def)

lemma demo_update_succeeds: "succeeds (demo_update (replying (demo_answer False))) empty_world"
proof -
  let ?gh = "replying (demo_answer False)" and ?w = empty_world
  define uc where "uc = update_call_of (Some demo_receipts) ''job-1'' ''o/r'' (Some 7) [(''title'', PStr ''title'')]"
  define uc1 where "uc1 = uc\<lparr>uc_request := evaluate_dedupe (uc_request uc) []\<rparr>"
  have uc1: "uc_update uc1 = [(''title'', PStr ''title'')]" by (simp add: uc1_def uc_def update_call_of_def)
  have store: "wq_store (uc_request uc) = Some demo_receipts" "wq_action (uc_request uc) = ''update_existing_pr''"
    by (simp_all add: uc_def update_call_of_def)
  have none: "no_receipts demo_receipts (wq_action (uc_request uc)) ?w" by (simp add: no_receipts_def empty_world_def)
  have plain: "plain_action (wq_action (uc_request uc))" using plain_updates store by simp
  note first = first_write [OF store(1) plain none]
  from first(2) obtain key where keyed: "keyed demo_receipts (wq_action (uc_request uc)) key (uc_request uc1)"
    by (auto simp: uc1_def)
  note receipt = yields_receipt [OF keyed none]
  have "case pr_preview_of [] of Inl _ \<Rightarrow> False | Inr pp \<Rightarrow> \<not> matches_requested [(''title'', PStr ''title'')] pp"
    by code_simp
  then obtain pp where pp: "pr_preview_of [] = Inr pp" "\<not> matches_requested (uc_update uc1) pp"
    by (auto simp: uc1 split: sum.splits)
  have updated: "list_all (\<lambda>p. (case pr_preview_of (mapping_or_empty (get (result_data p) ''pr'')) of Inl _ \<Rightarrow> False | Inr _ \<Rightarrow> True) \<and>
      \<not> truthy (get (result_data p) ''pr_merged'') \<and> text_in (result_data p) ''pr_state'' = ''open'') [demo_answer False]"
    by code_simp
  then obtain up where up: "pr_preview_of (mapping_or_empty (get (result_data (demo_answer False)) ''pr'')) = Inr up"
    by (auto split: sum.splits)
  have perform: "succeeds (perform_update ?gh uc1 [] pp facts pre ev cs) ?w" for facts pre ev cs
    unfolding perform_update_def Let_def
    by (rule succeeds_bind, rule replying_reads, simp add: demo_answer_facts run_bind_res up split del: if_split, rule receipt, simp)
  have compare: "succeeds (compare_and_update ?gh uc1 [] st m sha ev) ?w" for st m sha ev
    unfolding compare_and_update_def Let_def
    using first_gate(2) pp by (simp add: run_bind_res uc1_def [symmetric] perform) (simp add: uc1_def perform)
  have read: "succeeds (read_and_update ?gh uc1) ?w"
    unfolding read_and_update_def Let_def
    by (rule succeeds_bind, rule replying_reads, use updated in \<open>simp add: demo_answer_facts split del: if_split\<close>)
       (rule succeeds_bind, rule replying_reads, simp add: compare)
  have gate: "dedupe_gate (uc_request uc1) refusal n = n" for refusal n by (simp add: uc1_def first_gate)
  have tried: "run_try (prior_records (uc_request uc)) ?w = (Inr (Inr []), ?w)"
    by (simp add: run_try_def first(1))
  have "succeeds (gated_update ?gh uc) ?w"
    unfolding gated_update_def Let_def
    by (rule succeeds_bind, rule tried) (simp add: uc1_def [symmetric] gate read)
  moreover have "demo_update ?gh = gated_update ?gh uc"
    using demo_texts
    unfolding demo_update_def update_pull_request_def gated_update_def Let_def uc_def
    by (simp add: update_call_of_def requested_update_def List.map_filter_def run_bind_res has_key_def)
  ultimately show ?thesis by simp
qed

text \<open>The examples asked for three times.\<close>

theorem draft_pr_is_created_once_witness:
  "\<exists>r w1 w3. demo_draft (replying (demo_answer False)) empty_world = (Inr r, w1) \<and>
     get r ''succeeded'' = PBool True \<and> w3 = again (demo_draft (replying (demo_answer False))) 2 w1 \<and>
     demo_draft ((replying (demo_answer False))\<lparr>gh_write := \<lambda>op args. run_raise (OSError ''called'')\<rparr>) w3 =
       demo_draft (replying (demo_answer False)) w3"
proof -
  from demo_draft_succeeds obtain r w1 where
    r: "demo_draft (replying (demo_answer False)) empty_world = (Inr r, w1)" "get r ''succeeded'' = PBool True"
    unfolding yields_def by blast
  have base: "strip ''main'' \<noteq> []" by code_simp
  from draft_pr_is_created_once [OF r(1) [unfolded demo_draft_def] r(2) base replying_reads(4)] r
  show ?thesis unfolding demo_draft_def by blast
qed

theorem pr_update_is_written_once_witness:
  "\<exists>r w1 w3. demo_update (replying (demo_answer False)) empty_world = (Inr r, w1) \<and>
     get r ''succeeded'' = PBool True \<and> w3 = again (demo_update (replying (demo_answer False))) 2 w1 \<and>
     demo_update ((replying (demo_answer False))\<lparr>gh_write := \<lambda>op args. run_raise (OSError ''called'')\<rparr>) w3 =
       demo_update (replying (demo_answer False)) w3"
proof -
  from demo_update_succeeds obtain r w1 where
    r: "demo_update (replying (demo_answer False)) empty_world = (Inr r, w1)" "get r ''succeeded'' = PBool True"
    unfolding yields_def by blast
  from pr_update_is_written_once [OF r(1) [unfolded demo_update_def] r(2) replying_reads(4)] r
  show ?thesis unfolding demo_update_def by blast
qed

end
