(* ===== verification/Merging.thy ===== *)
theory Merging
  imports GitHub_Clients Executing Writing_Once
begin

text \<open>
  When a merge and a rollback are attempted at all, alone and behind the dispatcher.
\<close>

section \<open>What must hold when a write is attempted\<close>

text \<open>A condition that holds whenever a program claims an attempt.\<close>

definition attempts :: "(dict \<Rightarrow> bool) \<Rightarrow> dict run \<Rightarrow> bool" where
  "attempts C m = (\<forall>w r w'. m w = (Inr r, w') \<longrightarrow> truthy (get r ''attempted'') \<longrightarrow> C r)"

named_theorems attempts_rules "what holds when an attempt is claimed"

lemma attempts_return [attempts_rules]:
  "get r ''attempted'' = PBool False \<Longrightarrow> attempts C (run_return r)"
  by (simp add: attempts_def)

lemma attempts_returned: "C r \<Longrightarrow> attempts C (run_return r)"
  by (simp add: attempts_def)

lemma attempts_if [attempts_rules]:
  "(b \<Longrightarrow> attempts C m) \<Longrightarrow> (\<not> b \<Longrightarrow> attempts C n) \<Longrightarrow> attempts C (if b then m else n)"
  by simp

lemma attempts_option [attempts_rules]:
  "(v = None \<Longrightarrow> attempts C m) \<Longrightarrow> (\<And>x. v = Some x \<Longrightarrow> attempts C (f x)) \<Longrightarrow>
     attempts C (case v of None \<Rightarrow> m | Some x \<Rightarrow> f x)"
  by (cases v) simp_all

lemma attempts_bind [attempts_rules]:
  "(\<And>x w w'. m w = (Inr x, w') \<Longrightarrow> attempts C (f x)) \<Longrightarrow> attempts C (run_bind m f)"
  unfolding attempts_def run_bind_Inr_iff by blast

lemma attempts_gate [attempts_rules]:
  assumes "\<And>reason. get (refusal reason) ''attempted'' = PBool False" and "attempts C m"
  shows "attempts C (dedupe_gate rq refusal m)"
  unfolding dedupe_gate_def Let_def by (intro attempts_rules assms)

lemma attemptsD: "attempts C m \<Longrightarrow> m w = (Inr r, w') \<Longrightarrow> truthy (get r ''attempted'') \<Longrightarrow> C r"
  unfolding attempts_def by blast

text \<open>An answer of a backend to an operation.\<close>

definition answered :: "github \<Rightarrow> string \<Rightarrow> dict \<Rightarrow> dict \<Rightarrow> bool" where
  "answered gh op args p = (\<exists>w w'. gh_read gh op args w = (Inr p, w'))"

definition written :: "github \<Rightarrow> string \<Rightarrow> dict \<Rightarrow> dict \<Rightarrow> bool" where
  "written gh op args p = (\<exists>w w'. gh_write gh op args w = (Inr p, w'))"

definition usable :: "dict \<Rightarrow> bool" where
  "usable p = (result_status p \<notin> set blocking_statuses \<union> set missing_statuses)"

lemma status_gate_None: "status_gate failed missing p = None \<Longrightarrow> usable p"
  by (auto simp: status_gate_def usable_def Let_def split: if_splits)

lemma first_reason_None: "first_reason cs = None \<longleftrightarrow> (\<forall>(b, r) \<in> set cs. \<not> b)"
  by (auto simp: first_reason_def find_None_iff)

section \<open>Merges\<close>

lemma merge_refusal_attempted [simp]: "get (merge_refusal mc ev reason) ''attempted'' = PBool False"
  by (simp add: merge_refusal_def merge_result_def)

lemma merge_result_flags [simp]:
  "get (merge_result mc att succ reason sha m c ev) ''attempted'' = PBool att"
  "get (merge_result mc att succ reason sha m c ev) ''succeeded'' = PBool succ"
  "get (merge_result mc att succ reason sha m c ev) ''merge_commit_sha'' = some_text sha"
  "get (merge_result mc att succ reason sha m c ev) ''pr_number'' = opt_int (mc_number mc)"
  by (simp_all add: merge_result_def)

text \<open>What GitHub showed of a pull request that may be merged.\<close>

definition pr_clear :: "github \<Rightarrow> string \<Rightarrow> int option \<Rightarrow> string \<Rightarrow> pr_view \<Rightarrow> bool" where
  "pr_clear gh repo number expected v =
     ((\<exists>p. answered gh ''get_pr_status_summary'' [(''repo'', PStr repo), (''pr_number'', opt_int number)] p \<and>
         usable p \<and> v = pr_view_of p) \<and>
      pv_commit_sha v \<noteq> [] \<and> expected \<in> {[], pv_commit_sha v} \<and> pv_state v \<in> {[], ''open''} \<and>
      \<not> pv_draft v \<and> \<not> pv_merged v \<and> pv_checks v = ''passing'' \<and> pv_mergeable v = ''clean'' \<and>
      pv_head_ref v \<noteq> [] \<and> pv_base_ref v \<noteq> [])"

definition only_open_pr :: "github \<Rightarrow> string \<Rightarrow> int option \<Rightarrow> pr_view \<Rightarrow> bool" where
  "only_open_pr gh repo number v =
     (\<exists>p head_branch. answered gh ''find_open_pr''
         [(''repo'', PStr repo), (''head_branch'', PStr head_branch), (''base_branch'', PStr (pv_base_ref v))] p \<and>
       usable p \<and> ends_with head_branch (pv_head_ref v) \<and> truthy (get (result_data p) ''matched'') \<and>
       as_optional_int (get (result_data p) ''match_count'') = Inr (Some 1) \<and>
       as_optional_int (get (mapping_or_empty (get (result_data p) ''pr'')) ''number'') = Inr number)"

definition ahead_of_base :: "github \<Rightarrow> string \<Rightarrow> string \<Rightarrow> string \<Rightarrow> bool" where
  "ahead_of_base gh repo base sha =
     (\<exists>p. answered gh ''compare_refs'' [(''repo'', PStr repo), (''base'', PStr base), (''head'', PStr sha)] p \<and>
       usable p \<and> normalize_text ''unknown'' (get (result_data p) ''comparison_status'') \<in> {''ahead'', ''diverged''})"

definition base_there :: "github \<Rightarrow> string \<Rightarrow> string \<Rightarrow> bool" where
  "base_there gh repo base =
     (\<exists>p. answered gh ''get_branch_head'' [(''repo'', PStr repo), (''branch'', PStr base)] p \<and> usable p \<and>
       get (result_data p) ''exists'' \<noteq> PBool False \<and> text_in (result_data p) ''head_sha'' \<noteq> [])"

definition merge_written :: "github \<Rightarrow> string \<Rightarrow> int option \<Rightarrow> string \<Rightarrow> dict \<Rightarrow> bool" where
  "merge_written gh repo number sha r =
     (\<exists>p. written gh ''merge_pull_request''
         [(''repo'', PStr repo), (''pr_number'', opt_int number), (''expected_head_sha'', PStr sha),
          (''merge_method'', PStr ''merge'')] p \<and>
       (truthy (get r ''succeeded'') \<longrightarrow>
          result_status p = ''success'' \<and> truthy (get (result_data p) ''merged'') \<and>
          text_in (result_data p) ''merge_commit_sha'' \<noteq> [] \<and>
          get r ''merge_commit_sha'' = PStr (text_in (result_data p) ''merge_commit_sha'')))"

text \<open>A merge that was right to attempt.\<close>

definition clear_merge :: "github \<Rightarrow> string \<Rightarrow> int option \<Rightarrow> string \<Rightarrow> dict \<Rightarrow> bool" where
  "clear_merge gh repo number expected r =
     (\<exists>v. pr_clear gh repo number expected v \<and> only_open_pr gh repo number v \<and>
       base_there gh repo (pv_base_ref v) \<and> ahead_of_base gh repo (pv_base_ref v) (pv_commit_sha v) \<and>
       merge_written gh repo number (pv_commit_sha v) r)"

lemma starts_with_append [simp]: "starts_with (xs @ ys) xs"
  by (induction xs) simp_all

lemma ends_with_append [simp]: "ends_with (xs @ ys) ys" "ends_with ys ys"
  using starts_with_append [of "rev ys" "rev xs"] starts_with_append [of "rev ys" "[]"]
  by (simp_all add: ends_with_def del: starts_with_append)

lemma compare_and_merge_clear:
  assumes "pr_clear gh (mc_repo mc) (mc_number mc) expected v" and "only_open_pr gh (mc_repo mc) (mc_number mc) v"
  shows "attempts (clear_merge gh (mc_repo mc) (mc_number mc) expected) (compare_and_merge gh mc v ev st)"
proof -
  have perform: "attempts (clear_merge gh (mc_repo mc) (mc_number mc) expected) (perform_merge gh mc v ev st cs)"
    if "base_there gh (mc_repo mc) (pv_base_ref v)"
      "ahead_of_base gh (mc_repo mc) (pv_base_ref v) (pv_commit_sha v)" for ev cs
  proof -
    have right: "clear_merge gh (mc_repo mc) (mc_number mc) expected r"
      if "written gh ''merge_pull_request''
         [(''repo'', PStr (mc_repo mc)), (''pr_number'', opt_int (mc_number mc)),
          (''expected_head_sha'', PStr (pv_commit_sha v)), (''merge_method'', PStr ''merge'')] p"
        and "truthy (get r ''succeeded'') \<longrightarrow>
          result_status p = ''success'' \<and> truthy (get (result_data p) ''merged'') \<and>
          text_in (result_data p) ''merge_commit_sha'' \<noteq> [] \<and>
          get r ''merge_commit_sha'' = PStr (text_in (result_data p) ''merge_commit_sha'')" for p r
      unfolding clear_merge_def merge_written_def
      by (intro exI [of _ v] exI [of _ p] conjI assms \<open>base_there _ _ _\<close> \<open>ahead_of_base _ _ _ _\<close> that)
    show ?thesis
      unfolding perform_merge_def Let_def
      by (rule attempts_bind, intro attempts_if attempts_bind attempts_returned right)
         (auto simp: written_def some_text_def)
  qed
  show ?thesis
    unfolding compare_and_merge_def Let_def
    by (intro attempts_rules merge_refusal_attempted perform)
       (auto simp: base_there_def ahead_of_base_def answered_def dest!: status_gate_None)
qed

lemma ends_with_Cons [simp]: "ends_with (xs @ y # ys) ys"
  using ends_with_append(1) [of "xs @ [y]" ys] by simp

lemma only_open_prI:
  "gh_read gh ''find_open_pr'' [(''repo'', PStr repo), (''head_branch'', PStr head_branch),
      (''base_branch'', PStr (pv_base_ref v))] w = (Inr p, w') \<Longrightarrow>
   usable p \<Longrightarrow> ends_with head_branch (pv_head_ref v) \<Longrightarrow> truthy (get (result_data p) ''matched'') \<Longrightarrow>
   as_optional_int (get (result_data p) ''match_count'') = Inr (Some 1) \<Longrightarrow>
   as_optional_int (get (mapping_or_empty (get (result_data p) ''pr'')) ''number'') = Inr number \<Longrightarrow>
   only_open_pr gh repo number v"
  unfolding only_open_pr_def answered_def by blast

lemma identify_and_merge_clear:
  assumes "pr_clear gh (mc_repo mc) (mc_number mc) expected v"
  shows "attempts (clear_merge gh (mc_repo mc) (mc_number mc) expected) (identify_and_merge gh mc v ev)"
  unfolding identify_and_merge_def Let_def
  by (intro attempts_rules merge_refusal_attempted compare_and_merge_clear [OF assms])
     (erule only_open_prI, auto dest!: status_gate_None)

lemma judge_and_merge_clear:
  assumes "answered gh ''get_pr_status_summary'' [(''repo'', PStr (mc_repo mc)), (''pr_number'', opt_int (mc_number mc))] p"
    and "usable p"
  shows "attempts (clear_merge gh (mc_repo mc) (mc_number mc) (mc_expected_sha mc))
    (judge_and_merge gh mc (pr_view_of p) ev)"
proof -
  have already: "attempts C (already_merged mc v ev resp)" for C v ev resp
    unfolding already_merged_def by (intro attempts_rules) simp
  show ?thesis
    unfolding judge_and_merge_def Let_def
  proof (intro attempts_rules merge_refusal_attempted already identify_and_merge_clear)
    assume c: "first_reason (merge_checks mc (pr_view_of p)) = None"
      and m: "first_reason (mergeability_checks (pr_view_of p)) = None" and nm: "\<not> pv_merged (pr_view_of p)"
    from c m have "pv_commit_sha (pr_view_of p) \<noteq> []"
      "mc_expected_sha mc \<in> {[], pv_commit_sha (pr_view_of p)}" "pv_state (pr_view_of p) \<in> {[], ''open''}"
      "\<not> pv_draft (pr_view_of p)" "pv_checks (pr_view_of p) = ''passing''"
      "pv_mergeable (pr_view_of p) = ''clean''" "pv_head_ref (pr_view_of p) \<noteq> []" "pv_base_ref (pr_view_of p) \<noteq> []"
      unfolding first_reason_None merge_checks_def mergeability_checks_def by auto
    with assms nm show "pr_clear gh (mc_repo mc) (mc_number mc) (mc_expected_sha mc) (pr_view_of p)"
      unfolding pr_clear_def by blast
  qed
qed

text \<open>A merge is attempted only on a clear pull request: GitHub showed it open, no draft, unmerged, with
  passing checks, cleanly mergeable and at the expected head, as the one open pull request of its
  branches, with its base there and behind it; the head the write backend is given is the head that
  was seen, and success means that the backend answered with a merge commit.\<close>

lemma execute_merge_clear:
  assumes "execute_merge gh store job repo number expected w = (Inr r, w')"
    and "truthy (get r ''attempted'')"
  shows "\<exists>n. as_optional_int number = Inr (Some n) \<and> 0 < n \<and> strip repo \<noteq> [] \<and>
    clear_merge gh (strip repo) (Some n) (normalize_text [] (opt_str expected)) r"
proof -
  from assms(1) obtain number' where number: "as_optional_int number = Inr number'"
    by (auto simp: execute_merge_def run_simps)
  define mc where "mc = merge_call_of store (strip job) (strip repo) number' (normalize_text [] (opt_str expected))"
  have mc: "mc_repo mc = strip repo" "mc_number mc = number'"
    "mc_expected_sha mc = normalize_text [] (opt_str expected)" by (simp_all add: mc_def merge_call_of_def)
  let ?C = "\<lambda>r. number' \<noteq> None \<and> 0 < the number' \<and> strip repo \<noteq> [] \<and>
    clear_merge gh (strip repo) number' (normalize_text [] (opt_str expected)) r"
  have judged: "attempts ?C (judge_and_merge gh (mc\<lparr>mc_request := rq\<rparr>) (pr_view_of p) ev)"
    if "gh_read gh ''get_pr_status_summary'' [(''repo'', PStr (strip repo)), (''pr_number'', opt_int number')] w = (Inr p, w')"
      "status_gate ''pr_status_unavailable'' ''pr_status_missing'' p = None"
      "strip repo \<noteq> []" "\<not> (number' = None \<or> the number' \<le> 0)" for rq p ev w w'
  proof -
    have "answered gh ''get_pr_status_summary'' [(''repo'', PStr (mc_repo (mc\<lparr>mc_request := rq\<rparr>))),
        (''pr_number'', opt_int (mc_number (mc\<lparr>mc_request := rq\<rparr>)))] p"
      using that(1) by (auto simp: answered_def mc)
    from judge_and_merge_clear [OF this status_gate_None [OF that(2)]] that(3,4)
    show ?thesis by (simp add: mc attempts_def)
  qed
  have "attempts ?C (execute_merge gh store job repo number expected)"
    unfolding execute_merge_def Let_def number
    unfolding run_bind_res mc_def [symmetric]
    by (intro attempts_rules merge_refusal_attempted) (rule judged, auto)
  from attemptsD [OF this assms] number show ?thesis by auto
qed

section \<open>A merge of the example\<close>

lemma usable_gate: "usable p \<Longrightarrow> status_gate failed missing p = None"
  by (auto simp: status_gate_def usable_def Let_def)

text \<open>A GitHub that shows pull request 7 clear, and confirms its merge.\<close>

definition demo_view :: pr_view where
  "demo_view = \<lparr>pv_commit_sha = ''abc'', pv_state = ''open'', pv_draft = False, pv_merged = False,
     pv_mergeable = ''clean'', pv_checks = ''passing'', pv_head_ref = ''f'', pv_base_ref = ''main''\<rparr>"

definition demo_query :: "string \<Rightarrow> dict" where
  "demo_query op = (''repo'', PStr ''o/r'') #
     (if op = ''get_pr_status_summary'' then [(''pr_number'', PInt 7)]
      else if op = ''find_open_pr'' then [(''head_branch'', PStr ''o:f''), (''base_branch'', PStr ''main'')]
      else if op = ''get_branch_head'' then [(''branch'', PStr ''main'')]
      else if op = ''compare_refs'' then [(''base'', PStr ''main''), (''head'', PStr ''abc'')]
      else [(''pr_number'', PInt 7), (''expected_head_sha'', PStr ''abc''), (''merge_method'', PStr ''merge'')])"

definition clear_answer :: "string \<Rightarrow> dict \<Rightarrow> bool" where
  "clear_answer op p =
     (let d = result_data p in
      if op = ''get_pr_status_summary'' then usable p \<and> pr_view_of p = demo_view
      else if op = ''find_open_pr''
      then usable p \<and> truthy (get d ''matched'') \<and> as_optional_int (get d ''match_count'') = Inr (Some 1) \<and>
        as_optional_int (get (mapping_or_empty (get d ''pr'')) ''number'') = Inr (Some 7)
      else if op = ''get_branch_head''
      then usable p \<and> get d ''exists'' = PBool True \<and> text_in d ''head_sha'' \<noteq> []
      else if op = ''compare_refs''
      then usable p \<and> normalize_text ''unknown'' (get d ''comparison_status'') = ''ahead''
      else result_status p = ''success'' \<and> truthy (get d ''merged'') \<and> text_in d ''merge_commit_sha'' \<noteq> [])"

definition shows_clear :: "github \<Rightarrow> (string \<Rightarrow> dict) \<Rightarrow> bool" where
  "shows_clear gh answer =
     (list_all (\<lambda>op. (\<forall>w. gh_read gh op (demo_query op) w = (Inr (answer op), w)) \<and> clear_answer op (answer op))
        [''get_pr_status_summary'', ''find_open_pr'', ''get_branch_head'', ''compare_refs''] \<and>
      (\<forall>w. gh_write gh ''merge_pull_request'' (demo_query ''merge_pull_request'') w =
         (Inr (answer ''merge_pull_request''), w)) \<and>
      clear_answer ''merge_pull_request'' (answer ''merge_pull_request''))"

lemma clear_merge_goes_through:
  assumes none: "no_receipts root ''bounded_merge'' w" and clear: "shows_clear gh answer"
  shows "yields (\<lambda>r. get r ''attempted'' = PBool True \<and> get r ''succeeded'' = PBool True \<and> get r ''pr_number'' = PInt 7)
    (execute_merge gh (Some root) ''job-1'' ''o/r'' (PInt 7) None) w"
proof -
  let ?both = "yields (\<lambda>r. get r ''attempted'' = PBool True \<and> get r ''succeeded'' = PBool True \<and> get r ''pr_number'' = PInt 7)"
  define mc where "mc = merge_call_of (Some root) ''job-1'' ''o/r'' (Some 7) []"
  define mc1 where "mc1 = mc\<lparr>mc_request := evaluate_dedupe (mc_request mc) []\<rparr>"
  have mc1: "mc_number mc1 = Some 7" "mc_expected_sha mc1 = []" "\<not> is_replay (mc_request mc1)" "mc_repo mc1 = ''o/r''"
    by (simp_all add: mc1_def mc_def merge_call_of_def first_gate)
  have rq: "wq_store (mc_request mc) = Some root" "wq_action (mc_request mc) = ''bounded_merge''"
    by (simp_all add: mc_def merge_call_of_def)
  note first = first_write [OF rq(1), unfolded rq(2), OF plain_merges none]
  from first(2) obtain key where keyed: "keyed root ''bounded_merge'' key (mc_request mc1)" by (auto simp: mc1_def)
  note receipt = yields_receipt [OF keyed none]
  have perform: "?both (perform_merge gh mc1 demo_view ev st cs) w" for ev st cs
    using clear by (simp add: perform_merge_def mc1 demo_view_def shows_clear_def demo_query_def clear_answer_def
        yields_bind receipt Let_def)
  have compare: "?both (compare_and_merge gh mc1 demo_view ev st) w" for ev st
    using clear perform [unfolded demo_view_def] by (simp add: compare_and_merge_def mc1 demo_view_def shows_clear_def
        demo_query_def clear_answer_def yields_bind usable_gate Let_def)
  have identify: "?both (identify_and_merge gh mc1 demo_view ev) w" for ev
    using clear compare [unfolded demo_view_def] by (simp add: identify_and_merge_def mc1 demo_view_def shows_clear_def
        demo_query_def clear_answer_def yields_bind usable_gate run_bind_res Let_def)
  have judge: "?both (judge_and_merge gh mc1 demo_view ev) w" for ev
    using identify by (simp add: judge_and_merge_def mc1 merge_checks_def mergeability_checks_def first_reason_def
        Let_def) (simp add: demo_view_def)
  have number: "as_optional_int (PInt 7) = Inr (Some 7)" by code_simp
  show ?thesis
    using demo_texts clear judge unfolding execute_merge_def number
    by (simp add: run_bind_res Let_def mc_def [symmetric] yields_bind [where m = "prior_records (mc_request mc)", OF first(1)] mc1_def [symmetric] first_gate
        shows_clear_def demo_query_def clear_answer_def yields_bind usable_gate)
qed

lemma demo_merge:
  assumes "no_receipts root ''bounded_merge'' w"
  shows "yields (\<lambda>r. get r ''attempted'' = PBool True \<and> get r ''succeeded'' = PBool True \<and> get r ''pr_number'' = PInt 7)
    (execute_merge (replying (demo_answer True)) (Some root) ''job-1'' ''o/r'' (PInt 7) None) w"
proof (rule clear_merge_goes_through [OF assms])
  have "usable (demo_answer True)"
    using demo_answer_facts(11) by (rule status_gate_None)
  then show "shows_clear (replying (demo_answer True)) (\<lambda>_. demo_answer True)"
    by (simp add: shows_clear_def clear_answer_def replying_reads demo_answer_facts demo_view_def Let_def)
qed

end
