(* ===== verification/Rolling_Back.thy ===== *)
theory Rolling_Back
  imports Merging
begin

text \<open>
  When a rollback is attempted: only where the merge left the branch, on GitHub and in the working
  copy; and what its success says.
\<close>

section \<open>The revert in the working copy\<close>

text \<open>A call of \<open>git\<close> that did not fail, and its output.\<close>

definition git_says :: "github \<Rightarrow> string \<Rightarrow> string list \<Rightarrow> string \<Rightarrow> bool" where
  "git_says gh repo args out =
     (\<exists>w w' a. gh_git gh repo args w = (Inr a, w') \<and> \<not> git_failed a \<and> git_output a = out)"

lemma git_says_strip: "git_says gh repo args out \<Longrightarrow> strip out = out"
  by (auto simp: git_says_def)

lemma git_saysI:
  "gh_git gh repo args w = (Inr a, w') \<Longrightarrow> \<not> git_failed a \<Longrightarrow> git_says gh repo args (git_output a)"
  unfolding git_says_def by blast

text \<open>A revert that was right to attempt, and that made a new commit when it succeeded.\<close>

definition clear_revert :: "github \<Rightarrow> string \<Rightarrow> string \<Rightarrow> string \<Rightarrow> rollback_state \<Rightarrow> bool" where
  "clear_revert gh repo ref post_sha st =
     (rb_consistent st \<and> rb_current st = Some post_sha \<and> git_says gh repo [''rev-parse'', ''HEAD''] post_sha \<and>
      git_says gh repo [''rev-parse'', ref] post_sha \<and>
      (\<exists>c. git_says gh repo [''rev-parse'', post_sha @ ''^{commit}''] c) \<and>
      rb_status st \<in> {''failed'', ''succeeded''} \<and>
      (rb_status st = ''succeeded'' \<longrightarrow>
         (\<exists>new. rb_result st = Some new \<and> new \<notin> {[], post_sha} \<and> git_says gh repo [''rev-parse'', ''HEAD''] new)))"

text \<open>A program on rollback states: an attempt is clear, and without one it was skipped.\<close>

definition reverts :: "(rollback_state \<Rightarrow> bool) \<Rightarrow> rollback_state run \<Rightarrow> bool" where
  "reverts C m = (\<forall>w st w'. m w = (Inr st, w') \<longrightarrow>
     (if rb_attempted st then C st else rb_status st = ''skipped''))"

named_theorems reverts_rules "what holds when a revert is attempted"

lemma reverts_skipped [reverts_rules]:
  "\<not> rb_attempted st \<Longrightarrow> rb_status st = ''skipped'' \<Longrightarrow> reverts C (skipped st e)"
  by (simp add: reverts_def skipped_def)

lemma reverts_returned: "rb_attempted st \<Longrightarrow> C st \<Longrightarrow> reverts C (run_return st)"
  by (simp add: reverts_def)

lemma reverts_if [reverts_rules]:
  "(b \<Longrightarrow> reverts C m) \<Longrightarrow> (\<not> b \<Longrightarrow> reverts C n) \<Longrightarrow> reverts C (if b then m else n)"
  by simp

lemma reverts_bind [reverts_rules]:
  "(\<And>x w w'. m w = (Inr x, w') \<Longrightarrow> reverts C (f x)) \<Longrightarrow> reverts C (run_bind m f)"
  unfolding reverts_def run_bind_Inr_iff by blast

lemma revert_merge_clear:
  assumes "rb_current st = Some post_sha" and "git_says gh repo [''rev-parse'', ''HEAD''] post_sha"
    and "git_says gh repo [''rev-parse'', ref] post_sha"
    and "git_says gh repo [''rev-parse'', post_sha @ ''^{commit}''] c"
  shows "reverts (clear_revert gh repo ref post_sha) (revert_merge gh repo post_sha st)"
proof -
  have failed: "clear_revert gh repo ref post_sha s"
    if "rb_consistent s" "rb_current s = rb_current st" "rb_status s = ''failed''" for s
    using assms that by (auto simp: clear_revert_def)
  have fresh: "clear_revert gh repo ref post_sha (st\<lparr>rb_consistent := True, rb_attempted := True,
      rb_status := ''succeeded'', rb_result := Some (git_output h), rb_error := None\<rparr>)"
    if "gh_git gh repo [''rev-parse'', ''HEAD''] w = (Inr h, w')" "\<not> git_failed h"
      "\<not> (git_output h = [] \<or> Some (git_output h) = rb_current st)" for h w w'
  proof -
    from git_saysI [OF that(1,2)] that(3) assms show ?thesis by (auto simp: clear_revert_def)
  qed
  show ?thesis
    unfolding revert_merge_def Let_def
    by (intro reverts_rules reverts_returned)
       (auto intro: failed fresh)
qed

lemma check_and_revert_clear:
  assumes "\<not> rb_attempted st" and "rb_status st = ''skipped''"
  shows "reverts (clear_revert gh repo ref post_sha) (check_and_revert gh repo ref pre_sha post_sha st)"
  unfolding check_and_revert_def Let_def
  by (intro reverts_rules revert_merge_clear) (use assms in \<open>auto intro: git_saysI dest: git_saysI\<close>)

lemma constrained_rollback_clear:
  assumes "execute_constrained_rollback gh repo_path target_ref pre_sha post_sha w = (Inr r, w')"
  obtains t st where "r = rollback_dict t st"
    "if rb_attempted st then clear_revert gh (path_str (path_of (gh_expanduser gh repo_path)))
       (normalize_ref target_ref) (strip post_sha) st else rb_status st = ''skipped''"
proof -
  let ?repo = "path_str (path_of (gh_expanduser gh repo_path))"
  let ?st = "\<lparr>rb_status = ''skipped'', rb_attempted = False, rb_consistent = False, rb_current = None,
    rb_result = None, rb_error = None\<rparr>"
  let ?m = "\<lambda>fs :: files. if fs (path_of (gh_expanduser gh repo_path)) \<noteq> Some Directory
    then skipped ?st (''repo_path is not a directory: '' @ ?repo)
    else check_and_revert gh ?repo (normalize_ref target_ref) (strip pre_sha) (strip post_sha) ?st"
  from assms obtain fs w1 w2 st t where st: "?m fs w1 = (Inr st, w2)" and r: "r = rollback_dict t st"
    unfolding execute_constrained_rollback_def Let_def run_bind_Inr_iff run_return_iff by blast
  have "reverts (clear_revert gh ?repo (normalize_ref target_ref) (strip post_sha)) (?m fs)"
    by (intro reverts_rules check_and_revert_clear) simp_all
  with st have "if rb_attempted st then clear_revert gh ?repo (normalize_ref target_ref) (strip post_sha) st
      else rb_status st = ''skipped''"
    unfolding reverts_def by blast
  with r that show thesis by blast
qed

section \<open>The bounded rollback\<close>

lemma rollback_result_flags [simp]:
  "get (rollback_result lc att succ reason s ev cs) ''attempted'' = PBool att"
  "get (rollback_result lc att succ reason s ev cs) ''succeeded'' = PBool succ"
  "get (rollback_result lc att succ reason s ev cs) ''rollback_result_summary'' = PDict s"
  "get (rollback_refusal lc ev r) ''attempted'' = PBool False"
  by (simp_all add: rollback_result_def rollback_refusal_def)

text \<open>A rollback that was right to attempt: the branch is where the merge left it.\<close>

definition clear_rollback :: "github \<Rightarrow> string \<Rightarrow> string \<Rightarrow> string \<Rightarrow> string \<Rightarrow> string \<Rightarrow> dict \<Rightarrow> bool" where
  "clear_rollback gh repo repo_path branch pre_sha post_sha r =
     ((\<exists>p. answered gh ''get_branch_head'' [(''repo'', PStr repo), (''branch'', PStr branch)] p \<and> usable p \<and>
         text_in (result_data p) ''head_sha'' = post_sha) \<and>
      ahead_of_base gh repo pre_sha post_sha \<and>
      (\<exists>st. clear_revert gh (path_str (path_of (gh_expanduser gh repo_path))) (normalize_ref branch) post_sha st \<and>
         (truthy (get r ''succeeded'') \<longrightarrow> rb_status st = ''succeeded'' \<and>
            get (mapping_or_empty (get r ''rollback_result_summary'')) ''rollback_result_sha'' = opt_str (rb_result st))))"

lemma perform_rollback_clear:
  assumes "answered gh ''get_branch_head'' [(''repo'', PStr (lc_repo lc)), (''branch'', PStr (lc_branch lc))] p"
    and "usable p" and "text_in (result_data p) ''head_sha'' = lc_post_sha lc"
    and "ahead_of_base gh (lc_repo lc) (lc_pre_sha lc) (lc_post_sha lc)" and "strip (lc_post_sha lc) = lc_post_sha lc"
  shows "attempts (clear_rollback gh (lc_repo lc) (lc_repo_path lc) (lc_branch lc) (lc_pre_sha lc) (lc_post_sha lc))
    (perform_rollback gh lc remote_head state ev)"
proof -
  let ?C = "clear_rollback gh (lc_repo lc) (lc_repo_path lc) (lc_branch lc) (lc_pre_sha lc) (lc_post_sha lc)"
  let ?R = "clear_revert gh (path_str (path_of (gh_expanduser gh (lc_repo_path lc)))) (normalize_ref (lc_branch lc)) (lc_post_sha lc)"
  have clear: "?C r" if "?R st" "truthy (get r ''succeeded'') \<Longrightarrow> rb_status st = ''succeeded'' \<and>
      get (mapping_or_empty (get r ''rollback_result_summary'')) ''rollback_result_sha'' = opt_str (rb_result st)" for st r
    unfolding clear_rollback_def using that assms(1-4) by blast
  show ?thesis
    unfolding attempts_def
  proof (intro allI impI)
    fix w r w'
    assume run: "perform_rollback gh lc remote_head state ev w = (Inr r, w')" and att: "truthy (get r ''attempted'')"
    from run obtain d w1 where d: "execute_constrained_rollback gh (lc_repo_path lc) (lc_branch lc) (lc_pre_sha lc)
        (lc_post_sha lc) w = (Inr d, w1)"
      by (auto simp: perform_rollback_def run_bind_Inr_iff)
    obtain t st where st: "d = rollback_dict t st"
      "if rb_attempted st then ?R st else rb_status st = ''skipped''"
      using constrained_rollback_clear [OF d] unfolding assms(5) by blast
    from st(2) have known: "rb_status st \<in> {''skipped'', ''failed'', ''succeeded''}"
      by (auto simp: clear_revert_def split: if_splits)
    have "list_all (\<lambda>s. normalize_text ''failed'' (PStr s) = s) [''skipped'', ''failed'', ''succeeded'']" by code_simp
    with known have status: "normalize_text ''failed'' (get d ''status'') = rb_status st"
      unfolding st(1) by (auto simp: rollback_dict_def simp del: normalize_text_PStr)
    have attempted: "truthy (get d ''attempted'') = rb_attempted st" by (simp add: st(1) rollback_dict_def)
    show "?C r"
    proof (cases "rb_status st = ''succeeded''")
      case False
      with run d status att st(2) show ?thesis
        by (auto simp: perform_rollback_def run_bind_Inr_iff attempted Let_def split: if_splits intro!: clear)
    next
      case True
      with st(2) have R: "?R st" by (simp split: if_splits)
      with True obtain new where new: "rb_result st = Some new" "new \<noteq> []" "strip new = new"
        by (auto simp: clear_revert_def dest: git_says_strip)
      then have "some_text (text_in d ''rollback_result_sha'') = opt_str (rb_result st)"
        by (simp add: st(1) rollback_dict_def text_in_def some_text_def)
      with run d status True R show ?thesis
        by (auto simp: perform_rollback_def run_bind_Inr_iff Let_def rollback_summary_def intro!: clear)
    qed
  qed
qed

lemma judge_and_roll_back_clear:
  assumes "answered gh ''get_branch_head'' [(''repo'', PStr (lc_repo lc)), (''branch'', PStr (lc_branch lc))] p"
    and "usable p" and "strip (lc_post_sha lc) = lc_post_sha lc"
  shows "attempts (clear_rollback gh (lc_repo lc) (lc_repo_path lc) (lc_branch lc) (lc_pre_sha lc) (lc_post_sha lc))
    (judge_and_roll_back gh lc (result_data p) ev)"
proof -
  have "attempts (clear_rollback gh (lc_repo lc) (lc_repo_path lc) (lc_branch lc) (lc_pre_sha lc) (lc_post_sha lc))
      (compare_and_roll_back gh lc h ev)" if "text_in (result_data p) ''head_sha'' = lc_post_sha lc" for h ev
    unfolding compare_and_roll_back_def Let_def
    by (intro attempts_rules rollback_result_flags perform_rollback_clear [OF assms(1,2) that _ assms(3)])
       (auto simp: ahead_of_base_def answered_def dest!: status_gate_None)
  then show ?thesis
    unfolding judge_and_roll_back_def Let_def
    by (intro attempts_rules rollback_result_flags) simp_all
qed

text \<open>C13. A rollback is attempted only where the merge left the branch: GitHub showed the branch at the commit of
  the merge and that commit ahead of the one before; in the working copy \<open>HEAD\<close> and the branch were
  that commit; and success means that the revert left another commit at \<open>HEAD\<close>, the one reported.\<close>

theorem rollback_attempted_only_at_the_merge:
  assumes "execute_rollback gh store job repo repo_path target_ref pre_sha post_sha w = (Inr r, w')"
    and "truthy (get r ''attempted'')"
  shows "strip post_sha \<noteq> [] \<and> clear_rollback gh (strip repo) (strip repo_path) (strip target_ref) (strip pre_sha) (strip post_sha) r"
proof -
  define lc where "lc = rollback_call_of store (strip job) (strip repo) (strip repo_path) (strip target_ref)
    (strip pre_sha) (strip post_sha)"
  have lc: "lc_repo lc = strip repo" "lc_repo_path lc = strip repo_path" "lc_branch lc = strip target_ref"
    "lc_pre_sha lc = strip pre_sha" "lc_post_sha lc = strip post_sha"
    by (simp_all add: lc_def rollback_call_of_def Let_def)
  let ?C = "\<lambda>r. strip post_sha \<noteq> [] \<and>
    clear_rollback gh (strip repo) (strip repo_path) (strip target_ref) (strip pre_sha) (strip post_sha) r"
  have judged: "attempts ?C (judge_and_roll_back gh (lc\<lparr>lc_request := rq\<rparr>) (result_data p) ev)"
    if "gh_read gh ''get_branch_head'' [(''repo'', PStr (lc_repo lc)), (''branch'', PStr (lc_branch lc))] w = (Inr p, w')"
      "status_gate ''branch_lookup_failed'' ''branch_lookup_missing'' p = None" "strip post_sha \<noteq> []" for rq p ev w w'
    using judge_and_roll_back_clear [of gh "lc\<lparr>lc_request := rq\<rparr>" p ev] status_gate_None [OF that(2)] that(1,3)
    by (auto simp: lc answered_def attempts_def)
  have "attempts ?C (execute_rollback gh store job repo repo_path target_ref pre_sha post_sha)"
    unfolding execute_rollback_def Let_def lc_def [symmetric]
    by (intro attempts_rules rollback_result_flags) (rule judged, auto simp: first_reason_None lc)
  from attemptsD [OF this assms] show ?thesis .
qed

section \<open>A rollback of the example\<close>

definition reverted_mark :: path where
  "reverted_mark = \<lparr>path_root = [], path_parts = [''repo'', ''reverted'']\<rparr>"

text \<open>A working copy at the commit of the merge, and at another one once it was reverted.\<close>

definition demo_git :: "string \<Rightarrow> string list \<Rightarrow> git_answer run" where
  "demo_git repo args =
     (if ''revert'' \<in> set args then run_bind (run_write reverted_mark PNone) (\<lambda>_. run_return (0, [], []))
      else run_bind (run_exists reverted_mark) (\<lambda>reverted.
        run_return (0, if reverted then ''def'' else ''abc'', [])))"

definition working_copy_world :: world where
  "working_copy_world =
     empty_world\<lparr>wd_files := (\<lambda>p. if p = path_of ''repo'' then Some Directory else None)\<rparr>"

definition demo_host :: github where
  "demo_host = (replying (demo_answer True))\<lparr>gh_git := demo_git\<rparr>"

lemma demo_constrained_rollback:
  "case execute_constrained_rollback demo_host ''repo'' ''main'' ''before'' ''abc'' working_copy_world of
     (Inl e, w) \<Rightarrow> False
   | (Inr r, w) \<Rightarrow> normalize_text ''failed'' (get r ''status'') = ''succeeded'' \<and> truthy (get r ''attempted'')"
  by code_simp

lemma demo_rollback:
  "yields (\<lambda>r. get r ''attempted'' = PBool True \<and> get r ''succeeded'' = PBool True)
     (execute_rollback demo_host None ''job-1'' ''o/r'' ''repo'' ''main'' ''before'' ''abc'') working_copy_world"
proof -
  let ?both = "yields (\<lambda>r. get r ''attempted'' = PBool True \<and> get r ''succeeded'' = PBool True)"
  let ?w = working_copy_world
  have reads: "gh_read demo_host op args w = (Inr (demo_answer True), w)" for op args w
    by (simp add: demo_host_def replying_reads)
  define lc where "lc = rollback_call_of None ''job-1'' ''o/r'' ''repo'' ''main'' ''before'' ''abc''"
  define lc1 where "lc1 = lc\<lparr>lc_request := evaluate_dedupe (lc_request lc) []\<rparr>"
  have lc1: "lc_repo_path lc1 = ''repo''" "lc_branch lc1 = ''main''" "lc_pre_sha lc1 = ''before''"
    "lc_post_sha lc1 = ''abc''" "\<not> is_replay (lc_request lc1)" "wq_store (lc_request lc1) = None"
    by (simp_all add: lc1_def lc_def rollback_call_of_def Let_def first_gate) (simp add: evaluate_dedupe_def)
  obtain d w1 where d: "execute_constrained_rollback demo_host ''repo'' ''main'' ''before'' ''abc'' ?w = (Inr d, w1)"
    "normalize_text ''failed'' (get d ''status'') = ''succeeded''" "truthy (get d ''attempted'')"
    using demo_constrained_rollback by (auto split: prod.splits sum.splits)
  have perform: "?both (perform_rollback demo_host lc1 h st ev) ?w" for h st ev
    using d by (simp add: perform_rollback_def lc1 yields_bind [where m = "execute_constrained_rollback demo_host ''repo'' ''main'' ''before'' ''abc''", OF d(1)] persist_write_receipt_def Let_def
        del: normalize_text_PStr)
  have judge: "?both (judge_and_roll_back demo_host lc1 (result_data (demo_answer True)) ev) ?w" for ev
    by (simp add: judge_and_roll_back_def compare_and_roll_back_def lc1 demo_answer_facts yields_bind [OF reads] perform Let_def)
  have prior: "prior_records (lc_request lc) = run_return []"
    by (simp add: prior_records_def lc_def rollback_call_of_def Let_def)
  have strips: "list_all (\<lambda>s. strip s = s) [''repo'', ''before'', ''abc'']" by code_simp
  have fields: "first_reason
      [(lc_repo lc = [], ''repository_missing''), (lc_repo_path lc = [], ''repo_path_missing''),
       (lc_branch lc = [], ''target_ref_missing''), (lc_pre_sha lc = [], ''pre_merge_sha_missing''),
       (lc_post_sha lc = [], ''post_merge_sha_missing'')] = None"
    by (simp add: first_reason_def lc_def rollback_call_of_def Let_def)
  show ?thesis
    using demo_texts strips fields
    by (simp add: execute_rollback_def lc_def [symmetric] prior lc1_def [symmetric] first_gate yields_bind [OF reads]
        demo_answer_facts judge Let_def)
qed

theorem rollback_attempted_only_at_the_merge_witness:
  "\<exists>r w'. execute_rollback demo_host None ''job-1'' ''o/r'' ''repo'' ''main'' ''before'' ''abc'' working_copy_world =
       (Inr r, w') \<and> get r ''succeeded'' = PBool True \<and>
     clear_rollback demo_host ''o/r'' ''repo'' ''main'' ''before'' ''abc'' r"
proof -
  from demo_rollback obtain r w' where
    r: "execute_rollback demo_host None ''job-1'' ''o/r'' ''repo'' ''main'' ''before'' ''abc'' working_copy_world = (Inr r, w')"
    "get r ''attempted'' = PBool True" "get r ''succeeded'' = PBool True" unfolding yields_def by blast
  have "list_all (\<lambda>s. strip s = s) [''o/r'', ''repo'', ''main'', ''before'', ''abc'']" by code_simp
  with rollback_attempted_only_at_the_merge [OF r(1)] r show ?thesis by simp
qed

end
