(* ===== verification/Dispatched_Writes.thy ===== *)
theory Dispatched_Writes
  imports Rolling_Back
begin

text \<open>
  The bounded writers behind the action executor and the dispatcher: what a receipt that claims an
  attempt says GitHub had shown, whatever the runner left on disk.
\<close>

section \<open>From the receipt to the client\<close>

text \<open>A receipt that claims an attempt is the one of an action that passed the gates.\<close>

lemma executed_order:
  assumes "execute_from_run_dir ex q root w = (Inr rc, w')"
    and "get rc ''requested_action'' = PStr a" and "truthy (get rc ''attempted'')"
  obtains ord w1 where "perform_action ex q ord w1 = (Inr rc, w')" "xo_action ord = a" "xo_root ord = root"
    "get (xo_receipt ord) ''attempted'' = PBool False" "write_gate (dq_write_authority q) a = None"
  using assms(1)
proof (cases rule: execute_from_run_dirE)
  case (unreadable rec)
  with assms(3) show thesis by (auto simp: persist_receipt_result)
next
  case (readable handoff executed_at default_job)
  from readable(2) show thesis
  proof (cases rule: execute_handoffE)
    case (refused ord reason)
    with assms(3) refuse_result [OF refused(1)] show thesis by simp
  next
    case (performed ord)
    with perform_action_names_action [OF performed(1)] assms(2)
    have "xo_action ord = a" by (auto simp: non_empty_def split: if_splits)
    with performed that show thesis by blast
  qed
qed

lemma call_client_attempted:
  assumes "call_client ord client kwargs entries w = (Inr rc, w')" and "truthy (get rc ''attempted'')"
    and "get (xo_receipt ord) ''attempted'' = PBool False"
    and "\<And>result es. entries result = Inr es \<Longrightarrow> {''attempted'', ''succeeded''} \<inter> fst ` set es = {}"
  obtains r w1 w2 es where "client kwargs (child (xo_root ord) ''write_receipts'') w1 = (Inr r, w2)"
    "truthy (get r ''attempted'')" "entries r = Inr es"
    "get rc ''succeeded'' = PBool (truthy (get r ''succeeded''))"
    "\<And>k v. map_of (rev es) k = Some v \<Longrightarrow> k \<notin> {''evidence_used_summary'', ''write_idempotency''} \<Longrightarrow> get rc k = v"
proof -
  obtain c w1 where c: "client kwargs (child (xo_root ord) ''write_receipts'') w = (c, w1)" by force
  note run = assms(1) [unfolded call_client_def run_bind_def [of "run_try _"] run_try_def c prod.case sum.case]
  show thesis
  proof (cases c)
    case (Inl e)
    with run assms(2,3) show thesis by (auto dest!: refuse_result)
  next
    case (Inr r)
    with run obtain es where es: "entries r = Inr es" "settle ord r es w1 = (Inr rc, w')"
      by (auto simp: run_simps)
    from assms(4) [OF es(1)] have "map_of (rev es) ''attempted'' = None" "map_of (rev es) ''succeeded'' = None"
      by (auto simp: map_of_eq_None_iff)
    with es(2) have rc: "get rc ''attempted'' = PBool (truthy (get r ''attempted''))"
      "get rc ''succeeded'' = PBool (truthy (get r ''succeeded''))"
      by (auto simp: settle_def persist_receipt_result put_all_get split: option.splits)
    have "get rc k = v" if "map_of (rev es) k = Some v" "k \<notin> {''evidence_used_summary'', ''write_idempotency''}" for k v
      using es(2) that by (auto simp: settle_def persist_receipt_result put_all_get split: option.splits)
    with c Inr es(1) rc assms(2) that show thesis by auto
  qed
qed

section \<open>Merges\<close>

lemma clear_merge_cong:
  assumes "clear_merge gh repo number expected r" and "truthy (get r' ''succeeded'') = truthy (get r ''succeeded'')"
    and "truthy (get r ''succeeded'') \<Longrightarrow> get r' ''merge_commit_sha'' = get r ''merge_commit_sha''"
  shows "clear_merge gh repo number expected r'"
  using assms unfolding clear_merge_def merge_written_def by (elim exE conjE) (intro exI conjI, auto)

lemma merge_pr_clear:
  assumes "merge_pr (github_clients gh) q ord w = (Inr rc, w')" and "truthy (get rc ''attempted'')"
    and "get (xo_receipt ord) ''attempted'' = PBool False"
  shows "\<exists>repo n. resolved_pr_number q = Inr (Some n) \<and> 0 < n \<and> repo \<noteq> [] \<and>
    clear_merge gh repo (Some n) (normalize_text [] (opt_str (dq_expected_head_sha q))) rc"
proof -
  let ?kwargs = "\<lambda>number. [(''job_id'', PStr (xo_job ord)), (''repository'', PStr (xo_repository ord)),
    (''pr_number'', opt_int number),
    (''expected_head_sha'', opt_str (text_or_none (opt_str (dq_expected_head_sha q))))]"
  let ?entries = "\<lambda>r. res_bind (as_optional_int (get r ''pr_number'')) (\<lambda>n. Inr
    [(''pr_number'', opt_int n), (''merge_commit_sha'', opt_str (text_or_none (get r ''merge_commit_sha''))),
     (''merged_state_summary'', mapping_or_none (get r ''merged_state_summary'')),
     (''checks_state_summary'', mapping_or_none (get r ''checks_state_summary''))])"
  from assms obtain number where number: "resolved_pr_number q = Inr number"
    and called: "call_client ord (merge_client gh) (?kwargs number) ?entries w = (Inr rc, w')"
    by (auto simp: merge_pr_def github_clients_def run_simps split: if_splits dest: refuse_result)
  obtain r w1 w2 es where r: "merge_client gh (?kwargs number) (child (xo_root ord) ''write_receipts'') w1 = (Inr r, w2)"
    "truthy (get r ''attempted'')" and es: "?entries r = Inr es"
    and ok: "get rc ''succeeded'' = PBool (truthy (get r ''succeeded''))"
    and shown: "\<And>k v. map_of (rev es) k = Some v \<Longrightarrow> k \<notin> {''evidence_used_summary'', ''write_idempotency''} \<Longrightarrow> get rc k = v"
    by (rule call_client_attempted [OF called assms(2,3)]) (auto simp: res_bind_eq_Inr)
  have sha: "get rc ''merge_commit_sha'' = opt_str (text_or_none (get r ''merge_commit_sha''))"
    by (rule shown) (use es in \<open>auto simp: res_bind_eq_Inr\<close>)
  have args: "text_given (?kwargs number) ''repository'' = xo_repository ord" "get (?kwargs number) ''pr_number'' = opt_int number"
    "normalize_text [] (opt_str (text_arg (?kwargs number) ''expected_head_sha'')) =
       normalize_text [] (opt_str (dq_expected_head_sha q))"
    by (simp_all add: text_given_def text_arg_def) (cases "dq_expected_head_sha q"; simp add: text_or_none_def Let_def)
  from execute_merge_clear [OF r(1) [unfolded merge_client_def args(1,2)] r(2)] obtain n where
    n: "number = Some n" "0 < n" "strip (xo_repository ord) \<noteq> []"
    and clear: "clear_merge gh (strip (xo_repository ord)) (Some n) (normalize_text [] (opt_str (dq_expected_head_sha q))) r"
    unfolding args(3) by (cases number) auto
  have "clear_merge gh (strip (xo_repository ord)) (Some n) (normalize_text [] (opt_str (dq_expected_head_sha q))) rc"
  proof (rule clear_merge_cong [OF clear])
    assume "truthy (get r ''succeeded'')"
    with clear obtain p where "get r ''merge_commit_sha'' = PStr (text_in (result_data p) ''merge_commit_sha'')"
      "text_in (result_data p) ''merge_commit_sha'' \<noteq> []"
      by (auto simp: clear_merge_def merge_written_def)
    then show "get rc ''merge_commit_sha'' = get r ''merge_commit_sha''"
      by (simp add: sha text_or_none_def text_in_def)
  qed (simp add: ok)
  with number n show ?thesis by blast
qed

text \<open>C10. A merge the executor attempted was clear: when the receipt of an execution with the bounded writers claims
  an attempted merge, the write authority of the request allows merges, and GitHub had shown the pull
  request the request names open, unmerged, no draft, with passing checks, cleanly mergeable and at
  the head the request expects, as the one open pull request of its branches, ahead of a base that is
  there; and when the receipt claims success it names the merge commit the write backend answered
  with.\<close>

theorem executed_merge_was_clear:
  assumes "execute_from_run_dir (github_clients gh) q root w = (Inr rc, w')"
    and "get rc ''requested_action'' = PStr ''proceed_to_merge''" and "truthy (get rc ''attempted'')"
  shows "\<exists>repo n. resolved_pr_number q = Inr (Some n) \<and> 0 < n \<and> repo \<noteq> [] \<and>
    clear_merge gh repo (Some n) (normalize_text [] (opt_str (dq_expected_head_sha q))) rc \<and>
    write_gate (dq_write_authority q) ''proceed_to_merge'' = None"
proof -
  obtain ord w1 where "perform_action (github_clients gh) q ord w1 = (Inr rc, w')" "xo_action ord = ''proceed_to_merge''"
    "get (xo_receipt ord) ''attempted'' = PBool False" "write_gate (dq_write_authority q) ''proceed_to_merge'' = None"
    by (rule executed_order [OF assms])
  with merge_pr_clear [OF _ assms(3), of gh q ord w1 w'] show ?thesis by (simp add: perform_action_def)
qed

section \<open>An executed merge\<close>

definition merge_handoff :: dict where
  "merge_handoff =
     [(''next_action'', PStr ''proceed_to_merge''), (''action_consumable'', PBool True), (''job_id'', PStr ''job-1'')]"

definition merge_world :: world where
  "merge_world = early_world (run_directory(child demo_root ''action_handoff.json'' \<mapsto> JsonText (PDict merge_handoff)))"

definition merge_request :: dispatch_request where
  "merge_request = (authorised_request [(''enabled'', PBool True)])\<lparr>dq_repository := Some ''o/r'', dq_pr_number := Some 7\<rparr>"

lemma merge_gates:
  "routing_gate (dq_policy_snapshot merge_request) [] merge_handoff = None \<and>
   write_gate (dq_write_authority merge_request) ''proceed_to_merge'' = None \<and>
   category_gate (dq_write_authority merge_request) (derive_single_category []) = None \<and>
   resolved_pr_number merge_request = Inr (Some 7)"
  by code_simp

lemma called_client:
  assumes "yields C (client kwargs (child (xo_root ord) ''write_receipts'')) w"
    and "\<And>r. C r \<Longrightarrow> get r ''attempted'' = PBool True" and "\<And>r. C r \<Longrightarrow> \<exists>es. entries r = Inr es"
    and "\<And>r es. entries r = Inr es \<Longrightarrow> ''attempted'' \<notin> fst ` set es \<and> ''requested_action'' \<notin> fst ` set es"
  shows "\<exists>rc w'. call_client ord client kwargs entries w = (Inr rc, w') \<and> get rc ''attempted'' = PBool True \<and>
    get rc ''requested_action'' = get (xo_receipt ord) ''requested_action''"
proof -
  from assms(1) obtain r w1 where r: "client kwargs (child (xo_root ord) ''write_receipts'') w = (Inr r, w1)" "C r"
    unfolding yields_def by blast
  from assms(3) [OF r(2)] obtain es where es: "entries r = Inr es" by blast
  from assms(4) [OF es] have none: "map_of (rev es) ''attempted'' = None" "map_of (rev es) ''requested_action'' = None"
    by (simp_all add: map_of_eq_None_iff)
  have "\<exists>w'. persist_receipt root a rec w1 = (Inr rec, w')" for root a rec
    by (simp add: persist_receipt_def run_bind_def run_write_def run_return_def)
  then obtain rc w2 where rc: "settle ord r es w1 = (Inr rc, w2)" unfolding settle_def by blast
  then have "get rc ''attempted'' = PBool True" "get rc ''requested_action'' = get (xo_receipt ord) ''requested_action''"
    using none assms(2) [OF r(2)] by (auto simp: settle_def persist_receipt_result put_all_get split: option.splits)
  moreover have "call_client ord client kwargs entries w = settle ord r es w1"
    unfolding call_client_def run_bind_def [of "run_try _"] run_try_def r(1) by (simp add: es run_bind_res)
  ultimately show ?thesis using rc by auto
qed

lemma merge_execution:
  "\<exists>ord. execute_from_run_dir ex merge_request demo_root merge_world =
       perform_action ex merge_request ord (merge_world\<lparr>wd_ticks := 1\<rparr>) \<and>
     xo_root ord = demo_root \<and> xo_action ord = ''proceed_to_merge'' \<and> xo_job ord = ''job-1'' \<and>
     xo_repository ord = ''o/r'' \<and> get (xo_receipt ord) ''requested_action'' = PStr ''proceed_to_merge''"
proof -
  let ?fs = "wd_files merge_world" and ?q = merge_request
  have fs: "?fs demo_root = Some Directory"
    "?fs (child demo_root ''action_handoff.json'') = Some (JsonText (PDict merge_handoff))"
    "?fs (child demo_root ''manifest.json'') = None" "?fs (child demo_root ''next_action.json'') = None"
    by (simp_all add: merge_world_def early_world_def demo_world_def run_directory_def)
  have "wd_ticks merge_world = 0" by (simp add: merge_world_def early_world_def demo_world_def)
  then have run: "\<exists>t dj. execute_from_run_dir ex ?q demo_root merge_world =
      execute_handoff ex ?q demo_root ?fs t dj merge_handoff (merge_world\<lparr>wd_ticks := 1\<rparr>)"
    by (auto simp: execute_from_run_dir_def run_bind_def run_files_def run_now_def fs exists_path_def read_json_def
        res_bind_def Let_def)
  have plan: "planning_artifact ?fs [] name = []" for name by (simp add: planning_artifact_def get_def get_or_def)
  have q: "dq_repository ?q = Some ''o/r''" "dq_category ?q = None" "dq_policy_snapshot ?q = PNone"
    by (simp_all add: merge_request_def authorised_request_def demo_request_def)
  have texts: "normalize_text [] (get merge_handoff ''next_action'') = ''proceed_to_merge''"
    "\<And>d. normalize_text d (get merge_handoff ''job_id'') = ''job-1''"
    "\<And>d. normalize_text d (PStr ''o/r'') = ''o/r''"
    by code_simp+
  from run obtain t dj where run: "execute_from_run_dir ex ?q demo_root merge_world =
      execute_handoff ex ?q demo_root ?fs t dj merge_handoff (merge_world\<lparr>wd_ticks := 1\<rparr>)" by blast
  let ?receipt = "default_receipt ''job-1'' (non_empty ''proceed_to_merge'') t
    (truthy (get merge_handoff ''whether_human_required''))"
  let ?ord = "\<lparr>xo_root = demo_root, xo_action = ''proceed_to_merge'', xo_job = ''job-1'', xo_handoff = merge_handoff,
    xo_receipt = put ''repository'' (PStr ''o/r'') (put ''write_authority_state''
      (opt_str (non_empty (wa_state (normalize_write_authority (dq_write_authority ?q))))) ?receipt),
    xo_repository = ''o/r'', xo_brief = [], xo_facts = [], xo_plan = []\<rparr>"
  have "execute_handoff ex ?q demo_root ?fs t dj merge_handoff w = perform_action ex ?q ?ord w" for w
    by (simp add: execute_handoff_def Let_def object_at_def fs texts plan q merge_gates [unfolded q]
        del: normalize_text_PStr)
  with run show ?thesis by (intro exI [of _ ?ord]) (simp add: default_receipt_def non_empty_def)
qed

theorem executed_merge_was_clear_witness:
  "\<exists>rc w' repo. execute_from_run_dir (github_clients (replying (demo_answer True))) merge_request demo_root merge_world =
       (Inr rc, w') \<and> clear_merge (replying (demo_answer True)) repo (Some 7) [] rc"
proof -
  let ?ex = "github_clients (replying (demo_answer True))" and ?w = "merge_world\<lparr>wd_ticks := 1\<rparr>"
  obtain ord where ord: "execute_from_run_dir ?ex merge_request demo_root merge_world = perform_action ?ex merge_request ord ?w"
    "xo_root ord = demo_root" "xo_action ord = ''proceed_to_merge''" "xo_job ord = ''job-1''" "xo_repository ord = ''o/r''"
    "get (xo_receipt ord) ''requested_action'' = PStr ''proceed_to_merge''"
    using merge_execution by blast
  have number: "resolved_pr_number merge_request = Inr (Some 7)" using merge_gates by simp
  have sha: "dq_expected_head_sha merge_request = None"
    by (simp add: merge_request_def authorised_request_def demo_request_def)
  have "no_receipts (child demo_root ''write_receipts'') ''bounded_merge'' ?w"
    by (simp add: no_receipts_def merge_world_def early_world_def demo_world_def run_directory_def)
      (auto simp: child_def dest!: arg_cong [where f = "length \<circ> path_parts"])
  note merged = demo_merge [OF this]
  let ?kwargs = "[(''job_id'', PStr (xo_job ord)), (''repository'', PStr (xo_repository ord)),
    (''pr_number'', opt_int (Some 7)), (''expected_head_sha'', opt_str (text_or_none (opt_str None)))]"
  have "merge_client (replying (demo_answer True)) ?kwargs (child (xo_root ord) ''write_receipts'') =
      execute_merge (replying (demo_answer True)) (Some (child demo_root ''write_receipts'')) ''job-1'' ''o/r'' (PInt 7) None"
    by (simp add: merge_client_def text_given_def text_arg_def ord text_or_none_def)
  then have client: "yields (\<lambda>r. get r ''attempted'' = PBool True \<and> get r ''succeeded'' = PBool True \<and>
      get r ''pr_number'' = PInt 7)
      (merge_client (replying (demo_answer True)) ?kwargs (child (xo_root ord) ''write_receipts'')) ?w"
    using merged by simp
  let ?entries = "\<lambda>r. res_bind (as_optional_int (get r ''pr_number'')) (\<lambda>n. Inr
    [(''pr_number'', opt_int n), (''merge_commit_sha'', opt_str (text_or_none (get r ''merge_commit_sha''))),
     (''merged_state_summary'', mapping_or_none (get r ''merged_state_summary'')),
     (''checks_state_summary'', mapping_or_none (get r ''checks_state_summary''))])"
  have perform: "perform_action ?ex merge_request ord =
      call_client ord (merge_client (replying (demo_answer True))) ?kwargs ?entries"
    by (simp add: perform_action_def ord(3) merge_pr_def number github_clients_def run_bind_res sha)
  have "\<exists>rc w'. perform_action ?ex merge_request ord ?w = (Inr rc, w') \<and> get rc ''attempted'' = PBool True \<and>
      get rc ''requested_action'' = get (xo_receipt ord) ''requested_action''"
    unfolding perform
    by (rule called_client, rule client) (auto simp: res_bind_def split: sum.splits)
  then obtain rc w' where rc: "execute_from_run_dir ?ex merge_request demo_root merge_world = (Inr rc, w')"
    "get rc ''requested_action'' = PStr ''proceed_to_merge''" "truthy (get rc ''attempted'')"
    using ord(1,6) by auto
  from executed_merge_was_clear [OF rc] rc(1) number sha show ?thesis by auto
qed

end
