(* ===== verification/GitHub_Client.thy ===== *)
theory GitHub_Client
  imports Json_Digest World
begin

text \<open>
  \<open>automation/github/github_client.py\<close>: the requests the two clients send to GitHub, and what they
  make of the replies. The network is an argument: it answers a request with a reply, or raises.
  The text of a reply is known with what \<open>json.loads\<close> makes of it.
\<close>

section \<open>Requests and replies\<close>

record http_request =
  hq_method :: string
  hq_url :: string
  hq_headers :: "(string \<times> string) list"
  hq_body :: "dict option"

text \<open>A reply, an \<open>HTTPError\<close>, or a \<open>URLError\<close> with its text.\<close>

datatype http_reply =
    HttpReply int string "string + py"
  | HttpFailed int string
  | Unreachable string

type_synonym network = "http_request \<Rightarrow> http_reply run"

record http_settings =
  hs_token :: string
  hs_base_url :: string

text \<open>The settings of a client from its arguments and the environment.\<close>

definition http_settings_of ::
    "string option \<Rightarrow> string option \<Rightarrow> (string \<Rightarrow> string option) \<Rightarrow> http_settings" where
  "http_settings_of token base_url env =
     \<lparr>hs_token = normalize_text (normalize_text (normalize_text [] (opt_str (env ''GITHUB_TOKEN'')))
        (opt_str (env ''CODEX_GITHUB_TOKEN''))) (opt_str token),
      hs_base_url = rev (dropWhile (\<lambda>c. c = CHR ''/'') (rev (normalize_text (normalize_text
        ''https://api.github.com'' (opt_str (env ''CODEX_GITHUB_API_BASE_URL''))) (opt_str base_url))))\<rparr>"

record client_error =
  ce_kind :: string
  ce_message :: string
  ce_status :: "int option"
  ce_body :: string

type_synonym 'a api = "(client_error + 'a) run"

definition client_error_of :: "string \<Rightarrow> string \<Rightarrow> int option \<Rightarrow> string \<Rightarrow> client_error" where
  "client_error_of kind message status response_body =
     \<lparr>ce_kind = normalize_text ''api_failure'' (PStr kind), ce_message = message, ce_status = status,
      ce_body = strip response_body\<rparr>"

definition api_bind :: "'a api \<Rightarrow> ('a \<Rightarrow> 'b api) \<Rightarrow> 'b api" where
  "api_bind m f = run_bind m (\<lambda>r. case r of Inl e \<Rightarrow> run_return (Inl e) | Inr x \<Rightarrow> f x)"

section \<open>Addresses\<close>

text \<open>\<open>urllib.parse.urlencode\<close>: every byte but the always safe ones in hexadecimal, a space as a plus.\<close>

definition url_safe :: "char \<Rightarrow> bool" where
  "url_safe c =
     (let n = code c in 48 \<le> n \<and> n \<le> 57 \<or> 65 \<le> n \<and> n \<le> 90 \<or> 97 \<le> n \<and> n \<le> 122 \<or>
        c \<in> {CHR ''_'', CHR ''.'', CHR ''-'', CHR ''~''})"

definition upper_hex :: "nat \<Rightarrow> char" where
  "upper_hex n = (if n < 10 then char_of (48 + n) else char_of (55 + n))"

definition quote_plus :: "string \<Rightarrow> string" where
  "quote_plus s =
     concat (map (\<lambda>c. if url_safe c then [c] else if c = CHR '' '' then ''+''
       else concat (map (\<lambda>b. [CHR ''%'', upper_hex (b div 16), upper_hex (b mod 16)]) (utf8 [c]))) s)"

definition url_query :: "(string \<times> string) list \<Rightarrow> string" where
  "url_query kvs = join ''&'' (map (\<lambda>(k, v). quote_plus k @ ''='' @ quote_plus v) kvs)"

definition api_url :: "http_settings \<Rightarrow> string \<Rightarrow> (string \<times> string option) list \<Rightarrow> string" where
  "api_url st path query =
     (let url = hs_base_url st @ ''/'' @ dropWhile (\<lambda>c. c = CHR ''/'') (strip path);
          filtered = List.map_filter (\<lambda>(k, v). case text_or_none (opt_str v) of
            None \<Rightarrow> None | Some t \<Rightarrow> Some (k, t)) query
      in if filtered = [] then url else url @ ''?'' @ url_query filtered)"

section \<open>One request\<close>

definition read_headers :: "http_settings \<Rightarrow> (string \<times> string) list" where
  "read_headers st =
     [(''Authorization'', ''Bearer '' @ hs_token st), (''Accept'', ''application/vnd.github+json''),
      (''X-GitHub-Api-Version'', ''2022-11-28''), (''User-Agent'', ''codex-local-runner-read-only-client'')]"

definition write_headers :: "http_settings \<Rightarrow> (string \<times> string) list" where
  "write_headers st =
     [(''Authorization'', ''Bearer '' @ hs_token st), (''Accept'', ''application/vnd.github+json''),
      (''Content-Type'', ''application/json; charset=utf-8''), (''X-GitHub-Api-Version'', ''2022-11-28''),
      (''User-Agent'', ''codex-local-runner-write-client'')]"

definition missing_token :: client_error where
  "missing_token = client_error_of ''auth_failure''
     ''missing GitHub token: set CODEX_GITHUB_TOKEN or GITHUB_TOKEN'' None []"

definition status_kind :: "int \<Rightarrow> string" where
  "status_kind status =
     (if status \<in> {401, 403} then ''auth_failure''
      else if status = 404 then ''not_found'' else ''api_failure'')"

fun reply_payload :: "http_reply \<Rightarrow> client_error + py" where
  "reply_payload (HttpReply status body parsed) =
     (if body = [] then Inr (PDict [])
      else case parsed of
        Inl e \<Rightarrow> Inl (client_error_of ''api_failure'' (''github api returned invalid json: '' @ e) None [])
      | Inr v \<Rightarrow>
          (case v of
             PDict d \<Rightarrow> Inr v
           | PList vs \<Rightarrow> Inr v
           | _ \<Rightarrow> Inl (client_error_of ''api_failure'' ''unexpected GitHub response shape'' (Some status) body)))"
| "reply_payload (HttpFailed status body) =
     Inl (client_error_of (status_kind status)
       (''github api request failed: status='' @ int_str status) (Some status) body)"
| "reply_payload (Unreachable reason) =
     Inl (client_error_of ''api_failure'' (''github api request failed: '' @ reason) None [])"

definition send_request :: "http_settings \<Rightarrow> network \<Rightarrow> http_request \<Rightarrow> py api" where
  "send_request st net req =
     (if hs_token st = [] then run_return (Inl missing_token)
      else run_bind (net req) (\<lambda>reply. run_return (reply_payload reply)))"

definition get_json :: "http_settings \<Rightarrow> network \<Rightarrow> string \<Rightarrow> (string \<times> string option) list \<Rightarrow> py api" where
  "get_json st net path query =
     send_request st net \<lparr>hq_method = ''GET'', hq_url = api_url st path query, hq_headers = read_headers st,
       hq_body = None\<rparr>"

definition write_json :: "http_settings \<Rightarrow> network \<Rightarrow> string \<Rightarrow> string \<Rightarrow> dict \<Rightarrow> dict api" where
  "write_json st net method path body =
     api_bind (send_request st net \<lparr>hq_method = method, hq_url = api_url st path [],
       hq_headers = write_headers st, hq_body = Some body\<rparr>) (\<lambda>v. run_return (Inr (mapping_or_empty v)))"

section \<open>The read client\<close>

definition get_object :: "http_settings \<Rightarrow> network \<Rightarrow> string \<Rightarrow> dict api" where
  "get_object st net path = api_bind (get_json st net path []) (\<lambda>v. run_return (Inr (mapping_or_empty v)))"

definition get_repo :: "http_settings \<Rightarrow> network \<Rightarrow> string \<Rightarrow> dict api" where
  "get_repo st net repo = get_object st net (''/repos/'' @ repo)"

definition get_branch :: "http_settings \<Rightarrow> network \<Rightarrow> string \<Rightarrow> string \<Rightarrow> dict api" where
  "get_branch st net repo branch = get_object st net (''/repos/'' @ repo @ ''/branches/'' @ branch)"

definition get_comparison :: "http_settings \<Rightarrow> network \<Rightarrow> string \<Rightarrow> string \<Rightarrow> string \<Rightarrow> dict api" where
  "get_comparison st net repo base head =
     get_object st net (''/repos/'' @ repo @ ''/compare/'' @ base @ ''...'' @ head)"

definition list_open_pull_requests ::
    "http_settings \<Rightarrow> network \<Rightarrow> string \<Rightarrow> string option \<Rightarrow> string option \<Rightarrow> dict list api" where
  "list_open_pull_requests st net repo head base =
     api_bind (get_json st net (''/repos/'' @ repo @ ''/pulls'')
         [(''state'', Some ''open''), (''head'', head), (''base'', base)]) (\<lambda>v.
     run_return (Inr (case v of PList vs \<Rightarrow> List.map_filter as_mapping vs | _ \<Rightarrow> [])))"

definition get_pull_request :: "http_settings \<Rightarrow> network \<Rightarrow> string \<Rightarrow> int \<Rightarrow> dict api" where
  "get_pull_request st net repo number = get_object st net (''/repos/'' @ repo @ ''/pulls/'' @ int_str number)"

definition get_commit_status :: "http_settings \<Rightarrow> network \<Rightarrow> string \<Rightarrow> string \<Rightarrow> dict api" where
  "get_commit_status st net repo sha = get_object st net (''/repos/'' @ repo @ ''/commits/'' @ sha @ ''/status'')"

definition list_check_runs :: "http_settings \<Rightarrow> network \<Rightarrow> string \<Rightarrow> string \<Rightarrow> dict api" where
  "list_check_runs st net repo sha = get_object st net (''/repos/'' @ repo @ ''/commits/'' @ sha @ ''/check-runs'')"

section \<open>The write client\<close>

definition post_pull_request ::
    "http_settings \<Rightarrow> network \<Rightarrow> string \<Rightarrow> string \<Rightarrow> string \<Rightarrow> string \<Rightarrow> string \<Rightarrow> bool \<Rightarrow> dict api" where
  "post_pull_request st net repo title body head base draft =
     (if \<not> draft
      then run_return (Inl (client_error_of ''unsupported_query''
        ''write client only supports draft pull request creation'' None []))
      else write_json st net ''POST'' (''/repos/'' @ repo @ ''/pulls'')
        [(''title'', PStr title), (''body'', PStr body), (''head'', PStr head), (''base'', PStr base),
         (''draft'', PBool True)])"

definition put_merge ::
    "http_settings \<Rightarrow> network \<Rightarrow> string \<Rightarrow> int \<Rightarrow> string option \<Rightarrow> string \<Rightarrow> dict api" where
  "put_merge st net repo number expected_sha merge_method =
     (let m = normalize_text ''merge'' (PStr merge_method); sha = normalize_text [] (opt_str expected_sha) in
      if m \<notin> {''merge'', ''squash'', ''rebase''}
      then run_return (Inl (client_error_of ''unsupported_query''
        (''unsupported merge_method: '' @ merge_method) None []))
      else write_json st net ''PUT'' (''/repos/'' @ repo @ ''/pulls/'' @ int_str number @ ''/merge'')
        ((''merge_method'', PStr m) # (if sha = [] then [] else [(''sha'', PStr sha)])))"

definition patch_pull_request ::
    "http_settings \<Rightarrow> network \<Rightarrow> string \<Rightarrow> int \<Rightarrow> string option \<Rightarrow> string option \<Rightarrow> string option \<Rightarrow> dict api" where
  "patch_pull_request st net repo number title body base =
     (let body_of = List.map_filter (\<lambda>(k, v). map_option (\<lambda>s. (k, PStr (strip s))) v)
            [(''title'', title), (''body'', body), (''base'', base)]
      in if base \<noteq> None \<and> strip (the base) = []
         then run_return (Inl (client_error_of ''unsupported_query''
           ''base_branch cannot be empty when explicitly provided'' None []))
         else if body_of = []
         then run_return (Inl (client_error_of ''unsupported_query''
           ''at least one of title, body, or base_branch is required'' None []))
         else write_json st net ''PATCH'' (''/repos/'' @ repo @ ''/pulls/'' @ int_str number) body_of)"

end
