(* ===== verification/Read_Backend.thy ===== *)
theory Read_Backend
  imports GitHub_Client GitHub_Writes
begin

text \<open>
  \<open>automation/github/read_backend.py\<close>: the questions the bounded writers ask of GitHub, and the
  answers they get: a status of a fixed kind, and the facts in a fixed form.
\<close>

section \<open>Answers\<close>

definition read_statuses :: "string list" where
  "read_statuses =
     [''success'', ''empty'', ''not_found'', ''auth_failure'', ''api_failure'', ''unsupported_query'']"

definition allowed_status :: "string list \<Rightarrow> string \<Rightarrow> string" where
  "allowed_status allowed status =
     (let s = normalize_text ''api_failure'' (PStr status) in if s \<in> set allowed then s else ''api_failure'')"

definition read_answer :: "string \<Rightarrow> string \<Rightarrow> dict \<Rightarrow> dict \<Rightarrow> dict" where
  "read_answer operation status data error =
     (let s = allowed_status read_statuses status in
      [(''operation'', PStr (normalize_text ''unknown_operation'' (PStr operation))),
       (''mode'', PStr ''read_only''), (''write_actions_allowed'', PBool False), (''status'', PStr s),
       (''ok'', PBool (s \<in> {''success'', ''empty''})), (''data'', PDict data), (''error'', PDict error)])"

definition read_error :: "string \<Rightarrow> string \<Rightarrow> int option \<Rightarrow> dict" where
  "read_error kind message status =
     [(''kind'', PStr (normalize_text ''api_failure'' (PStr kind))),
      (''message'', PStr (normalize_text ''unknown github read error'' (PStr message))),
      (''status_code'', opt_int status)]"

definition failed_read :: "string \<Rightarrow> client_error \<Rightarrow> dict \<Rightarrow> dict" where
  "failed_read operation e data =
     read_answer operation (ce_kind e) data (read_error (ce_kind e) (ce_message e) (ce_status e))"

definition unsupported_read :: "string \<Rightarrow> string \<Rightarrow> dict \<Rightarrow> dict" where
  "unsupported_read operation message data =
     read_answer operation ''unsupported_query'' data (read_error ''unsupported_query'' message None)"

section \<open>Branches\<close>

definition get_default_branch :: "http_settings \<Rightarrow> network \<Rightarrow> string \<Rightarrow> dict run" where
  "get_default_branch st net repo =
     (let op = ''get_default_branch''; r = strip repo in
      if r = [] then run_return (unsupported_read op ''repo is required'' [])
      else run_bind (get_repo st net r) (\<lambda>p. run_return (case p of
          Inl e \<Rightarrow> failed_read op e [(''repository'', PStr r)]
        | Inr payload \<Rightarrow>
            (let b = text_in payload ''default_branch'' in
             read_answer op (if b = [] then ''empty'' else ''success'')
               [(''repository'', PStr r), (''default_branch'', some_text b)] []))))"

definition get_branch_head :: "http_settings \<Rightarrow> network \<Rightarrow> string \<Rightarrow> string \<Rightarrow> dict run" where
  "get_branch_head st net repo branch =
     (let op = ''get_branch_head''; r = strip repo; b = strip branch;
          facts = (\<lambda>exists sha. [(''repository'', PStr r), (''branch'', PStr b), (''exists'', exists),
            (''head_sha'', some_text sha)])
      in if r = [] \<or> b = [] then run_return (unsupported_read op ''repo and branch are required'' [])
         else run_bind (get_branch st net r b) (\<lambda>p. run_return (case p of
             Inl e \<Rightarrow> failed_read op e (facts (if ce_kind e = ''not_found'' then PBool False else PNone) [])
           | Inr payload \<Rightarrow>
               (let sha = text_in (mapping_or_empty (get payload ''commit'')) ''sha'' in
                read_answer op (if sha = [] then ''empty'' else ''success'') (facts (PBool True) sha) []))))"

text \<open>How two references compare.\<close>

definition compare_status :: "py \<Rightarrow> string" where
  "compare_status v =
     (let t = lower (normalize_text ''unknown'' v) in
      if t \<in> {''identical'', ''ahead'', ''behind'', ''diverged''} then t else ''unknown'')"

definition compared_files :: "dict \<Rightarrow> string list" where
  "compared_files payload =
     (case get payload ''files'' of
        PList vs \<Rightarrow> sort (remdups (filter (\<lambda>t. t \<noteq> [])
          (map (\<lambda>d. strip (py_str (get d ''filename''))) (List.map_filter as_mapping vs))))
      | _ \<Rightarrow> [])"

definition compare_refs :: "http_settings \<Rightarrow> network \<Rightarrow> string \<Rightarrow> string \<Rightarrow> string \<Rightarrow> dict run" where
  "compare_refs st net repo base_ref head_ref =
     (let op = ''compare_refs''; r = strip repo; base = strip base_ref; head = strip head_ref;
          refs = [(''repository'', PStr r), (''base_ref'', PStr base), (''head_ref'', PStr head)]
      in if r = [] \<or> base = [] \<or> head = []
         then run_return (unsupported_read op ''repo, base_ref, and head_ref are required'' [])
         else run_bind (get_comparison st net r base head) (\<lambda>p. case p of
           Inl e \<Rightarrow> run_return (failed_read op e
             (refs @ [(''comparison_status'', PStr ''unknown''), (''changed_files'', PList [])]))
         | Inr payload \<Rightarrow>
             run_bind (run_res (as_non_negative_int_signed 0 (get payload ''ahead_by''))) (\<lambda>ahead.
             run_bind (run_res (as_non_negative_int_signed 0 (get payload ''behind_by''))) (\<lambda>behind.
             run_bind (run_res (as_non_negative_int_signed 0 (get payload ''total_commits''))) (\<lambda>total.
             let files = compared_files payload; state = compare_status (get payload ''status'') in
             run_return (read_answer op
               (if state = ''unknown'' \<and> files = [] \<and> total = 0 \<and> ahead = 0 \<and> behind = 0
                then ''empty'' else ''success'')
               (refs @ [(''comparison_status'', PStr state), (''ahead_by'', PInt ahead),
                 (''behind_by'', PInt behind), (''total_commits'', PInt total),
                 (''changed_files'', PList (map PStr files))]) []))))))"

section \<open>Open pull requests\<close>

definition pr_entry :: "dict \<Rightarrow> (int \<times> dict) option res" where
  "pr_entry pr =
     (let head = mapping_or_empty (get pr ''head''); base = mapping_or_empty (get pr ''base'') in
      res_bind (as_optional_int (get pr ''number'')) (\<lambda>number. Inr (map_option (\<lambda>n.
        (n, [(''number'', PInt n), (''title'', PStr (text_in pr ''title'')), (''state'', PStr (text_in pr ''state'')),
         (''draft'', PBool (truthy (get pr ''draft''))), (''head_ref'', PStr (text_in head ''ref'')),
         (''head_sha'', PStr (text_in head ''sha'')), (''base_ref'', PStr (text_in base ''ref'')),
         (''html_url'', PStr (text_in pr ''html_url''))])) number)))"

definition find_open_pr ::
    "http_settings \<Rightarrow> network \<Rightarrow> string \<Rightarrow> string option \<Rightarrow> string option \<Rightarrow> dict run" where
  "find_open_pr st net repo head_branch base_branch =
     (let op = ''find_open_pr''; r = strip repo; head = normalize_text [] (opt_str head_branch);
          base = normalize_text [] (opt_str base_branch);
          facts = (\<lambda>prs. [(''repository'', PStr r),
            (''query'', PDict [(''head_branch'', some_text head), (''base_branch'', some_text base)]),
            (''matched'', PBool (prs \<noteq> [])), (''match_count'', PInt (int (length prs))),
            (''pr'', case prs of [] \<Rightarrow> PNone | d # _ \<Rightarrow> PDict d)])
      in if r = [] then run_return (unsupported_read op ''repo is required'' [])
         else if head = [] \<and> base = []
         then run_return (unsupported_read op ''head_branch or base_branch is required'' (facts []))
         else run_bind (list_open_pull_requests st net r (text_or_none (PStr head)) (text_or_none (PStr base))) (\<lambda>p. case p of
           Inl e \<Rightarrow> run_return (failed_read op e (facts []))
         | Inr items \<Rightarrow>
             run_bind (run_res (res_map pr_entry items)) (\<lambda>entries.
             let prs = map snd (sort_key (\<lambda>(n, d). (n, text_in d ''head_ref''))
               (List.map_filter id entries))
             in run_return (read_answer op (if prs = [] then ''empty'' else ''success'') (facts prs) []))))"

section \<open>The checks of a commit\<close>

definition list_mappings :: "py \<Rightarrow> dict list" where
  "list_mappings v = (case v of PList vs \<Rightarrow> List.map_filter as_mapping vs | _ \<Rightarrow> [])"

definition commit_states :: "string list" where
  "commit_states = [''success'', ''failure'', ''pending'', ''error'']"

definition combined_state :: "dict \<Rightarrow> string" where
  "combined_state payload =
     (let s = lower (normalize_text ''unknown'' (get payload ''state'')) in
      if s \<in> set commit_states then s else ''unknown'')"

text \<open>The known states of the contexts of a commit.\<close>

definition context_states :: "dict \<Rightarrow> string list" where
  "context_states payload =
     filter (\<lambda>s. s \<in> set commit_states)
       (map (\<lambda>d. lower (text_in d ''state'')) (list_mappings (get payload ''statuses'')))"

definition status_counts :: "dict \<Rightarrow> dict" where
  "status_counts payload =
     (let states = context_states payload in
      (''total'', PInt (int (length states))) #
        map (\<lambda>s. (s, PInt (int (count_list states s)))) commit_states)"

text \<open>Whether a check run is pending, or how it ended.\<close>

definition run_outcome :: "dict \<Rightarrow> string" where
  "run_outcome check =
     (if lower (text_in check ''status'') \<noteq> ''completed'' then ''pending''
      else if lower (text_in check ''conclusion'') \<in> {''success'', ''neutral'', ''skipped''}
      then ''success'' else ''failure'')"

definition run_outcomes :: "dict \<Rightarrow> string list" where
  "run_outcomes payload = map run_outcome (list_mappings (get payload ''check_runs''))"

definition check_counts :: "string list \<Rightarrow> dict" where
  "check_counts outcomes =
     [(''total'', PInt (int (length outcomes))),
      (''completed'', PInt (int (length (filter (\<lambda>s. s \<noteq> ''pending'') outcomes)))),
      (''success'', PInt (int (count_list outcomes ''success''))),
      (''failure'', PInt (int (count_list outcomes ''failure''))),
      (''pending'', PInt (int (count_list outcomes ''pending'')))]"

definition checks_state :: "string \<Rightarrow> string list \<Rightarrow> string" where
  "checks_state state outcomes =
     (if state \<in> {''failure'', ''error''} then ''failing''
      else if state = ''pending'' then ''pending''
      else if ''failure'' \<in> set outcomes then ''failing''
      else if ''pending'' \<in> set outcomes then ''pending''
      else if state = ''success'' \<or> ''success'' \<in> set outcomes then ''passing''
      else ''unknown'')"

text \<open>What is told of a pull request beside its commit; without a number nothing is.\<close>

record pr_facts =
  pf_state :: string
  pf_draft :: bool
  pf_merged :: bool
  pf_mergeable :: string
  pf_head_ref :: string
  pf_base_ref :: string

definition no_pr_facts :: pr_facts where
  "no_pr_facts = \<lparr>pf_state = [], pf_draft = False, pf_merged = False, pf_mergeable = [], pf_head_ref = [],
     pf_base_ref = []\<rparr>"

definition pr_facts_of :: "dict \<Rightarrow> pr_facts" where
  "pr_facts_of pr =
     \<lparr>pf_state = text_in pr ''state'', pf_draft = truthy (get pr ''draft''),
      pf_merged = truthy (get pr ''merged''), pf_mergeable = text_in pr ''mergeable_state'',
      pf_head_ref = text_in (mapping_or_empty (get pr ''head'')) ''ref'',
      pf_base_ref = text_in (mapping_or_empty (get pr ''base'')) ''ref''\<rparr>"

definition commit_summary ::
    "http_settings \<Rightarrow> network \<Rightarrow> string \<Rightarrow> int option \<Rightarrow> string \<Rightarrow> pr_facts \<Rightarrow> dict run" where
  "commit_summary st net r number commit pf =
     (let op = ''get_pr_status_summary'';
          failed = (\<lambda>e. failed_read op e
            [(''repository'', PStr r), (''pr_number'', opt_int number), (''commit_sha'', some_text commit)]);
          known = (\<lambda>b. if number = None then PNone else PBool b)
      in run_bind (get_commit_status st net r commit) (\<lambda>s. case s of
           Inl e \<Rightarrow> run_return (failed e)
         | Inr status \<Rightarrow>
             run_bind (list_check_runs st net r commit) (\<lambda>c. run_return (case c of
               Inl e \<Rightarrow> failed e
             | Inr checks \<Rightarrow>
                 (let state = combined_state status; outcomes = run_outcomes checks;
                      summary = checks_state state outcomes in
                  read_answer op
                    (if summary = ''unknown'' \<and> context_states status = [] \<and> outcomes = []
                     then ''empty'' else ''success'')
                    [(''repository'', PStr r), (''pr_number'', opt_int number), (''commit_sha'', some_text commit),
                     (''pr_state'', some_text (pf_state pf)), (''pr_draft'', known (pf_draft pf)),
                     (''pr_merged'', known (pf_merged pf)), (''mergeable_state'', some_text (pf_mergeable pf)),
                     (''pr_head_ref'', some_text (pf_head_ref pf)), (''pr_base_ref'', some_text (pf_base_ref pf)),
                     (''status_state'', PStr state), (''status_contexts'', PDict (status_counts status)),
                     (''check_runs'', PDict (check_counts outcomes)), (''checks_state'', PStr summary)] [])))))"

definition get_pr_status_summary ::
    "http_settings \<Rightarrow> network \<Rightarrow> string \<Rightarrow> py \<Rightarrow> string option \<Rightarrow> dict run" where
  "get_pr_status_summary st net repo pr_number commit_sha =
     (let op = ''get_pr_status_summary''; r = strip repo; commit = normalize_text [] (opt_str commit_sha) in
      run_bind (run_res (as_optional_int pr_number)) (\<lambda>number.
      if r = [] then run_return (unsupported_read op ''repo is required'' [])
      else case number of
        None \<Rightarrow>
          if commit = []
          then run_return (unsupported_read op ''pr_number or commit_sha is required''
            [(''repository'', PStr r), (''pr_number'', PNone), (''commit_sha'', PNone)])
          else commit_summary st net r number commit no_pr_facts
      | Some n \<Rightarrow>
          if commit \<noteq> [] then commit_summary st net r number commit no_pr_facts
          else
            (let facts = [(''repository'', PStr r), (''pr_number'', PInt n), (''commit_sha'', PNone)] in
             run_bind (get_pull_request st net r n) (\<lambda>p. case p of
               Inl e \<Rightarrow> run_return (failed_read op e facts)
             | Inr pr \<Rightarrow>
                 (let sha = text_in (mapping_or_empty (get pr ''head'')) ''sha'' in
                  if sha = [] then run_return (read_answer op ''empty'' facts [])
                  else commit_summary st net r number sha (pr_facts_of pr))))))"

end
