(* ===== verification/Write_Backend.thy ===== *)
theory Write_Backend
  imports Read_Backend
begin

text \<open>
  \<open>automation/github/write_backend.py\<close>: the three writes, each refused without its arguments and
  successful only when the reply of GitHub confirms it.
\<close>

definition write_statuses :: "string list" where
  "write_statuses = [''success'', ''not_found'', ''auth_failure'', ''api_failure'', ''unsupported_query'']"

definition write_answer :: "string \<Rightarrow> string \<Rightarrow> dict \<Rightarrow> dict \<Rightarrow> dict" where
  "write_answer operation status data error =
     (let s = allowed_status write_statuses status in
      [(''operation'', PStr (normalize_text ''unknown_operation'' (PStr operation))),
       (''mode'', PStr ''write_limited''), (''write_actions_allowed'', PBool True), (''status'', PStr s),
       (''ok'', PBool (s = ''success'')), (''data'', PDict data), (''error'', PDict error)])"

definition write_error :: "string \<Rightarrow> string \<Rightarrow> int option \<Rightarrow> dict" where
  "write_error kind message status =
     [(''kind'', PStr (normalize_text ''api_failure'' (PStr kind))),
      (''message'', PStr (normalize_text ''unknown github write error'' (PStr message))),
      (''status_code'', opt_int status)]"

definition failed_write :: "string \<Rightarrow> client_error \<Rightarrow> dict \<Rightarrow> dict" where
  "failed_write operation e data =
     write_answer operation (ce_kind e) data (write_error (ce_kind e) (ce_message e) (ce_status e))"

text \<open>A refusal or a failure the backend itself states.\<close>

definition refused_write :: "string \<Rightarrow> string \<Rightarrow> string \<Rightarrow> dict \<Rightarrow> dict" where
  "refused_write operation kind message data =
     write_answer operation kind data (write_error kind message None)"

section \<open>Pull requests as GitHub returns them\<close>

record pr_payload =
  pw_number :: "int option"
  pw_url :: string
  pw_state :: string
  pw_draft :: bool
  pw_title :: string
  pw_head :: string
  pw_base :: string

definition pr_payload_of :: "dict \<Rightarrow> pr_payload res" where
  "pr_payload_of pr =
     res_bind (as_optional_int (get pr ''number'')) (\<lambda>number. Inr
       \<lparr>pw_number = number, pw_url = text_in pr ''html_url'', pw_state = text_in pr ''state'',
        pw_draft = truthy (get pr ''draft''), pw_title = text_in pr ''title'',
        pw_head = text_in (mapping_or_empty (get pr ''head'')) ''ref'',
        pw_base = text_in (mapping_or_empty (get pr ''base'')) ''ref''\<rparr>)"

definition pr_payload_dict :: "pr_payload \<Rightarrow> dict" where
  "pr_payload_dict pw =
     [(''number'', opt_int (pw_number pw)), (''html_url'', PStr (pw_url pw)), (''state'', PStr (pw_state pw)),
      (''draft'', PBool (pw_draft pw)), (''title'', PStr (pw_title pw)), (''head_ref'', PStr (pw_head pw)),
      (''base_ref'', PStr (pw_base pw))]"

section \<open>Creating a draft\<close>

definition create_draft ::
    "http_settings \<Rightarrow> network \<Rightarrow> string \<Rightarrow> string \<Rightarrow> string \<Rightarrow> string \<Rightarrow> string \<Rightarrow> dict run" where
  "create_draft st net repo title body head_branch base_branch =
     (let op = ''create_draft_pr''; r = strip repo; t = strip title; b = strip body; head = strip head_branch;
          base = strip base_branch;
          refs = [(''repository'', some_text r), (''head_branch'', some_text head), (''base_branch'', some_text base)]
      in if r = [] \<or> head = [] \<or> base = [] \<or> t = []
         then run_return (refused_write op ''unsupported_query''
           ''repo, title, head_branch, and base_branch are required'' (refs @ [(''title_preview'', some_text t)]))
         else run_bind (post_pull_request st net r t b head base True) (\<lambda>p. case p of
           Inl e \<Rightarrow> run_return (failed_write op e (refs @ [(''title_preview'', PStr t)]))
         | Inr created \<Rightarrow>
             run_bind (run_res (pr_payload_of created)) (\<lambda>pw. run_return
               (let data = refs @ [(''pr'', PDict (pr_payload_dict pw))] in
                if \<not> pw_draft pw
                then refused_write op ''api_failure'' ''draft PR creation not confirmed by GitHub response'' data
                else if pw_number pw = None \<or> pw_url pw = []
                then refused_write op ''api_failure'' ''created PR response missing identity fields'' data
                else write_answer op ''success'' data []))))"

section \<open>Merging\<close>

definition merge_request_of ::
    "http_settings \<Rightarrow> network \<Rightarrow> string \<Rightarrow> py \<Rightarrow> string option \<Rightarrow> string \<Rightarrow> dict run" where
  "merge_request_of st net repo pr_number expected_head_sha merge_method =
     (let op = ''merge_pull_request''; r = strip repo; sha = normalize_text [] (opt_str expected_head_sha);
          m = normalize_text ''merge'' (PStr merge_method) in
      run_bind (run_res (as_optional_int pr_number)) (\<lambda>number.
      let query = [(''repository'', some_text r), (''pr_number'', opt_int number),
            (''expected_head_sha'', some_text sha), (''merge_method'', some_text m)]
      in if r = [] \<or> number = None \<or> the number \<le> 0
         then run_return (refused_write op ''unsupported_query'' ''repo and positive pr_number are required'' query)
         else run_bind (put_merge st net r (the number) (text_or_none (PStr sha)) m) (\<lambda>p. run_return (case p of
             Inl e \<Rightarrow> failed_write op e query
           | Inr payload \<Rightarrow>
               (let merged = truthy (get payload ''merged''); commit = text_in payload ''sha'';
                    message = text_in payload ''message'';
                    data = [(''repository'', PStr r), (''pr_number'', opt_int number), (''merged'', PBool merged),
                      (''merge_commit_sha'', some_text commit), (''message'', some_text message)]
                in if \<not> merged \<or> commit = []
                   then refused_write op ''api_failure''
                     (if message = [] then ''GitHub did not confirm successful merge'' else message) data
                   else write_answer op ''success'' data [])))))"

section \<open>Updating\<close>

text \<open>Whether the pull request the writer saw is as asked for already.\<close>

definition as_requested :: "dict \<Rightarrow> pr_payload \<Rightarrow> string option \<Rightarrow> string option \<Rightarrow> string option \<Rightarrow> bool" where
  "as_requested current pw title body base =
     (title \<in> {None, Some (pw_title pw)} \<and> base \<in> {None, Some (pw_base pw)} \<and>
      body \<in> {None, Some (text_in current ''body'')})"

definition update_existing ::
    "http_settings \<Rightarrow> network \<Rightarrow> string \<Rightarrow> py \<Rightarrow> string option \<Rightarrow> string option \<Rightarrow> string option \<Rightarrow> dict option \<Rightarrow> dict run" where
  "update_existing st net repo pr_number title body base_branch current_pr =
     (let op = ''update_existing_pr''; r = strip repo; t = map_option strip title; b = map_option strip body;
          base = map_option strip base_branch; shown = (\<lambda>v. some_text (case v of None \<Rightarrow> [] | Some s \<Rightarrow> s)) in
      run_bind (run_res (as_optional_int pr_number)) (\<lambda>number.
      let query = [(''repository'', some_text r), (''pr_number'', opt_int number), (''title_preview'', shown t),
            (''body_preview'', shown b), (''base_branch'', shown base)];
          done_data = (\<lambda>pw updated classification.
            [(''repository'', PStr r), (''pr_number'', opt_int number),
             (''requested_update'', PDict [(''title'', opt_str t), (''body'', opt_str b), (''base_branch'', opt_str base)]),
             (''pr'', PDict (pr_payload_dict pw)), (''updated'', PBool updated),
             (''classification'', PStr classification)]);
          send = run_bind (patch_pull_request st net r (the number) t b base) (\<lambda>p. case p of
              Inl e \<Rightarrow> run_return (failed_write op e query)
            | Inr updated \<Rightarrow>
                run_bind (run_res (pr_payload_of updated)) (\<lambda>pw. run_return
                  (if pw_number pw = None \<or> pw_url pw = []
                   then refused_write op ''api_failure'' ''updated PR response missing identity fields''
                     [(''repository'', PStr r), (''pr_number'', opt_int number), (''pr'', PDict (pr_payload_dict pw))]
                   else write_answer op ''success'' (done_data pw True ''applied'') [])))
      in if r = [] \<or> number = None \<or> the number \<le> 0 \<or> (t = None \<and> b = None \<and> base = None)
         then run_return (refused_write op ''unsupported_query''
           ''repo, positive pr_number, and at least one update field are required'' query)
         else case current_pr of
           None \<Rightarrow> send
         | Some current \<Rightarrow>
             run_bind (run_res (pr_payload_of current)) (\<lambda>pw.
             if as_requested current pw t b base
             then run_return (write_answer op ''success'' (done_data pw False ''already_applied'') [])
             else send)))"

section \<open>The backends of the writers\<close>

text \<open>
  The objects the four writers are given: their operations by name, with \<open>git\<close> and the home
  directory as they are.
\<close>

definition read_operation :: "http_settings \<Rightarrow> network \<Rightarrow> string \<Rightarrow> dict \<Rightarrow> dict run" where
  "read_operation st net op args =
     (let repo = text_given args ''repo'' in
      if op = ''get_default_branch'' then get_default_branch st net repo
      else if op = ''get_branch_head'' then get_branch_head st net repo (text_given args ''branch'')
      else if op = ''compare_refs'' then compare_refs st net repo (text_given args ''base'') (text_given args ''head'')
      else if op = ''find_open_pr''
      then find_open_pr st net repo (text_arg args ''head_branch'') (text_arg args ''base_branch'')
      else get_pr_status_summary st net repo (get args ''pr_number'') (text_arg args ''commit_sha''))"

definition write_operation :: "http_settings \<Rightarrow> network \<Rightarrow> string \<Rightarrow> dict \<Rightarrow> dict run" where
  "write_operation st net op args =
     (let repo = text_given args ''repo'' in
      if op = ''create_draft_pr''
      then create_draft st net repo (text_given args ''title'') (text_given args ''body'')
        (text_given args ''head_branch'') (text_given args ''base_branch'')
      else if op = ''merge_pull_request''
      then merge_request_of st net repo (get args ''pr_number'') (text_arg args ''expected_head_sha'')
        (text_given args ''merge_method'')
      else update_existing st net repo (get args ''pr_number'') (text_arg args ''title'') (text_arg args ''body'')
        (text_arg args ''base_branch'') (as_mapping (get args ''current_pr'')))"

definition github_over ::
    "http_settings \<Rightarrow> network \<Rightarrow> (string \<Rightarrow> string list \<Rightarrow> (int \<times> string \<times> string) run) \<Rightarrow> (string \<Rightarrow> string) \<Rightarrow> github" where
  "github_over st net git expanduser =
     \<lparr>gh_read = read_operation st net,
      gh_pull_request = (\<lambda>repo number. run_bind (get_pull_request st net repo number) (\<lambda>p. run_return (case p of
        Inl e \<Rightarrow> Inl (ce_kind e) | Inr pr \<Rightarrow> Inr pr))),
      gh_write = write_operation st net, gh_git = git, gh_expanduser = expanduser\<rparr>"

end
