(* ===== verification/Only_Reading.thy ===== *)
theory Only_Reading
  imports Write_Backend Merging
begin

text \<open>
  What is sent to GitHub. The read backend asks with \<open>GET\<close> only; and a bounded write that reports
  no attempt has sent nothing else, so that on every network that answers the questions in the same
  way it ends in the same way.
\<close>

section \<open>The read backend asks only\<close>

definition same_reads :: "network \<Rightarrow> network \<Rightarrow> bool" where
  "same_reads net net' = (\<forall>req. hq_method req = ''GET'' \<longrightarrow> net req = net' req)"

lemma get_json_cong: "same_reads net net' \<Longrightarrow> get_json st net' = get_json st net"
  by (intro ext) (simp add: get_json_def send_request_def same_reads_def)

lemma get_object_cong: "same_reads net net' \<Longrightarrow> get_object st net' = get_object st net"
  by (intro ext) (simp add: get_object_def get_json_cong)

lemma read_operation_cong:
  assumes "same_reads net net'"
  shows "read_operation st net' = read_operation st net" "get_pull_request st net' = get_pull_request st net"
proof -
  note c = get_object_cong [OF assms, of st] get_json_cong [OF assms, of st]
  note client = get_repo_def get_branch_def get_comparison_def list_open_pull_requests_def get_commit_status_def
    list_check_runs_def
  show pr: "get_pull_request st net' = get_pull_request st net"
    by (intro ext) (simp add: get_pull_request_def c)
  have client': "get_repo st net' = get_repo st net" "get_branch st net' = get_branch st net"
    "get_comparison st net' = get_comparison st net"
    "list_open_pull_requests st net' = list_open_pull_requests st net"
    "get_commit_status st net' = get_commit_status st net" "list_check_runs st net' = list_check_runs st net"
    by (intro ext, simp add: client c)+
  have summary: "commit_summary st net' = commit_summary st net"
    by (intro ext) (unfold commit_summary_def client', rule refl)
  show "read_operation st net' = read_operation st net"
    by (intro ext) (unfold read_operation_def get_default_branch_def get_branch_head_def compare_refs_def
        find_open_pr_def get_pr_status_summary_def client' pr summary, rule refl)
qed

section \<open>Writes that report no attempt\<close>

text \<open>A program that ends as another does whenever it reports no attempt.\<close>

definition agrees :: "dict run \<Rightarrow> dict run \<Rightarrow> bool" where
  "agrees m m' = (\<forall>w r w'. m w = (Inr r, w') \<longrightarrow> \<not> truthy (get r ''attempted'') \<longrightarrow> m' w = (Inr r, w'))"

text \<open>A program that always reports an attempt.\<close>

definition always_attempts :: "dict run \<Rightarrow> bool" where
  "always_attempts m = (\<forall>w r w'. m w = (Inr r, w') \<longrightarrow> truthy (get r ''attempted''))"

named_theorems agrees_rules "programs that end in the same way when they report no attempt"

lemma agrees_refl [agrees_rules]: "agrees m m"
  by (simp add: agrees_def)

lemma agrees_if [agrees_rules]:
  "(b \<Longrightarrow> agrees m m') \<Longrightarrow> (\<not> b \<Longrightarrow> agrees n n') \<Longrightarrow> agrees (if b then m else n) (if b then m' else n')"
  by simp

lemma agrees_option [agrees_rules]:
  "agrees m m' \<Longrightarrow> (\<And>x. agrees (f x) (f' x)) \<Longrightarrow>
     agrees (case v of None \<Rightarrow> m | Some x \<Rightarrow> f x) (case v of None \<Rightarrow> m' | Some x \<Rightarrow> f' x)"
  by (cases v) simp_all

lemma agrees_sum [agrees_rules]:
  "(\<And>x. agrees (f x) (f' x)) \<Longrightarrow> (\<And>x. agrees (g x) (g' x)) \<Longrightarrow>
     agrees (case v of Inl x \<Rightarrow> f x | Inr x \<Rightarrow> g x) (case v of Inl x \<Rightarrow> f' x | Inr x \<Rightarrow> g' x)"
  by (cases v) simp_all

lemma agrees_bind [agrees_rules]:
  "(\<And>x. agrees (f x) (f' x)) \<Longrightarrow> agrees (run_bind m f) (run_bind m f')"
  unfolding agrees_def run_bind_Inr_iff by blast

lemma agrees_attempt: "always_attempts m \<Longrightarrow> agrees m m'"
  unfolding agrees_def always_attempts_def by blast

named_theorems attempting_rules "programs that always report an attempt"

lemma attempting_return [attempting_rules]: "truthy (get r ''attempted'') \<Longrightarrow> always_attempts (run_return r)"
  by (simp add: always_attempts_def)

lemma attempting_if [attempting_rules]:
  "always_attempts m \<Longrightarrow> always_attempts n \<Longrightarrow> always_attempts (if b then m else n)"
  by simp

lemma attempting_bind [attempting_rules]:
  "(\<And>x. always_attempts (f x)) \<Longrightarrow> always_attempts (run_bind m f)"
  unfolding always_attempts_def run_bind_Inr_iff by blast

subsection \<open>Merges and drafts\<close>

lemma perform_merge_attempts: "always_attempts (perform_merge gh mc v ev st cs)"
  unfolding perform_merge_def Let_def by (intro attempting_rules) (simp_all add: merge_result_def)

lemma perform_draft_attempts: "always_attempts (perform_draft gh dc bh ev cs st)"
  unfolding perform_draft_def Let_def by (intro attempting_rules) (simp_all add: draft_result_def)

text \<open>Two environments of the writers that read in the same way.\<close>

definition reads_alike :: "github \<Rightarrow> github \<Rightarrow> bool" where
  "reads_alike gh gh' = (gh_read gh' = gh_read gh \<and> gh_pull_request gh' = gh_pull_request gh)"

lemma agrees_gate [agrees_rules]: "agrees m m' \<Longrightarrow> agrees (dedupe_gate rq f m) (dedupe_gate rq f m')"
  unfolding dedupe_gate_def Let_def by (intro agrees_rules)

lemma execute_merge_agrees:
  assumes "reads_alike gh gh'"
  shows "agrees (execute_merge gh store job repo number expected) (execute_merge gh' store job repo number expected)"
proof -
  have reads: "gh_read gh' = gh_read gh" using assms by (simp add: reads_alike_def)
  show ?thesis
    unfolding execute_merge_def judge_and_merge_def identify_and_merge_def compare_and_merge_def Let_def reads
    by (intro agrees_rules agrees_attempt perform_merge_attempts)
qed

lemma create_draft_pr_agrees:
  assumes "reads_alike gh gh'"
  shows "agrees (create_draft_pr gh store al job repo hb base title body) (create_draft_pr gh' store al job repo hb base title body)"
proof -
  have reads: "gh_read gh' = gh_read gh" using assms by (simp add: reads_alike_def)
  show ?thesis
    unfolding create_draft_pr_def draft_on_base_def read_branch_head_def compare_and_draft_def find_and_draft_def
      check_and_draft_def Let_def reads
    by (intro agrees_rules agrees_attempt perform_draft_attempts)
qed

subsection \<open>Updates\<close>

text \<open>The write backend answers an update with \<open>updated = False\<close> only when it has sent nothing.\<close>

lemma result_data_write_answer [simp]:
  "result_data (write_answer op status data error) = data"
  "result_data (refused_write op kind message data) = data"
  "result_data (failed_write op e data) = data"
  by (simp_all add: write_answer_def refused_write_def failed_write_def result_data_def mapping_or_empty_def get_def
      get_or_def Let_def)

lemma sent_update_is_told:
  assumes "run_bind m (\<lambda>p. case p of
        Inl e \<Rightarrow> run_return (failed_write op e query)
      | Inr updated \<Rightarrow>
          run_bind (run_res (pr_payload_of updated)) (\<lambda>pw. run_return
            (if pw_number pw = None \<or> pw_url pw = []
             then refused_write op kind message (D pw) else write_answer op status (E pw) []))) w = (Inr p, w')"
    and "truthy (get_or query ''updated'' (PBool True))"
    and "\<And>pw. truthy (get_or (D pw) ''updated'' (PBool True))" "\<And>pw. truthy (get_or (E pw) ''updated'' (PBool True))"
  shows "truthy (get_or (result_data p) ''updated'' (PBool True))"
proof -
  obtain x w1 where "m w = (Inr x, w1)"
    and last: "(case x of Inl e \<Rightarrow> run_return (failed_write op e query)
      | Inr updated \<Rightarrow>
          run_bind (run_res (pr_payload_of updated)) (\<lambda>pw. run_return
            (if pw_number pw = None \<or> pw_url pw = []
             then refused_write op kind message (D pw) else write_answer op status (E pw) []))) w1 = (Inr p, w')"
    using assms(1) unfolding run_bind_Inr_iff by blast
  then show ?thesis
    using assms(2-) by (cases x) (auto simp: run_bind_Inr_iff)
qed

lemma update_existing_silent:
  assumes run: "update_existing st net repo number title body base current w = (Inr p, w')"
    and silent: "\<not> truthy (get_or (result_data p) ''updated'' (PBool True))"
  shows "update_existing st net' repo number title body base current w = (Inr p, w')"
proof -
  obtain n where n: "as_optional_int number = Inr n"
    using run unfolding update_existing_def Let_def run_bind_Inr_iff by auto
  note step = update_existing_def Let_def n run_bind_Inr [OF run_res_iff [THEN iffD2, OF conjI, OF refl refl]]
  show ?thesis
  proof (cases "strip repo = [] \<or> n = None \<or> the n \<le> 0 \<or>
      (map_option strip title = None \<and> map_option strip body = None \<and> map_option strip base = None)")
    case True
    then show ?thesis
      using run unfolding step by (simp only: if_True)
  next
    case False
    note run1 = run [unfolded step if_not_P [OF False]]
    show ?thesis
    proof (cases current)
      case None
      show ?thesis
        using sent_update_is_told [OF run1 [unfolded None option.case]] silent by (simp add: get_or_def)
    next
      case (Some c)
      obtain pw where pw: "pr_payload_of c = Inr pw"
        using run1 unfolding Some option.case run_bind_Inr_iff by auto
      note step1 = step if_not_P [OF False] Some option.case pw
      have "as_requested c pw (map_option strip title) (map_option strip body) (map_option strip base)"
      proof (rule ccontr)
        assume new: "\<not> ?thesis"
        note run2 = run [unfolded step1 if_not_P [OF new]]
        show False
          using sent_update_is_told [OF run2] silent by (simp add: get_or_def)
      qed
      note asked = if_P [OF this]
      show ?thesis
        using run unfolding step1 asked .
    qed
  qed
qed

lemma update_operation:
  "write_operation st net ''update_existing_pr'' args =
     update_existing st net (text_given args ''repo'') (get args ''pr_number'') (text_arg args ''title'')
       (text_arg args ''body'') (text_arg args ''base_branch'') (as_mapping (get args ''current_pr''))"
  by (simp add: write_operation_def Let_def)

lemma update_attempted:
  "get (update_result uc attempted succeeded reason url title body base evidence) ''attempted'' = PBool attempted"
  by (simp add: update_result_def)

lemma run_bind_alike: "m w = (Inr x, w1) \<Longrightarrow> m' w = (Inr x, w1) \<Longrightarrow> run_bind m f w = run_bind m' f w"
  by (simp add: run_bind_def)

lemma perform_update_agrees:
  assumes "gh_write gh = write_operation st net" and "gh_write gh' = write_operation st net'"
  shows "agrees (perform_update gh uc current pp facts pre ev cs) (perform_update gh' uc current pp facts pre ev cs)"
proof -
  have "perform_update gh' uc current pp facts pre ev cs w = (Inr r, w')"
    if run: "perform_update gh uc current pp facts pre ev cs w = (Inr r, w')"
      and silent: "\<not> truthy (get r ''attempted'')" for w r w'
  proof -
    obtain p w1 where sent: "gh_write gh ''update_existing_pr''
       [(''repo'', PStr (uc_repo uc)), (''pr_number'', opt_int (uc_number uc)),
        (''title'', get (uc_update uc) ''title''), (''body'', get (uc_update uc) ''body''),
        (''base_branch'', get (uc_update uc) ''base_branch''), (''current_pr'', PDict current)] w = (Inr p, w1)"
      using run unfolding perform_update_def run_bind_Inr_iff by blast
    have "\<not> truthy (get_or (result_data p) ''updated'' (PBool True))"
    proof (cases "result_status p = ''success''")
      case True
      then show ?thesis
        using run silent sent by (auto simp: perform_update_def Let_def run_bind_Inr_iff update_attempted)
    next
      case False
      then have "get r ''attempted'' = PBool True"
        using run sent by (auto simp: perform_update_def Let_def run_bind_Inr_iff update_failure_def update_attempted)
      then show ?thesis
        using silent by simp
    qed
    then have again: "gh_write gh' ''update_existing_pr''
       [(''repo'', PStr (uc_repo uc)), (''pr_number'', opt_int (uc_number uc)),
        (''title'', get (uc_update uc) ''title''), (''body'', get (uc_update uc) ''body''),
        (''base_branch'', get (uc_update uc) ''base_branch''), (''current_pr'', PDict current)] w = (Inr p, w1)"
      unfolding assms update_operation by (rule update_existing_silent [OF sent [unfolded assms update_operation]])
    have "perform_update gh' uc current pp facts pre ev cs w = perform_update gh uc current pp facts pre ev cs w"
      unfolding perform_update_def by (rule run_bind_alike, rule again, rule sent)
    then show ?thesis
      using run by simp
  qed
  then show ?thesis
    unfolding agrees_def by blast
qed

lemma update_pull_request_agrees:
  assumes "reads_alike gh gh'" and "gh_write gh = write_operation st net" and "gh_write gh' = write_operation st net'"
  shows "agrees (update_pull_request gh store job repo number title body base)
    (update_pull_request gh' store job repo number title body base)"
proof -
  have reads: "gh_read gh' = gh_read gh" "gh_pull_request gh' = gh_pull_request gh" using assms by (simp_all add: reads_alike_def)
  show ?thesis
    unfolding update_pull_request_def read_and_update_def compare_and_update_def Let_def reads
    by (intro agrees_rules perform_update_agrees [OF assms(2,3)])
qed

lemma over_reads_alike: "same_reads net net' \<Longrightarrow> reads_alike (github_over st net git home) (github_over st net' git home)"
  by (simp add: reads_alike_def github_over_def read_operation_cong)

text \<open>C12. A draft, an update or a merge that reports no attempt has only asked: whatever GitHub answers
  to anything but a \<open>GET\<close>, the writer ends with the same result and leaves the same files.
\<close>

theorem unattempted_writes_only_read:
  assumes "same_reads net net'" and "client \<in> {draft_client, update_client, merge_client}"
    and "client (github_over st net git home) kwargs store w = (Inr r, w')"
    and "\<not> truthy (get r ''attempted'')"
  shows "client (github_over st net' git home) kwargs store w = (Inr r, w')"
proof -
  let ?gh = "github_over st net git home" and ?gh' = "github_over st net' git home"
  have writes: "gh_write ?gh = write_operation st net" "gh_write ?gh' = write_operation st net'"
    by (simp_all add: github_over_def)
  note alike = over_reads_alike [OF assms(1), of st git home]
  have "agrees (client ?gh kwargs store) (client ?gh' kwargs store)"
    using assms(2) execute_merge_agrees [OF alike] create_draft_pr_agrees [OF alike]
      update_pull_request_agrees [OF alike writes]
    by (auto simp: draft_client_def update_client_def merge_client_def)
  then show ?thesis
    using assms(3,4) unfolding agrees_def by blast
qed

text \<open>A network that is down, and one that accepts every write.\<close>

definition dead_network :: network where
  "dead_network req = run_return (Unreachable ''timed out'')"

definition eager_network :: network where
  "eager_network req =
     run_return (if hq_method req = ''GET'' then Unreachable ''timed out''
       else HttpReply 200 ''{}'' (Inr (PDict [])))"

definition demo_settings :: http_settings where
  "demo_settings = \<lparr>hs_token = ''t'', hs_base_url = ''https://api.github.com''\<rparr>"

definition demo_github :: "network \<Rightarrow> github" where
  "demo_github net = github_over demo_settings net (\<lambda>_ _. run_return (0, [], [])) (\<lambda>p. p)"

definition demo_kwargs :: dict where
  "demo_kwargs = [(''job_id'', PStr ''job-1''), (''repository'', PStr ''o/r''), (''pr_number'', PInt 7)]"

definition no_answer :: dict where
  "no_answer = failed_read ''get_pr_status_summary''
     (client_error_of ''api_failure'' ''github api request failed: timed out'' None [])
     [(''repository'', PStr ''o/r''), (''pr_number'', PInt 7), (''commit_sha'', PNone)]"

lemma dead_answer: "result_status no_answer = ''api_failure''"
  by code_simp

lemma demo_args: "strip ''o/r'' = ''o/r''" "as_optional_int (PInt 7) = Inr (Some 7)"
    "normalize_text [] (opt_str (text_arg [(''repo'', PStr ''o/r''), (''pr_number'', PInt 7)] ''commit_sha'')) = []"
    "text_given [(''repo'', PStr ''o/r''), (''pr_number'', PInt 7)] ''repo'' = ''o/r''"
    "get [(''repo'', PStr ''o/r''), (''pr_number'', PInt 7)] ''pr_number'' = PInt 7"
  by code_simp+

lemma dead_read:
  "read_operation demo_settings dead_network ''get_pr_status_summary''
     [(''repo'', PStr ''o/r''), (''pr_number'', PInt 7)] = run_return no_answer"
  unfolding read_operation_def get_pr_status_summary_def Let_def demo_args
  by (simp add: run_bind_res get_pull_request_def get_object_def get_json_def send_request_def dead_network_def
      api_bind_def demo_settings_def no_answer_def)

lemma dead_merge_is_not_attempted:
  "yields (\<lambda>r. get r ''attempted'' = PBool False) (merge_client (demo_github dead_network) demo_kwargs demo_receipts) empty_world"
proof -
  define mc where "mc = merge_call_of (Some demo_receipts) ''job-1'' ''o/r'' (Some 7) []"
  have rq: "wq_store (mc_request mc) = Some demo_receipts" "wq_action (mc_request mc) = ''bounded_merge''"
    by (simp_all add: mc_def merge_call_of_def)
  have none: "no_receipts demo_receipts ''bounded_merge'' empty_world" by (simp add: no_receipts_def empty_world_def)
  note first = first_write [OF rq(1), unfolded rq(2), OF plain_merges none]
  have kw: "strip (text_given demo_kwargs ''job_id'') = ''job-1''" "strip (text_given demo_kwargs ''repository'') = ''o/r''"
    "as_optional_int (get demo_kwargs ''pr_number'') = Inr (Some 7)"
    "normalize_text [] (opt_str (text_arg demo_kwargs ''expected_head_sha'')) = []"
    by code_simp+
  have gate: "status_gate failed missing no_answer = Some (failed @ '':api_failure'')" for failed missing
    by (simp add: status_gate_def dead_answer blocking_statuses_def)
  have reads: "gh_read (demo_github dead_network) = read_operation demo_settings dead_network"
    by (simp add: demo_github_def github_over_def)
  show ?thesis
    unfolding merge_client_def execute_merge_def kw reads
    by (simp add: run_bind_res Let_def mc_def [symmetric] yields_bind [where m = "prior_records (mc_request mc)", OF first(1)]
        first_gate dead_read gate merge_refusal_def merge_result_def)
qed

theorem unattempted_writes_only_read_witness:
  "\<exists>r w'. merge_client (demo_github eager_network) demo_kwargs demo_receipts empty_world = (Inr r, w') \<and>
     get r ''attempted'' = PBool False"
proof -
  obtain r w' where dead: "merge_client (demo_github dead_network) demo_kwargs demo_receipts empty_world = (Inr r, w')"
    "get r ''attempted'' = PBool False"
    using dead_merge_is_not_attempted unfolding yields_def by blast
  have "same_reads dead_network eager_network"
    by (simp add: same_reads_def dead_network_def eager_network_def fun_eq_iff)
  from unattempted_writes_only_read [where client = merge_client, OF this _ dead(1) [unfolded demo_github_def]] dead(2)
  show ?thesis by (auto simp: demo_github_def)
qed

end
