(* ===== verification/Confirming.thy ===== *)
theory Confirming
  imports Only_Reading
begin

text \<open>
  The bounded merge over the backends and the network: success is what GitHub itself confirmed.
\<close>

section \<open>From the answer of the backend to the reply of GitHub\<close>

text \<open>The request that merges a pull request at a head.\<close>

definition merge_request :: "http_settings \<Rightarrow> string \<Rightarrow> int \<Rightarrow> string \<Rightarrow> http_request" where
  "merge_request st repo n sha =
     \<lparr>hq_method = ''PUT'', hq_url = api_url st (''/repos/'' @ repo @ ''/pulls/'' @ int_str n @ ''/merge'') [],
      hq_headers = write_headers st,
      hq_body = Some [(''merge_method'', PStr ''merge''), (''sha'', PStr sha)]\<rparr>"

text \<open>A request GitHub answered with a dictionary.\<close>

definition replied :: "network \<Rightarrow> http_request \<Rightarrow> dict \<Rightarrow> bool" where
  "replied net req d = (\<exists>w w' status body. net req w = (Inr (HttpReply status body (Inr (PDict d))), w'))"

lemma api_bind_Inr_iff:
  "api_bind m f w = (Inr (Inr y), w') \<longleftrightarrow> (\<exists>x w1. m w = (Inr (Inr x), w1) \<and> f x w1 = (Inr (Inr y), w'))"
  by (auto simp: api_bind_def run_bind_def split: prod.splits sum.splits)

lemma write_json_replied:
  assumes "write_json st net method path b w = (Inr (Inr d), w')" and "d \<noteq> []"
  shows "replied net \<lparr>hq_method = method, hq_url = api_url st path [], hq_headers = write_headers st, hq_body = Some b\<rparr> d"
proof -
  from assms(1) obtain v where v: "send_request st net \<lparr>hq_method = method, hq_url = api_url st path [],
      hq_headers = write_headers st, hq_body = Some b\<rparr> w = (Inr (Inr v), w')" "d = mapping_or_empty v"
    by (auto simp: write_json_def api_bind_Inr_iff)
  then obtain reply where reply: "net \<lparr>hq_method = method, hq_url = api_url st path [], hq_headers = write_headers st,
      hq_body = Some b\<rparr> w = (Inr reply, w')" "reply_payload reply = Inr v"
    by (auto simp: send_request_def run_bind_Inr_iff split: if_splits)
  from reply(2) assms(2) v(2) obtain status body where "reply = HttpReply status body (Inr (PDict d))"
    by (cases reply) (auto split: if_splits sum.splits py.splits)
  with reply(1) show ?thesis
    unfolding replied_def by blast
qed

lemma put_merge_replied:
  assumes "put_merge st net repo n (Some sha) ''merge'' w = (Inr (Inr d), w')" and "d \<noteq> []"
    and "strip sha = sha" "sha \<noteq> []"
  shows "replied net (merge_request st repo n sha) d"
proof -
  have "normalize_text ''merge'' (PStr ''merge'') = ''merge''" by code_simp
  moreover have "normalize_text [] (opt_str (Some sha)) = sha" using assms(3,4) by simp
  ultimately show ?thesis
    using assms(1,2) write_json_replied [of st net "''PUT''" "''/repos/'' @ repo @ ''/pulls/'' @ int_str n @ ''/merge''"]
    by (simp add: put_merge_def merge_request_def Let_def assms(4) del: append_Cons)
qed

lemma merge_confirmed:
  assumes run: "merge_request_of st net repo (PInt n) (Some sha) ''merge'' w = (Inr p, w')"
    and merged: "truthy (get (result_data p) ''merged'')" and sha: "strip sha = sha" "sha \<noteq> []"
  shows "\<exists>d. replied net (merge_request st (strip repo) n sha) d \<and> truthy (get d ''merged'') \<and>
    text_in (result_data p) ''merge_commit_sha'' = text_in d ''sha''"
proof -
  have given: "normalize_text ''merge'' (PStr ''merge'') = ''merge''" "normalize_text [] (opt_str (Some sha)) = sha"
    "as_optional_int (PInt n) = Inr (Some n)" "text_or_none (PStr sha) = Some sha"
    using sha by (simp_all add: text_or_none_def) code_simp
  note step = merge_request_of_def Let_def given run_bind_res
  have ok: "\<not> (strip repo = [] \<or> Some n = None \<or> the (Some n) \<le> 0)"
  proof
    assume bad: "strip repo = [] \<or> Some n = None \<or> the (Some n) \<le> 0"
    show False using run [unfolded step if_P [OF bad]] merged by simp
  qed
  obtain q w1 where q: "put_merge st net (strip repo) n (Some sha) ''merge'' w = (Inr q, w1)"
    using run [unfolded step if_not_P [OF ok]] by (auto simp: run_bind_Inr_iff simp del: normalize_text_PStr)
  note answer = run [unfolded step if_not_P [OF ok], simplified run_bind_def option.sel q prod.case sum.case]
  show ?thesis
  proof (cases q)
    case (Inl e)
    with answer merged show ?thesis by simp
  next
    case (Inr d)
    from answer merged have "truthy (get d ''merged'')" and
      "text_in (result_data p) ''merge_commit_sha'' = text_in d ''sha''"
      unfolding Inr by (auto simp: text_in_def some_text_def split: if_splits)
    moreover from this(1) have "d \<noteq> []" by auto
    moreover have "replied net (merge_request st (strip repo) n sha) d"
      by (rule put_merge_replied [OF q [unfolded Inr] \<open>d \<noteq> []\<close> sha])
    ultimately show ?thesis by blast
  qed
qed

lemma merge_operation:
  "write_operation st net ''merge_pull_request'' args =
     merge_request_of st net (text_given args ''repo'') (get args ''pr_number'') (text_arg args ''expected_head_sha'')
       (text_given args ''merge_method'')"
  by (simp add: write_operation_def Let_def)

lemma merge_written_replied:
  assumes "merge_written (github_over st net git home) repo (Some n) sha r" and "truthy (get r ''succeeded'')"
    and "strip sha = sha" "sha \<noteq> []"
  shows "\<exists>d. replied net (merge_request st (strip repo) n sha) d \<and> truthy (get d ''merged'') \<and>
    text_in d ''sha'' \<noteq> [] \<and> get r ''merge_commit_sha'' = PStr (text_in d ''sha'')"
proof -
  from assms(1,2) obtain p w w' where
    "gh_write (github_over st net git home) ''merge_pull_request''
         [(''repo'', PStr repo), (''pr_number'', opt_int (Some n)), (''expected_head_sha'', PStr sha),
          (''merge_method'', PStr ''merge'')] w = (Inr p, w')"
    and p: "truthy (get (result_data p) ''merged'')" "text_in (result_data p) ''merge_commit_sha'' \<noteq> []"
      "get r ''merge_commit_sha'' = PStr (text_in (result_data p) ''merge_commit_sha'')"
    unfolding merge_written_def written_def by blast
  then have "merge_request_of st net repo (PInt n) (Some sha) ''merge'' w = (Inr p, w')"
    by (simp add: github_over_def merge_operation text_given_def text_arg_def)
  from merge_confirmed [OF this p(1) assms(3,4)] p(2,3) show ?thesis by auto
qed


section \<open>A network that confirms a merge\<close>

text \<open>One dictionary with the facts of every question; the open pull requests are a list of it.\<close>

definition demo_facts :: dict where
  "demo_facts =
     (let ref = (\<lambda>name. PDict [(''ref'', PStr name), (''sha'', PStr ''abc'')]) in
      [(''number'', PInt 7), (''html_url'', PStr ''u''), (''state'', PStr ''open''), (''draft'', PBool False),
       (''merged'', PBool False), (''mergeable_state'', PStr ''clean''), (''head'', ref ''f''),
       (''base'', ref ''main''), (''commit'', PDict [(''sha'', PStr ''abc'')]), (''status'', PStr ''ahead'')])"

definition commit_facts :: dict where
  "commit_facts =
     [(''state'', PStr ''success''), (''statuses'', PList [PDict [(''context'', PStr ''ci''), (''state'', PStr ''success'')]]),
      (''check_runs'', PList [PDict [(''name'', PStr ''build''), (''status'', PStr ''completed''),
        (''conclusion'', PStr ''success'')]])]"

definition merging_network :: network where
  "merging_network req =
     run_return
       (if hq_method req = ''GET''
        then HttpReply 200 ''{}'' (Inr
          (if ends_with (hq_url req) ''/status'' \<or> ends_with (hq_url req) ''/check-runs'' then PDict commit_facts
           else if CHR ''?'' \<in> set (hq_url req) then PList [PDict demo_facts] else PDict demo_facts))
        else HttpReply 200 ''{}'' (Inr (PDict [(''merged'', PBool True), (''sha'', PStr ''def'')])))"

text \<open>Programs that leave the state as it is.\<close>

definition fixed :: "'a run \<Rightarrow> bool" where
  "fixed m = (\<exists>r. \<forall>w. m w = (r, w))"

named_theorems fixed_rules "programs that leave the state as it is"

lemma fixed_return [fixed_rules]: "fixed (run_return x)"
  by (simp add: fixed_def run_return_def)

lemma fixed_res [fixed_rules]: "fixed (run_res x)"
  by (simp add: fixed_def run_res_def)

lemma fixed_bind [fixed_rules]:
  assumes "fixed m" and "\<And>x. fixed (f x)"
  shows "fixed (run_bind m f)"
proof -
  obtain r where r: "\<And>w. m w = (r, w)" using assms(1) unfolding fixed_def by blast
  show ?thesis
  proof (cases r)
    case (Inl e)
    then show ?thesis by (simp add: fixed_def run_bind_def r)
  next
    case (Inr x)
    obtain q where "\<And>w. f x w = (q, w)" using assms(2) unfolding fixed_def by blast
    then show ?thesis by (simp add: fixed_def run_bind_def r Inr)
  qed
qed

lemma fixed_if [fixed_rules]: "fixed m \<Longrightarrow> fixed n \<Longrightarrow> fixed (if b then m else n)"
  by simp

lemma fixed_sum [fixed_rules]:
  "(\<And>x. fixed (f x)) \<Longrightarrow> (\<And>x. fixed (g x)) \<Longrightarrow> fixed (case v of Inl x \<Rightarrow> f x | Inr x \<Rightarrow> g x)"
  by (cases v) simp_all

lemma fixed_option [fixed_rules]: "fixed m \<Longrightarrow> (\<And>x. fixed (f x)) \<Longrightarrow> fixed (case v of None \<Rightarrow> m | Some x \<Rightarrow> f x)"
  by (cases v) simp_all

lemma fixed_client: "fixed (get_json st merging_network path query)" "fixed (write_json st merging_network m path b)"
  unfolding get_json_def write_json_def send_request_def merging_network_def api_bind_def by (intro fixed_rules)+

lemma fixed_reads: "fixed (read_operation st merging_network op args)"
  unfolding read_operation_def get_default_branch_def get_branch_head_def compare_refs_def find_open_pr_def
    get_pr_status_summary_def commit_summary_def get_repo_def get_branch_def get_comparison_def
    list_open_pull_requests_def get_pull_request_def get_commit_status_def list_check_runs_def get_object_def
    api_bind_def Let_def
  by (intro fixed_rules fixed_client)

lemma fixed_merges: "fixed (write_operation st merging_network ''merge_pull_request'' args)"
  unfolding merge_operation merge_request_of_def put_merge_def api_bind_def Let_def
  by (intro fixed_rules fixed_client)

text \<open>The answers of the backends over this network.\<close>

definition told :: "string \<Rightarrow> py res" where
  "told op =
     fst (run_bind (if op = ''merge_pull_request'' then write_operation demo_settings merging_network op (demo_query op)
       else read_operation demo_settings merging_network op (demo_query op)) (\<lambda>p. run_return (PDict p)) empty_world)"

lemma told_clear:
  "list_all (\<lambda>op. case told op of Inr (PDict p) \<Rightarrow> clear_answer op p | _ \<Rightarrow> False)
     [''get_pr_status_summary'', ''find_open_pr'', ''get_branch_head'', ''compare_refs'', ''merge_pull_request'']"
  by code_simp

definition demo_reply :: "string \<Rightarrow> dict" where
  "demo_reply op = (case told op of Inr v \<Rightarrow> mapping_or_empty v | Inl _ \<Rightarrow> [])"

lemma fixed_answer:
  assumes "fixed m" and "fst (run_bind m (\<lambda>p. run_return (PDict p)) empty_world) = Inr (PDict p)"
  shows "m w = (Inr p, w)"
proof -
  obtain r where r: "\<And>w. m w = (r, w)" using assms(1) unfolding fixed_def by blast
  with assms(2) have "r = Inr p" by (cases r) (simp_all add: run_bind_def run_return_def)
  with r show ?thesis by simp
qed

lemma merging_network_is_clear:
  "shows_clear (demo_github merging_network) demo_reply"
proof -
  have reads: "gh_read (demo_github merging_network) op (demo_query op) w = (Inr (demo_reply op), w)"
    "clear_answer op (demo_reply op)"
    if "op \<in> set [''get_pr_status_summary'', ''find_open_pr'', ''get_branch_head'', ''compare_refs'']" for op w
  proof -
    from that told_clear obtain p where p: "told op = Inr (PDict p)" "clear_answer op p" 
      by (auto split: sum.splits py.splits)
    moreover from that have "op \<noteq> ''merge_pull_request''" by auto
    ultimately show "gh_read (demo_github merging_network) op (demo_query op) w = (Inr (demo_reply op), w)"
      "clear_answer op (demo_reply op)"
      using fixed_answer [OF fixed_reads, of demo_settings op "demo_query op" p]
      by (simp_all add: told_def demo_reply_def demo_github_def github_over_def)
  qed
  from told_clear obtain p where p: "told ''merge_pull_request'' = Inr (PDict p)" "clear_answer ''merge_pull_request'' p"
    by (auto split: sum.splits py.splits)
  with fixed_answer [OF fixed_merges, of demo_settings "demo_query ''merge_pull_request''" p]
  have "gh_write (demo_github merging_network) ''merge_pull_request'' (demo_query ''merge_pull_request'') w =
      (Inr (demo_reply ''merge_pull_request''), w)" "clear_answer ''merge_pull_request'' (demo_reply ''merge_pull_request'')" for w
    by (simp_all add: told_def demo_reply_def demo_github_def github_over_def)
  with reads show ?thesis
    unfolding shows_clear_def by simp
qed


end
