(* ===== verification/Path_Patterns.thy ===== *)
theory Path_Patterns
  imports Prelude
begin

text \<open>
  The paths of changed files as the orchestrator normalises them, and the shell patterns of
  \<open>fnmatch\<close> its policies match them with.
\<close>

section \<open>Changed files\<close>

text \<open>\<open>_normalize_paths\<close>: slashes, one leading \<open>./\<close> dropped, sorted without duplicates.\<close>

definition backslash_char :: char where
  "backslash_char = char_of (92 :: nat)"

definition clean_path :: "string \<Rightarrow> string" where
  "clean_path s =
     (let p = map (\<lambda>c. if c = backslash_char then CHR ''/'' else c) (strip s) in
      if starts_with p ''./'' then drop 2 p else p)"

definition normalize_paths :: "string list \<Rightarrow> string list" where
  "normalize_paths files = sort (remdups (filter (\<lambda>p. p \<noteq> []) (map clean_path files)))"

section \<open>Shell patterns\<close>

text \<open>A pattern as a list of what it asks for; a set of characters is a list of ranges.\<close>

datatype glob =
    AnyText
  | AnyChar
  | OneOf bool "(char \<times> char) list"
  | Just char

text \<open>
  The body of a bracket: \<open>a-z\<close> is a range, every other character is itself. A range the wrong way
  round holds no character.
\<close>

fun bracket_ranges :: "string \<Rightarrow> (char \<times> char) list" where
  "bracket_ranges (a # b # c # cs) =
     (if b = CHR ''-'' then (a, c) # bracket_ranges cs else (a, a) # bracket_ranges (b # c # cs))"
| "bracket_ranges [a, b] = [(a, a), (b, b)]"
| "bracket_ranges [a] = [(a, a)]"
| "bracket_ranges [] = []"

text \<open>The body of a bracket and what follows it; a closing bracket in front belongs to the body.\<close>

definition bracket_body :: "string \<Rightarrow> (string \<times> string) option" where
  "bracket_body s =
     (let (neg, t) = (case s of c # cs \<Rightarrow> if c = CHR ''!'' then ([c], cs) else ([], s) | [] \<Rightarrow> ([], s));
          (front, u) = (case t of c # cs \<Rightarrow> if c = CHR '']'' then ([c], cs) else ([], t) | [] \<Rightarrow> ([], t));
          body = takeWhile (\<lambda>c. c \<noteq> CHR '']'') u
      in case dropWhile (\<lambda>c. c \<noteq> CHR '']'') u of
           [] \<Rightarrow> None
         | _ # rest \<Rightarrow> Some (neg @ front @ body, rest))"

definition bracket_glob :: "string \<Rightarrow> glob" where
  "bracket_glob body =
     (case body of
        c # cs \<Rightarrow> if c = CHR ''!'' then OneOf False (bracket_ranges cs) else OneOf True (bracket_ranges body)
      | [] \<Rightarrow> OneOf True [])"

lemma dropWhile_shorter: "dropWhile P u = c # rest \<Longrightarrow> length rest < length u"
  using length_dropWhile_le [of P u] by simp

lemma bracket_body_shorter: "bracket_body s = Some (body, rest) \<Longrightarrow> length rest < length s"
  by (auto simp: bracket_body_def Let_def dest: dropWhile_shorter split: list.splits if_splits prod.splits)

function glob_of :: "string \<Rightarrow> glob list" where
  "glob_of [] = []"
| "glob_of (c # cs) =
     (if c = CHR ''*'' then AnyText # glob_of cs
      else if c = CHR ''?'' then AnyChar # glob_of cs
      else if c = CHR ''['' then
        (case bracket_body cs of
           None \<Rightarrow> Just c # glob_of cs
         | Some (body, rest) \<Rightarrow> bracket_glob body # glob_of rest)
      else Just c # glob_of cs)"
  by pat_completeness auto
termination
  by (relation "measure length") (auto dest: bracket_body_shorter)

fun glob_char :: "glob \<Rightarrow> char \<Rightarrow> bool" where
  "glob_char AnyText c = False"
| "glob_char AnyChar c = True"
| "glob_char (OneOf inside ranges) c = (inside = list_ex (\<lambda>(a, b). code a \<le> code c \<and> code c \<le> code b) ranges)"
| "glob_char (Just d) c = (c = d)"

fun glob_match :: "glob list \<Rightarrow> string \<Rightarrow> bool" where
  "glob_match [] s = (s = [])"
| "glob_match (AnyText # gs) [] = glob_match gs []"
| "glob_match (AnyText # gs) (c # cs) = (glob_match gs (c # cs) \<or> glob_match (AnyText # gs) cs)"
| "glob_match (g # gs) [] = False"
| "glob_match (g # gs) (c # cs) = (glob_char g c \<and> glob_match gs cs)"

text \<open>\<open>fnmatch(name, pattern)\<close> on a system whose file names keep their case.\<close>

definition fnmatch :: "string \<Rightarrow> string \<Rightarrow> bool" where
  "fnmatch name pattern = glob_match (glob_of pattern) name"

definition matches_any :: "string list \<Rightarrow> string \<Rightarrow> bool" where
  "matches_any patterns path = list_ex (fnmatch path) patterns"

section \<open>Lemmas\<close>

lemma normalize_paths_sorted [simp]: "sorted (normalize_paths files)" "distinct (normalize_paths files)"
  by (simp_all add: normalize_paths_def)

lemma set_normalize_paths: "set (normalize_paths files) = clean_path ` set files - {[]}"
  by (auto simp: normalize_paths_def)

text \<open>Only the set of files counts.\<close>

lemma normalize_paths_cong: "set files = set files' \<Longrightarrow> normalize_paths files = normalize_paths files'"
  by (rule sorted_distinct_set_unique) (simp_all add: set_normalize_paths)

lemma glob_match_AnyText [simp]: "glob_match [AnyText] s"
  by (induction s) simp_all

lemma glob_match_AnyText2 [simp]: "glob_match [AnyText, AnyText] s"
  by (induction s) simp_all

definition plain_char :: "char \<Rightarrow> bool" where
  "plain_char c = (c \<notin> {CHR ''*'', CHR ''?'', CHR ''[''})"

lemma glob_of_plain: "list_all plain_char p \<Longrightarrow> glob_of (p @ q) = map Just p @ glob_of q"
  by (induction p) (simp_all add: plain_char_def)

lemma glob_match_Just: "glob_match (map Just p @ gs) s \<longleftrightarrow> starts_with s p \<and> glob_match gs (drop (length p) s)"
proof (induction p arbitrary: s)
  case (Cons c p)
  then show ?case by (cases s) auto
qed simp

text \<open>A pattern that ends in \<open>**\<close> asks for what stands before it.\<close>

lemma fnmatch_below: "list_all plain_char p \<Longrightarrow> fnmatch s (p @ ''**'') \<longleftrightarrow> starts_with s p"
  by (simp add: fnmatch_def glob_of_plain glob_match_Just)

lemma fnmatch_exact: "list_all plain_char p \<Longrightarrow> fnmatch s p \<longleftrightarrow> s = p"
proof -
  assume "list_all plain_char p"
  then have "fnmatch s p \<longleftrightarrow> starts_with s p \<and> drop (length p) s = []"
    using glob_of_plain [of p "[]"] glob_match_Just [of p "[]" s] by (simp add: fnmatch_def)
  also have "\<dots> \<longleftrightarrow> s = p"
    by (induction s p rule: starts_with.induct) auto
  finally show ?thesis .
qed

end
