(* ===== verification/Change_Rubric.thy ===== *)
theory Change_Rubric
  imports Path_Patterns
begin

text \<open>
  \<open>orchestrator/classify.py\<close> and \<open>orchestrator/evaluate.py\<close>: the category of a change as its files
  show it, and the rubric of the change under the rules of that category; with the readers of the
  categories policy in \<open>orchestrator/policy_loader.py\<close>. The policy is the dictionary its loader gives.
\<close>

section \<open>The categories policy\<close>

definition required_mapping :: "string \<Rightarrow> py \<Rightarrow> dict res" where
  "required_mapping context v =
     (case as_mapping v of
        None \<Rightarrow> Inl (ValueError (context @ '' must be a mapping''))
      | Some d \<Rightarrow> Inr d)"

definition policy_categories :: "dict \<Rightarrow> dict res" where
  "policy_categories policy = required_mapping ''change_categories.categories'' (get policy ''categories'')"

definition get_change_category_names :: "dict \<Rightarrow> string list res" where
  "get_change_category_names policy =
     res_bind (policy_categories policy) (\<lambda>categories.
     Inr (filter (\<lambda>n. n \<noteq> []) (map (\<lambda>(name, body). strip name) categories)))"

definition get_change_category_policy :: "string \<Rightarrow> dict \<Rightarrow> dict option res" where
  "get_change_category_policy category policy =
     (let name = strip category in
      if name = [] then Inr None
      else res_bind (policy_categories policy) (\<lambda>categories.
        let raw = get categories name in
        if raw = PNone then Inr None
        else res_bind (required_mapping (''category '' @ name) raw) (\<lambda>d. Inr (Some d))))"

section \<open>Classification\<close>

definition runtime_sensitive_exact :: "string list" where
  "runtime_sensitive_exact = [''run_codex.py'', ''app.py'']"

definition runtime_sensitive_prefixes :: "string list" where
  "runtime_sensitive_prefixes = [''adapters/'', ''verify/'', ''workspace/'']"

definition is_docs_path :: "string \<Rightarrow> bool" where
  "is_docs_path p = starts_with p ''docs/''"

definition is_ci_path :: "string \<Rightarrow> bool" where
  "is_ci_path p = starts_with p ''.github/workflows/''"

definition is_test_path :: "string \<Rightarrow> bool" where
  "is_test_path p = starts_with p ''tests/''"

definition is_runtime_sensitive :: "string \<Rightarrow> bool" where
  "is_runtime_sensitive p = (p \<in> set runtime_sensitive_exact \<or> list_ex (starts_with p) runtime_sensitive_prefixes)"

definition infer_observed_category :: "string list \<Rightarrow> string" where
  "infer_observed_category changed_files =
     (let paths = normalize_paths changed_files in
      if paths = [] then ''feature''
      else if list_all is_docs_path paths then ''docs_only''
      else if list_all is_ci_path paths then ''ci_only''
      else if list_all is_test_path paths then ''test_only''
      else if list_all (\<lambda>p. is_docs_path p \<or> is_test_path p) paths \<and> list_ex is_docs_path paths \<and>
        list_ex is_test_path paths then ''contract_guard_only''
      else if list_ex is_runtime_sensitive paths then ''runtime_fix_high_risk''
      else ''feature'')"

definition validate_declared_category :: "string \<Rightarrow> string list \<Rightarrow> dict \<Rightarrow> (bool \<times> string) res" where
  "validate_declared_category declared_category changed_files policy =
     (let declared = strip declared_category in
      res_bind (get_change_category_names policy) (\<lambda>names.
      if declared \<notin> set names then Inr (False, ''declared_category_unsupported'')
      else let observed = infer_observed_category changed_files in
        Inr (if declared \<noteq> observed then (False, ''declared_category_mismatch_observed:'' @ observed)
             else (True, []))))"

record classification =
  cl_declared :: string
  cl_observed :: string
  cl_supported :: bool
  cl_matches :: bool
  cl_files :: "string list"
  cl_reasons :: "string list"

definition classify_changes :: "string \<Rightarrow> string list \<Rightarrow> dict \<Rightarrow> classification res" where
  "classify_changes declared_category changed_files policy =
     (let declared = strip declared_category; paths = normalize_paths changed_files;
          observed = infer_observed_category paths in
      res_bind (get_change_category_names policy) (\<lambda>names.
      let supported = declared \<in> set names; matches = supported \<and> declared = observed
      in Inr \<lparr>cl_declared = declared, cl_observed = observed, cl_supported = supported, cl_matches = matches,
           cl_files = paths,
           cl_reasons =
             (if \<not> supported then [''declared_category_unsupported'']
              else if \<not> matches then [''declared_category_mismatch_observed:'' @ observed] else []) @
             (if observed = ''runtime_fix_high_risk'' then [''runtime_sensitive_paths_touched''] else [])\<rparr>))"

section \<open>The rubric\<close>

definition contract_shape_paths :: "string list" where
  "contract_shape_paths = [''adapters/codex_cli.py'', ''docs/reviewer_handoff.md'']"

record rubric =
  ru_declared :: string
  ru_observed :: string
  ru_allowed_files_only :: bool
  ru_forbidden_untouched :: bool
  ru_diff_within_limit :: bool
  ru_tests_declared :: bool
  ru_tests_executed :: bool
  ru_tests_passed :: bool
  ru_runtime_changed :: bool
  ru_contract_changed :: bool
  ru_reviewer_changed :: bool
  ru_ci_green :: bool
  ru_rollback_recorded :: bool
  ru_merge_eligible :: bool
  ru_fail_reasons :: "string list"
  ru_warnings :: "string list"

text \<open>What an evaluation is told beside the files.\<close>

record rubric_input =
  ri_declared :: string
  ri_observed :: string
  ri_additions :: int
  ri_deletions :: int
  ri_tests_declared :: bool
  ri_tests_executed :: bool
  ri_tests_passed :: bool
  ri_ci_green :: bool
  ri_rollback_recorded :: bool
  ri_diff_line_limit :: int

text \<open>\<open>tuple(str(item) for item in v)\<close>: a text gives its characters, a dictionary its keys.\<close>

fun texts_in :: "py \<Rightarrow> string list res" where
  "texts_in (PList vs) = Inr (map py_str vs)"
| "texts_in (PTuple vs) = Inr (map py_str vs)"
| "texts_in (PStr s) = Inr (map (\<lambda>c. [c]) s)"
| "texts_in (PDict d) = Inr (map fst d)"
| "texts_in _ = Inl (TypeError ''object is not iterable'')"

text \<open>Whether the files are all allowed, and none forbidden, under the rules of the category.\<close>

definition path_rules :: "string \<Rightarrow> dict \<Rightarrow> string list \<Rightarrow> (bool \<times> bool) res" where
  "path_rules observed policy paths =
     res_bind (get_change_category_policy observed policy) (\<lambda>rules. case rules of
       None \<Rightarrow> Inr (False, False)
     | Some d \<Rightarrow>
         res_bind (texts_in (get_or d ''allowed_paths'' (PTuple []))) (\<lambda>allowed.
         res_bind (texts_in (get_or d ''forbidden_paths'' (PTuple []))) (\<lambda>forbidden.
         Inr (list_all (matches_any allowed) paths, \<not> list_ex (matches_any forbidden) paths))))"

text \<open>The reasons whose condition holds.\<close>

definition reasons_of :: "(bool \<times> string) list \<Rightarrow> string list" where
  "reasons_of checks = map snd (filter fst checks)"

definition evaluate_rubric :: "rubric_input \<Rightarrow> string list \<Rightarrow> dict \<Rightarrow> rubric res" where
  "evaluate_rubric ri changed_files policy =
     (let paths = normalize_paths changed_files in
      res_bind (path_rules (ri_observed ri) policy paths) (\<lambda>(allowed_only, forbidden_untouched).
      let within = ri_additions ri + ri_deletions ri \<le> ri_diff_line_limit ri;
          declared = strip (ri_declared ri); observed = strip (ri_observed ri);
          runtime = list_ex is_runtime_sensitive paths;
          contract = list_ex (\<lambda>p. p \<in> set contract_shape_paths) paths;
          failing = reasons_of
            [(declared \<noteq> observed, ''declared_category_does_not_match_observed_category''),
             (\<not> allowed_only, ''observed_category_allowed_paths_violated''),
             (\<not> forbidden_untouched, ''observed_category_forbidden_paths_touched''),
             (\<not> within, ''diff_size_limit_exceeded''),
             (\<not> ri_tests_declared ri, ''required_tests_not_declared''),
             (\<not> ri_tests_executed ri, ''required_tests_not_executed''),
             (\<not> ri_tests_passed ri, ''required_tests_not_passed''),
             (\<not> ri_ci_green ri, ''required_ci_checks_not_green'')]
      in Inr \<lparr>ru_declared = declared, ru_observed = observed, ru_allowed_files_only = allowed_only,
           ru_forbidden_untouched = forbidden_untouched, ru_diff_within_limit = within,
           ru_tests_declared = ri_tests_declared ri, ru_tests_executed = ri_tests_executed ri,
           ru_tests_passed = ri_tests_passed ri, ru_runtime_changed = runtime, ru_contract_changed = contract,
           ru_reviewer_changed = contract, ru_ci_green = ri_ci_green ri,
           ru_rollback_recorded = ri_rollback_recorded ri, ru_merge_eligible = (failing = []),
           ru_fail_reasons = failing,
           ru_warnings = reasons_of
             [(runtime, ''runtime_sensitive_paths_touched''), (contract, ''contract_shape_related_paths_touched''),
              (contract, ''reviewer_field_related_paths_touched''),
              (\<not> ri_rollback_recorded ri, ''rollback_metadata_not_recorded'')]\<rparr>))"

section \<open>Lemmas\<close>

lemma reasons_of_Nil: "reasons_of checks = [] \<longleftrightarrow> (\<forall>(b, r) \<in> set checks. \<not> b)"
  by (auto simp: reasons_of_def filter_empty_conv)

definition observable_categories :: "string list" where
  "observable_categories =
     [''docs_only'', ''ci_only'', ''test_only'', ''contract_guard_only'', ''runtime_fix_high_risk'', ''feature'']"

lemma observed_category_observable: "infer_observed_category files \<in> set observable_categories"
  by (simp add: infer_observed_category_def observable_categories_def Let_def)

text \<open>Only the set of files counts.\<close>

lemma infer_observed_category_cong:
  "set files = set files' \<Longrightarrow> infer_observed_category files = infer_observed_category files'"
  by (simp add: infer_observed_category_def normalize_paths_cong [of files files'])

end
