(* ===== verification/GitHub_State.thy ===== *)
theory GitHub_State
  imports Prelude
begin

text \<open>
  \<open>orchestrator/github_backend.py\<close>: the state of a pull request as the artefacts of a job, or a live
  reader, tell it; normalised into a snapshot, and the snapshot as the merge gate keeps it.
\<close>

section \<open>Readers\<close>

definition first_non_empty :: "py list \<Rightarrow> string option" where
  "first_non_empty vs = (case List.map_filter text_or_none vs of [] \<Rightarrow> None | t # _ \<Rightarrow> Some t)"

text \<open>\<open>_normalize_string_list\<close>: the stripped texts of a list or tuple, sorted without duplicates.\<close>

definition sorted_texts :: "py \<Rightarrow> string list" where
  "sorted_texts v =
     (let items = (case v of PList vs \<Rightarrow> vs | PTuple vs \<Rightarrow> vs | _ \<Rightarrow> [])
      in sort (remdups (filter (\<lambda>t. t \<noteq> []) (map (\<lambda>i. strip (py_str i)) items))))"

definition normalize_choice :: "string list \<Rightarrow> py \<Rightarrow> string option" where
  "normalize_choice allowed v =
     (let t = lower (strip (py_str v)) in if v \<noteq> PNone \<and> t \<in> set allowed then Some t else None)"

fun as_optional_bool :: "py \<Rightarrow> bool option" where
  "as_optional_bool (PBool b) = Some b"
| "as_optional_bool (PInt i) = Some (i \<noteq> 0)"
| "as_optional_bool (PStr s) =
     (let t = lower (strip s) in
      if t \<in> {''1'', ''true'', ''yes''} then Some True
      else if t \<in> {''0'', ''false'', ''no''} then Some False else None)"
| "as_optional_bool _ = None"

definition get_mapping :: "dict \<Rightarrow> string \<Rightarrow> dict" where
  "get_mapping payload key = mapping_or_empty (get payload key)"

definition get_nested_mapping :: "dict \<Rightarrow> string \<Rightarrow> string \<Rightarrow> dict" where
  "get_nested_mapping payload parent child = get_mapping (get_mapping payload parent) child"

text \<open>\<open>str(v).strip() or d\<close>.\<close>

definition shown_or :: "string \<Rightarrow> py \<Rightarrow> string" where
  "shown_or d v = (let t = strip (py_str v) in if t = [] then d else t)"

section \<open>The state of a pull request\<close>

definition allowed_check_states :: "string list" where
  "allowed_check_states = [''passing'', ''failing'', ''pending'', ''unknown'']"

definition allowed_review_states :: "string list" where
  "allowed_review_states = [''approved'', ''changes_requested'', ''pending'', ''unknown'']"

definition allowed_mergeability_states :: "string list" where
  "allowed_mergeability_states = [''clean'', ''blocked'', ''behind'', ''dirty'', ''draft'', ''unknown'']"

text \<open>The first of the places an artefact may hold the state in that is not empty.\<close>

definition extract_github_state :: "dict \<Rightarrow> dict \<Rightarrow> dict \<times> string" where
  "extract_github_state request result =
     (case List.find (\<lambda>(source, payload). payload \<noteq> [])
        [(''result.github_state'', get_mapping result ''github_state''),
         (''result.github'', get_mapping result ''github''),
         (''result.metadata.github_state'', get_nested_mapping result ''metadata'' ''github_state''),
         (''result.metadata.github'', get_nested_mapping result ''metadata'' ''github''),
         (''request.github_state'', get_mapping request ''github_state''),
         (''request.github'', get_mapping request ''github''),
         (''request.metadata.github_state'', get_nested_mapping request ''metadata'' ''github_state''),
         (''request.metadata.github'', get_nested_mapping request ''metadata'' ''github'')] of
        None \<Rightarrow> ([], ''none'')
      | Some (source, payload) \<Rightarrow> (payload, source))"

definition derive_target :: "dict \<Rightarrow> dict \<Rightarrow> dict res" where
  "derive_target request state =
     (let target = get_nested_mapping request ''metadata'' ''execution_target'';
          first = (\<lambda>vs. opt_str (first_non_empty vs)) in
      res_bind (as_optional_int (get state ''pr_number'')) (\<lambda>number. Inr
        [(''repository'', first [get state ''repository'', get state ''repo'', get request ''repo'']),
         (''target_ref'', first [get state ''target_ref'', get state ''base_ref'', get state ''base_branch'',
           get target ''target_ref'']),
         (''head_ref'', first [get state ''head_ref'', get state ''head_branch'', get state ''source_branch'']),
         (''source_sha'', first [get state ''source_sha'', get target ''source_sha'']),
         (''base_sha'', first [get state ''base_sha'', get target ''base_sha'']),
         (''pr_number'', opt_int number),
         (''pr_url'', first [get state ''pr_url'', get state ''url''])]))"

definition derive_checks :: "dict \<Rightarrow> dict" where
  "derive_checks state =
     (let required = sorted_texts (get state ''required_checks''); passing = sorted_texts (get state ''passing_checks'');
          failing = sorted_texts (get state ''failing_checks''); pending = sorted_texts (get state ''pending_checks'');
          derived = (if failing \<noteq> [] then ''failing'' else if pending \<noteq> [] then ''pending''
            else if required \<noteq> [] \<and> set required \<subseteq> set passing then ''passing'' else ''unknown'');
          texts = (\<lambda>ts. PList (map PStr ts))
      in [(''state'', PStr (case normalize_choice allowed_check_states (get state ''required_checks_state'') of
             Some s \<Rightarrow> s | None \<Rightarrow> derived)),
          (''required'', texts required), (''passing'', texts passing), (''failing'', texts failing),
          (''pending'', texts pending)])"

definition derive_review :: "dict \<Rightarrow> dict res" where
  "derive_review state =
     res_bind (as_non_negative_int_signed 0 (get state ''approvals'')) (\<lambda>approvals.
     res_bind (as_non_negative_int_signed 0 (get state ''changes_requested'')) (\<lambda>changes.
     res_bind (as_optional_int (get state ''required_approvals'')) (\<lambda>required.
     let derived = (if changes > 0 then ''changes_requested''
           else if required \<noteq> None \<and> the required > 0 \<and> approvals \<ge> the required then ''approved''
           else if approvals > 0 \<and> required \<in> {None, Some 0} then ''pending''
           else if approvals = 0 then ''pending'' else ''unknown'')
     in Inr
       [(''state'', PStr (case normalize_choice allowed_review_states (get state ''review_state'') of
           Some s \<Rightarrow> s | None \<Rightarrow> derived)),
        (''approvals'', PInt approvals), (''changes_requested'', PInt changes),
        (''required_approvals'', opt_int required)])))"

definition derive_mergeability :: "dict \<Rightarrow> dict" where
  "derive_mergeability state =
     (let mergeable = as_optional_bool (get_or state ''is_mergeable'' (get state ''mergeable''));
          draft = as_optional_bool (get state ''is_draft'');
          derived = (if draft = Some True then ''draft'' else if mergeable = Some True then ''clean''
            else if mergeable = Some False then ''blocked'' else ''unknown'')
      in [(''state'', PStr (case normalize_choice allowed_mergeability_states (get state ''mergeability_state'') of
             Some s \<Rightarrow> s | None \<Rightarrow> derived)),
          (''is_mergeable'', opt_bool mergeable), (''is_draft'', opt_bool draft)])"

section \<open>The snapshot\<close>

text \<open>Where the state of a snapshot comes from.\<close>

record state_origin =
  so_backend :: string
  so_state_source :: string
  so_kind :: string
  so_metadata :: dict
  so_extra_reasons :: "string list"

text \<open>What speaks against progressing, in the order it is looked at.\<close>

definition snapshot_reasons :: "bool \<Rightarrow> dict \<Rightarrow> dict \<Rightarrow> dict \<Rightarrow> dict \<Rightarrow> string list" where
  "snapshot_reasons available target checks review mergeability =
     map snd (filter fst
       [(\<not> available, ''github_state_unavailable''),
        (\<not> truthy (get target ''repository''), ''github_repository_missing''),
        (\<not> truthy (get target ''target_ref''), ''github_target_ref_missing''),
        (get checks ''state'' \<noteq> PStr ''passing'', ''github_required_checks_not_passing''),
        (get review ''state'' \<noteq> PStr ''approved'', ''github_review_not_approved''),
        (get mergeability ''state'' \<noteq> PStr ''clean'', ''github_mergeability_not_clean''),
        (get mergeability ''is_draft'' = PBool True, ''github_pull_request_is_draft'')])"

definition add_reasons :: "string list \<Rightarrow> string list \<Rightarrow> string list" where
  "add_reasons extra reasons = foldl (\<lambda>rs r. if r \<in> set rs then rs else rs @ [r]) reasons extra"

definition build_normalized_snapshot :: "state_origin \<Rightarrow> dict \<Rightarrow> dict \<Rightarrow> dict res" where
  "build_normalized_snapshot so request state =
     res_bind (derive_target request state) (\<lambda>target.
     res_bind (derive_review state) (\<lambda>review.
     let checks = derive_checks state; mergeability = derive_mergeability state; available = state \<noteq> [];
         reasons = add_reasons (so_extra_reasons so) (snapshot_reasons available target checks review mergeability);
         progression = (if \<not> available then ''unavailable'' else if reasons \<noteq> [] then ''blocked'' else ''ready'');
         state_source = shown_or ''none'' (PStr (so_state_source so))
     in Inr
       [(''backend'', PStr (shown_or ''unknown'' (PStr (so_backend so)))), (''mode'', PStr ''read_only''),
        (''write_actions_allowed'', PBool False), (''state_available'', PBool available),
        (''state_source'', PStr state_source),
        (''source'', PDict (put_all (so_metadata so)
          [(''kind'', PStr (shown_or ''none'' (PStr (so_kind so)))), (''state_source'', PStr state_source)])),
        (''target'', PDict target), (''checks'', PDict checks), (''review'', PDict review),
        (''mergeability'', PDict mergeability),
        (''progression'', PDict [(''state'', PStr progression),
          (''conservative_reasons'', PTuple (map PStr reasons)),
          (''ready_for_policy_connection'', PBool (progression = ''ready''))])]))"

section \<open>The backends\<close>

definition collect_artifact :: "dict \<Rightarrow> dict \<Rightarrow> dict res" where
  "collect_artifact request result =
     (let (state, source) = extract_github_state request result in
      build_normalized_snapshot
        \<lparr>so_backend = ''artifact_read_only'', so_state_source = source, so_kind = ''artifact'',
         so_metadata = [(''artifact_state_available'', PBool (state \<noteq> [])), (''live_state_available'', PBool False)],
         so_extra_reasons = []\<rparr> request state)"

type_synonym fetcher = "dict \<Rightarrow> dict \<Rightarrow> dict \<Rightarrow> py res"

text \<open>The state a live reader tells, where it comes from, and whether the reader failed.\<close>

definition collect_live_state :: "fetcher option \<Rightarrow> dict \<Rightarrow> dict \<Rightarrow> dict \<Rightarrow> (dict \<times> string \<times> bool) res" where
  "collect_live_state fetch request result artifact_state =
     (case fetch of
        None \<Rightarrow> Inr ([], ''live.read_only_not_configured'', False)
      | Some f \<Rightarrow>
          res_bind (derive_target request artifact_state) (\<lambda>target. Inr
          (case f target request result of
             Inl e \<Rightarrow> ([], ''live.read_only_fetch_failed'', True)
           | Inr v \<Rightarrow>
               let d = mapping_or_empty v
               in if d \<noteq> [] then (d, ''live.read_only'', False) else ([], ''live.read_only_unavailable'', False))))"

definition collect_live :: "fetcher option \<Rightarrow> dict \<Rightarrow> dict \<Rightarrow> dict res" where
  "collect_live fetch request result =
     (let (artifact_state, artifact_source) = extract_github_state request result in
      res_bind (collect_live_state fetch request result artifact_state) (\<lambda>(live, live_source, failed).
      let fallback = (live = [] \<and> artifact_state \<noteq> [])
      in build_normalized_snapshot
           \<lparr>so_backend = ''live_read_only'',
            so_state_source =
              (if live \<noteq> [] then live_source
               else if fallback then ''artifact_fallback:'' @ artifact_source
               else if failed then ''live.read_only_fetch_failed'' else ''live.read_only_unavailable''),
            so_kind = (if live \<noteq> [] then ''live_read_only'' else if fallback then ''artifact_fallback'' else ''none''),
            so_metadata = [(''artifact_state_available'', PBool (artifact_state \<noteq> [])),
              (''live_state_available'', PBool (live \<noteq> [])), (''fallback_to_artifact'', PBool fallback)],
            so_extra_reasons = (if live = [] then [''github_live_state_unavailable''] else []) @
              (if failed then [''github_live_state_fetch_failed''] else [])\<rparr>
           request (if live \<noteq> [] then live else artifact_state)))"

text \<open>A backend collects from a request and a result; the mode is an argument or the environment's.\<close>

type_synonym state_backend = "dict \<Rightarrow> dict \<Rightarrow> dict res"

definition normalize_backend_mode :: "string \<Rightarrow> string" where
  "normalize_backend_mode v =
     (if lower (strip v) \<in> {''live'', ''live_read_only''} then ''live_read_only'' else ''artifact_read_only'')"

definition resolve_github_state_backend :: "string \<Rightarrow> fetcher option \<Rightarrow> state_backend" where
  "resolve_github_state_backend mode fetch =
     (if normalize_backend_mode mode = ''live_read_only'' then collect_live fetch else collect_artifact)"

section \<open>The receipt the merge gate keeps\<close>

definition normalize_progression :: "dict \<Rightarrow> dict" where
  "normalize_progression progression =
     (let reasons = (case get progression ''conservative_reasons'' of
            PList vs \<Rightarrow> vs | PTuple vs \<Rightarrow> vs | _ \<Rightarrow> []);
          state = shown_or ''unavailable'' (get_or progression ''state'' (PStr ''unavailable''));
          ready = truthy (get_or progression ''ready_for_policy_connection'' (PBool False))
      in put_all
           [(''conservative_reasons'', PTuple (map PStr (filter (\<lambda>t. t \<noteq> []) (map (\<lambda>r. strip (py_str r)) reasons)))),
            (''state'', PStr state), (''ready_for_policy_connection'', PBool ready)] progression)"

definition normalize_snapshot_shape :: "dict option \<Rightarrow> dict \<Rightarrow> dict" where
  "normalize_snapshot_shape signals fallback =
     (case signals of
        None \<Rightarrow> fallback
      | Some snapshot \<Rightarrow>
          (let part = (\<lambda>key. case as_mapping (get snapshot key) of
                 Some d \<Rightarrow> d | None \<Rightarrow> get_mapping fallback key)
           in [(''backend'', PStr (shown_or ''unknown'' (get_or snapshot ''backend''
                (get_or fallback ''backend'' (PStr ''unknown''))))),
               (''mode'', PStr ''read_only''), (''write_actions_allowed'', PBool False),
               (''state_available'', PBool (truthy (get_or snapshot ''state_available'' (PBool False)))),
               (''state_source'', PStr (shown_or ''none'' (get_or snapshot ''state_source'' (PStr ''none'')))),
               (''source'', PDict (part ''source'')), (''target'', PDict (part ''target'')),
               (''checks'', PDict (part ''checks'')), (''review'', PDict (part ''review'')),
               (''mergeability'', PDict (part ''mergeability'')),
               (''progression'', PDict (normalize_progression (part ''progression'')))]))"

definition build_github_progression_receipt :: "dict option \<Rightarrow> string \<Rightarrow> bool \<Rightarrow> bool \<Rightarrow> dict res" where
  "build_github_progression_receipt signals progression_state policy_eligible auto_pr_candidate =
     res_bind (collect_artifact [] []) (\<lambda>fallback.
     let snapshot = normalize_snapshot_shape signals fallback;
         ready = truthy (get (get_mapping snapshot ''progression'') ''ready_for_policy_connection'')
     in Inr (put ''policy_link'' (PDict
          [(''progression_state'', PStr progression_state), (''policy_eligible'', PBool policy_eligible),
           (''auto_pr_candidate'', PBool auto_pr_candidate),
           (''ready_for_future_auto_pr_progression'', PBool (policy_eligible \<and> ready)),
           (''auto_pr_candidate_ready'', PBool (auto_pr_candidate \<and> ready))]) snapshot))"

end
