(* ===== verification/Merge_Gate.thy ===== *)
theory Merge_Gate
  imports Change_Rubric GitHub_State
begin

text \<open>
  \<open>orchestrator/merge_gate.py\<close>: from the rubric of a change, the merge gate policy and the state of
  its pull request to the verdict of the gate, how far the change may progress by itself, the write
  authority it is given, and what to do when it failed.
\<close>

section \<open>The policy\<close>

definition policy_bool :: "dict \<Rightarrow> string \<Rightarrow> bool \<Rightarrow> bool" where
  "policy_bool policy key b = truthy (get_or policy key (PBool b))"

text \<open>The stripped texts of a list or tuple; every other value has none.\<close>

definition sequence_texts :: "py \<Rightarrow> string list" where
  "sequence_texts v =
     (let items = (case v of PList vs \<Rightarrow> vs | PTuple vs \<Rightarrow> vs | _ \<Rightarrow> [])
      in filter (\<lambda>t. t \<noteq> []) (map (\<lambda>i. strip (py_str i)) items))"

definition texts_or :: "string list \<Rightarrow> py \<Rightarrow> string list" where
  "texts_or ts v = (if sequence_texts v = [] then ts else sequence_texts v)"

text \<open>A boolean of the policy; an integer counts when it is 0 or 1.\<close>

fun policy_optional_bool :: "py \<Rightarrow> bool option" where
  "policy_optional_bool (PBool b) = Some b"
| "policy_optional_bool (PInt i) = (if i = 0 then Some False else if i = 1 then Some True else None)"
| "policy_optional_bool (PStr s) =
     (let t = lower (strip s) in
      if t \<in> {''true'', ''1'', ''yes''} then Some True
      else if t \<in> {''false'', ''0'', ''no''} then Some False else None)"
| "policy_optional_bool _ = None"

record threshold =
  th_max_files :: int
  th_max_lines :: int
  th_forbidden :: "string list"
  th_required_tests :: "string list"
  th_requires_ci :: "bool option"

definition threshold_of :: "dict \<Rightarrow> threshold res" where
  "threshold_of body =
     res_bind (as_non_negative_int 0 (get_or body ''max_changed_files'' (PInt 0))) (\<lambda>files.
     res_bind (as_non_negative_int 0 (get_or body ''max_total_diff_lines'' (PInt 0))) (\<lambda>lines.
     Inr \<lparr>th_max_files = files, th_max_lines = lines,
       th_forbidden = sequence_texts (get body ''forbidden_paths''),
       th_required_tests = sequence_texts (get body ''required_tests''),
       th_requires_ci = policy_optional_bool (get body ''requires_ci_green'')\<rparr>))"

text \<open>The thresholds of the named categories; the last of equal names counts.\<close>

definition thresholds_of :: "py \<Rightarrow> (string \<times> threshold) list res" where
  "thresholds_of v =
     res_bind (res_map (\<lambda>(category, body).
         res_bind (threshold_of (mapping_or_empty body)) (\<lambda>t. Inr (strip category, t)))
       (filter (\<lambda>(category, body). strip category \<noteq> [] \<and> as_mapping body \<noteq> None) (mapping_or_empty v)))
     (\<lambda>entries. Inr (foldl (\<lambda>d (k, t). put k t d) [] entries))"

record auto_progression =
  ap_eligible :: "string list"
  ap_candidates :: "string list"
  ap_max_files :: int
  ap_max_lines :: int
  ap_generated :: "string list"
  ap_binary :: "string list"
  ap_runtime :: "string list"
  ap_contract :: "string list"
  ap_thresholds :: "(string \<times> threshold) list"

definition policy_auto_progression :: "dict \<Rightarrow> auto_progression res" where
  "policy_auto_progression policy =
     (let raw = mapping_or_empty (get policy ''auto_progression''); texts = (\<lambda>k. sequence_texts (get raw k)) in
      res_bind (as_non_negative_int 0 (get_or raw ''max_changed_files'' (PInt 0))) (\<lambda>files.
      res_bind (as_non_negative_int 0 (get_or raw ''max_total_diff_lines'' (PInt 0))) (\<lambda>lines.
      res_bind (thresholds_of (get raw ''category_thresholds'')) (\<lambda>thresholds.
      Inr \<lparr>ap_eligible = texts ''policy_eligible_categories'',
        ap_candidates = texts ''auto_pr_candidate_categories'', ap_max_files = files, ap_max_lines = lines,
        ap_generated = texts ''generated_path_patterns'',
        ap_binary = map lower (texts ''binary_file_extensions''),
        ap_runtime = texts ''runtime_sensitive_path_patterns'',
        ap_contract = texts ''contract_sensitive_path_patterns'', ap_thresholds = thresholds\<rparr>))))"

record gate_authority =
  ga_enabled :: bool
  ga_dry_run :: bool
  ga_kill_switch :: bool
  ga_categories :: "string list"
  ga_lifecycle_states :: "string list"

definition policy_write_authority :: "dict \<Rightarrow> gate_authority" where
  "policy_write_authority policy =
     (let raw = mapping_or_empty (get policy ''write_authority'') in
      \<lparr>ga_enabled = policy_bool raw ''enabled'' False, ga_dry_run = policy_bool raw ''dry_run'' True,
       ga_kill_switch = policy_bool raw ''kill_switch'' True,
       ga_categories = texts_or [''docs_only''] (get raw ''allowed_categories''),
       ga_lifecycle_states = texts_or [''approved_for_merge''] (get raw ''required_lifecycle_states'')\<rparr>)"

definition default_retriable :: "string list" where
  "default_retriable = [''execution_failure'', ''missing_signal'']"

text \<open>The attempts a failed change has, and the failures it may be tried again for.\<close>

definition policy_retry_replan :: "dict \<Rightarrow> (int \<times> string list) res" where
  "policy_retry_replan policy =
     (let raw = mapping_or_empty (get policy ''retry_replan'') in
      res_bind (as_non_negative_int 2 (get_or raw ''max_attempts'' (PInt 2))) (\<lambda>attempts.
      Inr (attempts, texts_or default_retriable (get raw ''retriable_failure_types''))))"

section \<open>Progression\<close>

text \<open>\<open>_more_conservative_limit\<close>: the smaller of the limits that are set; 0 when neither is.\<close>

definition more_conservative_limit :: "int \<Rightarrow> int \<Rightarrow> int" where
  "more_conservative_limit a b =
     (if a > 0 \<and> b > 0 then min a b else if a > 0 then a else if b > 0 then b else 0)"

definition over_limit :: "int \<Rightarrow> int \<Rightarrow> bool" where
  "over_limit limit n = (limit > 0 \<and> n > limit)"

definition is_binary_path :: "string list \<Rightarrow> string \<Rightarrow> bool" where
  "is_binary_path extensions path = list_ex (ends_with (lower path)) extensions"

text \<open>The reasons whose condition holds, the first of equal ones kept.\<close>

definition distinct_reasons :: "string list \<Rightarrow> string list" where
  "distinct_reasons rs = rev (remdups (rev rs))"

record change_facts =
  cf_files :: "string list"
  cf_additions :: int
  cf_deletions :: int
  cf_stats_present :: bool

definition progression_checks :: "auto_progression \<Rightarrow> rubric \<Rightarrow> change_facts \<Rightarrow> (bool \<times> string) list" where
  "progression_checks ap ru cf =
     (let observed = strip (ru_observed ru); files = cf_files cf;
          th = map_of (ap_thresholds ap) observed;
          limit = (\<lambda>overall part. more_conservative_limit overall (case th of None \<Rightarrow> 0 | Some t \<Rightarrow> part t));
          touched = (\<lambda>patterns. list_ex (matches_any patterns) files);
          tested = (case th of None \<Rightarrow> False | Some t \<Rightarrow> th_required_tests t \<noteq> [])
      in [(strip (ru_declared ru) \<noteq> observed, ''declared_category_does_not_match_observed_category''),
          (observed \<notin> set (ap_eligible ap), ''category_not_policy_eligible''),
          (observed \<in> set (ap_eligible ap) \<and> th = None, ''policy_category_constraints_missing''),
          (\<not> ru_forbidden_untouched ru, ''observed_category_forbidden_paths_touched''),
          (\<not> ru_diff_within_limit ru, ''diff_size_limit_exceeded''),
          (\<not> ru_tests_declared ru, ''required_tests_not_declared''),
          (\<not> ru_tests_executed ru, ''required_tests_not_executed''),
          (\<not> ru_tests_passed ru, ''required_tests_not_passed''),
          (\<not> ru_ci_green ru, ''required_ci_checks_not_green''),
          (files = [], ''changed_files_missing''),
          (\<not> cf_stats_present cf, ''diff_line_stats_missing''),
          (over_limit (limit (ap_max_files ap) th_max_files) (int (length files)), ''changed_files_count_exceeded''),
          (over_limit (limit (ap_max_lines ap) th_max_lines) (cf_additions cf + cf_deletions cf),
             ''total_diff_lines_exceeded''),
          (touched (case th of None \<Rightarrow> [] | Some t \<Rightarrow> th_forbidden t), ''observed_category_forbidden_paths_touched''),
          (tested \<and> \<not> ru_tests_declared ru, ''required_tests_not_declared''),
          (tested \<and> \<not> ru_tests_executed ru, ''required_tests_not_executed''),
          (tested \<and> \<not> ru_tests_passed ru, ''required_tests_not_passed''),
          ((case th of None \<Rightarrow> None | Some t \<Rightarrow> th_requires_ci t) = Some True \<and> \<not> ru_ci_green ru,
             ''required_ci_checks_not_green''),
          (touched (ap_generated ap), ''generated_path_touched''),
          (list_ex (is_binary_path (ap_binary ap)) files, ''binary_file_touched''),
          (touched (ap_runtime ap), ''runtime_sensitive_paths_touched''),
          (touched (ap_contract ap), ''contract_shape_related_paths_touched'')])"

record gate_progression =
  pg_state :: string
  pg_eligible :: bool
  pg_candidate :: bool
  pg_reasons :: "string list"

definition derive_progression_policy :: "dict \<Rightarrow> rubric \<Rightarrow> change_facts \<Rightarrow> gate_progression res" where
  "derive_progression_policy policy ru cf =
     res_bind (policy_auto_progression policy) (\<lambda>ap.
     let reasons = distinct_reasons (reasons_of (progression_checks ap ru cf));
         candidate = (strip (ru_observed ru) \<in> set (ap_candidates ap) \<inter> set (ap_eligible ap))
     in Inr (if reasons \<noteq> []
             then \<lparr>pg_state = ''manual_only'', pg_eligible = False, pg_candidate = False, pg_reasons = reasons\<rparr>
             else \<lparr>pg_state = (if candidate then ''auto_pr_candidate'' else ''policy_eligible''),
               pg_eligible = True, pg_candidate = candidate, pg_reasons = []\<rparr>))"

section \<open>The life cycle and the write authority\<close>

definition merge_blocked_states :: "string list" where
  "merge_blocked_states = [''blocked'', ''behind'', ''dirty'', ''draft'']"

text \<open>The state of a part of the snapshot.\<close>

definition state_in :: "dict \<Rightarrow> string \<Rightarrow> string" where
  "state_in snapshot part =
     (let t = lower (normalize_text [] (get_or (get_mapping snapshot part) ''state'' (PStr ''unknown'')))
      in if t = [] then ''unknown'' else t)"

definition target_named :: "dict \<Rightarrow> bool" where
  "target_named snapshot =
     (let target = get_mapping snapshot ''target'' in
      normalize_text [] (get target ''repository'') \<noteq> [] \<and> normalize_text [] (get target ''target_ref'') \<noteq> [])"

definition snapshot_available :: "dict \<Rightarrow> bool" where
  "snapshot_available snapshot = truthy (get_or snapshot ''state_available'' (PBool False))"

definition derive_lifecycle_state :: "gate_progression \<Rightarrow> dict \<Rightarrow> string" where
  "derive_lifecycle_state pg snapshot =
     (let checks = state_in snapshot ''checks''; review = state_in snapshot ''review'';
          mergeability = state_in snapshot ''mergeability''
      in if \<not> pg_eligible pg then ''manual_only''
         else if \<not> pg_candidate pg then ''policy_eligible''
         else if \<not> snapshot_available snapshot \<or> \<not> target_named snapshot then ''auto_pr_candidate''
         else if review = ''changes_requested'' \<or> mergeability \<in> set merge_blocked_states then ''merge_blocked''
         else if checks = ''pending'' then ''checks_pending''
         else if checks \<noteq> ''passing'' then ''pr_preparable''
         else if review \<noteq> ''approved'' then ''review_pending''
         else if mergeability = ''clean'' then ''approved_for_merge''
         else ''checks_green'')"

definition authority_checks :: "gate_authority \<Rightarrow> gate_progression \<Rightarrow> string \<Rightarrow> dict \<Rightarrow> (bool \<times> string) list" where
  "authority_checks ga pg lifecycle snapshot =
     [(\<not> pg_eligible pg, ''write_policy_not_eligible''),
      (\<not> pg_candidate pg, ''write_auto_pr_candidate_required''),
      (lifecycle \<notin> set (ga_lifecycle_states ga), ''write_lifecycle_not_ready''),
      (\<not> snapshot_available snapshot, ''write_github_state_unavailable''),
      (\<not> target_named snapshot, ''write_target_identity_missing''),
      (state_in snapshot ''checks'' \<noteq> ''passing'', ''write_checks_not_passing''),
      (state_in snapshot ''review'' \<noteq> ''approved'', ''write_review_not_approved''),
      (state_in snapshot ''mergeability'' \<noteq> ''clean'', ''write_mergeability_not_clean'')]"

text \<open>The state of the authority and the reasons against it.\<close>

definition authority_verdict ::
    "gate_authority \<Rightarrow> string \<Rightarrow> gate_progression \<Rightarrow> string \<Rightarrow> dict \<Rightarrow> string \<times> string list" where
  "authority_verdict ga observed pg lifecycle snapshot =
     (if \<not> ga_enabled ga then (''disabled'', [''write_authority_disabled''])
      else if ga_kill_switch ga then (''blocked'', [''write_kill_switch_enabled''])
      else if strip observed \<notin> set (ga_categories ga) then (''blocked'', [''write_category_not_allowed''])
      else let reasons = reasons_of (authority_checks ga pg lifecycle snapshot)
        in (if reasons \<noteq> [] then ''write_preparable'' else if ga_dry_run ga then ''dry_run_only''
            else ''write_allowed'', reasons))"

definition derive_write_authority_receipt ::
    "dict \<Rightarrow> string \<Rightarrow> gate_progression \<Rightarrow> string \<Rightarrow> dict \<Rightarrow> dict" where
  "derive_write_authority_receipt policy observed pg lifecycle snapshot =
     (let ga = policy_write_authority policy; (state, reasons) = authority_verdict ga observed pg lifecycle snapshot;
          texts = (\<lambda>ts. PTuple (map PStr ts))
      in [(''state'', PStr state), (''enabled'', PBool (ga_enabled ga)), (''dry_run'', PBool (ga_dry_run ga)),
          (''kill_switch'', PBool (ga_kill_switch ga)),
          (''write_actions_allowed'', PBool (state = ''write_allowed'')),
          (''allowed_categories'', texts (ga_categories ga)),
          (''required_lifecycle_states'', texts (ga_lifecycle_states ga)),
          (''category_allowed'', PBool (strip observed \<in> set (ga_categories ga))),
          (''conservative_reasons'', texts reasons),
          (''policy_link'', PDict [(''progression_state'', PStr (pg_state pg)), (''lifecycle_state'', PStr lifecycle),
            (''policy_eligible'', PBool (pg_eligible pg)), (''auto_pr_candidate'', PBool (pg_candidate pg))])])"

section \<open>What failed, and what to do next\<close>

definition missing_signal_reasons :: "string list" where
  "missing_signal_reasons =
     [''changed_files_missing'', ''diff_line_stats_missing'', ''write_github_state_unavailable'',
      ''write_target_identity_missing'']"

text \<open>\<open>_normalized_reason_tuple\<close> of several groups.\<close>

definition reason_groups :: "py list \<Rightarrow> string list" where
  "reason_groups groups = distinct_reasons (concat (map sequence_texts groups))"

definition texts_value :: "string list \<Rightarrow> py" where
  "texts_value ts = PTuple (map PStr ts)"

definition failed_executions :: "string list" where
  "failed_executions = [''failed'', ''timed_out'', ''not_started'', ''not_implemented'']"

definition blocked_lifecycles :: "string list" where
  "blocked_lifecycles = [''pr_preparable'', ''checks_pending'', ''checks_green'', ''review_pending'', ''merge_blocked'']"

text \<open>The failure of a change, in the order it is looked for.\<close>

record gate_outcome =
  go_fail_reasons :: "string list"
  go_progression :: gate_progression
  go_lifecycle :: string
  go_authority :: dict
  go_snapshot :: dict
  go_execution_status :: "string option"

definition derive_failure_type :: "gate_outcome \<Rightarrow> string" where
  "derive_failure_type go =
     (let execution = lower (normalize_text [] (opt_str (go_execution_status go)));
          policy = reason_groups [texts_value (go_fail_reasons go), texts_value (pg_reasons (go_progression go))];
          writing = reason_groups [get (go_authority go) ''conservative_reasons''];
          every = reason_groups [texts_value policy, texts_value writing];
          write_state = lower (normalize_text [] (get_or (go_authority go) ''state'' (PStr [])))
      in if execution \<in> set failed_executions then ''execution_failure''
         else if list_ex (\<lambda>r. r \<in> set missing_signal_reasons) every then ''missing_signal''
         else if state_in (go_snapshot go) ''mergeability'' \<in> set merge_blocked_states then ''mergeability_failure''
         else if state_in (go_snapshot go) ''review'' = ''changes_requested'' then ''review_blocked''
         else if policy \<noteq> [] then ''policy_failure''
         else if go_lifecycle go \<in> set blocked_lifecycles then ''lifecycle_blocked''
         else if write_state \<in> {''disabled'', ''blocked'', ''write_preparable''} \<and> writing \<noteq> []
         then ''write_authority_blocked''
         else ''none'')"

record replan =
  rp_failure_type :: string
  rp_current_state :: string
  rp_lifecycle :: string
  rp_authority_state :: string
  rp_category :: string
  rp_files :: "string list"
  rp_prior_attempts :: int
  rp_budget_total :: int
  rp_budget_remaining :: int
  rp_budget_exhausted :: bool
  rp_fail_reasons :: "string list"
  rp_recommendation :: string
  rp_readiness :: string
  rp_retry_recommended :: bool
  rp_escalation_required :: bool
  rp_retriable :: bool
  rp_retriable_types :: "string list"

definition derive_replan_input :: "dict \<Rightarrow> string \<Rightarrow> string list \<Rightarrow> int \<Rightarrow> gate_outcome \<Rightarrow> replan res" where
  "derive_replan_input policy observed files prior_attempts go =
     res_bind (policy_retry_replan policy) (\<lambda>(attempts, retriable_types).
     let prior = max 0 prior_attempts; remaining = max 0 (attempts - prior); failure = derive_failure_type go;
         retriable = failure \<in> set retriable_types; failed = failure \<noteq> ''none'';
         retry = failed \<and> retriable \<and> remaining > 0; escalate = failed \<and> \<not> retry
     in Inr \<lparr>rp_failure_type = failure, rp_current_state = pg_state (go_progression go),
          rp_lifecycle = go_lifecycle go,
          rp_authority_state = normalize_text ''unknown'' (get_or (go_authority go) ''state'' (PStr [])),
          rp_category = strip observed, rp_files = files, rp_prior_attempts = prior, rp_budget_total = attempts,
          rp_budget_remaining = remaining, rp_budget_exhausted = (failed \<and> retriable \<and> remaining \<le> 0),
          rp_fail_reasons = reason_groups [texts_value (go_fail_reasons go),
            texts_value (pg_reasons (go_progression go)), get (go_authority go) ''conservative_reasons'',
            get (get_mapping (go_snapshot go) ''progression'') ''conservative_reasons''],
          rp_recommendation = (if retry then ''retry'' else if escalate then ''escalate'' else ''not_required''),
          rp_readiness = (if retry then ''retry_preparable'' else if escalate then ''manual_escalation_required''
            else ''no_action_required''),
          rp_retry_recommended = retry, rp_escalation_required = escalate, rp_retriable = retriable,
          rp_retriable_types = retriable_types\<rparr>)"

section \<open>The gate\<close>

record merge_gate =
  mg_passed :: bool
  mg_fail_reasons :: "string list"
  mg_auto_merge_allowed :: bool
  mg_progression :: gate_progression
  mg_lifecycle :: string
  mg_write_authority :: dict
  mg_github :: dict
  mg_replan :: replan

definition gate_reasons :: "dict \<Rightarrow> rubric \<Rightarrow> string list" where
  "gate_reasons policy ru =
     (if policy_bool policy ''require_rubric_all_pass'' True \<and> \<not> ru_merge_eligible ru
      then if ru_fail_reasons ru \<noteq> [] then ru_fail_reasons ru else [''rubric_not_all_pass''] else []) @
     reasons_of
       [(policy_bool policy ''require_ci_green'' True \<and> \<not> ru_ci_green ru, ''required_ci_checks_not_green''),
        (policy_bool policy ''require_declared_equals_observed_category'' True \<and> ru_declared ru \<noteq> ru_observed ru,
          ''declared_category_does_not_match_observed_category''),
        (policy_bool policy ''require_no_forbidden_paths_touched'' True \<and> \<not> ru_forbidden_untouched ru,
          ''observed_category_forbidden_paths_touched''),
        (policy_bool policy ''require_diff_size_within_limit'' True \<and> \<not> ru_diff_within_limit ru,
          ''diff_size_limit_exceeded''),
        (ru_observed ru \<notin> set (sequence_texts (get policy ''auto_merge_categories'')),
          ''category_not_auto_merge_allowed'')]"

text \<open>What the gate is told beside the rubric and the policy.\<close>

record gate_input =
  gi_files :: "string list"
  gi_additions :: int
  gi_deletions :: int
  gi_stats_present :: bool
  gi_signals :: "dict option"
  gi_prior_attempts :: int
  gi_execution_status :: "string option"

definition apply_merge_gate :: "rubric \<Rightarrow> dict \<Rightarrow> gate_input \<Rightarrow> merge_gate res" where
  "apply_merge_gate ru policy gi =
     (let reasons = distinct_reasons (gate_reasons policy ru);
          allowed = ru_observed ru \<in> set (sequence_texts (get policy ''auto_merge_categories''));
          files = normalize_paths (gi_files gi) in
      res_bind (derive_progression_policy policy ru \<lparr>cf_files = files, cf_additions = gi_additions gi,
          cf_deletions = gi_deletions gi, cf_stats_present = gi_stats_present gi\<rparr>) (\<lambda>pg.
      res_bind (build_github_progression_receipt (gi_signals gi) (pg_state pg) (pg_eligible pg) (pg_candidate pg))
        (\<lambda>github.
      let lifecycle = derive_lifecycle_state pg github;
          authority = derive_write_authority_receipt policy (ru_observed ru) pg lifecycle github in
      res_bind (derive_replan_input policy (ru_observed ru) files (gi_prior_attempts gi)
        \<lparr>go_fail_reasons = reasons, go_progression = pg, go_lifecycle = lifecycle, go_authority = authority,
         go_snapshot = github, go_execution_status = gi_execution_status gi\<rparr>) (\<lambda>rp.
      Inr \<lparr>mg_passed = (reasons = [] \<and> allowed), mg_fail_reasons = reasons, mg_auto_merge_allowed = allowed,
        mg_progression = pg, mg_lifecycle = lifecycle, mg_write_authority = authority, mg_github = github,
        mg_replan = rp\<rparr>))))"

end
