(* ===== verification/Policy_Loader.thy ===== *)
theory Policy_Loader
  imports Change_Rubric Merge_Gate
begin

text \<open>
  \<open>orchestrator/policy_loader.py\<close>: the two policy files as their loaders accept them. What the YAML
  parser makes of a file is the argument; a value of the wrong kind raises with the place it has.
\<close>

section \<open>Readers that refuse\<close>

definition required_string :: "string \<Rightarrow> py \<Rightarrow> string res" where
  "required_string context v =
     (let t = strip (py_str v) in
      if t = [] then Inl (ValueError (context @ '' must be a non-empty string'')) else Inr t)"

definition string_tuple :: "string \<Rightarrow> py \<Rightarrow> string list res" where
  "string_tuple context v =
     (case v of
        PNone \<Rightarrow> Inr []
      | PList vs \<Rightarrow> Inr (filter (\<lambda>t. t \<noteq> []) (map (\<lambda>i. strip (py_str i)) vs))
      | _ \<Rightarrow> Inl (ValueError (context @ '' must be a list'')))"

definition strict_non_negative_int :: "string \<Rightarrow> int \<Rightarrow> py \<Rightarrow> int res" where
  "strict_non_negative_int context d v =
     (case v of
        PNone \<Rightarrow> Inr d
      | PBool b \<Rightarrow> Inl (ValueError (context @ '' must be an integer''))
      | PInt i \<Rightarrow> if i < 0 then Inl (ValueError (context @ '' must be non-negative'')) else Inr i
      | PStr s \<Rightarrow>
          (let t = strip s in
           if t \<noteq> [] \<and> isdigit t then int_of_text t
           else Inl (ValueError (context @ '' must be a non-negative integer'')))
      | _ \<Rightarrow> Inl (ValueError (context @ '' must be a non-negative integer'')))"

definition strict_optional_bool :: "string \<Rightarrow> py \<Rightarrow> bool option res" where
  "strict_optional_bool context v =
     (if v = PNone then Inr None
      else case policy_optional_bool v of
        None \<Rightarrow> Inl (ValueError (context @ '' must be a boolean''))
      | Some b \<Rightarrow> Inr (Some b))"

section \<open>The categories\<close>

definition codex_profile :: "string \<Rightarrow> py \<Rightarrow> dict res" where
  "codex_profile context v =
     res_bind (required_mapping context v) (\<lambda>raw.
     case get raw ''model'' of
       PStr m \<Rightarrow>
         res_bind (required_string (context @ ''.model'') (PStr m)) (\<lambda>model.
         case get raw ''model_reasoning_effort'' of
           PStr e \<Rightarrow>
             res_bind (required_string (context @ ''.model_reasoning_effort'') (PStr e)) (\<lambda>effort.
             if effort \<in> {''low'', ''medium'', ''high'', ''xhigh''}
             then Inr [(''model'', PStr model), (''model_reasoning_effort'', PStr effort)]
             else Inl (ValueError (context @ ''.model_reasoning_effort must be one of low, medium, high, xhigh'')))
         | _ \<Rightarrow> Inl (ValueError (context @ ''.model_reasoning_effort must be a string'')))
     | _ \<Rightarrow> Inl (ValueError (context @ ''.model must be a non-empty string'')))"

definition loaded_category :: "string \<times> py \<Rightarrow> (string \<times> dict) res" where
  "loaded_category = (\<lambda>(category, v).
     res_bind (required_string ''category name'' (PStr category)) (\<lambda>name.
     res_bind (required_mapping (''category '' @ name) v) (\<lambda>body.
     res_bind (required_string (name @ ''.description'') (get_or body ''description'' (PStr []))) (\<lambda>description.
     res_bind (string_tuple (name @ ''.allowed_paths'') (get_or body ''allowed_paths'' (PList []))) (\<lambda>allowed.
     res_bind (string_tuple (name @ ''.forbidden_paths'') (get_or body ''forbidden_paths'' (PList []))) (\<lambda>forbidden.
     res_bind (string_tuple (name @ ''.required_tests'') (get_or body ''required_tests'' (PList []))) (\<lambda>tests.
     res_bind (codex_profile (name @ ''.codex_profile'') (get body ''codex_profile'')) (\<lambda>profile.
     Inr (name,
       [(''description'', PStr description), (''allowed_paths'', texts_value allowed),
        (''forbidden_paths'', texts_value forbidden), (''required_tests'', texts_value tests),
        (''auto_merge_allowed'', PBool (policy_bool body ''auto_merge_allowed'' False)),
        (''codex_profile'', PDict profile)])))))))))"

definition load_change_categories_policy :: "py \<Rightarrow> dict res" where
  "load_change_categories_policy loaded =
     res_bind (required_mapping ''change_categories policy'' loaded) (\<lambda>raw.
     res_bind (required_mapping ''change_categories.categories'' (get raw ''categories'')) (\<lambda>categories.
     res_bind (res_map loaded_category categories) (\<lambda>entries.
     Inr [(''categories'', PDict (foldl (\<lambda>d (name, body). put name (PDict body) d) [] entries))])))"

section \<open>The merge gate policy\<close>

definition loaded_threshold :: "string \<Rightarrow> string \<times> py \<Rightarrow> (string \<times> dict) res" where
  "loaded_threshold context = (\<lambda>(category, v).
     res_bind (required_string (context @ ''.category'') (PStr category)) (\<lambda>name.
     let here = context @ ''.'' @ name in
     res_bind (required_mapping here v) (\<lambda>body.
     res_bind (strict_non_negative_int (here @ ''.max_changed_files'') 0 (get body ''max_changed_files'')) (\<lambda>files.
     res_bind (strict_non_negative_int (here @ ''.max_total_diff_lines'') 0 (get body ''max_total_diff_lines''))
       (\<lambda>lines.
     res_bind (string_tuple (here @ ''.forbidden_paths'') (get_or body ''forbidden_paths'' (PList []))) (\<lambda>forbidden.
     res_bind (string_tuple (here @ ''.required_tests'') (get_or body ''required_tests'' (PList []))) (\<lambda>tests.
     res_bind (strict_optional_bool (here @ ''.requires_ci_green'') (get body ''requires_ci_green'')) (\<lambda>ci.
     Inr (name,
       [(''max_changed_files'', PInt files), (''max_total_diff_lines'', PInt lines),
        (''forbidden_paths'', texts_value forbidden), (''required_tests'', texts_value tests),
        (''requires_ci_green'', opt_bool ci)])))))))))"

definition loaded_thresholds :: "string \<Rightarrow> py \<Rightarrow> dict res" where
  "loaded_thresholds context v =
     (if v = PNone then Inr []
      else res_bind (required_mapping context v) (\<lambda>raw.
        res_bind (res_map (loaded_threshold context) raw) (\<lambda>entries.
        Inr (foldl (\<lambda>d (name, body). put name (PDict body) d) [] entries))))"

definition loaded_auto_progression ::
    "dict \<Rightarrow> string list \<Rightarrow> string list \<Rightarrow> dict res" where
  "loaded_auto_progression raw eligible candidates =
     (let context = ''merge_gate.auto_progression'';
          texts = (\<lambda>k. string_tuple (context @ ''.'' @ k) (get_or raw k (PList []))) in
      res_bind (strict_non_negative_int (context @ ''.max_changed_files'') 0 (get raw ''max_changed_files'')) (\<lambda>files.
      res_bind (strict_non_negative_int (context @ ''.max_total_diff_lines'') 0 (get raw ''max_total_diff_lines''))
        (\<lambda>lines.
      res_bind (texts ''generated_path_patterns'') (\<lambda>generated.
      res_bind (texts ''binary_file_extensions'') (\<lambda>binary.
      res_bind (texts ''runtime_sensitive_path_patterns'') (\<lambda>runtime.
      res_bind (texts ''contract_sensitive_path_patterns'') (\<lambda>contract.
      res_bind (loaded_thresholds (context @ ''.category_thresholds'') (get raw ''category_thresholds''))
        (\<lambda>thresholds.
      Inr [(''policy_eligible_categories'', texts_value eligible),
        (''auto_pr_candidate_categories'', texts_value candidates),
        (''max_changed_files'', PInt files), (''max_total_diff_lines'', PInt lines),
        (''generated_path_patterns'', texts_value generated), (''binary_file_extensions'', texts_value binary),
        (''runtime_sensitive_path_patterns'', texts_value runtime),
        (''contract_sensitive_path_patterns'', texts_value contract),
        (''category_thresholds'', PDict thresholds)]))))))))"

definition load_merge_gate_policy :: "py \<Rightarrow> dict res" where
  "load_merge_gate_policy loaded =
     res_bind (required_mapping ''merge_gate policy'' loaded) (\<lambda>raw.
     let part = (\<lambda>k. required_mapping (''merge_gate.'' @ k) (get_or raw k (PDict []))) in
     res_bind (part ''auto_progression'') (\<lambda>progression.
     res_bind (part ''write_authority'') (\<lambda>authority.
     res_bind (part ''retry_replan'') (\<lambda>replan.
     let texts = (\<lambda>name d k dflt. string_tuple (''merge_gate.'' @ name @ k) (get_or d k (PList (map PStr dflt)))) in
     res_bind (texts ''auto_progression.'' progression ''policy_eligible_categories'' []) (\<lambda>eligible.
     res_bind (texts ''auto_progression.'' progression ''auto_pr_candidate_categories'' []) (\<lambda>candidates.
     res_bind (texts ''write_authority.'' authority ''allowed_categories'' [''docs_only'']) (\<lambda>categories.
     res_bind (texts ''write_authority.'' authority ''required_lifecycle_states'' [''approved_for_merge'']) (\<lambda>states.
     res_bind (texts ''retry_replan.'' replan ''retriable_failure_types'' default_retriable) (\<lambda>retriable.
     res_bind (texts [] raw ''auto_merge_categories'' []) (\<lambda>auto_merge.
     res_bind (loaded_auto_progression progression eligible candidates) (\<lambda>auto.
     res_bind (strict_non_negative_int ''merge_gate.retry_replan.max_attempts'' 2 (get replan ''max_attempts''))
       (\<lambda>attempts.
     let flag = (\<lambda>d k b. (k, PBool (policy_bool d k b)));
         keep = (\<lambda>ts dflt. texts_value (if ts = [] then dflt else ts))
     in Inr
       [flag raw ''require_ci_green'' True, flag raw ''require_rubric_all_pass'' True,
        flag raw ''require_declared_equals_observed_category'' True,
        flag raw ''require_no_forbidden_paths_touched'' True, flag raw ''require_diff_size_within_limit'' True,
        (''auto_merge_categories'', texts_value auto_merge), (''auto_progression'', PDict auto),
        (''write_authority'', PDict
          [flag authority ''enabled'' False, flag authority ''dry_run'' True, flag authority ''kill_switch'' True,
           (''allowed_categories'', keep categories [''docs_only'']),
           (''required_lifecycle_states'', keep states [''approved_for_merge''])]),
        (''retry_replan'', PDict
          [(''max_attempts'', PInt attempts), (''retriable_failure_types'', keep retriable default_retriable)])]))))))))))))"

end
