(* ===== verification/Shipped_Categories.thy ===== *)
theory Shipped_Categories
  imports Policy_Loader
begin

text \<open>
  The policy files \<open>config/change_categories.yaml\<close> and \<open>config/merge_gate.yaml\<close> as the YAML parser
  gives them, and what the loader of the first and the classifier agree on.
\<close>

section \<open>The files\<close>

definition yaml_texts :: "string list \<Rightarrow> py" where
  "yaml_texts ts = PList (map PStr ts)"

definition shipped_category ::
    "string \<Rightarrow> string \<Rightarrow> string list \<Rightarrow> string list \<Rightarrow> string list \<Rightarrow> bool \<Rightarrow> string \<Rightarrow> string \<Rightarrow> string \<times> py" where
  "shipped_category name description allowed forbidden tests auto_merge model effort =
     (name, PDict
       [(''description'', PStr description), (''allowed_paths'', yaml_texts allowed),
        (''forbidden_paths'', yaml_texts forbidden), (''required_tests'', yaml_texts tests),
        (''auto_merge_allowed'', PBool auto_merge),
        (''codex_profile'', PDict [(''model'', PStr model), (''model_reasoning_effort'', PStr effort)])])"

definition runtime_patterns :: "string list" where
  "runtime_patterns = [''run_codex.py'', ''app.py'', ''adapters/**'', ''verify/**'', ''workspace/**'']"

definition change_categories_yaml :: py where
  "change_categories_yaml = PDict [(''categories'', PDict
    [shipped_category ''docs_only'' ''Documentation-only changes under docs/.'' [''docs/**'']
       (runtime_patterns @ [''orchestrator/**'', ''tests/**'', ''.github/workflows/**'']) [] True
       ''gpt-5.6-terra'' ''low'',
     shipped_category ''ci_only'' ''CI-only changes under .github/workflows/.'' [''.github/workflows/**'']
       (runtime_patterns @ [''orchestrator/**'', ''tests/**'', ''docs/**'']) [''contract_suite''] True
       ''gpt-5.6-terra'' ''medium'',
     shipped_category ''test_only'' ''Test-only changes under tests/.'' [''tests/**'']
       (runtime_patterns @ [''orchestrator/**'', ''docs/**'', ''.github/workflows/**'']) [''contract_suite''] True
       ''gpt-5.6-terra'' ''medium'',
     shipped_category ''contract_guard_only'' ''Contract-guard changes limited to docs/ and tests/.''
       [''docs/**'', ''tests/**''] (runtime_patterns @ [''orchestrator/**'', ''.github/workflows/**''])
       [''contract_suite''] True ''gpt-5.6-terra'' ''medium'',
     shipped_category ''runtime_fix_low_risk'' ''Runtime-adjacent fixes outside runtime-sensitive paths.''
       [''orchestrator/**'', ''config/**'', ''prompts/**'', ''skills/**'', ''tasks/**''] runtime_patterns
       [''contract_suite''] False ''gpt-5.6-terra'' ''medium'',
     shipped_category ''runtime_fix_high_risk'' ''Fixes touching runtime-sensitive execution paths.''
       [''**''] [] [''contract_suite''] False ''gpt-5.6'' ''medium'',
     shipped_category ''contract_extension'' ''Changes that extend contract-producing runtime behavior.''
       [''adapters/**'', ''docs/**'', ''tests/**''] [''verify/**'', ''workspace/**''] [''contract_suite''] False
       ''gpt-5.6'' ''medium'',
     shipped_category ''feature'' ''General feature work not in narrow deterministic categories.''
       [''**''] [] [''contract_suite''] False ''gpt-5.6'' ''medium''])]"

definition shipped_threshold :: "int \<Rightarrow> int \<Rightarrow> string list \<Rightarrow> py" where
  "shipped_threshold files lines forbidden =
     PDict [(''max_changed_files'', PInt files), (''max_total_diff_lines'', PInt lines),
       (''requires_ci_green'', PBool True), (''required_tests'', yaml_texts [''contract_suite'']),
       (''forbidden_paths'', yaml_texts forbidden)]"

text \<open>The merge gate policy, but for the switches of its write authority.\<close>

definition merge_gate_yaml :: "bool \<Rightarrow> bool \<Rightarrow> bool \<Rightarrow> py" where
  "merge_gate_yaml enabled dry_run kill_switch =
     PDict
      [(''require_ci_green'', PBool True), (''require_rubric_all_pass'', PBool True),
       (''require_declared_equals_observed_category'', PBool True),
       (''require_no_forbidden_paths_touched'', PBool True), (''require_diff_size_within_limit'', PBool True),
       (''auto_merge_categories'', yaml_texts [''docs_only'', ''ci_only'', ''test_only'', ''contract_guard_only'']),
       (''auto_progression'', PDict
         [(''policy_eligible_categories'', yaml_texts [''docs_only'', ''test_only'']),
          (''auto_pr_candidate_categories'', yaml_texts [''docs_only'']), (''max_changed_files'', PInt 8),
          (''max_total_diff_lines'', PInt 120),
          (''generated_path_patterns'', yaml_texts [''**/__pycache__/**'', ''**/*.pyc'', ''dist/**'', ''build/**'']),
          (''binary_file_extensions'', yaml_texts [''.png'', ''.jpg'', ''.jpeg'', ''.gif'', ''.pdf'', ''.zip'']),
          (''runtime_sensitive_path_patterns'', yaml_texts runtime_patterns),
          (''contract_sensitive_path_patterns'',
            yaml_texts [''docs/reviewer_handoff.md'', ''adapters/codex_cli.py'']),
          (''category_thresholds'', PDict
            [(''docs_only'', shipped_threshold 4 80 [''docs/reviewer_handoff.md'']),
             (''test_only'', shipped_threshold 6 120 [])])]),
       (''write_authority'', PDict
         [(''enabled'', PBool enabled), (''dry_run'', PBool dry_run), (''kill_switch'', PBool kill_switch),
          (''allowed_categories'', yaml_texts [''docs_only'']),
          (''required_lifecycle_states'', yaml_texts [''approved_for_merge''])]),
       (''retry_replan'', PDict
         [(''max_attempts'', PInt 2),
          (''retriable_failure_types'', yaml_texts [''execution_failure'', ''missing_signal''])])]"

section \<open>The rules of the observed category\<close>

definition shipped_categories :: dict where
  "shipped_categories = (case load_change_categories_policy change_categories_yaml of Inr p \<Rightarrow> p | Inl _ \<Rightarrow> [])"

lemma shipped_categories_load: "load_change_categories_policy change_categories_yaml = Inr shipped_categories"
proof -
  have "\<not> isl (load_change_categories_policy change_categories_yaml)" by code_simp
  then show ?thesis
    by (cases "load_change_categories_policy change_categories_yaml") (simp_all add: shipped_categories_def)
qed

text \<open>The patterns a category allows and forbids.\<close>

definition category_patterns :: "string \<Rightarrow> (string list \<times> string list) option" where
  "category_patterns category =
     (case get_change_category_policy category shipped_categories of
        Inr (Some d) \<Rightarrow>
          (case (texts_in (get_or d ''allowed_paths'' (PTuple [])), texts_in (get_or d ''forbidden_paths'' (PTuple []))) of
             (Inr allowed, Inr forbidden) \<Rightarrow> Some (allowed, forbidden)
           | _ \<Rightarrow> None)
      | _ \<Rightarrow> None)"

lemma path_rules_patterns:
  "category_patterns category = Some (allowed, forbidden) \<Longrightarrow>
     path_rules category shipped_categories paths =
       Inr (list_all (matches_any allowed) paths, \<not> list_ex (matches_any forbidden) paths)"
  by (auto simp: category_patterns_def path_rules_def split: sum.splits option.splits)

lemma shipped_patterns:
  "category_patterns ''docs_only'' = Some ([''docs/**''],
     runtime_patterns @ [''orchestrator/**'', ''tests/**'', ''.github/workflows/**''])"
  "category_patterns ''ci_only'' = Some ([''.github/workflows/**''],
     runtime_patterns @ [''orchestrator/**'', ''tests/**'', ''docs/**''])"
  "category_patterns ''test_only'' = Some ([''tests/**''],
     runtime_patterns @ [''orchestrator/**'', ''docs/**'', ''.github/workflows/**''])"
  "category_patterns ''contract_guard_only'' = Some ([''docs/**'', ''tests/**''],
     runtime_patterns @ [''orchestrator/**'', ''.github/workflows/**''])"
  "category_patterns ''runtime_fix_high_risk'' = Some ([''**''], [])"
  "category_patterns ''feature'' = Some ([''**''], [])"
  by code_simp+

text \<open>What the patterns say.\<close>

lemma everything_matches [simp]: "fnmatch s ''**''"
  by (simp add: fnmatch_def)

lemma starts_with_iff: "starts_with s p \<longleftrightarrow> (\<exists>r. s = p @ r)"
  by (induction s p rule: starts_with.induct) auto

lemma shipped_globs:
  "fnmatch s ''docs/**'' \<longleftrightarrow> starts_with s ''docs/''" "fnmatch s ''tests/**'' \<longleftrightarrow> starts_with s ''tests/''"
  "fnmatch s ''.github/workflows/**'' \<longleftrightarrow> starts_with s ''.github/workflows/''"
  "fnmatch s ''adapters/**'' \<longleftrightarrow> starts_with s ''adapters/''" "fnmatch s ''verify/**'' \<longleftrightarrow> starts_with s ''verify/''"
  "fnmatch s ''workspace/**'' \<longleftrightarrow> starts_with s ''workspace/''"
  "fnmatch s ''orchestrator/**'' \<longleftrightarrow> starts_with s ''orchestrator/''"
  "fnmatch s ''run_codex.py'' \<longleftrightarrow> s = ''run_codex.py''" "fnmatch s ''app.py'' \<longleftrightarrow> s = ''app.py''"
  using fnmatch_below [of "''docs/''" s] fnmatch_below [of "''tests/''" s]
    fnmatch_below [of "''.github/workflows/''" s] fnmatch_below [of "''adapters/''" s]
    fnmatch_below [of "''verify/''" s] fnmatch_below [of "''workspace/''" s]
    fnmatch_below [of "''orchestrator/''" s] fnmatch_exact [of "''run_codex.py''" s] fnmatch_exact [of "''app.py''" s]
  by (simp_all add: plain_char_def)

lemma narrow_paths:
  "is_docs_path p \<Longrightarrow> \<not> matches_any (runtime_patterns @ [''orchestrator/**'', ''tests/**'', ''.github/workflows/**'']) p"
  "is_ci_path p \<Longrightarrow> \<not> matches_any (runtime_patterns @ [''orchestrator/**'', ''tests/**'', ''docs/**'']) p"
  "is_test_path p \<Longrightarrow> \<not> matches_any (runtime_patterns @ [''orchestrator/**'', ''docs/**'', ''.github/workflows/**'']) p"
  "is_docs_path p \<or> is_test_path p \<Longrightarrow>
     \<not> matches_any (runtime_patterns @ [''orchestrator/**'', ''.github/workflows/**'']) p"
  by (auto simp: matches_any_def runtime_patterns_def shipped_globs is_docs_path_def is_ci_path_def is_test_path_def
      starts_with_iff [of p])

lemma rules_obeyed:
  assumes "category_patterns category = Some (allowed, forbidden)" and "list_all P paths"
    and "\<And>p. P p \<Longrightarrow> matches_any allowed p" and "\<And>p. P p \<Longrightarrow> \<not> matches_any forbidden p"
  shows "path_rules category shipped_categories paths = Inr (True, True)"
  using assms(2-) by (auto simp: path_rules_patterns [OF assms(1)] list_all_iff list_ex_iff)

lemma allowed_paths_match:
  "is_docs_path p \<Longrightarrow> matches_any [''docs/**''] p" "is_ci_path p \<Longrightarrow> matches_any [''.github/workflows/**''] p"
  "is_test_path p \<Longrightarrow> matches_any [''tests/**''] p"
  "is_docs_path p \<or> is_test_path p \<Longrightarrow> matches_any [''docs/**'', ''tests/**''] p"
  "matches_any [''**''] p" "\<not> matches_any [] p"
  by (auto simp: matches_any_def shipped_globs is_docs_path_def is_ci_path_def is_test_path_def)

text \<open>C22. The shipped categories agree with \<open>infer_observed_category\<close>: under the loaded file the files of a
  change are all allowed, and none is forbidden, by the rules of the category inferred from them,
  whatever they are.\<close>

theorem observed_category_obeys_its_rules:
  "\<exists>policy. load_change_categories_policy change_categories_yaml = Inr policy \<and>
     (\<forall>files. path_rules (infer_observed_category files) policy (normalize_paths files) = Inr (True, True))"
proof -
  have "path_rules (infer_observed_category files) shipped_categories (normalize_paths files) = Inr (True, True)"
    for files
  proof -
    let ?paths = "normalize_paths files"
    note obeyed = shipped_patterns [THEN rules_obeyed]
    have "path_rules ''feature'' shipped_categories ?paths = Inr (True, True)"
      "path_rules ''runtime_fix_high_risk'' shipped_categories ?paths = Inr (True, True)"
      by (rule obeyed(6) [where P = "\<lambda>_. True"] obeyed(5) [where P = "\<lambda>_. True"];
        simp add: allowed_paths_match list_all_iff)+
    moreover have "list_all is_docs_path ?paths \<Longrightarrow> path_rules ''docs_only'' shipped_categories ?paths = Inr (True, True)"
      "list_all is_ci_path ?paths \<Longrightarrow> path_rules ''ci_only'' shipped_categories ?paths = Inr (True, True)"
      "list_all is_test_path ?paths \<Longrightarrow> path_rules ''test_only'' shipped_categories ?paths = Inr (True, True)"
      "list_all (\<lambda>p. is_docs_path p \<or> is_test_path p) ?paths \<Longrightarrow>
         path_rules ''contract_guard_only'' shipped_categories ?paths = Inr (True, True)"
      by (erule obeyed(1-4); erule allowed_paths_match narrow_paths)+
    ultimately show ?thesis
      unfolding infer_observed_category_def Let_def
      by (cases "?paths = []"; simp only: if_True if_False; simp split: if_split)
  qed
  with shipped_categories_load show ?thesis by blast
qed

text \<open>Two of the shipped categories are never observed: a change declared as one of them never agrees.\<close>

lemma two_categories_are_never_observed:
  "infer_observed_category files \<notin> {''runtime_fix_low_risk'', ''contract_extension''}"
  by (auto simp: infer_observed_category_def Let_def)

end
