(* ===== verification/Job_Evaluator.thy ===== *)
theory Job_Evaluator
  imports Merge_Gate World
begin

text \<open>
  \<open>orchestrator/job_evaluator.py\<close>: the evaluation of a finished job from its request and its result,
  with every value it had to fall back on, and the files it leaves. The two policies are what their
  loaders give; a payload that is no object raises when it is read.
\<close>

section \<open>Signals of the payloads\<close>

text \<open>A signal with the name of the place it was found in.\<close>

type_synonym 'a signal = "'a \<times> string"

definition is_fallback :: "string \<Rightarrow> bool" where
  "is_fallback source = starts_with source ''fallback_''"

definition changed_files_in :: "py \<Rightarrow> string list option" where
  "changed_files_in v =
     (case v of PList vs \<Rightarrow> Some (sequence_texts v) | PTuple vs \<Rightarrow> Some (sequence_texts v) | _ \<Rightarrow> None)"

definition derive_declared_category :: "dict \<Rightarrow> string signal" where
  "derive_declared_category request =
     (let t = normalize_text [] (get request ''declared_category'') in
      if t \<noteq> [] then (t, ''request.declared_category'') else (''feature'', ''fallback_feature''))"

definition derive_changed_files :: "dict \<Rightarrow> dict \<Rightarrow> string list signal" where
  "derive_changed_files request result =
     (case changed_files_in (get request ''changed_files'') of
        Some fs \<Rightarrow> (fs, ''request.changed_files'')
      | None \<Rightarrow>
          (case changed_files_in (get result ''changed_files'') of
             Some fs \<Rightarrow> (fs, ''result.changed_files'')
           | None \<Rightarrow>
               (case changed_files_in (get (get_mapping result ''execution'') ''changed_files'') of
                  Some fs \<Rightarrow> (fs, ''result.execution.changed_files'')
                | None \<Rightarrow> ([], ''fallback_empty_tuple''))))"

definition derive_required_tests_declared :: "dict \<Rightarrow> bool signal" where
  "derive_required_tests_declared request =
     (case get_or request ''validation_commands'' (PList []) of
        PList vs \<Rightarrow> (vs \<noteq> [], ''request.validation_commands'')
      | _ \<Rightarrow> (False, ''fallback_empty_validation_commands''))"

definition derive_verify_flags :: "dict \<Rightarrow> (bool \<times> bool) signal" where
  "derive_verify_flags result =
     (case as_mapping (get (get_mapping result ''execution'') ''verify'') of
        None \<Rightarrow> ((False, False), ''fallback_no_execution_verify'')
      | Some verify \<Rightarrow>
          (let status = strip (py_str (get_or verify ''status'' (PStr []))) in
           if status = ''passed'' then ((True, True), ''result.execution.verify.status'')
           else if status = ''failed'' then ((True, False), ''result.execution.verify.status'')
           else if status = ''not_run'' then ((False, False), ''result.execution.verify.status'')
           else ((False, False), ''fallback_unknown_verify_status'')))"

definition derive_prior_attempt_count :: "dict \<Rightarrow> int signal res" where
  "derive_prior_attempt_count result =
     (case get (get_mapping result ''execution'') ''attempt_count'' of
        PInt i \<Rightarrow> Inr (max i 0, ''result.execution.attempt_count'')
      | PStr s \<Rightarrow>
          (let t = strip s in
           if t \<noteq> [] \<and> isdigit t
           then res_bind (int_of_text t) (\<lambda>i. Inr (i, ''result.execution.attempt_count''))
           else Inr (0, ''fallback_zero_prior_attempt_count''))
      | _ \<Rightarrow> Inr (0, ''fallback_zero_prior_attempt_count''))"

definition derive_execution_status :: "dict \<Rightarrow> string option signal" where
  "derive_execution_status result =
     (case text_or_none (get (get_mapping result ''execution'') ''status'') of
        None \<Rightarrow> (None, ''fallback_no_execution_status'')
      | Some s \<Rightarrow> (Some s, ''result.execution.status''))"

text \<open>The first integer among the places; a number may be negative.\<close>

fun first_int :: "(string \<times> py) list \<Rightarrow> string \<Rightarrow> int option signal res" where
  "first_int [] missing = Inr (None, missing)"
| "first_int ((source, v) # cs) missing =
     res_bind (as_optional_int v) (\<lambda>r. case r of
       Some i \<Rightarrow> Inr (Some i, source)
     | None \<Rightarrow> first_int cs missing)"

definition derive_int_signal :: "dict \<Rightarrow> dict \<Rightarrow> string \<Rightarrow> int option signal res" where
  "derive_int_signal request result key =
     first_int
       ((''result.'' @ key, get result key) #
        (case as_mapping (get result ''execution'') of
           None \<Rightarrow> [] | Some execution \<Rightarrow> [(''result.execution.'' @ key, get execution key)]) @
        [(''request.'' @ key, get request key)])
       (''fallback_'' @ key @ ''_missing'')"

definition derive_job_id :: "string \<Rightarrow> dict \<Rightarrow> dict \<Rightarrow> string signal" where
  "derive_job_id dir_name request result =
     (let from_request = strip (py_str (get_or request ''job_id'' (PStr [])));
          from_result = strip (py_str (get_or result ''job_id'' (PStr [])))
      in if from_request \<noteq> [] then (from_request, ''request.job_id'')
         else if from_result \<noteq> [] then (from_result, ''result.job_id'')
         else (dir_name, ''fallback_job_dir_name''))"

section \<open>The evaluation\<close>

record job_policies =
  jp_categories :: dict
  jp_merge_gate :: dict

record job_evaluation =
  je_job :: string
  je_classification :: classification
  je_rubric :: rubric
  je_merge_gate :: merge_gate
  je_assumptions :: dict

text \<open>No signal says that the checks are green or a rollback is recorded; both count as false.\<close>

definition job_rubric_input ::
    "string \<Rightarrow> string \<Rightarrow> bool \<Rightarrow> bool \<times> bool \<Rightarrow> int option \<Rightarrow> int option \<Rightarrow> rubric_input" where
  "job_rubric_input declared observed tests_declared verified additions deletions =
     \<lparr>ri_declared = declared, ri_observed = observed, ri_additions = (case additions of None \<Rightarrow> 0 | Some i \<Rightarrow> i),
      ri_deletions = (case deletions of None \<Rightarrow> 0 | Some i \<Rightarrow> i), ri_tests_declared = tests_declared,
      ri_tests_executed = fst verified, ri_tests_passed = snd verified, ri_ci_green = False,
      ri_rollback_recorded = False, ri_diff_line_limit = 400\<rparr>"

definition job_assumptions :: "(string \<times> string) list \<Rightarrow> dict \<Rightarrow> dict" where
  "job_assumptions sources signals =
     (''fallbacks_used'', PList (map PStr (map snd (filter (\<lambda>(k, s). is_fallback s) sources) @
        (if truthy (get_or signals ''state_available'' (PBool False)) then [] else [''github_state_unavailable'']))))
     # map (\<lambda>(k, s). (k, PStr s)) sources @
       [(''github_backend'', get signals ''backend''), (''github_mode'', get signals ''mode''),
        (''github_state_source'', get signals ''state_source'')]"

definition evaluate_job :: "job_policies \<Rightarrow> state_backend \<Rightarrow> string \<Rightarrow> dict \<Rightarrow> dict \<Rightarrow> job_evaluation res" where
  "evaluate_job jp backend dir_name request result =
     (let (job, job_source) = derive_job_id dir_name request result;
          (declared, declared_source) = derive_declared_category request;
          (files, files_source) = derive_changed_files request result;
          (tests_declared, tests_source) = derive_required_tests_declared request;
          (verified, verify_source) = derive_verify_flags result;
          (status, status_source) = derive_execution_status result
      in res_bind (derive_prior_attempt_count result) (\<lambda>(prior, prior_source).
         res_bind (derive_int_signal request result ''additions'') (\<lambda>(additions, additions_source).
         res_bind (derive_int_signal request result ''deletions'') (\<lambda>(deletions, deletions_source).
         res_bind (classify_changes declared files (jp_categories jp)) (\<lambda>cl.
         res_bind (backend request result) (\<lambda>signals.
         let ri = job_rubric_input declared (cl_observed cl) tests_declared verified additions deletions in
         res_bind (evaluate_rubric ri files (jp_categories jp)) (\<lambda>ru.
         res_bind (apply_merge_gate ru (jp_merge_gate jp)
           \<lparr>gi_files = files, gi_additions = ri_additions ri, gi_deletions = ri_deletions ri,
            gi_stats_present = (additions \<noteq> None \<and> deletions \<noteq> None), gi_signals = Some signals,
            gi_prior_attempts = prior, gi_execution_status = status\<rparr>) (\<lambda>mg.
         Inr \<lparr>je_job = job, je_classification = cl, je_rubric = ru, je_merge_gate = mg,
           je_assumptions = job_assumptions
             [(''job_id_source'', job_source), (''declared_category_source'', declared_source),
              (''changed_files_source'', files_source), (''required_tests_declared_source'', tests_source),
              (''verify_source'', verify_source), (''prior_attempt_count_source'', prior_source),
              (''execution_status_source'', status_source), (''additions_source'', additions_source),
              (''deletions_source'', deletions_source), (''ci_green_source'', ''fallback_false_no_ci_signal''),
              (''rollback_metadata_source'', ''fallback_false_no_rollback_signal'')] signals\<rparr>))))))))"

definition read_payload :: "path \<Rightarrow> py run" where
  "read_payload p = run_bind run_files (\<lambda>fs. run_res (read_json fs p))"

definition payload_object :: "py \<Rightarrow> dict res" where
  "payload_object v =
     (case as_mapping v of None \<Rightarrow> Inl (TypeError ''payload is not an object'') | Some d \<Rightarrow> Inr d)"

definition evaluate_job_directory :: "job_policies \<Rightarrow> state_backend \<Rightarrow> path \<Rightarrow> job_evaluation run" where
  "evaluate_job_directory jp backend dir =
     run_bind (read_payload (child dir ''request.json'')) (\<lambda>request.
     run_bind (read_payload (child dir ''result.json'')) (\<lambda>result.
     run_res (res_bind (payload_object request) (\<lambda>rq.
       res_bind (payload_object result) (\<lambda>rs.
       evaluate_job jp backend (case path_parts dir of [] \<Rightarrow> [] | _ \<Rightarrow> last (path_parts dir)) rq rs)))))"

section \<open>The files of the evaluation\<close>

text \<open>\<open>asdict\<close> of the three results.\<close>

definition classification_dict :: "classification \<Rightarrow> dict" where
  "classification_dict cl =
     [(''declared_category'', PStr (cl_declared cl)), (''observed_category'', PStr (cl_observed cl)),
      (''declared_category_supported'', PBool (cl_supported cl)),
      (''declared_matches_observed'', PBool (cl_matches cl)), (''changed_files'', texts_value (cl_files cl)),
      (''reasons'', texts_value (cl_reasons cl))]"

definition rubric_dict :: "rubric \<Rightarrow> dict" where
  "rubric_dict ru =
     [(''declared_category'', PStr (ru_declared ru)), (''observed_category'', PStr (ru_observed ru)),
      (''allowed_files_only'', PBool (ru_allowed_files_only ru)),
      (''forbidden_files_untouched'', PBool (ru_forbidden_untouched ru)),
      (''diff_size_within_limit'', PBool (ru_diff_within_limit ru)),
      (''required_tests_declared'', PBool (ru_tests_declared ru)),
      (''required_tests_executed'', PBool (ru_tests_executed ru)),
      (''required_tests_passed'', PBool (ru_tests_passed ru)),
      (''runtime_semantics_changed'', PBool (ru_runtime_changed ru)),
      (''contract_shape_changed'', PBool (ru_contract_changed ru)),
      (''reviewer_fields_changed'', PBool (ru_reviewer_changed ru)),
      (''ci_required_checks_green'', PBool (ru_ci_green ru)),
      (''rollback_metadata_recorded'', PBool (ru_rollback_recorded ru)),
      (''merge_eligible'', PBool (ru_merge_eligible ru)), (''fail_reasons'', texts_value (ru_fail_reasons ru)),
      (''warnings'', texts_value (ru_warnings ru))]"

definition replan_dict :: "replan \<Rightarrow> dict" where
  "replan_dict rp =
     [(''failure_type'', PStr (rp_failure_type rp)), (''current_state'', PStr (rp_current_state rp)),
      (''lifecycle_state'', PStr (rp_lifecycle rp)), (''write_authority_state'', PStr (rp_authority_state rp)),
      (''category'', PStr (rp_category rp)), (''changed_files'', texts_value (rp_files rp)),
      (''prior_attempt_count'', PInt (rp_prior_attempts rp)), (''retry_budget_total'', PInt (rp_budget_total rp)),
      (''retry_budget_remaining'', PInt (rp_budget_remaining rp)),
      (''budget_exhausted'', PBool (rp_budget_exhausted rp)),
      (''primary_fail_reasons'', texts_value (rp_fail_reasons rp)),
      (''retry_recommendation'', PStr (rp_recommendation rp)), (''next_action_readiness'', PStr (rp_readiness rp)),
      (''retry_recommended'', PBool (rp_retry_recommended rp)),
      (''escalation_required'', PBool (rp_escalation_required rp)),
      (''retriable_failure_type'', PBool (rp_retriable rp)),
      (''retriable_failure_types'', texts_value (rp_retriable_types rp))]"

definition merge_gate_dict :: "merge_gate \<Rightarrow> dict" where
  "merge_gate_dict mg =
     (let pg = mg_progression mg in
      [(''passed'', PBool (mg_passed mg)), (''fail_reasons'', texts_value (mg_fail_reasons mg)),
       (''auto_merge_allowed'', PBool (mg_auto_merge_allowed mg)), (''progression_state'', PStr (pg_state pg)),
       (''policy_eligible'', PBool (pg_eligible pg)), (''auto_pr_candidate'', PBool (pg_candidate pg)),
       (''lifecycle_state'', PStr (mg_lifecycle mg)), (''write_authority'', PDict (mg_write_authority mg)),
       (''progression_fail_reasons'', texts_value (pg_reasons pg)),
       (''github_progression'', PDict (mg_github mg)), (''replan_input'', PDict (replan_dict (mg_replan mg)))])"

text \<open>The files as \<open>json.dumps\<close> writes them and the next reader finds them.\<close>

definition persist_evaluation_artifacts :: "path \<Rightarrow> bool \<Rightarrow> job_evaluation \<Rightarrow> string list run" where
  "persist_evaluation_artifacts dir include_classification je =
     (let write = (\<lambda>name d. run_write (child dir name) (json_value (PDict d)));
          cl = classification_dict (je_classification je) in
      run_bind (write ''rubric.json'' (rubric_dict (je_rubric je))) (\<lambda>_.
      run_bind (write ''merge_gate.json'' (merge_gate_dict (je_merge_gate je))) (\<lambda>_.
      if include_classification
      then run_bind (write ''classification.json''
          [(''declared_category'', get cl ''declared_category''), (''observed_category'', get cl ''observed_category''),
           (''reasons'', get cl ''reasons''), (''changed_files'', get cl ''changed_files''),
           (''assumptions'', PDict (je_assumptions je))])
        (\<lambda>_. run_return [''rubric.json'', ''merge_gate.json'', ''classification.json''])
      else run_return [''rubric.json'', ''merge_gate.json''])))"

end
