(* ===== verification/Gate_Verdicts.thy ===== *)
theory Gate_Verdicts
  imports Shipped_Categories Job_Evaluator Action_Executor
begin

text \<open>
  What the merge gate of the orchestrator gives away: when its receipt opens the write gate of the
  action executor, what the evaluation of a job can come to, that the policies the loaders accept
  are ones the gate reads, and that the shipped categories agree with the classifier.
\<close>

section \<open>The receipt and the executor\<close>

lemma authority_receipt_entries:
  "get (derive_write_authority_receipt policy observed pg lifecycle snapshot) ''state'' =
     PStr (fst (authority_verdict (policy_write_authority policy) observed pg lifecycle snapshot))"
  "get (derive_write_authority_receipt policy observed pg lifecycle snapshot) ''write_actions_allowed'' =
     PBool (fst (authority_verdict (policy_write_authority policy) observed pg lifecycle snapshot) = ''write_allowed'')"
  "has_key (derive_write_authority_receipt policy observed pg lifecycle snapshot) ''write_actions_allowed''"
  "get (derive_write_authority_receipt policy observed pg lifecycle snapshot) ''allowed_actions'' = PNone"
  "derive_write_authority_receipt policy observed pg lifecycle snapshot \<noteq> []"
  by (simp_all add: derive_write_authority_receipt_def Let_def split: prod.splits)

lemma authority_states:
  "fst (authority_verdict ga observed pg lifecycle snapshot) \<in>
     {''disabled'', ''blocked'', ''write_preparable'', ''dry_run_only'', ''write_allowed''}"
  by (simp add: authority_verdict_def Let_def)

lemma write_allowed_iff:
  "fst (authority_verdict ga observed pg lifecycle snapshot) = ''write_allowed'' \<longleftrightarrow>
     ga_enabled ga \<and> \<not> ga_kill_switch ga \<and> \<not> ga_dry_run ga \<and> strip observed \<in> set (ga_categories ga) \<and>
     pg_eligible pg \<and> pg_candidate pg \<and> lifecycle \<in> set (ga_lifecycle_states ga) \<and>
     snapshot_available snapshot \<and> target_named snapshot \<and> state_in snapshot ''checks'' = ''passing'' \<and>
     state_in snapshot ''review'' = ''approved'' \<and> state_in snapshot ''mergeability'' = ''clean''"
  by (auto simp: authority_verdict_def authority_checks_def reasons_of_Nil Let_def)

lemma receipt_opens_iff:
  "write_gate (PDict (derive_write_authority_receipt policy observed pg lifecycle snapshot)) action = None \<longleftrightarrow>
     fst (authority_verdict (policy_write_authority policy) observed pg lifecycle snapshot) = ''write_allowed''"
proof -
  let ?receipt = "derive_write_authority_receipt policy observed pg lifecycle snapshot"
  let ?state = "fst (authority_verdict (policy_write_authority policy) observed pg lifecycle snapshot)"
  have texts: "lower (normalize_text [] (PStr s)) = s \<and> s \<noteq> []"
    if "s \<in> set [''disabled'', ''blocked'', ''write_preparable'', ''dry_run_only'', ''write_allowed'']" for s
  proof -
    have "list_all (\<lambda>s. lower (normalize_text [] (PStr s)) = s \<and> s \<noteq> [])
       [''disabled'', ''blocked'', ''write_preparable'', ''dry_run_only'', ''write_allowed'']" by code_simp
    with that show ?thesis by (simp only: list_all_iff) blast
  qed
  have "?state \<in> set [''disabled'', ''blocked'', ''write_preparable'', ''dry_run_only'', ''write_allowed'']"
    using authority_states [of "policy_write_authority policy" observed pg lifecycle snapshot] by simp
  from texts [OF this] have "wa_state (normalize_write_authority (PDict ?receipt)) = ?state"
    by (simp only: normalize_write_authority_def Let_def mapping_or_empty_simps authority_receipt_entries
        write_authority.select_convs) simp
  moreover have "wa_actions_allowed (normalize_write_authority (PDict ?receipt)) = (?state = ''write_allowed'')"
    by (simp add: normalize_write_authority_def Let_def authority_receipt_entries del: normalize_text_PStr)
  moreover have "wa_actions (normalize_write_authority (PDict ?receipt)) = []"
    by (simp add: normalize_write_authority_def Let_def authority_receipt_entries normalize_string_list_def
        del: normalize_text_PStr)
  ultimately show ?thesis
    by (simp add: write_gate_def Let_def authority_receipt_entries(5))
qed

section \<open>The gate\<close>

lemma distinct_reasons_Nil [simp]: "distinct_reasons rs = [] \<longleftrightarrow> rs = []"
  by (simp add: distinct_reasons_def)

lemma distinct_reasons_of_Nil [simp]: "distinct_reasons [] = []"
  by simp

lemma receipt_built: "\<exists>d. build_github_progression_receipt signals s e c = Inr d"
proof -
  have "isl (collect_artifact [] []) = False" by code_simp
  then obtain f where "collect_artifact [] [] = Inr f" by (cases "collect_artifact [] []") simp_all
  then show ?thesis by (simp add: build_github_progression_receipt_def Let_def)
qed

lemma derived_progression:
  assumes "derive_progression_policy policy ru cf = Inr pg"
  shows "\<exists>ap. policy_auto_progression policy = Inr ap \<and>
    pg_reasons pg = distinct_reasons (reasons_of (progression_checks ap ru cf)) \<and>
    (pg_eligible pg \<longleftrightarrow> pg_reasons pg = []) \<and> (pg_reasons pg \<noteq> [] \<longrightarrow> pg_state pg = ''manual_only'')"
  using assms by (auto simp: derive_progression_policy_def res_bind_eq_Inr Let_def)

text \<open>The parts of a gate that returned.\<close>

lemma apply_merge_gateE:
  assumes "apply_merge_gate ru policy gi = Inr mg"
  obtains ap where "policy_auto_progression policy = Inr ap"
    "pg_reasons (mg_progression mg) = distinct_reasons (reasons_of (progression_checks ap ru
       \<lparr>cf_files = normalize_paths (gi_files gi), cf_additions = gi_additions gi, cf_deletions = gi_deletions gi,
        cf_stats_present = gi_stats_present gi\<rparr>))"
    "pg_eligible (mg_progression mg) \<longleftrightarrow> pg_reasons (mg_progression mg) = []"
    "pg_reasons (mg_progression mg) \<noteq> [] \<Longrightarrow> pg_state (mg_progression mg) = ''manual_only''"
    "mg_lifecycle mg = derive_lifecycle_state (mg_progression mg) (mg_github mg)"
    "mg_write_authority mg = derive_write_authority_receipt policy (ru_observed ru) (mg_progression mg)
       (mg_lifecycle mg) (mg_github mg)"
    "mg_passed mg \<longleftrightarrow> gate_reasons policy ru = [] \<and> mg_auto_merge_allowed mg"
    "build_github_progression_receipt (gi_signals gi) (pg_state (mg_progression mg)) (pg_eligible (mg_progression mg))
       (pg_candidate (mg_progression mg)) = Inr (mg_github mg)"
    "derive_progression_policy policy ru \<lparr>cf_files = normalize_paths (gi_files gi), cf_additions = gi_additions gi,
       cf_deletions = gi_deletions gi, cf_stats_present = gi_stats_present gi\<rparr> = Inr (mg_progression mg)"
proof -
  from assms obtain pg github rp where
    pg: "derive_progression_policy policy ru \<lparr>cf_files = normalize_paths (gi_files gi), cf_additions = gi_additions gi,
      cf_deletions = gi_deletions gi, cf_stats_present = gi_stats_present gi\<rparr> = Inr pg"
    and github: "build_github_progression_receipt (gi_signals gi) (pg_state pg) (pg_eligible pg) (pg_candidate pg) =
      Inr github"
    and mg: "mg_progression mg = pg" "mg_github mg = github" "mg_lifecycle mg = derive_lifecycle_state pg github"
      "mg_write_authority mg = derive_write_authority_receipt policy (ru_observed ru) pg
         (derive_lifecycle_state pg github) github"
      "mg_passed mg \<longleftrightarrow> distinct_reasons (gate_reasons policy ru) = [] \<and> mg_auto_merge_allowed mg"
    by (auto simp: apply_merge_gate_def res_bind_eq_Inr Let_def)
  obtain ap where ap: "policy_auto_progression policy = Inr ap"
    "pg_reasons pg = distinct_reasons (reasons_of (progression_checks ap ru
       \<lparr>cf_files = normalize_paths (gi_files gi), cf_additions = gi_additions gi, cf_deletions = gi_deletions gi,
        cf_stats_present = gi_stats_present gi\<rparr>))"
    "pg_eligible pg \<longleftrightarrow> pg_reasons pg = []" "pg_reasons pg \<noteq> [] \<longrightarrow> pg_state pg = ''manual_only''"
    using derived_progression [OF pg] by blast
  show thesis
  proof (rule that)
    show "policy_auto_progression policy = Inr ap" by (rule ap)
    show "pg_reasons (mg_progression mg) = distinct_reasons (reasons_of (progression_checks ap ru
       \<lparr>cf_files = normalize_paths (gi_files gi), cf_additions = gi_additions gi, cf_deletions = gi_deletions gi,
        cf_stats_present = gi_stats_present gi\<rparr>))" unfolding mg by (rule ap)
  qed (use ap(4) github [unfolded ap(3)] pg in \<open>simp_all add: mg ap(3)\<close>)
qed

lemma snapshot_of_signals:
  assumes "build_github_progression_receipt signals s e c = Inr d" and "snapshot_available d"
  shows "\<exists>sig. signals = Some sig \<and> snapshot_available sig"
proof (cases signals)
  case None
  have "(case build_github_progression_receipt None s e c of Inr d \<Rightarrow> \<not> snapshot_available d | Inl x \<Rightarrow> True)"
    by (simp add: build_github_progression_receipt_def collect_artifact_def extract_github_state_def get_mapping_def
        get_nested_mapping_def build_normalized_snapshot_def derive_target_def derive_review_def snapshot_available_def
        normalize_snapshot_shape_def Let_def put_def get_def [symmetric])
  with assms None show ?thesis by simp
next
  case (Some sig)
  with assms show ?thesis
    by (auto simp: build_github_progression_receipt_def normalize_snapshot_shape_def snapshot_available_def
        res_bind_eq_Inr Let_def put_def)
qed

text \<open>C19. The merge gate gives write authority to clean changes only: when the receipt of the gate opens the
  write gate of the executor, the authority of the policy is enabled, without kill switch and dry run,
  and names the category; no check of the progression fails (the tests were declared, run and
  passed, the checks are green, no forbidden, generated, binary or sensitive path is touched, the
  limits are kept), and GitHub, whose state was available, shows the checks passing, the review
  approved and the pull request clean.\<close>

theorem write_authority_for_clean_changes_only:
  assumes "apply_merge_gate ru policy gi = Inr mg" and "write_gate (PDict (mg_write_authority mg)) action = None"
  shows "let ga = policy_write_authority policy; github = mg_github mg in
    ga_enabled ga \<and> \<not> ga_kill_switch ga \<and> \<not> ga_dry_run ga \<and> strip (ru_observed ru) \<in> set (ga_categories ga) \<and>
    mg_lifecycle mg \<in> set (ga_lifecycle_states ga) \<and>
    (\<exists>ap. policy_auto_progression policy = Inr ap \<and>
      (\<forall>(failing, reason) \<in> set (progression_checks ap ru \<lparr>cf_files = normalize_paths (gi_files gi),
         cf_additions = gi_additions gi, cf_deletions = gi_deletions gi, cf_stats_present = gi_stats_present gi\<rparr>).
         \<not> failing)) \<and>
    (\<exists>signals. gi_signals gi = Some signals \<and> snapshot_available signals) \<and> target_named github \<and>
    state_in github ''checks'' = ''passing'' \<and> state_in github ''review'' = ''approved'' \<and>
    state_in github ''mergeability'' = ''clean''"
proof (rule apply_merge_gateE [OF assms(1)])
  fix ap
  assume ap: "policy_auto_progression policy = Inr ap"
    and reasons: "pg_reasons (mg_progression mg) = distinct_reasons (reasons_of (progression_checks ap ru
       \<lparr>cf_files = normalize_paths (gi_files gi), cf_additions = gi_additions gi, cf_deletions = gi_deletions gi,
        cf_stats_present = gi_stats_present gi\<rparr>))"
    and eligible: "pg_eligible (mg_progression mg) \<longleftrightarrow> pg_reasons (mg_progression mg) = []"
    and authority: "mg_write_authority mg = derive_write_authority_receipt policy (ru_observed ru) (mg_progression mg)
       (mg_lifecycle mg) (mg_github mg)"
    and github: "build_github_progression_receipt (gi_signals gi) (pg_state (mg_progression mg))
       (pg_eligible (mg_progression mg)) (pg_candidate (mg_progression mg)) = Inr (mg_github mg)"
  note allowed = assms(2) [unfolded authority receipt_opens_iff write_allowed_iff]
  from allowed eligible reasons have "reasons_of (progression_checks ap ru \<lparr>cf_files = normalize_paths (gi_files gi),
      cf_additions = gi_additions gi, cf_deletions = gi_deletions gi, cf_stats_present = gi_stats_present gi\<rparr>) = []"
    by simp
  with ap have "\<exists>ap. policy_auto_progression policy = Inr ap \<and>
      (\<forall>(failing, reason) \<in> set (progression_checks ap ru \<lparr>cf_files = normalize_paths (gi_files gi),
         cf_additions = gi_additions gi, cf_deletions = gi_deletions gi, cf_stats_present = gi_stats_present gi\<rparr>).
         \<not> failing)"
    unfolding reasons_of_Nil by blast
  then show ?thesis
    using allowed snapshot_of_signals [OF github] unfolding Let_def by blast
qed

section \<open>The evaluation of a job\<close>

lemma evaluated_rubric_ci: "evaluate_rubric ri files policy = Inr ru \<Longrightarrow> ru_ci_green ru = ri_ci_green ri"
  by (auto simp: evaluate_rubric_def res_bind_eq_Inr Let_def)

lemma ci_not_green_fails:
  assumes "\<not> ru_ci_green ru"
  shows "distinct_reasons (reasons_of (progression_checks ap ru cf)) \<noteq> []"
    "policy_bool policy ''require_ci_green'' True \<Longrightarrow> gate_reasons policy ru \<noteq> []"
  using assms by (auto simp: progression_checks_def gate_reasons_def reasons_of_def Let_def)

text \<open>C20. The evaluation of a job never lets it progress by itself: as no signal ever says that the checks are
  green, every evaluated job is for a human, its receipt opens no write gate, and it passes the
  merge gate only under a policy that does not ask for green checks.\<close>

theorem evaluated_job_is_manual:
  assumes "evaluate_job jp backend dir_name request result = Inr je"
  shows "let mg = je_merge_gate je in
    pg_state (mg_progression mg) = ''manual_only'' \<and> mg_lifecycle mg = ''manual_only'' \<and>
    write_gate (PDict (mg_write_authority mg)) action \<noteq> None \<and>
    (mg_passed mg \<longrightarrow> \<not> policy_bool (jp_merge_gate jp) ''require_ci_green'' True)"
proof -
  from assms obtain ru gi where ru: "\<not> ru_ci_green ru" and gate: "apply_merge_gate ru (jp_merge_gate jp) gi = Inr (je_merge_gate je)"
    by (auto simp: evaluate_job_def res_bind_eq_Inr Let_def job_rubric_input_def split: prod.splits
        dest: evaluated_rubric_ci)
  show ?thesis
    by (rule apply_merge_gateE [OF gate])
      (use ci_not_green_fails [OF ru] in
        \<open>auto simp: receipt_opens_iff write_allowed_iff derive_lifecycle_state_def Let_def simp del: not_None_eq\<close>)
qed

section \<open>Loaded policies\<close>

text \<open>A dictionary of categories whose thresholds can be read.\<close>

definition readable_thresholds :: "dict \<Rightarrow> bool" where
  "readable_thresholds d = (\<forall>(category, v) \<in> set d. \<exists>t. threshold_of (mapping_or_empty v) = Inr t)"

lemma readable_put: "readable_thresholds d \<Longrightarrow> \<exists>t. threshold_of body = Inr t \<Longrightarrow>
    readable_thresholds (put name (PDict body) d)"
proof -
  assume d: "readable_thresholds d" and body: "\<exists>t. threshold_of body = Inr t"
  have "set (put name (PDict body) d) \<subseteq> insert (name, PDict body) (set d)"
    unfolding put_def by (induction d) auto
  with d body show ?thesis unfolding readable_thresholds_def by auto
qed

lemma loaded_threshold_readable:
  "loaded_threshold context e = Inr (name, body) \<Longrightarrow> \<exists>t. threshold_of body = Inr t"
  by (cases e) (auto simp: loaded_threshold_def threshold_of_def res_bind_eq_Inr Let_def)

lemma loaded_thresholds_readable: "loaded_thresholds context v = Inr d \<Longrightarrow> readable_thresholds d"
proof -
  have fold: "readable_thresholds (foldl (\<lambda>d (name, body). put name (PDict body) d) d entries)"
    if "readable_thresholds d" "\<forall>(name, body) \<in> set entries. \<exists>t. threshold_of body = Inr t" for d entries
    using that by (induction entries arbitrary: d) (auto intro: readable_put)
  have entries: "\<forall>(name, body) \<in> set entries. \<exists>t. threshold_of body = Inr t"
    if "res_map (loaded_threshold context) raw = Inr entries" for raw entries
    using that by (induction raw arbitrary: entries) (auto simp: res_bind_eq_Inr dest: loaded_threshold_readable)
  have "readable_thresholds []" by (simp add: readable_thresholds_def)
  then show "loaded_thresholds context v = Inr d \<Longrightarrow> readable_thresholds d"
    by (auto simp: loaded_thresholds_def res_bind_eq_Inr split: if_splits intro: fold dest!: entries)
qed

lemma readable_thresholds_of: "readable_thresholds d \<Longrightarrow> \<exists>ts. thresholds_of (PDict d) = Inr ts"
proof -
  assume d: "readable_thresholds d"
  let ?f = "\<lambda>(category, body). res_bind (threshold_of (mapping_or_empty body)) (\<lambda>t. Inr (strip category, t))"
  have "\<exists>ys. res_map ?f xs = Inr ys" if "set xs \<subseteq> set d" for xs
    using that d unfolding readable_thresholds_def by (induction xs) auto
  then obtain ys where "res_map ?f (filter (\<lambda>(category, body). strip category \<noteq> [] \<and> as_mapping body \<noteq> None) d) = Inr ys"
    by (meson filter_is_subset)
  then show ?thesis by (simp add: thresholds_of_def)
qed

lemma loaded_auto_progression_readable:
  assumes "loaded_auto_progression raw eligible candidates = Inr d" and "get policy ''auto_progression'' = PDict d"
  shows "\<exists>ap. policy_auto_progression policy = Inr ap"
proof -
  from assms(1) obtain files lines generated binary runtime contract thresholds where
    d: "d = [(''policy_eligible_categories'', texts_value eligible),
        (''auto_pr_candidate_categories'', texts_value candidates),
        (''max_changed_files'', PInt files), (''max_total_diff_lines'', PInt lines),
        (''generated_path_patterns'', texts_value generated), (''binary_file_extensions'', texts_value binary),
        (''runtime_sensitive_path_patterns'', texts_value runtime),
        (''contract_sensitive_path_patterns'', texts_value contract),
        (''category_thresholds'', PDict thresholds)]" and "readable_thresholds thresholds"
    by (auto simp: loaded_auto_progression_def res_bind_eq_Inr Let_def dest: loaded_thresholds_readable)
  from readable_thresholds_of [OF this(2)] d assms(2) show ?thesis
    by (auto simp: policy_auto_progression_def Let_def)
qed

lemma res_bind_returns: "\<exists>x. m = Inr x \<Longrightarrow> (\<And>x. \<exists>y. f x = Inr y) \<Longrightarrow> \<exists>y. res_bind m f = Inr y"
  by auto

lemma loaded_policy_gate:
  assumes "load_merge_gate_policy loaded = Inr policy"
  shows "\<exists>mg. apply_merge_gate ru policy gi = Inr mg"
proof -
  from assms obtain progression eligible candidates auto attempts retriable where
    auto: "loaded_auto_progression progression eligible candidates = Inr auto"
      "get policy ''auto_progression'' = PDict auto"
    and replan: "get policy ''retry_replan'' = PDict [(''max_attempts'', PInt attempts), retriable]"
    by (auto simp: load_merge_gate_policy_def res_bind_eq_Inr Let_def)
  from loaded_auto_progression_readable [OF auto] have "\<exists>pg. derive_progression_policy policy ru cf = Inr pg" for cf
    by (auto simp: derive_progression_policy_def Let_def)
  moreover have "\<exists>r. policy_retry_replan policy = Inr r"
    by (simp add: policy_retry_replan_def replan Let_def)
  then have "\<exists>rp. derive_replan_input policy observed files prior go = Inr rp" for observed files prior go
    by (auto simp: derive_replan_input_def Let_def)
  ultimately show ?thesis
    unfolding apply_merge_gate_def Let_def by (intro res_bind_returns receipt_built) blast+
qed

text \<open>C21. A policy its loader accepts never stops the merge gate: whatever the rubric, the files, the numbers
  and the signals, the gate returns a verdict.\<close>

theorem loaded_policy_never_stops_the_gate:
  assumes "load_merge_gate_policy loaded = Inr policy"
  shows "\<exists>mg. apply_merge_gate ru policy gi = Inr mg"
  using assms by (rule loaded_policy_gate)

section \<open>Examples\<close>

text \<open>A small change of the documentation, approved and with green checks, under the shipped policies.\<close>

definition docs_change :: rubric_input where
  "docs_change =
     \<lparr>ri_declared = ''docs_only'', ri_observed = ''docs_only'', ri_additions = 5, ri_deletions = 1,
      ri_tests_declared = True, ri_tests_executed = True, ri_tests_passed = True, ri_ci_green = True,
      ri_rollback_recorded = False, ri_diff_line_limit = 400\<rparr>"

definition approved_state :: dict where
  "approved_state =
     [(''repository'', PStr ''o/r''), (''target_ref'', PStr ''main''), (''required_checks_state'', PStr ''passing''),
      (''review_state'', PStr ''approved''), (''mergeability_state'', PStr ''clean'')]"

definition approved_signals :: dict where
  "approved_signals = (case collect_artifact [(''github_state'', PDict approved_state)] [] of Inr d \<Rightarrow> d | Inl _ \<Rightarrow> [])"

definition docs_gate :: gate_input where
  "docs_gate =
     \<lparr>gi_files = [''docs/a.md''], gi_additions = 5, gi_deletions = 1, gi_stats_present = True,
      gi_signals = Some approved_signals, gi_prior_attempts = 0, gi_execution_status = None\<rparr>"

definition docs_policy :: dict where
  "docs_policy = (case load_merge_gate_policy (merge_gate_yaml True False False) of Inr p \<Rightarrow> p | Inl _ \<Rightarrow> [])"

definition docs_rubric :: rubric where
  "docs_rubric =
     (case evaluate_rubric docs_change [''docs/a.md''] shipped_categories of
        Inr ru \<Rightarrow> ru
      | Inl _ \<Rightarrow> \<lparr>ru_declared = [], ru_observed = [], ru_allowed_files_only = False, ru_forbidden_untouched = False,
          ru_diff_within_limit = False, ru_tests_declared = False, ru_tests_executed = False, ru_tests_passed = False,
          ru_runtime_changed = False, ru_contract_changed = False, ru_reviewer_changed = False, ru_ci_green = False,
          ru_rollback_recorded = False, ru_merge_eligible = False, ru_fail_reasons = [], ru_warnings = []\<rparr>)"

definition docs_progression :: gate_progression where
  "docs_progression = \<lparr>pg_state = ''auto_pr_candidate'', pg_eligible = True, pg_candidate = True, pg_reasons = []\<rparr>"

lemma docs_policy_loads: "load_merge_gate_policy (merge_gate_yaml True False False) = Inr docs_policy"
proof -
  have "case load_merge_gate_policy (merge_gate_yaml True False False) of Inl e \<Rightarrow> False | Inr p \<Rightarrow> True" by code_simp
  then show ?thesis by (simp add: docs_policy_def split: sum.splits)
qed

lemma docs_progresses:
  "derive_progression_policy docs_policy docs_rubric
     \<lparr>cf_files = normalize_paths [''docs/a.md''], cf_additions = 5, cf_deletions = 1, cf_stats_present = True\<rparr> =
     Inr docs_progression"
  by code_simp

lemma docs_authority:
  "case build_github_progression_receipt (Some approved_signals) ''auto_pr_candidate'' True True of
     Inl e \<Rightarrow> False
   | Inr g \<Rightarrow> fst (authority_verdict (policy_write_authority docs_policy) (ru_observed docs_rubric) docs_progression
       (derive_lifecycle_state docs_progression g) g) = ''write_allowed''"
  by code_simp

lemma docs_gate_opens:
  "\<exists>mg. apply_merge_gate docs_rubric docs_policy docs_gate = Inr mg \<and>
     write_gate (PDict (mg_write_authority mg)) ''proceed_to_merge'' = None"
proof -
  obtain mg where mg: "apply_merge_gate docs_rubric docs_policy docs_gate = Inr mg"
    using loaded_policy_gate [OF docs_policy_loads] by blast
  show ?thesis
  proof (rule apply_merge_gateE [OF mg])
    assume pg: "derive_progression_policy docs_policy docs_rubric \<lparr>cf_files = normalize_paths (gi_files docs_gate),
        cf_additions = gi_additions docs_gate, cf_deletions = gi_deletions docs_gate,
        cf_stats_present = gi_stats_present docs_gate\<rparr> = Inr (mg_progression mg)"
      and github: "build_github_progression_receipt (gi_signals docs_gate) (pg_state (mg_progression mg))
        (pg_eligible (mg_progression mg)) (pg_candidate (mg_progression mg)) = Inr (mg_github mg)"
      and lifecycle: "mg_lifecycle mg = derive_lifecycle_state (mg_progression mg) (mg_github mg)"
      and authority: "mg_write_authority mg = derive_write_authority_receipt docs_policy (ru_observed docs_rubric)
        (mg_progression mg) (mg_lifecycle mg) (mg_github mg)"
    from pg docs_progresses have progression: "mg_progression mg = docs_progression" by (simp add: docs_gate_def)
    have "build_github_progression_receipt (Some approved_signals) ''auto_pr_candidate'' True True = Inr (mg_github mg)"
      using github by (simp add: progression) (simp add: docs_progression_def docs_gate_def)
    with docs_authority have "write_gate (PDict (mg_write_authority mg)) ''proceed_to_merge'' = None"
      by (simp add: authority lifecycle progression receipt_opens_iff)
    with mg show ?thesis by blast
  qed
qed

theorem write_authority_for_clean_changes_only_witness:
  "\<exists>mg. apply_merge_gate docs_rubric docs_policy docs_gate = Inr mg \<and>
     write_gate (PDict (mg_write_authority mg)) ''proceed_to_merge'' = None \<and>
     state_in (mg_github mg) ''review'' = ''approved''"
proof -
  obtain mg where mg: "apply_merge_gate docs_rubric docs_policy docs_gate = Inr mg"
    "write_gate (PDict (mg_write_authority mg)) ''proceed_to_merge'' = None"
    using docs_gate_opens by blast
  with write_authority_for_clean_changes_only [OF mg] show ?thesis
    unfolding Let_def by blast
qed

definition docs_request :: dict where
  "docs_request =
     [(''job_id'', PStr ''job-1''), (''declared_category'', PStr ''docs_only''),
      (''changed_files'', PList [PStr ''docs/a.md'']), (''validation_commands'', PList [PStr ''check'']),
      (''github_state'', PDict approved_state)]"

definition docs_result :: dict where
  "docs_result =
     [(''additions'', PInt 5), (''deletions'', PInt 1),
      (''execution'', PDict [(''status'', PStr ''completed''), (''verify'', PDict [(''status'', PStr ''passed'')])])]"

definition docs_policies :: job_policies where
  "docs_policies = \<lparr>jp_categories = shipped_categories, jp_merge_gate = docs_policy\<rparr>"

lemma docs_job_signals:
  "derive_job_id ''job-1'' docs_request docs_result = (''job-1'', ''request.job_id'')"
  "derive_declared_category docs_request = (''docs_only'', ''request.declared_category'')"
  "derive_changed_files docs_request docs_result = ([''docs/a.md''], ''request.changed_files'')"
  "derive_required_tests_declared docs_request = (True, ''request.validation_commands'')"
  "derive_verify_flags docs_result = ((True, True), ''result.execution.verify.status'')"
  "derive_execution_status docs_result = (Some ''completed'', ''result.execution.status'')"
  "derive_prior_attempt_count docs_result = Inr (0, ''fallback_zero_prior_attempt_count'')"
  "derive_int_signal docs_request docs_result ''additions'' = Inr (Some 5, ''result.additions'')"
  "derive_int_signal docs_request docs_result ''deletions'' = Inr (Some 1, ''result.deletions'')"
  by code_simp+

lemma docs_job_steps:
  "case classify_changes ''docs_only'' [''docs/a.md''] shipped_categories of
     Inl e \<Rightarrow> False | Inr cl \<Rightarrow> cl_observed cl = ''docs_only''"
  "case collect_artifact docs_request docs_result of Inl e \<Rightarrow> False | Inr d \<Rightarrow> True"
  "case evaluate_rubric (job_rubric_input ''docs_only'' ''docs_only'' True (True, True) (Some 5) (Some 1))
       [''docs/a.md''] shipped_categories of
     Inl e \<Rightarrow> False | Inr ru \<Rightarrow> ru_fail_reasons ru = [''required_ci_checks_not_green'']"
  by code_simp+

lemma docs_job_evaluated:
  "\<exists>je. evaluate_job docs_policies collect_artifact ''job-1'' docs_request docs_result = Inr je \<and>
     ru_fail_reasons (je_rubric je) = [''required_ci_checks_not_green'']"
proof -
  obtain cl where cl: "classify_changes ''docs_only'' [''docs/a.md''] shipped_categories = Inr cl"
    "cl_observed cl = ''docs_only''" using docs_job_steps(1) by (auto split: sum.splits)
  obtain signals where signals: "collect_artifact docs_request docs_result = Inr signals"
    using docs_job_steps(2) by (auto split: sum.splits)
  obtain ru where ru: "evaluate_rubric (job_rubric_input ''docs_only'' ''docs_only'' True (True, True) (Some 5) (Some 1))
      [''docs/a.md''] shipped_categories = Inr ru" "ru_fail_reasons ru = [''required_ci_checks_not_green'']"
    using docs_job_steps(3) by (auto split: sum.splits)
  have "\<forall>gi. \<exists>mg. apply_merge_gate ru docs_policy gi = Inr mg"
    using loaded_policy_gate [OF docs_policy_loads] by blast
  then obtain verdict where "\<And>gi. apply_merge_gate ru docs_policy gi = Inr (verdict gi)"
    by metis
  then show ?thesis
    by (simp add: evaluate_job_def docs_policies_def docs_job_signals cl signals ru Let_def)
qed

theorem evaluated_job_is_manual_witness:
  "\<exists>je. evaluate_job docs_policies collect_artifact ''job-1'' docs_request docs_result = Inr je \<and>
     ru_fail_reasons (je_rubric je) = [''required_ci_checks_not_green''] \<and>
     write_gate (PDict (mg_write_authority (je_merge_gate je))) ''proceed_to_merge'' \<noteq> None"
proof -
  obtain je where je: "evaluate_job docs_policies collect_artifact ''job-1'' docs_request docs_result = Inr je"
    "ru_fail_reasons (je_rubric je) = [''required_ci_checks_not_green'']"
    using docs_job_evaluated by blast
  with evaluated_job_is_manual [OF je(1)] show ?thesis
    unfolding Let_def by blast
qed

theorem loaded_policy_never_stops_the_gate_witness:
  "load_merge_gate_policy (merge_gate_yaml True False False) = Inr docs_policy \<and>
     (\<forall>ru. \<exists>mg. apply_merge_gate ru docs_policy docs_gate = Inr mg)"
  using docs_policy_loads loaded_policy_never_stops_the_gate [OF docs_policy_loads] by blast

end
