(* ===== verification/Spec2Isabelle.thy ===== *)
theory Spec2Isabelle
  imports Run_Dir Scheduling Handing_Over Lease_Refinement Dispatched_Writes Confirming Gate_Verdicts
begin

text \<open>
  The control plane of codex-local-runner: what decides, between two runs of an external coding
  agent, what happens to a job next, and who may do it.

  \<^bold>\<open>The parts and how they interact.\<close> The scheduler (\<open>automation/scheduler/job_scheduler.py\<close>) brings
  a registry of jobs in line with the artefacts on disk, claims a lease for each job that may run,
  and dispatches it. A dispatch (\<open>automation/scheduler/run_dispatcher.py\<close>) first looks at the
  job's pause file, then runs the planned-execution runner, which leaves the decision of the
  next action controller (\<open>automation/control/next_action_controller.py\<close>) and a handoff on disk.
  The dispatcher reads them back, has the execution authority route the action to a lane, and
  either pauses, escalates, retries the run under the retry policy and its budget, or calls the
  action executor (\<open>automation/control/action_executor.py\<close>), which checks the routing and the write
  authority again, calls the bounded writer of the action (\<open>automation/github\<close>: draft, update, merge or
  rollback) and leaves a receipt. A writer looks at its own receipts for an earlier try of the same
  write, asks the read backend what GitHub shows, and only then has the write backend, or git, make
  the change; the backends send their requests through a client to the network. Every step of a
  dispatch is written to the audit log, from which the scheduler later derives the state of the job.
  The orchestrator (\<open>orchestrator/job_evaluator.py\<close>) evaluates a finished job: it classifies the files
  that changed (\<open>classify.py\<close>), judges them by the rubric of their category (\<open>evaluate.py\<close>), collects
  what GitHub shows (\<open>github_backend.py\<close>) and applies the merge gate (\<open>merge_gate.py\<close>), under the two
  policies \<open>policy_loader.py\<close> loads. The gate issues a write authority receipt of the form the write
  gate of the action executor reads.

  \<^bold>\<open>The theories.\<close>
  \<^item> \<open>Prelude\<close>: the values \<open>json.loads\<close> yields, Python's truth and text of them, the normalising
    readers every module has a copy of (\<open>_normalize_text\<close>, \<open>_as_bool\<close>, \<open>_as_optional_int\<close>, ...), the
    error monad \<open>res\<close>, dictionaries as association lists, and what a value becomes when it is
    written and read back (\<open>json_value\<close>).
  \<^item> \<open>IsoTime\<close>: the part of \<open>datetime\<close> the scheduler uses, with the proof that what \<open>isoformat\<close>
    writes is read back.
  \<^item> \<open>Files\<close>, \<open>World\<close>: paths, the files of a run, and programs over files and clock; a relation that
    every primitive keeps is kept by every program (locale \<open>frame\<close>).
  \<^item> \<open>Job_Store\<close>: the contract of the JSON files that hold one entry per job (locale
    \<open>job_store\<close>), interpreted by the retry context store, the lease file and the registry.
  \<^item> \<open>Execution_Authority\<close>: \<open>control/execution_authority.py\<close>, the lane tables, the verdict and the
    routing.
  \<^item> \<open>Retry_Context\<close>: \<open>control/retry_context.py\<close> and \<open>retry_context_store.py\<close>.
  \<^item> \<open>Review_Progression\<close>, \<open>Next_Action\<close>, \<open>Run_Dir\<close>: the decision matrix, the controller with its
    run-state guardrail, and the evaluation of a run directory.
  \<^item> \<open>Pause_State\<close>, \<open>Job_Lease\<close>, \<open>Job_Registry\<close>: the three modules of \<open>automation/scheduler\<close> that keep
    a file each.
  \<^item> \<open>Retry_Policy\<close>, \<open>Retry_Decision\<close>: \<open>control/retry_policy.py\<close> and \<open>retry_decision.py\<close>.
  \<^item> \<open>Run_Audit\<close>: \<open>observability/run_audit.py\<close>.
  \<^item> \<open>Run_Dispatcher\<close>, \<open>Dispatch\<close>, \<open>Dispatch_Routing\<close>: the helpers of the dispatcher, its loop, and what
    holds of the routing and of the executor calls.
  \<^item> \<open>Action_Handoff\<close>, \<open>Handing_Over\<close>: \<open>control/action_handoff.py\<close>, and what the dispatcher reads back
    of a decision.
  \<^item> \<open>Action_Executor\<close>, \<open>Executing\<close>: \<open>control/action_executor.py\<close>, the executor put in the place of
    the dispatcher's parameter (\<open>with_executor\<close>), and what it guarantees alone and behind the
    dispatcher.
  \<^item> \<open>Json_Digest\<close>, \<open>Write_Idempotency\<close>, \<open>Write_Receipts\<close>: \<open>json.dumps\<close> and SHA-256 written out,
    \<open>github/write_idempotency.py\<close> with the keys of a write and what earlier records say of it, and
    \<open>github/write_receipts.py\<close> with the file of each kind of write.
  \<^item> \<open>GitHub_Writes\<close>, \<open>Draft_PR\<close>, \<open>PR_Update\<close>, \<open>Bounded_Merge\<close>, \<open>Bounded_Rollback\<close>, \<open>GitHub_Clients\<close>: what the
    four writers share, \<open>github/pr_creator.py\<close>, \<open>pr_updater.py\<close>, \<open>merge_executor.py\<close>,
    \<open>rollback_executor.py\<close> (with \<open>orchestrator/rollback_executor.py\<close>), and the writers as the clients
    the action executor calls.
  \<^item> \<open>GitHub_Client\<close>, \<open>Read_Backend\<close>, \<open>Write_Backend\<close>: \<open>github/github_client.py\<close>, \<open>read_backend.py\<close> and
    \<open>write_backend.py\<close>; \<open>github_over\<close> puts them under the writers.
  \<^item> \<open>Writing_Once\<close>, \<open>Merging\<close>, \<open>Rolling_Back\<close>, \<open>Dispatched_Writes\<close>, \<open>Only_Reading\<close>, \<open>Confirming\<close>: what holds of
    the writers: a write is made once, when a merge and a rollback are attempted, alone and behind
    the executor, what is sent to GitHub, and what a success rests on.
  \<^item> \<open>Path_Patterns\<close>, \<open>Change_Rubric\<close>: the normalised paths of changed files and the shell patterns of
    \<open>fnmatch\<close>, \<open>orchestrator/classify.py\<close> and \<open>evaluate.py\<close>.
  \<^item> \<open>GitHub_State\<close>, \<open>Merge_Gate\<close>, \<open>Policy_Loader\<close>, \<open>Job_Evaluator\<close>: \<open>orchestrator/github_backend.py\<close>,
    \<open>merge_gate.py\<close>, \<open>policy_loader.py\<close> and \<open>job_evaluator.py\<close>, each with the operations in the order of
    the code; the checks of the gate are ordered lists of conditions with their reasons.
  \<^item> \<open>Shipped_Categories\<close>, \<open>Gate_Verdicts\<close>: the policy files under \<open>config\<close> as values, and what holds of
    the classifier under them, of the gate, of its receipt and of an evaluated job.
  \<^item> \<open>Lease_Refinement\<close>: the abstract table of holders the lease file refines.
  \<^item> \<open>Job_Scheduler\<close>, \<open>Scheduling\<close>: the scheduler, and what holds of its cycles.

  \<^bold>\<open>What the lemmas show.\<close> Of the decision: that a run proceeds exactly when every unit is accepted,
  that retries stay within the budget over any number of rounds, which proceed decisions survive
  the guardrail. Of the authority: which requests are allowed, that conflicting ones are refused,
  that an allowed routing resolves to a lane of its class. Of the files: round trips, exclusivity
  of leases, creation times, the counting of resumptions. Of the retry decision: that a granted
  retry is within its limits and a standing pause decides. Of a dispatch: that it returns after a
  bounded number of rounds, that its outcome is in the audit log, that a standing pause starts
  nothing, and when the executor is reached. Of the handoff: that a decision is read back as it was
  made, and that a decision to retry a prompt is never carried out. Of the executor: that no client
  is called without write authority, that its routing agrees with the dispatcher's, that every
  execution leaves its receipt. Of the writers: that a draft or an update that succeeded is never
  written again, what GitHub and the working copy had shown when a merge or a rollback was
  attempted, that a write that reports no attempt has sent nothing but questions, and that a merge
  succeeds only when GitHub confirmed it at the head that was seen. These rest on small calculi of
  programs, one rule per construct (\<open>quiet_rules\<close>, \<open>achieves_rules\<close>, \<open>attempts_rules\<close>, \<open>agrees_rules\<close>,
  \<open>fixed_rules\<close>). Of a cycle: that no lease stays behind, whatever is
  raised, that the summary adds up, that an executed job is not run again. Of the orchestrator: that
  the merge gate gives write authority to clean changes only, that a policy its loader accepts never
  stops the gate, that the shipped categories agree with the classifier, and that every evaluated
  job is left to a human, because no signal ever says that its checks are green.

  \<^bold>\<open>Recursion.\<close> No definition needs fuel: the dispatch loop terminates because only a granted retry
  asks for another round and the round number is bounded by the request (a measure), the others
  recurse on a list or a number.

  \<^bold>\<open>What is a parameter.\<close> The runner, the action executor and the retry policy file are arguments of
  a dispatch (\<open>environment\<close>), so that its properties hold for any executor; the four writers are
  arguments of the executor, the backends and git are arguments of the writers (\<open>github\<close>), and the
  network, which may answer anything at any time, is an argument of the backends. The clock is a
  sequence of readings, and the YAML parser's result is a value.

  \<^bold>\<open>Not modelled.\<close> Texts are Latin-1, so case mapping and white space beyond it are left out; of the
  texts \<open>fromisoformat\<close> reads, the basic and the week form are left out; the text of a JSON syntax
  error is left out. Two processes do not interleave inside one operation on a file: each
  operation is one step, and what a concurrent claim does is stated of two claims on the same
  reading. The planned runner and its surfaces, the lifecycle contracts (reports that restate
  fields), the command line of the orchestrator, its ledger and its running of the agent, the
  adapters and the web application are outside the model. Locks (\<open>flock\<close>) and temporary files of atomic replacements leave nothing and are left out.
\<close>

end
